(* ===== verification/Prelude.thy ===== *)
theory Prelude
  imports Main "HOL-Library.AList"
begin

text \<open>
  What every component of the backend shares: the Python standard library operations the source
  uses on strings, dictionaries and lists, the lemmas about them, and the named collections the
  component proofs rewrite with.

  A Python \<open>str\<close> is a \<open>string\<close>, the list of its UTF-8 bytes, so that \<open>encode("utf-8")\<close> and
  \<open>decode("utf-8")\<close> are the identity. Case and white space are those of ASCII. A \<open>dict\<close> is an
  association list in insertion order (\<open>AList.update\<close> keeps the place of a key that is there and
  appends a new one), because \<open>get_user_by_login\<close> and the listings iterate over it. A
  \<open>datetime\<close> is its number of microseconds, an \<open>int\<close>.
\<close>

named_theorems frame \<open>what an operation leaves unchanged\<close>
named_theorems defs \<open>the definitions a component's proofs unfold\<close>

type_synonym time = int
type_synonym ident = string
type_synonym ('k, 'v) dict = "('k \<times> 'v) list"

section \<open>Strings\<close>

definition py_space :: "char \<Rightarrow> bool" where
  "py_space c \<longleftrightarrow> (let n = of_char c :: nat in n = 32 \<or> (9 \<le> n \<and> n \<le> 13) \<or> (28 \<le> n \<and> n \<le> 31))"

definition py_lstrip :: "string \<Rightarrow> string" where
  "py_lstrip s = dropWhile py_space s"

definition py_rstrip :: "string \<Rightarrow> string" where
  "py_rstrip s = rev (dropWhile py_space (rev s))"

definition py_strip :: "string \<Rightarrow> string" where
  "py_strip s = py_rstrip (py_lstrip s)"

text \<open>\<open>s.rstrip(c)\<close> for a single character.\<close>

definition py_rstrip_char :: "char \<Rightarrow> string \<Rightarrow> string" where
  "py_rstrip_char c s = rev (dropWhile (\<lambda>d. d = c) (rev s))"

definition py_lower_char :: "char \<Rightarrow> char" where
  "py_lower_char c = (let n = of_char c :: nat in if 65 \<le> n \<and> n \<le> 90 then char_of (n + 32) else c)"

definition py_lower :: "string \<Rightarrow> string" where
  "py_lower s = map py_lower_char s"

definition py_upper_char :: "char \<Rightarrow> char" where
  "py_upper_char c = (let n = of_char c :: nat in if 97 \<le> n \<and> n \<le> 122 then char_of (n - 32) else c)"

definition py_upper :: "string \<Rightarrow> string" where
  "py_upper s = map py_upper_char s"

text \<open>\<open>s.startswith(p)\<close>, \<open>s.removeprefix(p)\<close> and \<open>p in s\<close>.\<close>

fun starts_with :: "string \<Rightarrow> string \<Rightarrow> bool" where
  "starts_with [] s = True"
| "starts_with (p # ps) [] = False"
| "starts_with (p # ps) (c # cs) = (p = c \<and> starts_with ps cs)"

definition remove_prefix :: "string \<Rightarrow> string \<Rightarrow> string" where
  "remove_prefix p s = (if starts_with p s then drop (length p) s else s)"

fun py_contains :: "string \<Rightarrow> string \<Rightarrow> bool" where
  "py_contains p [] = (p = [])"
| "py_contains p (c # cs) = (starts_with p (c # cs) \<or> py_contains p cs)"

text \<open>\<open>s.split(c)\<close> and \<open>sep.join(parts)\<close>.\<close>

fun py_split :: "char \<Rightarrow> string \<Rightarrow> string list" where
  "py_split c [] = [[]]"
| "py_split c (d # ds) =
     (if d = c then [] # py_split c ds
      else (case py_split c ds of [] \<Rightarrow> [[d]] | w # ws \<Rightarrow> (d # w) # ws))"

fun py_join :: "string \<Rightarrow> string list \<Rightarrow> string" where
  "py_join sep [] = []"
| "py_join sep [w] = w"
| "py_join sep (w # v # ws) = w @ sep @ py_join sep (v # ws)"

text \<open>\<open>str(n)\<close> of a natural number, and \<open>int(s)\<close> of a string of ASCII digits.\<close>

definition digit_char :: "nat \<Rightarrow> char" where
  "digit_char d = char_of (48 + d)"

fun show_nat :: "nat \<Rightarrow> string" where
  "show_nat n = (if n < 10 then [digit_char n] else show_nat (n div 10) @ [digit_char (n mod 10)])"

declare show_nat.simps [simp del]

definition is_digit :: "char \<Rightarrow> bool" where
  "is_digit c \<longleftrightarrow> 48 \<le> (of_char c :: nat) \<and> (of_char c :: nat) \<le> 57"

definition read_digits :: "string \<Rightarrow> nat" where
  "read_digits s = foldl (\<lambda>n c. 10 * n + (of_char c - 48)) 0 s"

definition py_bool_str :: "string option \<Rightarrow> bool" where
  "py_bool_str v \<longleftrightarrow> (case v of None \<Rightarrow> False | Some s \<Rightarrow> s \<noteq> [])"

lemma py_bool_str_simps [simp]:
  "\<not> py_bool_str None"
  "py_bool_str (Some s) \<longleftrightarrow> s \<noteq> []"
  by (simp_all add: py_bool_str_def)

lemma starts_with_append [simp]: "starts_with p (p @ s)"
  by (induction p) auto

lemma starts_with_iff: "starts_with p s \<longleftrightarrow> (\<exists>t. s = p @ t)"
  by (induction p s rule: starts_with.induct) auto

lemma remove_prefix_append [simp]: "remove_prefix p (p @ s) = s"
  by (simp add: remove_prefix_def)

lemma py_lower_char_idem [simp]: "py_lower_char (py_lower_char c) = py_lower_char c"
  by (simp add: py_lower_char_def Let_def)

lemma py_lower_idem [simp]: "py_lower (py_lower s) = py_lower s"
  by (simp add: py_lower_def)

lemma py_space_lower [simp]: "py_space (py_lower_char c) = py_space c"
  by (auto simp add: py_space_def py_lower_char_def Let_def)

lemma py_lstrip_lower: "py_lstrip (py_lower s) = py_lower (py_lstrip s)"
  by (simp add: py_lstrip_def py_lower_def dropWhile_map comp_def)

lemma py_rstrip_lower: "py_rstrip (py_lower s) = py_lower (py_rstrip s)"
  by (simp add: py_rstrip_def py_lower_def dropWhile_map comp_def rev_map)

lemma py_strip_lower: "py_strip (py_lower s) = py_lower (py_strip s)"
  by (simp add: py_strip_def py_lstrip_lower py_rstrip_lower)

lemma hd_dropWhile_not: "dropWhile P xs \<noteq> [] \<Longrightarrow> \<not> P (hd (dropWhile P xs))"
  by (rule hd_dropWhile)

lemma py_rstrip_idem: "py_rstrip (py_rstrip s) = py_rstrip s"
  by (simp add: py_rstrip_def dropWhile_idem)

lemma py_rstrip_snoc: "py_rstrip (s @ [c]) = (if py_space c then py_rstrip s else s @ [c])"
  by (simp add: py_rstrip_def)

lemma py_rstrip_append: "\<exists>t. s = py_rstrip s @ t"
  by (metis py_rstrip_def rev_append rev_rev_ident takeWhile_dropWhile_id)

lemma py_lstrip_fix: "s = [] \<or> \<not> py_space (hd s) \<Longrightarrow> py_lstrip s = s"
  by (cases s) (auto simp: py_lstrip_def)

lemma py_lstrip_strip: "py_lstrip (py_strip s) = py_strip s"
proof (rule py_lstrip_fix)
  obtain t where t: "py_lstrip s = py_strip s @ t"
    using py_rstrip_append [of "py_lstrip s"] by (auto simp: py_strip_def)
  show "py_strip s = [] \<or> \<not> py_space (hd (py_strip s))"
  proof (cases "py_strip s")
    case (Cons c cs)
    with t have "dropWhile py_space s = c # cs @ t"
      by (simp add: py_lstrip_def)
    with Cons show ?thesis
      by (metis hd_dropWhile list.discI list.sel(1))
  qed simp
qed

lemma py_strip_idem [simp]: "py_strip (py_strip s) = py_strip s"
  by (metis py_lstrip_strip py_rstrip_idem py_strip_def)

text \<open>\<open>login.strip().lower()\<close>, the form in which a login is stored and looked up.\<close>

definition normalize_login :: "string \<Rightarrow> string" where
  "normalize_login s = py_lower (py_strip s)"

lemma normalize_login_idem [simp]: "normalize_login (normalize_login s) = normalize_login s"
  by (simp add: normalize_login_def py_strip_lower)

section \<open>Numbers in strings\<close>

text \<open>
  \<open>int(s)\<close>: white space around, one sign, then ASCII digits with single underscores between them;
  \<open>None\<close> where Python raises \<open>ValueError\<close>.
\<close>

definition py_int_body :: "string \<Rightarrow> int option" where
  "py_int_body b =
     (let ws = py_split (CHR ''_'') b in
      if list_all (\<lambda>w. w \<noteq> [] \<and> list_all is_digit w) ws then Some (int (read_digits (concat ws)))
      else None)"

definition py_int :: "string \<Rightarrow> int option" where
  "py_int s =
     (case py_strip s of
        [] \<Rightarrow> None
      | c # cs \<Rightarrow>
          if c = CHR ''-'' then map_option uminus (py_int_body cs)
          else if c = CHR ''+'' then py_int_body cs
          else py_int_body (c # cs))"

lemma of_char_digit_char [simp]: "d < 10 \<Longrightarrow> (of_char (digit_char d) :: nat) = 48 + d"
  by (simp add: digit_char_def)

lemma is_digit_digit_char [simp]: "d < 10 \<Longrightarrow> is_digit (digit_char d)"
  by (simp add: is_digit_def)

lemma show_nat_digits: "list_all is_digit (show_nat n)"
  by (induction n rule: show_nat.induct) (subst show_nat.simps, simp)

lemma show_nat_nonempty [simp]: "show_nat n \<noteq> []"
  by (subst show_nat.simps) simp

lemma read_digits_snoc: "read_digits (s @ [c]) = 10 * read_digits s + (of_char c - 48)"
  by (simp add: read_digits_def)

lemma read_digits_show_nat [simp]: "read_digits (show_nat n) = n"
proof (induction n rule: show_nat.induct)
  case (1 n)
  show ?case
  proof (cases "n < 10")
    case True
    then show ?thesis by (subst show_nat.simps) (simp add: read_digits_def)
  next
    case False
    with 1 show ?thesis by (subst show_nat.simps) (simp add: read_digits_snoc)
  qed
qed

lemma inj_show_nat: "inj show_nat"
  by (metis injI read_digits_show_nat)

lemma show_nat_eq [simp]: "show_nat m = show_nat n \<longleftrightarrow> m = n"
  using inj_show_nat by (simp add: inj_eq)

lemma digit_not_special:
  "is_digit c \<Longrightarrow> \<not> py_space c \<and> c \<noteq> CHR ''_'' \<and> c \<noteq> CHR ''-'' \<and> c \<noteq> CHR ''+'' \<and> c \<noteq> CHR ''$''"
  by (auto simp: is_digit_def py_space_def Let_def)

lemma py_split_none: "c \<notin> set s \<Longrightarrow> py_split c s = [s]"
  by (induction s) auto

lemma py_split_append: "c \<notin> set s \<Longrightarrow> py_split c (s @ c # t) = s # py_split c t"
  by (induction s) auto

lemma dropWhile_none: "list_all (\<lambda>c. \<not> P c) s \<Longrightarrow> dropWhile P s = s"
  by (cases s) auto

lemma py_strip_id: "list_all (\<lambda>c. \<not> py_space c) s \<Longrightarrow> py_strip s = s"
  by (simp add: py_strip_def py_lstrip_def py_rstrip_def dropWhile_none list_all_rev)

lemma py_int_show_nat [simp]: "py_int (show_nat n) = Some (int n)"
proof -
  have d: "list_all is_digit (show_nat n)" by (rule show_nat_digits)
  then have "list_all (\<lambda>c. \<not> py_space c) (show_nat n)"
    by (auto simp: list_all_iff dest: digit_not_special)
  then have strip: "py_strip (show_nat n) = show_nat n" by (rule py_strip_id)
  have "CHR ''_'' \<notin> set (show_nat n)"
    using d by (auto simp: list_all_iff dest: digit_not_special)
  then have split: "py_split (CHR ''_'') (show_nat n) = [show_nat n]" by (rule py_split_none)
  obtain c cs where c: "show_nat n = c # cs" by (cases "show_nat n") auto
  with d have "is_digit c" by simp
  then show ?thesis
    using strip split d c read_digits_show_nat [of n]
    by (auto simp: py_int_def py_int_body_def dest: digit_not_special)
qed

definition show_int :: "int \<Rightarrow> string" where
  "show_int i = (if i < 0 then CHR ''-'' # show_nat (nat (- i)) else show_nat (nat i))"

section \<open>Results\<close>

text \<open>Go on with a result, or pass an exception on.\<close>

definition sum_bind :: "'e + 'a \<Rightarrow> ('a \<Rightarrow> 'e + 'b) \<Rightarrow> 'e + 'b" where
  "sum_bind x f = (case x of Inl e \<Rightarrow> Inl e | Inr a \<Rightarrow> f a)"

lemma sum_bind_simps [simp]:
  "sum_bind (Inl e) f = Inl e" "sum_bind (Inr a) f = f a"
  by (simp_all add: sum_bind_def)

lemma sum_bind_Inr: "sum_bind x f = Inr b \<longleftrightarrow> (\<exists>a. x = Inr a \<and> f a = Inr b)"
  by (cases x) auto

section \<open>Dictionaries and lists\<close>

abbreviation dict_set :: "'k \<Rightarrow> 'v \<Rightarrow> ('k, 'v) dict \<Rightarrow> ('k, 'v) dict" where
  "dict_set \<equiv> AList.update"

abbreviation dict_pop :: "'k \<Rightarrow> ('k, 'v) dict \<Rightarrow> ('k, 'v) dict" where
  "dict_pop \<equiv> AList.delete"

abbreviation dict_values :: "('k, 'v) dict \<Rightarrow> 'v list" where
  "dict_values d \<equiv> map snd d"

text \<open>\<open>d.get(k, default)\<close>, and \<open>d.setdefault(k, default)\<close> as the dictionary it leaves.\<close>

definition dict_get :: "'v \<Rightarrow> ('k, 'v) dict \<Rightarrow> 'k \<Rightarrow> 'v" where
  "dict_get v d k = (case map_of d k of None \<Rightarrow> v | Some w \<Rightarrow> w)"

definition dict_setdefault :: "'k \<Rightarrow> 'v \<Rightarrow> ('k, 'v) dict \<Rightarrow> ('k, 'v) dict" where
  "dict_setdefault k v d = (if map_of d k = None then d @ [(k, v)] else d)"

lemma map_of_dict_set [simp]: "map_of (dict_set k v d) j = (if j = k then Some v else map_of d j)"
  by (simp add: update_conv')

lemma map_of_dict_pop [simp]: "map_of (dict_pop k d) j = (if j = k then None else map_of d j)"
  by (simp add: delete_conv')

lemma map_of_dict_setdefault [simp]:
  "map_of (dict_setdefault k v d) j =
     (if j = k \<and> map_of d k = None then Some v else map_of d j)"
  by (auto simp: dict_setdefault_def map_add_def split: option.splits)

lemma dict_set_same [simp]: "dict_set k v (dict_set k w d) = dict_set k v d"
  by (rule update_last)

lemma dict_set_id: "map_of d k = Some v \<Longrightarrow> dict_set k v d = d"
  by (induction d) (auto split: if_splits)

lemma dict_set_new: "map_of d k = None \<Longrightarrow> dict_set k v d = d @ [(k, v)]"
  by (induction d) (auto split: if_splits)

lemma dict_pop_set [simp]: "dict_pop k (dict_set k v d) = dict_pop k d"
  by (rule delete_update_same)

lemma distinct_dict_set [simp]: "distinct (map fst d) \<Longrightarrow> distinct (map fst (dict_set k v d))"
  by (rule distinct_update)

lemma set_dict_set: "distinct (map fst d) \<Longrightarrow> set (dict_set k v d) = insert (k, v) {p \<in> set d. fst p \<noteq> k}"
  by (induction d) (auto simp: image_iff)

lemma in_dict_set: "p \<in> set (dict_set k v d) \<Longrightarrow> p = (k, v) \<or> p \<in> set d"
  by (induction d) (auto split: if_splits)

lemma dict_set_keys: "map fst (dict_set k v d) = (if map_of d k = None then map fst d @ [k] else map fst d)"
  by (induction d) auto

lemma dict_get_set [simp]: "dict_get v (dict_set k w d) j = (if j = k then w else dict_get v d j)"
  by (simp add: dict_get_def)

lemma dict_get_pop [simp]: "dict_get v (dict_pop k d) j = (if j = k then v else dict_get v d j)"
  by (simp add: dict_get_def)

definition count_values :: "('v \<Rightarrow> bool) \<Rightarrow> ('k, 'v) dict \<Rightarrow> nat" where
  "count_values P d = length (filter P (dict_values d))"

lemma count_values_simps [simp]:
  "count_values P [] = 0"
  "count_values P ((k, v) # d) = (if P v then Suc (count_values P d) else count_values P d)"
  by (simp_all add: count_values_def)

text \<open>
  Storing \<open>v\<close> under a key changes a count by what the value that was there and the new one
  contribute.
\<close>

definition counts1 :: "('v \<Rightarrow> bool) \<Rightarrow> 'v option \<Rightarrow> nat" where
  "counts1 P v = (case v of None \<Rightarrow> 0 | Some x \<Rightarrow> if P x then 1 else 0)"

lemma counts1_simps [simp]:
  "counts1 P None = 0" "counts1 P (Some x) = (if P x then 1 else 0)"
  by (simp_all add: counts1_def)

lemma count_values_dict_set:
  "count_values P (dict_set k v d) + counts1 P (map_of d k) = count_values P d + counts1 P (Some v)"
  by (induction d) auto

text \<open>
  \<open>sorted(xs, key=f)\<close> is stable, and so is \<open>sorted(xs, key=f, reverse=True)\<close>: elements with equal
  keys keep their order in both.
\<close>

definition py_sorted :: "('a \<Rightarrow> int) \<Rightarrow> 'a list \<Rightarrow> 'a list" where
  "py_sorted f xs = sort_key f xs"

definition py_sorted_reverse :: "('a \<Rightarrow> int) \<Rightarrow> 'a list \<Rightarrow> 'a list" where
  "py_sorted_reverse f xs = rev (sort_key f (rev xs))"

lemma set_py_sorted [simp]: "set (py_sorted f xs) = set xs"
  by (simp add: py_sorted_def)

lemma set_py_sorted_reverse [simp]: "set (py_sorted_reverse f xs) = set xs"
  by (simp add: py_sorted_reverse_def)

lemma length_py_sorted [simp]:
  "length (py_sorted f xs) = length xs" "length (py_sorted_reverse f xs) = length xs"
  by (simp_all add: py_sorted_def py_sorted_reverse_def)

lemma sorted_py_sorted: "sorted (map f (py_sorted f xs))"
  by (simp add: py_sorted_def)

lemma sorted_py_sorted_reverse: "sorted_wrt (\<lambda>a b. f b \<le> f a) (py_sorted_reverse f xs)"
proof -
  have "sorted (map f (sort_key f (rev xs)))" by simp
  then have "sorted_wrt (\<lambda>a b. f a \<le> f b) (sort_key f (rev xs))"
    by (simp add: sorted_map)
  then show ?thesis by (simp add: py_sorted_reverse_def sorted_wrt_rev)
qed

lemma py_sorted_reverse_stable:
  "filter (\<lambda>y. f y = k) (py_sorted_reverse f xs) = filter (\<lambda>y. f y = k) xs"
proof -
  have "filter (\<lambda>y. f y = k) (py_sorted_reverse f xs)
      = rev (filter (\<lambda>y. f y = k) (sort_key f (rev xs)))"
    by (simp add: py_sorted_reverse_def rev_filter)
  also have "\<dots> = rev (filter (\<lambda>y. f y = k) (rev xs))"
    by (simp only: sort_key_stable)
  also have "\<dots> = filter (\<lambda>y. f y = k) xs"
    by (simp add: rev_filter)
  finally show ?thesis .
qed

text \<open>\<open>min(xs, key=f)\<close>: the first element with the least key.\<close>

definition py_min :: "('a \<Rightarrow> nat) \<Rightarrow> 'a \<Rightarrow> 'a list \<Rightarrow> 'a" where
  "py_min f x xs = foldl (\<lambda>m y. if f y < f m then y else m) x xs"

lemma py_min_in: "py_min f x xs \<in> set (x # xs)"
proof (induction xs arbitrary: x)
  case Nil
  then show ?case by (simp add: py_min_def)
next
  case (Cons z zs)
  let ?m = "if f z < f x then z else x"
  have "py_min f x (z # zs) = py_min f ?m zs" by (simp add: py_min_def)
  also have "\<dots> \<in> set (?m # zs)" by (rule Cons.IH)
  finally show ?case by (auto split: if_splits)
qed

lemma py_min_le: "y \<in> set (x # xs) \<Longrightarrow> f (py_min f x xs) \<le> f y"
proof (induction xs arbitrary: x y)
  case Nil
  then show ?case by (simp add: py_min_def)
next
  case (Cons z zs)
  let ?m = "if f z < f x then z else x"
  have step: "py_min f x (z # zs) = py_min f ?m zs" by (simp add: py_min_def)
  have "f (py_min f ?m zs) \<le> f ?m" by (rule Cons.IH) simp
  moreover have "f (py_min f ?m zs) \<le> f y" if "y \<in> set zs" by (rule Cons.IH) (use that in simp)
  ultimately show ?case using Cons.prems step by (auto split: if_splits)
qed

text \<open>\<open>xs[-n:]\<close>: the last \<open>n\<close> elements, but the whole list for \<open>n = 0\<close>, because \<open>-0\<close> is \<open>0\<close>.\<close>

definition py_last :: "nat \<Rightarrow> 'a list \<Rightarrow> 'a list" where
  "py_last n xs = (if n = 0 then xs else drop (length xs - n) xs)"

end
