(* ===== verification/Domain.thy ===== *)
theory Domain
  imports Prelude Complex_Main
begin

text \<open>
  The domain models of \<open>app/domain/models.py\<close> and the error format of \<open>app/core/errors.py\<close>.

  Each dataclass is a record whose fields carry a prefix (\<open>usr_\<close>, \<open>ses_\<close>, \<open>node_\<close>, \<open>dev_\<close>,
  \<open>iss_\<close>, \<open>con_\<close>, \<open>sup_\<close>, \<open>job_\<close>, \<open>ev_\<close>, \<open>aud_\<close>), each \<open>StrEnum\<close> a datatype with its value
  strings. The Russian texts the program shows are the constructors of \<open>message\<close>, one for each
  literal of the source; \<open>M_text\<close> is a text computed at run time. Free-form payloads
  (\<open>dict[str, Any]\<close>) are \<open>json\<close> values. Raised exceptions are values of \<open>exn\<close>.
\<close>

section \<open>Enumerations\<close>

datatype user_role = Admin | Plain_user

datatype device_status = Provisioning | Active | Revoked | Device_failed

datatype server_status =
  Draft | Setup_pending | Setup_running | Online | Warning | Offline | Disabled | Setup_failed

datatype setup_status =
  Job_draft | Queued | Checking_ssh | Installing_agent | Installing_vpn | Verifying
| Success | Failed | Cancelled

datatype auth_method = Ssh_key | Password

datatype event_level = Info | Warn | Error

fun role_value :: "user_role \<Rightarrow> string" where
  "role_value Admin = ''admin''"
| "role_value Plain_user = ''user''"

fun device_status_value :: "device_status \<Rightarrow> string" where
  "device_status_value Provisioning = ''provisioning''"
| "device_status_value Active = ''active''"
| "device_status_value Revoked = ''revoked''"
| "device_status_value Device_failed = ''failed''"

fun server_status_value :: "server_status \<Rightarrow> string" where
  "server_status_value Draft = ''draft''"
| "server_status_value Setup_pending = ''setup_pending''"
| "server_status_value Setup_running = ''setup_running''"
| "server_status_value Online = ''online''"
| "server_status_value Warning = ''warning''"
| "server_status_value Offline = ''offline''"
| "server_status_value Disabled = ''disabled''"
| "server_status_value Setup_failed = ''setup_failed''"

fun setup_status_value :: "setup_status \<Rightarrow> string" where
  "setup_status_value Job_draft = ''draft''"
| "setup_status_value Queued = ''queued''"
| "setup_status_value Checking_ssh = ''checking_ssh''"
| "setup_status_value Installing_agent = ''installing_agent''"
| "setup_status_value Installing_vpn = ''installing_vpn''"
| "setup_status_value Verifying = ''verifying''"
| "setup_status_value Success = ''success''"
| "setup_status_value Failed = ''failed''"
| "setup_status_value Cancelled = ''cancelled''"

fun is_terminal :: "setup_status \<Rightarrow> bool" where
  "is_terminal s = (s \<in> {Success, Failed, Cancelled})"

fun auth_method_value :: "auth_method \<Rightarrow> string" where
  "auth_method_value Ssh_key = ''ssh_key''"
| "auth_method_value Password = ''password''"

fun event_level_value :: "event_level \<Rightarrow> string" where
  "event_level_value Info = ''info''"
| "event_level_value Warn = ''warning''"
| "event_level_value Error = ''error''"

section \<open>Texts, payloads and errors\<close>

datatype message =
  M_text string
  \<comment> \<open>core/errors.py and api/deps.py\<close>
| M_need_login | M_forbidden | M_not_found | M_session_expired | M_invalid_request
  \<comment> \<open>auth and user service\<close>
| M_bad_credentials | M_too_many_attempts | M_user_not_found | M_login_taken
| M_cannot_disable_self
  \<comment> \<open>server and device service\<close>
| M_server_not_found | M_server_not_selectable | M_device_not_found | M_no_server_available
| M_issue_unavailable | M_issue_expired | M_device_limit_reached
  \<comment> \<open>agent client\<close>
| M_agent_access_missing | M_node_unreachable | M_node_error | M_node_rejected | M_clock_skew_hint
  \<comment> \<open>setup jobs: errors, step labels, events\<close>
| M_ssh_secret_needed | M_worker_off_create | M_worker_off_start | M_job_not_found
| M_job_over_start | M_job_over | M_ssh_not_stored
| M_step setup_status | M_start setup_status
| M_ev_queued | M_ev_cancelled | M_ev_preflight | M_ev_success | M_ev_preflight_skipped
| M_ev_preflight_ok | M_ev_agent_installed | M_ev_vpn_checked | M_ev_vpn_skipped | M_ev_check_agent
  \<comment> \<open>setup worker\<close>
| M_ssh_secret_gone | M_worker_stopped | M_setup_crashed | M_no_answer | M_health_failed message
| M_stub_ssh_failed string | M_no_identity_file | M_script_missing | M_setup_timeout
| M_preflight_failed | M_install_failed | M_inspect_failed
  \<comment> \<open>support\<close>
| M_support_title | M_support_description
  \<comment> \<open>api\<close>
| M_csrf_rejected | M_no_requested_with | M_access_active | M_support_hint

datatype json =
  JNull | JBool bool | JInt int | JFloat rat | JStr string | JMsg message
| JList "json list" | JObj "(string \<times> json) list"

type_synonym jdict = "(string \<times> json) list"

datatype error_code =
  Unauthorized | Forbidden | Csrf_failed | Not_found | Validation_error | Rate_limited
| Device_limit_reached | Issue_result_expired | Server_unavailable | Agent_unavailable
| Agent_rejected | Setup_job_failed | Secret_required | Internal_error

fun error_code_value :: "error_code \<Rightarrow> string" where
  "error_code_value Unauthorized = ''unauthorized''"
| "error_code_value Forbidden = ''forbidden''"
| "error_code_value Csrf_failed = ''csrf_failed''"
| "error_code_value Not_found = ''not_found''"
| "error_code_value Validation_error = ''validation_error''"
| "error_code_value Rate_limited = ''rate_limited''"
| "error_code_value Device_limit_reached = ''device_limit_reached''"
| "error_code_value Issue_result_expired = ''issue_result_expired''"
| "error_code_value Server_unavailable = ''server_unavailable''"
| "error_code_value Agent_unavailable = ''agent_unavailable''"
| "error_code_value Agent_rejected = ''agent_rejected''"
| "error_code_value Setup_job_failed = ''setup_job_failed''"
| "error_code_value Secret_required = ''secret_required''"
| "error_code_value Internal_error = ''internal_error''"

datatype app_error =
  AppError (err_code: error_code) (err_message: message) (err_status: int) (err_details: jdict)

text \<open>
  What a call can raise: an \<open>AppError\<close>, the worker's \<open>SetupStepError\<close>, \<open>asyncio.CancelledError\<close>
  or an exception of the language. \<open>Ill_typed f\<close> marks the one place where the model stops short
  of Python: an attribute \<open>f\<close> would be set to a value outside its declared type.
\<close>

datatype py_error =
  ValueError | KeyError string | TypeError | AttributeError string | UnicodeEncodeError
| OSError | Ill_typed string

datatype exn = App app_error | Step_error message | Task_cancelled | Py py_error

type_synonym 'a res = "exn + 'a"

definition unauthorized :: "message \<Rightarrow> exn" where
  "unauthorized m = App (AppError Unauthorized m 401 [])"

definition forbidden :: "message \<Rightarrow> exn" where
  "forbidden m = App (AppError Forbidden m 403 [])"

definition not_found :: "message \<Rightarrow> exn" where
  "not_found m = App (AppError Not_found m 404 [])"

lemmas error_defs = unauthorized_def forbidden_def not_found_def

text \<open>\<open>{"error": {"code", "message", "details"}}\<close>, the one body of every error answer.\<close>

fun json_message :: "message \<Rightarrow> json" where
  "json_message (M_text s) = JStr s"
| "json_message m = JMsg m"

definition error_body :: "error_code \<Rightarrow> message \<Rightarrow> jdict \<Rightarrow> json" where
  "error_body c m d =
     JObj [(''error'', JObj [(''code'', JStr (error_code_value c)), (''message'', json_message m),
       (''details'', JObj d)])]"

section \<open>The dataclasses\<close>

record user =
  usr_id :: ident
  usr_login :: string
  usr_display_name :: string
  usr_role :: user_role
  usr_password_hash :: string
  usr_created_at :: time
  usr_updated_at :: time
  usr_is_active :: bool
  usr_telegram_username :: "string option"
  usr_device_limit :: "int option"
  usr_device_limit_unlimited :: bool
  usr_show_server_support :: bool
  usr_free_access :: bool
  usr_note :: "string option"
  usr_created_by_user_id :: "ident option"

record session =
  ses_id :: ident
  ses_user_id :: ident
  ses_token_hash :: string
  ses_created_at :: time
  ses_expires_at :: time
  ses_last_seen_at :: time
  ses_user_agent :: "string option"
  ses_ip_address :: "string option"
  ses_revoked_at :: "time option"

record server_node =
  node_id :: ident
  node_name :: string
  node_public_host :: string
  node_agent_base_url :: string
  node_created_at :: time
  node_updated_at :: time
  node_public_port :: "int option"
  node_region_note :: "string option"
  node_provider :: "string option"
  node_agent_key_id :: "string option"
  node_agent_secret_encrypted :: "string option"
  node_agent_allowed_ip_note :: "string option"
  node_status :: server_status
  node_last_seen_at :: "time option"
  node_last_error :: "message option"
  node_last_status_payload :: "json option"
  node_awg_container_name :: string
  node_awg_interface :: string
  node_awg_config_path :: string
  node_clients_table_path :: string
  node_is_available_for_new_devices :: bool
  node_created_by_user_id :: "ident option"

text \<open>The fields of a \<open>ServerNode\<close> with a default, as the constructor leaves them.\<close>

definition new_server_node :: "ident \<Rightarrow> string \<Rightarrow> string \<Rightarrow> string \<Rightarrow> time \<Rightarrow> time \<Rightarrow> server_node" where
  "new_server_node i nm host url created updated =
     \<lparr>node_id = i, node_name = nm, node_public_host = host, node_agent_base_url = url,
      node_created_at = created, node_updated_at = updated, node_public_port = None,
      node_region_note = None, node_provider = None, node_agent_key_id = None,
      node_agent_secret_encrypted = None, node_agent_allowed_ip_note = None,
      node_status = Draft, node_last_seen_at = None, node_last_error = None,
      node_last_status_payload = None, node_awg_container_name = ''amnezia-awg2'',
      node_awg_interface = ''awg0'', node_awg_config_path = ''/opt/amnezia/awg/awg0.conf'',
      node_clients_table_path = ''/opt/amnezia/awg/clientsTable'',
      node_is_available_for_new_devices = True, node_created_by_user_id = None\<rparr>"

record device =
  dev_id :: ident
  dev_user_id :: ident
  dev_server_node_id :: ident
  dev_name :: string
  dev_created_at :: time
  dev_updated_at :: time
  dev_status :: device_status
  dev_public_key :: "string option"
  dev_client_ip :: "string option"
  dev_last_config_issued_at :: "time option"
  dev_last_handshake_at :: "time option"
  dev_transfer_received_label :: "string option"
  dev_transfer_sent_label :: "string option"
  dev_last_agent_sync_at :: "time option"
  dev_revoked_at :: "time option"
  dev_failure_message :: "message option"

definition new_device :: "ident \<Rightarrow> ident \<Rightarrow> ident \<Rightarrow> string \<Rightarrow> time \<Rightarrow> time \<Rightarrow> device" where
  "new_device i uid nid nm created updated =
     \<lparr>dev_id = i, dev_user_id = uid, dev_server_node_id = nid, dev_name = nm,
      dev_created_at = created, dev_updated_at = updated, dev_status = Provisioning,
      dev_public_key = None, dev_client_ip = None, dev_last_config_issued_at = None,
      dev_last_handshake_at = None, dev_transfer_received_label = None,
      dev_transfer_sent_label = None, dev_last_agent_sync_at = None, dev_revoked_at = None,
      dev_failure_message = None\<rparr>"

record config_issue =
  iss_id :: ident
  iss_device_id :: ident
  iss_issued_to_user_id :: ident
  iss_created_at :: time
  iss_expires_at :: time
  iss_config_encrypted :: "string option"
  iss_vpn_url_encrypted :: "string option"
  iss_consumed_at :: "time option"

record contribution =
  con_id :: ident
  con_user_id :: ident
  con_amount :: rat
  con_currency :: string
  con_recorded_by_user_id :: ident
  con_recorded_at :: time
  con_created_at :: time
  con_period_label :: "string option"
  con_comment :: "string option"

record support_settings =
  sup_title :: message
  sup_description :: message
  sup_sbp_phone :: "string option"
  sup_bank_name :: "string option"
  sup_extra_contact :: "string option"
  sup_monthly_cost_amount :: "rat option"
  sup_reserve_amount :: "rat option"
  sup_is_enabled :: bool
  sup_updated_by_user_id :: "ident option"
  sup_updated_at :: "time option"

definition default_support_settings :: support_settings where
  "default_support_settings =
     \<lparr>sup_title = M_support_title, sup_description = M_support_description, sup_sbp_phone = None,
      sup_bank_name = None, sup_extra_contact = None, sup_monthly_cost_amount = None,
      sup_reserve_amount = None, sup_is_enabled = False, sup_updated_by_user_id = None,
      sup_updated_at = None\<rparr>"

record setup_job =
  job_id :: ident
  job_created_by_user_id :: ident
  job_server_name :: string
  job_host :: string
  job_ssh_port :: int
  job_ssh_username :: string
  job_auth_method :: auth_method
  job_created_at :: time
  job_updated_at :: time
  job_status :: setup_status
  job_secret_encrypted :: "string option"
  job_region_note :: "string option"
  job_install_awg :: bool
  job_available_for_new_devices :: bool
  job_verify_before_install :: bool
  job_current_step :: message
  job_error_message :: "message option"
  job_result_payload :: "jdict option"
  job_server_node_id :: "ident option"
  job_started_at :: "time option"
  job_finished_at :: "time option"

record setup_event =
  ev_id :: ident
  ev_setup_job_id :: ident
  ev_level :: event_level
  ev_step :: string
  ev_message :: message
  ev_created_at :: time
  ev_metadata :: jdict

record audit_entry =
  aud_id :: ident
  aud_action :: string
  aud_created_at :: time
  aud_actor_user_id :: "ident option"
  aud_target_type :: "string option"
  aud_target_id :: "string option"
  aud_metadata :: json
  aud_ip_address :: "string option"
  aud_user_agent :: "string option"

end
