(* ===== verification/Patch.thy ===== *)
theory Patch
  imports Domain
begin

text \<open>
  The loop with which every admin PATCH applies a dictionary of changes to a dataclass
  (\<open>UserService.update\<close>, \<open>ServerService.update\<close>, \<open>SupportService.update_settings\<close>):
  a field that is not patchable is skipped, a value equal to the present one changes nothing, and
  the names of the fields set are collected for the audit log. \<open>ServerService.update\<close> treats one
  name apart (\<open>agent_secret\<close>), which is the \<open>hook\<close>; the other two pass \<open>no_hook\<close>.

  \<open>setattr f v x = None\<close> says that \<open>v\<close> is outside the declared type of field \<open>f\<close>: there the loop
  stops with \<open>Inl f\<close>, which the services report as \<open>Ill_typed f\<close>.

  The locale \<open>attributes\<close> is what the loop relies on: reading back what was set, other fields left
  alone, and a part of the object that no patch reaches.
\<close>

definition no_hook :: "string \<Rightarrow> json \<Rightarrow> 'o \<Rightarrow> 'o option" where
  "no_hook f v x = None"

fun patch_loop ::
  "(string \<Rightarrow> json \<Rightarrow> 'o \<Rightarrow> 'o option) \<Rightarrow> (string \<Rightarrow> 'o \<Rightarrow> json) \<Rightarrow> (string \<Rightarrow> json \<Rightarrow> 'o \<Rightarrow> 'o option)
    \<Rightarrow> string list \<Rightarrow> jdict \<Rightarrow> 'o \<Rightarrow> string list \<Rightarrow> string + ('o \<times> string list)" where
  "patch_loop hook getattr setattr names [] x changed = Inr (x, changed)"
| "patch_loop hook getattr setattr names ((f, v) # ps) x changed =
     (case hook f v x of
        Some y \<Rightarrow> patch_loop hook getattr setattr names ps y (changed @ [f])
      | None \<Rightarrow>
          if f \<notin> set names then patch_loop hook getattr setattr names ps x changed
          else if getattr f x \<noteq> v then
            (case setattr f v x of
               None \<Rightarrow> Inl f
             | Some y \<Rightarrow> patch_loop hook getattr setattr names ps y (changed @ [f]))
          else patch_loop hook getattr setattr names ps x changed)"

section \<open>Values of the fields\<close>

fun json_opt_str :: "string option \<Rightarrow> json" where
  "json_opt_str None = JNull"
| "json_opt_str (Some s) = JStr s"

fun json_opt_int :: "int option \<Rightarrow> json" where
  "json_opt_int None = JNull"
| "json_opt_int (Some i) = JInt i"

fun json_opt_float :: "rat option \<Rightarrow> json" where
  "json_opt_float None = JNull"
| "json_opt_float (Some i) = JFloat i"

fun as_str :: "json \<Rightarrow> string option" where
  "as_str (JStr s) = Some s"
| "as_str _ = None"

fun as_bool :: "json \<Rightarrow> bool option" where
  "as_bool (JBool b) = Some b"
| "as_bool _ = None"

fun as_opt_str :: "json \<Rightarrow> string option option" where
  "as_opt_str JNull = Some None"
| "as_opt_str (JStr s) = Some (Some s)"
| "as_opt_str _ = None"

fun as_opt_int :: "json \<Rightarrow> int option option" where
  "as_opt_int JNull = Some None"
| "as_opt_int (JInt i) = Some (Some i)"
| "as_opt_int _ = None"

fun as_opt_float :: "json \<Rightarrow> rat option option" where
  "as_opt_float JNull = Some None"
| "as_opt_float (JFloat i) = Some (Some i)"
| "as_opt_float _ = None"

lemma as_str_Some [simp]: "as_str v = Some s \<longleftrightarrow> v = JStr s"
  by (cases v) auto

lemma as_bool_Some [simp]: "as_bool v = Some b \<longleftrightarrow> v = JBool b"
  by (cases v) auto

lemma as_opt_str_Some [simp]: "as_opt_str v = Some s \<longleftrightarrow> v = json_opt_str s"
  by (cases v; cases s) auto

lemma as_opt_int_Some [simp]: "as_opt_int v = Some s \<longleftrightarrow> v = json_opt_int s"
  by (cases v; cases s) auto

lemma as_opt_float_Some [simp]: "as_opt_float v = Some s \<longleftrightarrow> v = json_opt_float s"
  by (cases v; cases s) auto

section \<open>The contract of \<open>getattr\<close> and \<open>setattr\<close>\<close>

locale attributes =
  fixes getattr :: "string \<Rightarrow> 'o \<Rightarrow> json"
    and setattr :: "string \<Rightarrow> json \<Rightarrow> 'o \<Rightarrow> 'o option"
    and names :: "string list"
    and hook :: "string \<Rightarrow> json \<Rightarrow> 'o \<Rightarrow> 'o option"
    and core :: "'o \<Rightarrow> 'c"
  assumes get_set: "f \<in> set names \<Longrightarrow> setattr f v x = Some y \<Longrightarrow> getattr f y = v"
    and get_set_other:
      "f \<in> set names \<Longrightarrow> g \<in> set names \<Longrightarrow> g \<noteq> f \<Longrightarrow> setattr f v x = Some y \<Longrightarrow>
         getattr g y = getattr g x"
    and core_set: "f \<in> set names \<Longrightarrow> setattr f v x = Some y \<Longrightarrow> core y = core x"
    and hook_off: "hook f v x = Some y \<Longrightarrow> f \<notin> set names"
    and hook_get: "hook f v x = Some y \<Longrightarrow> g \<in> set names \<Longrightarrow> getattr g y = getattr g x"
    and hook_core: "hook f v x = Some y \<Longrightarrow> core y = core x"
begin

abbreviation loop :: "jdict \<Rightarrow> 'o \<Rightarrow> string list \<Rightarrow> string + ('o \<times> string list)" where
  "loop \<equiv> patch_loop hook getattr setattr names"

lemma loop_core: "loop ps x ch = Inr (y, ch') \<Longrightarrow> core y = core x"
proof (induction ps arbitrary: x ch)
  case Nil
  then show ?case by simp
next
  case (Cons p ps)
  then show ?case
    by (cases p) (force split: option.splits if_splits dest: core_set hook_core)
qed

lemma loop_other:
  "loop ps x ch = Inr (y, ch') \<Longrightarrow> g \<in> set names \<Longrightarrow> g \<notin> fst ` set ps \<Longrightarrow> getattr g y = getattr g x"
proof (induction ps arbitrary: x ch)
  case Nil
  then show ?case by simp
next
  case (Cons p ps)
  obtain f v where p: "p = (f, v)" by (cases p)
  from Cons.prems p have ne: "g \<noteq> f" "g \<notin> fst ` set ps" by auto
  show ?case
  proof (cases "hook f v x")
    case (Some z)
    with Cons.prems p have "loop ps z (ch @ [f]) = Inr (y, ch')" by simp
    from Cons.IH [OF this Cons.prems(2) ne(2)] show ?thesis
      using hook_get [OF Some Cons.prems(2)] by simp
  next
    case None
    then show ?thesis
      using Cons.prems p ne Cons.IH get_set_other
      by (fastforce split: if_splits option.splits)
  qed
qed

lemma loop_get:
  assumes "loop ps x ch = Inr (y, ch')" "distinct (map fst ps)" "g \<in> set names" "map_of ps g = Some w"
  shows "getattr g y = w"
  using assms
proof (induction ps arbitrary: x ch)
  case Nil
  then show ?case by simp
next
  case (Cons p ps)
  obtain f v where p: "p = (f, v)" by (cases p)
  show ?case
  proof (cases "f = g")
    case False
    then show ?thesis
      using Cons p by (auto split: option.splits if_splits)
  next
    case True
    with Cons.prems p have w: "v = w" and new: "g \<notin> fst ` set ps" and off: "hook f v x = None"
      using hook_off by (auto dest: hook_off split: option.splits)
    from Cons.prems(1) p True w off Cons.prems(3)
    obtain z c where z: "getattr g z = w" "loop ps z c = Inr (y, ch')"
      by (auto split: if_splits option.splits dest: get_set)
    with loop_other [OF z(2) Cons.prems(3) new] show ?thesis by simp
  qed
qed

lemma loop_value:
  assumes "loop ps x ch = Inr (y, ch')" "distinct (map fst ps)" "g \<in> set names"
  shows "getattr g y = (case map_of ps g of None \<Rightarrow> getattr g x | Some v \<Rightarrow> v)"
proof (cases "map_of ps g")
  case None
  then have "g \<notin> fst ` set ps" by (simp add: map_of_eq_None_iff)
  with None loop_other [OF assms(1,3)] show ?thesis by simp
next
  case (Some v)
  with loop_get [OF assms] show ?thesis by simp
qed

lemma loop_grows: "loop ps x ch = Inr (y, ch') \<Longrightarrow> length ch \<le> length ch'"
proof (induction ps arbitrary: x ch)
  case (Cons p ps)
  then show ?case by (cases p) (force split: option.splits if_splits)
qed simp

text \<open>A patch that collects no name has changed nothing.\<close>

lemma loop_same: "loop ps x [] = Inr (y, []) \<Longrightarrow> y = x"
proof (induction ps)
  case (Cons p ps)
  then show ?case
    by (cases p) (auto split: option.splits if_splits dest: loop_grows)
qed simp

text \<open>
  The names collected are those of the names whose value differs from the patch, in the order of
  the patch, and the names the hook takes.
\<close>

lemma loop_changed:
  assumes "loop ps x ch = Inr (y, ch')" "distinct (map fst ps)"
    and "\<And>f v u. hook f v u = None \<longleftrightarrow> \<not> special f"
  shows "ch' = ch @ map fst (filter (\<lambda>(f, v). special f \<or> f \<in> set names \<and> getattr f x \<noteq> v) ps)"
  using assms(1,2)
proof (induction ps arbitrary: x ch)
  case Nil
  then show ?case by simp
next
  case (Cons p ps)
  obtain f v where p: "p = (f, v)" by (cases p)
  have filt: "filter (\<lambda>(g, w). special g \<or> g \<in> set names \<and> getattr g z \<noteq> w) ps
      = filter (\<lambda>(g, w). special g \<or> g \<in> set names \<and> getattr g x \<noteq> w) ps"
    if "\<And>g. g \<in> set names \<Longrightarrow> g \<noteq> f \<Longrightarrow> getattr g z = getattr g x" for z
    by (rule filter_cong [OF refl]) (use that Cons.prems(2) p in force)
  show ?case
  proof (cases "special f")
    case True
    then obtain z where z: "hook f v x = Some z" using assms(3) [of f v x] by auto
    with Cons.prems p have "loop ps z (ch @ [f]) = Inr (y, ch')" "distinct (map fst ps)" by simp_all
    from Cons.IH [OF this] show ?thesis
      using True p filt [of z] hook_get [OF z] by simp
  next
    case False
    then have off: "hook f v x = None" using assms(3) by simp
    show ?thesis
    proof (cases "f \<in> set names \<and> getattr f x \<noteq> v")
      case True
      then obtain z where z: "setattr f v x = Some z" "loop ps z (ch @ [f]) = Inr (y, ch')"
        using Cons.prems p off by (auto split: option.splits)
      from Cons.IH [OF z(2)] Cons.prems(2) p show ?thesis
        using True filt [of z] get_set_other [OF _ _ _ z(1)] by auto
    next
      case no: False
      with Cons.prems(1) p off have "loop ps x ch = Inr (y, ch')" by (auto split: if_splits)
      from Cons.IH [OF this] Cons.prems(2) p False no show ?thesis by auto
    qed
  qed
qed

end

end
