(* ===== verification/Storage.thy ===== *)
theory Storage
  imports Domain
begin

text \<open>
  The in-memory storage of \<open>app/storage/memory.py\<close>: one record field for each attribute of
  \<open>InMemoryStorage\<close> and one function for each of its methods. It extends the record \<open>world\<close>, which
  holds what the services draw from outside the program: the successive readings of the clock,
  the successive results of \<open>uuid.uuid4()\<close> and of the \<open>secrets\<close> module.

  A method takes the storage last and returns the new one. The services change an object and hand
  it back to \<open>save_*\<close>; the model changes a copy and stores it, which is the same wherever no other
  code runs in between.
  The locale \<open>table\<close> is the contract of one such collection (what a lookup returns after a store),
  interpreted for the six collections that are keyed by an identifier.
\<close>

section \<open>The outside world\<close>

record world =
  clock_at :: "nat \<Rightarrow> time"
  clock_n :: nat
  uuid_at :: "nat \<Rightarrow> ident"
  uuid_n :: nat
  random_at :: "nat \<Rightarrow> string"
  random_n :: nat

text \<open>
  \<open>self._clock()\<close> is \<open>now s\<close> followed by \<open>tick s\<close>, \<open>str(uuid.uuid4())\<close> is \<open>new_uuid s\<close> followed by
  \<open>use_uuid s\<close>, a call of \<open>secrets\<close> is \<open>new_random s\<close> followed by \<open>use_random s\<close>.
\<close>

definition now :: "'z world_scheme \<Rightarrow> time" where
  "now s = clock_at s (clock_n s)"

definition tick :: "'z world_scheme \<Rightarrow> 'z world_scheme" where
  "tick s = s\<lparr>clock_n := Suc (clock_n s)\<rparr>"

definition new_uuid :: "'z world_scheme \<Rightarrow> ident" where
  "new_uuid s = uuid_at s (uuid_n s)"

definition use_uuid :: "'z world_scheme \<Rightarrow> 'z world_scheme" where
  "use_uuid s = s\<lparr>uuid_n := Suc (uuid_n s)\<rparr>"

definition new_random :: "'z world_scheme \<Rightarrow> string" where
  "new_random s = random_at s (random_n s)"

definition use_random :: "'z world_scheme \<Rightarrow> 'z world_scheme" where
  "use_random s = s\<lparr>random_n := Suc (random_n s)\<rparr>"

text \<open>The identifiers drawn so far; a fresh one is none of them when \<open>uuid4\<close> never repeats.\<close>

definition used_uuids :: "'z world_scheme \<Rightarrow> ident set" where
  "used_uuids s = uuid_at s ` {..<uuid_n s}"

lemma new_uuid_fresh: "inj (uuid_at s) \<Longrightarrow> new_uuid s \<notin> used_uuids s"
  by (auto simp: new_uuid_def used_uuids_def dest: injD)

lemma used_use_uuid [simp]: "used_uuids (use_uuid s) = insert (new_uuid s) (used_uuids s)"
  by (simp add: used_uuids_def use_uuid_def new_uuid_def lessThan_Suc)

lemma used_uuids_upd [simp]:
  "used_uuids (tick s) = used_uuids s"
  "used_uuids (use_random s) = used_uuids s"
  by (simp_all add: used_uuids_def tick_def use_random_def)

section \<open>The collections\<close>

record storage = world +
  users :: "(ident, user) dict"
  sessions :: "(string, session) dict"
  server_nodes :: "(ident, server_node) dict"
  devices :: "(ident, device) dict"
  issues :: "(ident, config_issue) dict"
  contributions :: "contribution list"
  support_settings_of :: support_settings
  setup_jobs :: "(ident, setup_job) dict"
  setup_events :: "(ident, setup_event list) dict"
  audit_log :: "audit_entry list"
  login_failures :: "(string, time list) dict"

definition empty_storage ::
  "(nat \<Rightarrow> time) \<Rightarrow> (nat \<Rightarrow> ident) \<Rightarrow> (nat \<Rightarrow> string) \<Rightarrow> storage" where
  "empty_storage clk ids rnd =
     \<lparr>clock_at = clk, clock_n = 0, uuid_at = ids, uuid_n = 0, random_at = rnd, random_n = 0,
      users = [], sessions = [], server_nodes = [], devices = [], issues = [],
      contributions = [], support_settings_of = default_support_settings, setup_jobs = [],
      setup_events = [], audit_log = [], login_failures = []\<rparr>"

subsection \<open>Users\<close>

definition save_user :: "user \<Rightarrow> 'z storage_scheme \<Rightarrow> 'z storage_scheme" where
  "save_user u s = s\<lparr>users := dict_set (usr_id u) u (users s)\<rparr>"

definition add_user :: "user \<Rightarrow> 'z storage_scheme \<Rightarrow> 'z storage_scheme" where
  "add_user u s = s\<lparr>users := dict_set (usr_id u) u (users s)\<rparr>"

definition get_user :: "ident \<Rightarrow> 'z storage_scheme \<Rightarrow> user option" where
  "get_user i s = map_of (users s) i"

definition get_user_by_login :: "string \<Rightarrow> 'z storage_scheme \<Rightarrow> user option" where
  "get_user_by_login l s = find (\<lambda>u. usr_login u = normalize_login l) (dict_values (users s))"

definition list_users :: "'z storage_scheme \<Rightarrow> user list" where
  "list_users s = py_sorted usr_created_at (dict_values (users s))"

definition has_admin :: "'z storage_scheme \<Rightarrow> bool" where
  "has_admin s \<longleftrightarrow> list_ex (\<lambda>u. role_value (usr_role u) = ''admin'') (dict_values (users s))"

subsection \<open>Sessions\<close>

definition save_session :: "session \<Rightarrow> 'z storage_scheme \<Rightarrow> 'z storage_scheme" where
  "save_session x s = s\<lparr>sessions := dict_set (ses_token_hash x) x (sessions s)\<rparr>"

definition add_session :: "session \<Rightarrow> 'z storage_scheme \<Rightarrow> 'z storage_scheme" where
  "add_session x s = s\<lparr>sessions := dict_set (ses_token_hash x) x (sessions s)\<rparr>"

definition get_session_by_token_hash :: "string \<Rightarrow> 'z storage_scheme \<Rightarrow> session option" where
  "get_session_by_token_hash h s = map_of (sessions s) h"

definition revoke_session_of :: "ident \<Rightarrow> time \<Rightarrow> session \<Rightarrow> session" where
  "revoke_session_of uid tm x =
     (if ses_user_id x = uid \<and> ses_revoked_at x = None then x\<lparr>ses_revoked_at := Some tm\<rparr> else x)"

definition revoke_sessions_for_user ::
  "ident \<Rightarrow> time \<Rightarrow> 'z storage_scheme \<Rightarrow> 'z storage_scheme" where
  "revoke_sessions_for_user uid tm s =
     s\<lparr>sessions := map (\<lambda>(h, x). (h, revoke_session_of uid tm x)) (sessions s)\<rparr>"

subsection \<open>Server nodes\<close>

definition save_server_node :: "server_node \<Rightarrow> 'z storage_scheme \<Rightarrow> 'z storage_scheme" where
  "save_server_node n s = s\<lparr>server_nodes := dict_set (node_id n) n (server_nodes s)\<rparr>"

definition add_server_node :: "server_node \<Rightarrow> 'z storage_scheme \<Rightarrow> 'z storage_scheme" where
  "add_server_node n s = s\<lparr>server_nodes := dict_set (node_id n) n (server_nodes s)\<rparr>"

definition get_server_node :: "ident \<Rightarrow> 'z storage_scheme \<Rightarrow> server_node option" where
  "get_server_node i s = map_of (server_nodes s) i"

definition list_server_nodes :: "'z storage_scheme \<Rightarrow> server_node list" where
  "list_server_nodes s = py_sorted node_created_at (dict_values (server_nodes s))"

subsection \<open>Devices\<close>

definition save_device :: "device \<Rightarrow> 'z storage_scheme \<Rightarrow> 'z storage_scheme" where
  "save_device d s = s\<lparr>devices := dict_set (dev_id d) d (devices s)\<rparr>"

definition add_device :: "device \<Rightarrow> 'z storage_scheme \<Rightarrow> 'z storage_scheme" where
  "add_device d s = s\<lparr>devices := dict_set (dev_id d) d (devices s)\<rparr>"

definition get_device :: "ident \<Rightarrow> 'z storage_scheme \<Rightarrow> device option" where
  "get_device i s = map_of (devices s) i"

definition list_devices_for_user :: "ident \<Rightarrow> 'z storage_scheme \<Rightarrow> device list" where
  "list_devices_for_user uid s =
     py_sorted_reverse dev_created_at
       (filter (\<lambda>d. dev_user_id d = uid) (dict_values (devices s)))"

text \<open>The statuses that take up a place of the limit: provisioning and active.\<close>

definition counted :: "device_status \<Rightarrow> bool" where
  "counted st \<longleftrightarrow> st \<in> {Provisioning, Active}"

definition count_devices_toward_limit :: "ident \<Rightarrow> 'z storage_scheme \<Rightarrow> nat" where
  "count_devices_toward_limit uid s =
     count_values (\<lambda>d. dev_user_id d = uid \<and> counted (dev_status d)) (devices s)"

definition count_active_devices_for_server :: "ident \<Rightarrow> 'z storage_scheme \<Rightarrow> nat" where
  "count_active_devices_for_server nid s =
     count_values (\<lambda>d. dev_server_node_id d = nid \<and> counted (dev_status d)) (devices s)"

subsection \<open>Issued configurations\<close>

definition set_issue :: "config_issue \<Rightarrow> 'z storage_scheme \<Rightarrow> 'z storage_scheme" where
  "set_issue i s = s\<lparr>issues := dict_set (iss_device_id i) i (issues s)\<rparr>"

definition save_issue :: "config_issue \<Rightarrow> 'z storage_scheme \<Rightarrow> 'z storage_scheme" where
  "save_issue i s = s\<lparr>issues := dict_set (iss_device_id i) i (issues s)\<rparr>"

definition get_issue :: "ident \<Rightarrow> 'z storage_scheme \<Rightarrow> config_issue option" where
  "get_issue d s = map_of (issues s) d"

definition drop_issue :: "ident \<Rightarrow> 'z storage_scheme \<Rightarrow> 'z storage_scheme" where
  "drop_issue d s = s\<lparr>issues := dict_pop d (issues s)\<rparr>"

subsection \<open>Support\<close>

definition add_contribution :: "contribution \<Rightarrow> 'z storage_scheme \<Rightarrow> 'z storage_scheme" where
  "add_contribution c s = s\<lparr>contributions := contributions s @ [c]\<rparr>"

definition get_support_settings :: "'z storage_scheme \<Rightarrow> support_settings" where
  "get_support_settings s = support_settings_of s"

definition save_support_settings ::
  "support_settings \<Rightarrow> 'z storage_scheme \<Rightarrow> 'z storage_scheme" where
  "save_support_settings x s = s\<lparr>support_settings_of := x\<rparr>"

definition list_contributions_for_user :: "ident \<Rightarrow> 'z storage_scheme \<Rightarrow> contribution list" where
  "list_contributions_for_user uid s =
     py_sorted_reverse con_recorded_at (filter (\<lambda>c. con_user_id c = uid) (contributions s))"

subsection \<open>Setup jobs\<close>

definition save_setup_job :: "setup_job \<Rightarrow> 'z storage_scheme \<Rightarrow> 'z storage_scheme" where
  "save_setup_job j s =
     s\<lparr>setup_jobs := dict_set (job_id j) j (setup_jobs s),
       setup_events := dict_setdefault (job_id j) [] (setup_events s)\<rparr>"

definition add_setup_job :: "setup_job \<Rightarrow> 'z storage_scheme \<Rightarrow> 'z storage_scheme" where
  "add_setup_job j s =
     s\<lparr>setup_jobs := dict_set (job_id j) j (setup_jobs s),
       setup_events := dict_setdefault (job_id j) [] (setup_events s)\<rparr>"

definition get_setup_job :: "ident \<Rightarrow> 'z storage_scheme \<Rightarrow> setup_job option" where
  "get_setup_job i s = map_of (setup_jobs s) i"

definition list_setup_jobs :: "'z storage_scheme \<Rightarrow> setup_job list" where
  "list_setup_jobs s = py_sorted_reverse job_created_at (dict_values (setup_jobs s))"

definition next_queued_setup_job :: "'z storage_scheme \<Rightarrow> setup_job option" where
  "next_queued_setup_job s =
     (case py_sorted job_created_at
             (filter (\<lambda>j. job_status j = Queued) (dict_values (setup_jobs s))) of
        [] \<Rightarrow> None
      | j # js \<Rightarrow> Some j)"

definition claim_next_setup_job ::
  "time \<Rightarrow> message \<Rightarrow> 'z storage_scheme \<Rightarrow> setup_job option \<times> 'z storage_scheme" where
  "claim_next_setup_job tm step s =
     (case next_queued_setup_job s of
        None \<Rightarrow> (None, s)
      | Some j \<Rightarrow>
          let j' = j\<lparr>job_status := Checking_ssh, job_current_step := step,
                     job_started_at := Some tm, job_updated_at := tm\<rparr>
          in (Some j', save_setup_job j' s))"

text \<open>
  The \<open>values\<close> a transition sets are given as the function that sets them.
\<close>

definition transition_setup_job ::
  "ident \<Rightarrow> setup_status list \<Rightarrow> (setup_job \<Rightarrow> setup_job) \<Rightarrow> 'z storage_scheme
    \<Rightarrow> setup_job option \<times> 'z storage_scheme" where
  "transition_setup_job i expected vals s =
     (case map_of (setup_jobs s) i of
        None \<Rightarrow> (None, s)
      | Some j \<Rightarrow>
          if job_status j \<notin> set expected then (None, s)
          else (Some (vals j), save_setup_job (vals j) s))"

definition add_setup_event :: "setup_event \<Rightarrow> 'z storage_scheme \<Rightarrow> 'z storage_scheme" where
  "add_setup_event e s =
     s\<lparr>setup_events :=
         dict_set (ev_setup_job_id e) (dict_get [] (setup_events s) (ev_setup_job_id e) @ [e])
           (setup_events s)\<rparr>"

definition list_setup_events :: "ident \<Rightarrow> 'z storage_scheme \<Rightarrow> setup_event list" where
  "list_setup_events i s = dict_get [] (setup_events s) i"

subsection \<open>Audit log and login failures\<close>

definition add_audit_entry :: "audit_entry \<Rightarrow> 'z storage_scheme \<Rightarrow> 'z storage_scheme" where
  "add_audit_entry e s = s\<lparr>audit_log := audit_log s @ [e]\<rparr>"

definition list_audit_entries :: "nat \<Rightarrow> 'z storage_scheme \<Rightarrow> audit_entry list" where
  "list_audit_entries limit s = rev (py_last limit (audit_log s))"

definition record_login_failure :: "string \<Rightarrow> time \<Rightarrow> 'z storage_scheme \<Rightarrow> 'z storage_scheme" where
  "record_login_failure k tm s =
     s\<lparr>login_failures := dict_set k (dict_get [] (login_failures s) k @ [tm]) (login_failures s)\<rparr>"

definition count_login_failures ::
  "string \<Rightarrow> time \<Rightarrow> 'z storage_scheme \<Rightarrow> nat \<times> 'z storage_scheme" where
  "count_login_failures k since s =
     (let fresh = filter (\<lambda>a. since \<le> a) (dict_get [] (login_failures s) k)
      in (length fresh, s\<lparr>login_failures := dict_set k fresh (login_failures s)\<rparr>))"

definition clear_login_failures :: "string \<Rightarrow> 'z storage_scheme \<Rightarrow> 'z storage_scheme" where
  "clear_login_failures k s = s\<lparr>login_failures := dict_pop k (login_failures s)\<rparr>"

section \<open>The rest of the process state\<close>

text \<open>
  Beside the storage the process holds the SSH secrets of the running setup jobs
  (\<open>SetupJobService._ephemeral_ssh_secrets\<close>) and whatever the agent transport talks to.
\<close>

record 't app = storage +
  ssh_secrets :: "(ident, string) dict"
  agent_st :: 't

section \<open>The contract of a collection\<close>

locale table =
  fixes key :: "'v \<Rightarrow> 'k"
    and put :: "'v \<Rightarrow> 's \<Rightarrow> 's"
    and get :: "'k \<Rightarrow> 's \<Rightarrow> 'v option"
  assumes get_put: "get k (put v s) = (if k = key v then Some v else get k s)"
begin

lemma get_put_same: "get (key v) (put v s) = Some v"
  by (simp add: get_put)

lemma get_put_other: "k \<noteq> key v \<Longrightarrow> get k (put v s) = get k s"
  by (simp add: get_put)

lemma get_put_overwrite: "key v = key w \<Longrightarrow> get k (put v (put w s)) = get k (put v s)"
  by (simp add: get_put)

lemma get_put_commute: "key v \<noteq> key w \<Longrightarrow> get k (put v (put w s)) = get k (put w (put v s))"
  by (simp add: get_put)

text \<open>Every object stays filed under its own key.\<close>

lemma keyed_put:
  "(\<And>j w. get j s = Some w \<Longrightarrow> key w = j) \<Longrightarrow> get k (put v s) = Some u \<Longrightarrow> key u = k"
  by (auto simp: get_put split: if_splits)

end

interpretation usr: table usr_id save_user get_user
  by unfold_locales (simp add: save_user_def get_user_def)

interpretation ses: table ses_token_hash save_session get_session_by_token_hash
  by unfold_locales (simp add: save_session_def get_session_by_token_hash_def)

interpretation node: table node_id save_server_node get_server_node
  by unfold_locales (simp add: save_server_node_def get_server_node_def)

interpretation dev: table dev_id save_device get_device
  by unfold_locales (simp add: save_device_def get_device_def)

interpretation iss: table iss_device_id save_issue get_issue
  by unfold_locales (simp add: save_issue_def get_issue_def)

interpretation job: table job_id save_setup_job get_setup_job
  by unfold_locales (simp add: save_setup_job_def get_setup_job_def)

text \<open>\<open>add_*\<close> and \<open>set_issue\<close> are the same stores under another name.\<close>

lemma add_is_save:
  "add_user = save_user" "add_session = save_session" "add_server_node = save_server_node"
  "add_device = save_device" "set_issue = save_issue" "add_setup_job = save_setup_job"
  by (simp_all add: fun_eq_iff add_user_def save_user_def add_session_def save_session_def
      add_server_node_def save_server_node_def add_device_def save_device_def set_issue_def
      save_issue_def add_setup_job_def save_setup_job_def)

lemmas get_put [simp] =
  usr.get_put ses.get_put node.get_put dev.get_put iss.get_put job.get_put
  usr.get_put [folded add_is_save] ses.get_put [folded add_is_save]
  node.get_put [folded add_is_save] dev.get_put [folded add_is_save]
  iss.get_put [folded add_is_save] job.get_put [folded add_is_save]

lemma get_issue_drop [simp]: "get_issue d (drop_issue e s) = (if d = e then None else get_issue d s)"
  by (simp add: get_issue_def drop_issue_def)

end
