(* ===== verification/Frames.thy ===== *)
theory Frames
  imports Storage
begin

text \<open>
  The facts about the storage the services rest on: for each method the attributes it leaves alone
  and for each query the methods that do not affect it (all simplification rules, so that a
  service's proof is about the few attributes it writes), how storing a device changes the counts,
  which job \<open>claim_next_setup_job\<close> takes and what \<open>transition_setup_job\<close> does.
\<close>

section \<open>What each method leaves alone\<close>

lemma tick_world [simp]:
  "clock_at (tick s) = clock_at s"
  "uuid_at (tick s) = uuid_at s"
  "uuid_n (tick s) = uuid_n s"
  "random_at (tick s) = random_at s"
  "random_n (tick s) = random_n s"
  by (simp_all add: tick_def)

lemma tick_frame [simp]:
  "users (tick s) = users s"
  "sessions (tick s) = sessions s"
  "server_nodes (tick s) = server_nodes s"
  "devices (tick s) = devices s"
  "issues (tick s) = issues s"
  "contributions (tick s) = contributions s"
  "support_settings_of (tick s) = support_settings_of s"
  "setup_jobs (tick s) = setup_jobs s"
  "setup_events (tick s) = setup_events s"
  "audit_log (tick s) = audit_log s"
  "login_failures (tick s) = login_failures s"
  by (simp_all add: tick_def)

lemma tick_app [simp]:
  "ssh_secrets (tick s) = ssh_secrets s"
  "agent_st (tick s) = agent_st s"
  by (simp_all add: tick_def)

lemma use_uuid_world [simp]:
  "clock_at (use_uuid s) = clock_at s"
  "clock_n (use_uuid s) = clock_n s"
  "uuid_at (use_uuid s) = uuid_at s"
  "random_at (use_uuid s) = random_at s"
  "random_n (use_uuid s) = random_n s"
  by (simp_all add: use_uuid_def)

lemma use_uuid_frame [simp]:
  "users (use_uuid s) = users s"
  "sessions (use_uuid s) = sessions s"
  "server_nodes (use_uuid s) = server_nodes s"
  "devices (use_uuid s) = devices s"
  "issues (use_uuid s) = issues s"
  "contributions (use_uuid s) = contributions s"
  "support_settings_of (use_uuid s) = support_settings_of s"
  "setup_jobs (use_uuid s) = setup_jobs s"
  "setup_events (use_uuid s) = setup_events s"
  "audit_log (use_uuid s) = audit_log s"
  "login_failures (use_uuid s) = login_failures s"
  by (simp_all add: use_uuid_def)

lemma use_uuid_app [simp]:
  "ssh_secrets (use_uuid s) = ssh_secrets s"
  "agent_st (use_uuid s) = agent_st s"
  by (simp_all add: use_uuid_def)

lemma use_random_world [simp]:
  "clock_at (use_random s) = clock_at s"
  "clock_n (use_random s) = clock_n s"
  "uuid_at (use_random s) = uuid_at s"
  "uuid_n (use_random s) = uuid_n s"
  "random_at (use_random s) = random_at s"
  by (simp_all add: use_random_def)

lemma use_random_frame [simp]:
  "users (use_random s) = users s"
  "sessions (use_random s) = sessions s"
  "server_nodes (use_random s) = server_nodes s"
  "devices (use_random s) = devices s"
  "issues (use_random s) = issues s"
  "contributions (use_random s) = contributions s"
  "support_settings_of (use_random s) = support_settings_of s"
  "setup_jobs (use_random s) = setup_jobs s"
  "setup_events (use_random s) = setup_events s"
  "audit_log (use_random s) = audit_log s"
  "login_failures (use_random s) = login_failures s"
  by (simp_all add: use_random_def)

lemma use_random_app [simp]:
  "ssh_secrets (use_random s) = ssh_secrets s"
  "agent_st (use_random s) = agent_st s"
  by (simp_all add: use_random_def)

lemma save_user_frame [simp]:
  "clock_at (save_user x s) = clock_at s"
  "clock_n (save_user x s) = clock_n s"
  "uuid_at (save_user x s) = uuid_at s"
  "uuid_n (save_user x s) = uuid_n s"
  "random_at (save_user x s) = random_at s"
  "random_n (save_user x s) = random_n s"
  "sessions (save_user x s) = sessions s"
  "server_nodes (save_user x s) = server_nodes s"
  "devices (save_user x s) = devices s"
  "issues (save_user x s) = issues s"
  "contributions (save_user x s) = contributions s"
  "support_settings_of (save_user x s) = support_settings_of s"
  "setup_jobs (save_user x s) = setup_jobs s"
  "setup_events (save_user x s) = setup_events s"
  "audit_log (save_user x s) = audit_log s"
  "login_failures (save_user x s) = login_failures s"
  by (simp_all add: save_user_def)

lemma save_user_app [simp]:
  "ssh_secrets (save_user x s) = ssh_secrets s"
  "agent_st (save_user x s) = agent_st s"
  by (simp_all add: save_user_def)

lemma add_user_frame [simp]:
  "clock_at (add_user x s) = clock_at s"
  "clock_n (add_user x s) = clock_n s"
  "uuid_at (add_user x s) = uuid_at s"
  "uuid_n (add_user x s) = uuid_n s"
  "random_at (add_user x s) = random_at s"
  "random_n (add_user x s) = random_n s"
  "sessions (add_user x s) = sessions s"
  "server_nodes (add_user x s) = server_nodes s"
  "devices (add_user x s) = devices s"
  "issues (add_user x s) = issues s"
  "contributions (add_user x s) = contributions s"
  "support_settings_of (add_user x s) = support_settings_of s"
  "setup_jobs (add_user x s) = setup_jobs s"
  "setup_events (add_user x s) = setup_events s"
  "audit_log (add_user x s) = audit_log s"
  "login_failures (add_user x s) = login_failures s"
  by (simp_all add: add_user_def)

lemma add_user_app [simp]:
  "ssh_secrets (add_user x s) = ssh_secrets s"
  "agent_st (add_user x s) = agent_st s"
  by (simp_all add: add_user_def)

lemma save_session_frame [simp]:
  "clock_at (save_session x s) = clock_at s"
  "clock_n (save_session x s) = clock_n s"
  "uuid_at (save_session x s) = uuid_at s"
  "uuid_n (save_session x s) = uuid_n s"
  "random_at (save_session x s) = random_at s"
  "random_n (save_session x s) = random_n s"
  "users (save_session x s) = users s"
  "server_nodes (save_session x s) = server_nodes s"
  "devices (save_session x s) = devices s"
  "issues (save_session x s) = issues s"
  "contributions (save_session x s) = contributions s"
  "support_settings_of (save_session x s) = support_settings_of s"
  "setup_jobs (save_session x s) = setup_jobs s"
  "setup_events (save_session x s) = setup_events s"
  "audit_log (save_session x s) = audit_log s"
  "login_failures (save_session x s) = login_failures s"
  by (simp_all add: save_session_def)

lemma save_session_app [simp]:
  "ssh_secrets (save_session x s) = ssh_secrets s"
  "agent_st (save_session x s) = agent_st s"
  by (simp_all add: save_session_def)

lemma add_session_frame [simp]:
  "clock_at (add_session x s) = clock_at s"
  "clock_n (add_session x s) = clock_n s"
  "uuid_at (add_session x s) = uuid_at s"
  "uuid_n (add_session x s) = uuid_n s"
  "random_at (add_session x s) = random_at s"
  "random_n (add_session x s) = random_n s"
  "users (add_session x s) = users s"
  "server_nodes (add_session x s) = server_nodes s"
  "devices (add_session x s) = devices s"
  "issues (add_session x s) = issues s"
  "contributions (add_session x s) = contributions s"
  "support_settings_of (add_session x s) = support_settings_of s"
  "setup_jobs (add_session x s) = setup_jobs s"
  "setup_events (add_session x s) = setup_events s"
  "audit_log (add_session x s) = audit_log s"
  "login_failures (add_session x s) = login_failures s"
  by (simp_all add: add_session_def)

lemma add_session_app [simp]:
  "ssh_secrets (add_session x s) = ssh_secrets s"
  "agent_st (add_session x s) = agent_st s"
  by (simp_all add: add_session_def)

lemma revoke_sessions_for_user_frame [simp]:
  "clock_at (revoke_sessions_for_user u t s) = clock_at s"
  "clock_n (revoke_sessions_for_user u t s) = clock_n s"
  "uuid_at (revoke_sessions_for_user u t s) = uuid_at s"
  "uuid_n (revoke_sessions_for_user u t s) = uuid_n s"
  "random_at (revoke_sessions_for_user u t s) = random_at s"
  "random_n (revoke_sessions_for_user u t s) = random_n s"
  "users (revoke_sessions_for_user u t s) = users s"
  "server_nodes (revoke_sessions_for_user u t s) = server_nodes s"
  "devices (revoke_sessions_for_user u t s) = devices s"
  "issues (revoke_sessions_for_user u t s) = issues s"
  "contributions (revoke_sessions_for_user u t s) = contributions s"
  "support_settings_of (revoke_sessions_for_user u t s) = support_settings_of s"
  "setup_jobs (revoke_sessions_for_user u t s) = setup_jobs s"
  "setup_events (revoke_sessions_for_user u t s) = setup_events s"
  "audit_log (revoke_sessions_for_user u t s) = audit_log s"
  "login_failures (revoke_sessions_for_user u t s) = login_failures s"
  by (simp_all add: revoke_sessions_for_user_def)

lemma revoke_sessions_for_user_app [simp]:
  "ssh_secrets (revoke_sessions_for_user u t s) = ssh_secrets s"
  "agent_st (revoke_sessions_for_user u t s) = agent_st s"
  by (simp_all add: revoke_sessions_for_user_def)

lemma save_server_node_frame [simp]:
  "clock_at (save_server_node x s) = clock_at s"
  "clock_n (save_server_node x s) = clock_n s"
  "uuid_at (save_server_node x s) = uuid_at s"
  "uuid_n (save_server_node x s) = uuid_n s"
  "random_at (save_server_node x s) = random_at s"
  "random_n (save_server_node x s) = random_n s"
  "users (save_server_node x s) = users s"
  "sessions (save_server_node x s) = sessions s"
  "devices (save_server_node x s) = devices s"
  "issues (save_server_node x s) = issues s"
  "contributions (save_server_node x s) = contributions s"
  "support_settings_of (save_server_node x s) = support_settings_of s"
  "setup_jobs (save_server_node x s) = setup_jobs s"
  "setup_events (save_server_node x s) = setup_events s"
  "audit_log (save_server_node x s) = audit_log s"
  "login_failures (save_server_node x s) = login_failures s"
  by (simp_all add: save_server_node_def)

lemma save_server_node_app [simp]:
  "ssh_secrets (save_server_node x s) = ssh_secrets s"
  "agent_st (save_server_node x s) = agent_st s"
  by (simp_all add: save_server_node_def)

lemma add_server_node_frame [simp]:
  "clock_at (add_server_node x s) = clock_at s"
  "clock_n (add_server_node x s) = clock_n s"
  "uuid_at (add_server_node x s) = uuid_at s"
  "uuid_n (add_server_node x s) = uuid_n s"
  "random_at (add_server_node x s) = random_at s"
  "random_n (add_server_node x s) = random_n s"
  "users (add_server_node x s) = users s"
  "sessions (add_server_node x s) = sessions s"
  "devices (add_server_node x s) = devices s"
  "issues (add_server_node x s) = issues s"
  "contributions (add_server_node x s) = contributions s"
  "support_settings_of (add_server_node x s) = support_settings_of s"
  "setup_jobs (add_server_node x s) = setup_jobs s"
  "setup_events (add_server_node x s) = setup_events s"
  "audit_log (add_server_node x s) = audit_log s"
  "login_failures (add_server_node x s) = login_failures s"
  by (simp_all add: add_server_node_def)

lemma add_server_node_app [simp]:
  "ssh_secrets (add_server_node x s) = ssh_secrets s"
  "agent_st (add_server_node x s) = agent_st s"
  by (simp_all add: add_server_node_def)

lemma save_device_frame [simp]:
  "clock_at (save_device x s) = clock_at s"
  "clock_n (save_device x s) = clock_n s"
  "uuid_at (save_device x s) = uuid_at s"
  "uuid_n (save_device x s) = uuid_n s"
  "random_at (save_device x s) = random_at s"
  "random_n (save_device x s) = random_n s"
  "users (save_device x s) = users s"
  "sessions (save_device x s) = sessions s"
  "server_nodes (save_device x s) = server_nodes s"
  "issues (save_device x s) = issues s"
  "contributions (save_device x s) = contributions s"
  "support_settings_of (save_device x s) = support_settings_of s"
  "setup_jobs (save_device x s) = setup_jobs s"
  "setup_events (save_device x s) = setup_events s"
  "audit_log (save_device x s) = audit_log s"
  "login_failures (save_device x s) = login_failures s"
  by (simp_all add: save_device_def)

lemma save_device_app [simp]:
  "ssh_secrets (save_device x s) = ssh_secrets s"
  "agent_st (save_device x s) = agent_st s"
  by (simp_all add: save_device_def)

lemma add_device_frame [simp]:
  "clock_at (add_device x s) = clock_at s"
  "clock_n (add_device x s) = clock_n s"
  "uuid_at (add_device x s) = uuid_at s"
  "uuid_n (add_device x s) = uuid_n s"
  "random_at (add_device x s) = random_at s"
  "random_n (add_device x s) = random_n s"
  "users (add_device x s) = users s"
  "sessions (add_device x s) = sessions s"
  "server_nodes (add_device x s) = server_nodes s"
  "issues (add_device x s) = issues s"
  "contributions (add_device x s) = contributions s"
  "support_settings_of (add_device x s) = support_settings_of s"
  "setup_jobs (add_device x s) = setup_jobs s"
  "setup_events (add_device x s) = setup_events s"
  "audit_log (add_device x s) = audit_log s"
  "login_failures (add_device x s) = login_failures s"
  by (simp_all add: add_device_def)

lemma add_device_app [simp]:
  "ssh_secrets (add_device x s) = ssh_secrets s"
  "agent_st (add_device x s) = agent_st s"
  by (simp_all add: add_device_def)

lemma set_issue_frame [simp]:
  "clock_at (set_issue x s) = clock_at s"
  "clock_n (set_issue x s) = clock_n s"
  "uuid_at (set_issue x s) = uuid_at s"
  "uuid_n (set_issue x s) = uuid_n s"
  "random_at (set_issue x s) = random_at s"
  "random_n (set_issue x s) = random_n s"
  "users (set_issue x s) = users s"
  "sessions (set_issue x s) = sessions s"
  "server_nodes (set_issue x s) = server_nodes s"
  "devices (set_issue x s) = devices s"
  "contributions (set_issue x s) = contributions s"
  "support_settings_of (set_issue x s) = support_settings_of s"
  "setup_jobs (set_issue x s) = setup_jobs s"
  "setup_events (set_issue x s) = setup_events s"
  "audit_log (set_issue x s) = audit_log s"
  "login_failures (set_issue x s) = login_failures s"
  by (simp_all add: set_issue_def)

lemma set_issue_app [simp]:
  "ssh_secrets (set_issue x s) = ssh_secrets s"
  "agent_st (set_issue x s) = agent_st s"
  by (simp_all add: set_issue_def)

lemma save_issue_frame [simp]:
  "clock_at (save_issue x s) = clock_at s"
  "clock_n (save_issue x s) = clock_n s"
  "uuid_at (save_issue x s) = uuid_at s"
  "uuid_n (save_issue x s) = uuid_n s"
  "random_at (save_issue x s) = random_at s"
  "random_n (save_issue x s) = random_n s"
  "users (save_issue x s) = users s"
  "sessions (save_issue x s) = sessions s"
  "server_nodes (save_issue x s) = server_nodes s"
  "devices (save_issue x s) = devices s"
  "contributions (save_issue x s) = contributions s"
  "support_settings_of (save_issue x s) = support_settings_of s"
  "setup_jobs (save_issue x s) = setup_jobs s"
  "setup_events (save_issue x s) = setup_events s"
  "audit_log (save_issue x s) = audit_log s"
  "login_failures (save_issue x s) = login_failures s"
  by (simp_all add: save_issue_def)

lemma save_issue_app [simp]:
  "ssh_secrets (save_issue x s) = ssh_secrets s"
  "agent_st (save_issue x s) = agent_st s"
  by (simp_all add: save_issue_def)

lemma drop_issue_frame [simp]:
  "clock_at (drop_issue x s) = clock_at s"
  "clock_n (drop_issue x s) = clock_n s"
  "uuid_at (drop_issue x s) = uuid_at s"
  "uuid_n (drop_issue x s) = uuid_n s"
  "random_at (drop_issue x s) = random_at s"
  "random_n (drop_issue x s) = random_n s"
  "users (drop_issue x s) = users s"
  "sessions (drop_issue x s) = sessions s"
  "server_nodes (drop_issue x s) = server_nodes s"
  "devices (drop_issue x s) = devices s"
  "contributions (drop_issue x s) = contributions s"
  "support_settings_of (drop_issue x s) = support_settings_of s"
  "setup_jobs (drop_issue x s) = setup_jobs s"
  "setup_events (drop_issue x s) = setup_events s"
  "audit_log (drop_issue x s) = audit_log s"
  "login_failures (drop_issue x s) = login_failures s"
  by (simp_all add: drop_issue_def)

lemma drop_issue_app [simp]:
  "ssh_secrets (drop_issue x s) = ssh_secrets s"
  "agent_st (drop_issue x s) = agent_st s"
  by (simp_all add: drop_issue_def)

lemma add_contribution_frame [simp]:
  "clock_at (add_contribution x s) = clock_at s"
  "clock_n (add_contribution x s) = clock_n s"
  "uuid_at (add_contribution x s) = uuid_at s"
  "uuid_n (add_contribution x s) = uuid_n s"
  "random_at (add_contribution x s) = random_at s"
  "random_n (add_contribution x s) = random_n s"
  "users (add_contribution x s) = users s"
  "sessions (add_contribution x s) = sessions s"
  "server_nodes (add_contribution x s) = server_nodes s"
  "devices (add_contribution x s) = devices s"
  "issues (add_contribution x s) = issues s"
  "support_settings_of (add_contribution x s) = support_settings_of s"
  "setup_jobs (add_contribution x s) = setup_jobs s"
  "setup_events (add_contribution x s) = setup_events s"
  "audit_log (add_contribution x s) = audit_log s"
  "login_failures (add_contribution x s) = login_failures s"
  by (simp_all add: add_contribution_def)

lemma add_contribution_app [simp]:
  "ssh_secrets (add_contribution x s) = ssh_secrets s"
  "agent_st (add_contribution x s) = agent_st s"
  by (simp_all add: add_contribution_def)

lemma save_support_settings_frame [simp]:
  "clock_at (save_support_settings x s) = clock_at s"
  "clock_n (save_support_settings x s) = clock_n s"
  "uuid_at (save_support_settings x s) = uuid_at s"
  "uuid_n (save_support_settings x s) = uuid_n s"
  "random_at (save_support_settings x s) = random_at s"
  "random_n (save_support_settings x s) = random_n s"
  "users (save_support_settings x s) = users s"
  "sessions (save_support_settings x s) = sessions s"
  "server_nodes (save_support_settings x s) = server_nodes s"
  "devices (save_support_settings x s) = devices s"
  "issues (save_support_settings x s) = issues s"
  "contributions (save_support_settings x s) = contributions s"
  "setup_jobs (save_support_settings x s) = setup_jobs s"
  "setup_events (save_support_settings x s) = setup_events s"
  "audit_log (save_support_settings x s) = audit_log s"
  "login_failures (save_support_settings x s) = login_failures s"
  by (simp_all add: save_support_settings_def)

lemma save_support_settings_app [simp]:
  "ssh_secrets (save_support_settings x s) = ssh_secrets s"
  "agent_st (save_support_settings x s) = agent_st s"
  by (simp_all add: save_support_settings_def)

lemma save_setup_job_frame [simp]:
  "clock_at (save_setup_job x s) = clock_at s"
  "clock_n (save_setup_job x s) = clock_n s"
  "uuid_at (save_setup_job x s) = uuid_at s"
  "uuid_n (save_setup_job x s) = uuid_n s"
  "random_at (save_setup_job x s) = random_at s"
  "random_n (save_setup_job x s) = random_n s"
  "users (save_setup_job x s) = users s"
  "sessions (save_setup_job x s) = sessions s"
  "server_nodes (save_setup_job x s) = server_nodes s"
  "devices (save_setup_job x s) = devices s"
  "issues (save_setup_job x s) = issues s"
  "contributions (save_setup_job x s) = contributions s"
  "support_settings_of (save_setup_job x s) = support_settings_of s"
  "audit_log (save_setup_job x s) = audit_log s"
  "login_failures (save_setup_job x s) = login_failures s"
  by (simp_all add: save_setup_job_def)

lemma save_setup_job_app [simp]:
  "ssh_secrets (save_setup_job x s) = ssh_secrets s"
  "agent_st (save_setup_job x s) = agent_st s"
  by (simp_all add: save_setup_job_def)

lemma add_setup_job_frame [simp]:
  "clock_at (add_setup_job x s) = clock_at s"
  "clock_n (add_setup_job x s) = clock_n s"
  "uuid_at (add_setup_job x s) = uuid_at s"
  "uuid_n (add_setup_job x s) = uuid_n s"
  "random_at (add_setup_job x s) = random_at s"
  "random_n (add_setup_job x s) = random_n s"
  "users (add_setup_job x s) = users s"
  "sessions (add_setup_job x s) = sessions s"
  "server_nodes (add_setup_job x s) = server_nodes s"
  "devices (add_setup_job x s) = devices s"
  "issues (add_setup_job x s) = issues s"
  "contributions (add_setup_job x s) = contributions s"
  "support_settings_of (add_setup_job x s) = support_settings_of s"
  "audit_log (add_setup_job x s) = audit_log s"
  "login_failures (add_setup_job x s) = login_failures s"
  by (simp_all add: add_setup_job_def)

lemma add_setup_job_app [simp]:
  "ssh_secrets (add_setup_job x s) = ssh_secrets s"
  "agent_st (add_setup_job x s) = agent_st s"
  by (simp_all add: add_setup_job_def)

lemma add_setup_event_frame [simp]:
  "clock_at (add_setup_event x s) = clock_at s"
  "clock_n (add_setup_event x s) = clock_n s"
  "uuid_at (add_setup_event x s) = uuid_at s"
  "uuid_n (add_setup_event x s) = uuid_n s"
  "random_at (add_setup_event x s) = random_at s"
  "random_n (add_setup_event x s) = random_n s"
  "users (add_setup_event x s) = users s"
  "sessions (add_setup_event x s) = sessions s"
  "server_nodes (add_setup_event x s) = server_nodes s"
  "devices (add_setup_event x s) = devices s"
  "issues (add_setup_event x s) = issues s"
  "contributions (add_setup_event x s) = contributions s"
  "support_settings_of (add_setup_event x s) = support_settings_of s"
  "setup_jobs (add_setup_event x s) = setup_jobs s"
  "audit_log (add_setup_event x s) = audit_log s"
  "login_failures (add_setup_event x s) = login_failures s"
  by (simp_all add: add_setup_event_def)

lemma add_setup_event_app [simp]:
  "ssh_secrets (add_setup_event x s) = ssh_secrets s"
  "agent_st (add_setup_event x s) = agent_st s"
  by (simp_all add: add_setup_event_def)

lemma add_audit_entry_frame [simp]:
  "clock_at (add_audit_entry x s) = clock_at s"
  "clock_n (add_audit_entry x s) = clock_n s"
  "uuid_at (add_audit_entry x s) = uuid_at s"
  "uuid_n (add_audit_entry x s) = uuid_n s"
  "random_at (add_audit_entry x s) = random_at s"
  "random_n (add_audit_entry x s) = random_n s"
  "users (add_audit_entry x s) = users s"
  "sessions (add_audit_entry x s) = sessions s"
  "server_nodes (add_audit_entry x s) = server_nodes s"
  "devices (add_audit_entry x s) = devices s"
  "issues (add_audit_entry x s) = issues s"
  "contributions (add_audit_entry x s) = contributions s"
  "support_settings_of (add_audit_entry x s) = support_settings_of s"
  "setup_jobs (add_audit_entry x s) = setup_jobs s"
  "setup_events (add_audit_entry x s) = setup_events s"
  "login_failures (add_audit_entry x s) = login_failures s"
  by (simp_all add: add_audit_entry_def)

lemma add_audit_entry_app [simp]:
  "ssh_secrets (add_audit_entry x s) = ssh_secrets s"
  "agent_st (add_audit_entry x s) = agent_st s"
  by (simp_all add: add_audit_entry_def)

lemma record_login_failure_frame [simp]:
  "clock_at (record_login_failure k t s) = clock_at s"
  "clock_n (record_login_failure k t s) = clock_n s"
  "uuid_at (record_login_failure k t s) = uuid_at s"
  "uuid_n (record_login_failure k t s) = uuid_n s"
  "random_at (record_login_failure k t s) = random_at s"
  "random_n (record_login_failure k t s) = random_n s"
  "users (record_login_failure k t s) = users s"
  "sessions (record_login_failure k t s) = sessions s"
  "server_nodes (record_login_failure k t s) = server_nodes s"
  "devices (record_login_failure k t s) = devices s"
  "issues (record_login_failure k t s) = issues s"
  "contributions (record_login_failure k t s) = contributions s"
  "support_settings_of (record_login_failure k t s) = support_settings_of s"
  "setup_jobs (record_login_failure k t s) = setup_jobs s"
  "setup_events (record_login_failure k t s) = setup_events s"
  "audit_log (record_login_failure k t s) = audit_log s"
  by (simp_all add: record_login_failure_def)

lemma record_login_failure_app [simp]:
  "ssh_secrets (record_login_failure k t s) = ssh_secrets s"
  "agent_st (record_login_failure k t s) = agent_st s"
  by (simp_all add: record_login_failure_def)

lemma clear_login_failures_frame [simp]:
  "clock_at (clear_login_failures k s) = clock_at s"
  "clock_n (clear_login_failures k s) = clock_n s"
  "uuid_at (clear_login_failures k s) = uuid_at s"
  "uuid_n (clear_login_failures k s) = uuid_n s"
  "random_at (clear_login_failures k s) = random_at s"
  "random_n (clear_login_failures k s) = random_n s"
  "users (clear_login_failures k s) = users s"
  "sessions (clear_login_failures k s) = sessions s"
  "server_nodes (clear_login_failures k s) = server_nodes s"
  "devices (clear_login_failures k s) = devices s"
  "issues (clear_login_failures k s) = issues s"
  "contributions (clear_login_failures k s) = contributions s"
  "support_settings_of (clear_login_failures k s) = support_settings_of s"
  "setup_jobs (clear_login_failures k s) = setup_jobs s"
  "setup_events (clear_login_failures k s) = setup_events s"
  "audit_log (clear_login_failures k s) = audit_log s"
  by (simp_all add: clear_login_failures_def)

lemma clear_login_failures_app [simp]:
  "ssh_secrets (clear_login_failures k s) = ssh_secrets s"
  "agent_st (clear_login_failures k s) = agent_st s"
  by (simp_all add: clear_login_failures_def)

text \<open>Drawing from the world commutes with nothing else of interest: the readings stay where they are.\<close>

lemma world_counters [simp]:
  "clock_n (tick s) = Suc (clock_n s)" "uuid_n (use_uuid s) = Suc (uuid_n s)"
  "random_n (use_random s) = Suc (random_n s)"
  by (simp_all add: tick_def use_uuid_def use_random_def)

lemma world_reads [simp]:
  "now (use_uuid s) = now s" "now (use_random s) = now s"
  "new_uuid (tick s) = new_uuid s" "new_uuid (use_random s) = new_uuid s"
  "new_random (tick s) = new_random s" "new_random (use_uuid s) = new_random s"
  by (simp_all add: now_def new_uuid_def new_random_def)

lemma now_frame [simp]:
  "now (save_user a s) = now s"
  "now (add_user a s) = now s"
  "now (save_session b s) = now s"
  "now (add_session b s) = now s"
  "now (revoke_sessions_for_user u t s) = now s"
  "now (save_server_node c s) = now s"
  "now (add_server_node c s) = now s"
  "now (save_device d s) = now s"
  "now (add_device d s) = now s"
  "now (set_issue e s) = now s"
  "now (save_issue e s) = now s"
  "now (drop_issue f s) = now s"
  "now (add_contribution m s) = now s"
  "now (save_support_settings n s) = now s"
  "now (save_setup_job j s) = now s"
  "now (add_setup_job j s) = now s"
  "now (add_setup_event p s) = now s"
  "now (add_audit_entry q s) = now s"
  "now (record_login_failure k t s) = now s"
  "now (clear_login_failures k s) = now s"
  by (simp_all add: now_def)

lemma new_uuid_frame [simp]:
  "new_uuid (save_user a s) = new_uuid s"
  "new_uuid (add_user a s) = new_uuid s"
  "new_uuid (save_session b s) = new_uuid s"
  "new_uuid (add_session b s) = new_uuid s"
  "new_uuid (revoke_sessions_for_user u t s) = new_uuid s"
  "new_uuid (save_server_node c s) = new_uuid s"
  "new_uuid (add_server_node c s) = new_uuid s"
  "new_uuid (save_device d s) = new_uuid s"
  "new_uuid (add_device d s) = new_uuid s"
  "new_uuid (set_issue e s) = new_uuid s"
  "new_uuid (save_issue e s) = new_uuid s"
  "new_uuid (drop_issue f s) = new_uuid s"
  "new_uuid (add_contribution m s) = new_uuid s"
  "new_uuid (save_support_settings n s) = new_uuid s"
  "new_uuid (save_setup_job j s) = new_uuid s"
  "new_uuid (add_setup_job j s) = new_uuid s"
  "new_uuid (add_setup_event p s) = new_uuid s"
  "new_uuid (add_audit_entry q s) = new_uuid s"
  "new_uuid (record_login_failure k t s) = new_uuid s"
  "new_uuid (clear_login_failures k s) = new_uuid s"
  by (simp_all add: new_uuid_def)

lemma new_random_frame [simp]:
  "new_random (save_user a s) = new_random s"
  "new_random (add_user a s) = new_random s"
  "new_random (save_session b s) = new_random s"
  "new_random (add_session b s) = new_random s"
  "new_random (revoke_sessions_for_user u t s) = new_random s"
  "new_random (save_server_node c s) = new_random s"
  "new_random (add_server_node c s) = new_random s"
  "new_random (save_device d s) = new_random s"
  "new_random (add_device d s) = new_random s"
  "new_random (set_issue e s) = new_random s"
  "new_random (save_issue e s) = new_random s"
  "new_random (drop_issue f s) = new_random s"
  "new_random (add_contribution m s) = new_random s"
  "new_random (save_support_settings n s) = new_random s"
  "new_random (save_setup_job j s) = new_random s"
  "new_random (add_setup_job j s) = new_random s"
  "new_random (add_setup_event p s) = new_random s"
  "new_random (add_audit_entry q s) = new_random s"
  "new_random (record_login_failure k t s) = new_random s"
  "new_random (clear_login_failures k s) = new_random s"
  by (simp_all add: new_random_def)

lemma used_uuids_frame [simp]:
  "used_uuids (save_user a s) = used_uuids s"
  "used_uuids (add_user a s) = used_uuids s"
  "used_uuids (save_session b s) = used_uuids s"
  "used_uuids (add_session b s) = used_uuids s"
  "used_uuids (revoke_sessions_for_user u t s) = used_uuids s"
  "used_uuids (save_server_node c s) = used_uuids s"
  "used_uuids (add_server_node c s) = used_uuids s"
  "used_uuids (save_device d s) = used_uuids s"
  "used_uuids (add_device d s) = used_uuids s"
  "used_uuids (set_issue e s) = used_uuids s"
  "used_uuids (save_issue e s) = used_uuids s"
  "used_uuids (drop_issue f s) = used_uuids s"
  "used_uuids (add_contribution m s) = used_uuids s"
  "used_uuids (save_support_settings n s) = used_uuids s"
  "used_uuids (save_setup_job j s) = used_uuids s"
  "used_uuids (add_setup_job j s) = used_uuids s"
  "used_uuids (add_setup_event p s) = used_uuids s"
  "used_uuids (add_audit_entry q s) = used_uuids s"
  "used_uuids (record_login_failure k t s) = used_uuids s"
  "used_uuids (clear_login_failures k s) = used_uuids s"
  by (simp_all add: used_uuids_def)

section \<open>What each query is blind to\<close>

lemma get_user_frame [simp]:
  "get_user i (tick s) = get_user i s"
  "get_user i (use_uuid s) = get_user i s"
  "get_user i (use_random s) = get_user i s"
  "get_user i (save_session b s) = get_user i s"
  "get_user i (add_session b s) = get_user i s"
  "get_user i (revoke_sessions_for_user u t s) = get_user i s"
  "get_user i (save_server_node c s) = get_user i s"
  "get_user i (add_server_node c s) = get_user i s"
  "get_user i (save_device d s) = get_user i s"
  "get_user i (add_device d s) = get_user i s"
  "get_user i (set_issue e s) = get_user i s"
  "get_user i (save_issue e s) = get_user i s"
  "get_user i (drop_issue f s) = get_user i s"
  "get_user i (add_contribution m s) = get_user i s"
  "get_user i (save_support_settings n s) = get_user i s"
  "get_user i (save_setup_job j s) = get_user i s"
  "get_user i (add_setup_job j s) = get_user i s"
  "get_user i (add_setup_event p s) = get_user i s"
  "get_user i (add_audit_entry q s) = get_user i s"
  "get_user i (record_login_failure k t s) = get_user i s"
  "get_user i (clear_login_failures k s) = get_user i s"
  by (simp_all add: get_user_def)

lemma get_user_by_login_frame [simp]:
  "get_user_by_login l (tick s) = get_user_by_login l s"
  "get_user_by_login l (use_uuid s) = get_user_by_login l s"
  "get_user_by_login l (use_random s) = get_user_by_login l s"
  "get_user_by_login l (save_session b s) = get_user_by_login l s"
  "get_user_by_login l (add_session b s) = get_user_by_login l s"
  "get_user_by_login l (revoke_sessions_for_user u t s) = get_user_by_login l s"
  "get_user_by_login l (save_server_node c s) = get_user_by_login l s"
  "get_user_by_login l (add_server_node c s) = get_user_by_login l s"
  "get_user_by_login l (save_device d s) = get_user_by_login l s"
  "get_user_by_login l (add_device d s) = get_user_by_login l s"
  "get_user_by_login l (set_issue e s) = get_user_by_login l s"
  "get_user_by_login l (save_issue e s) = get_user_by_login l s"
  "get_user_by_login l (drop_issue f s) = get_user_by_login l s"
  "get_user_by_login l (add_contribution m s) = get_user_by_login l s"
  "get_user_by_login l (save_support_settings n s) = get_user_by_login l s"
  "get_user_by_login l (save_setup_job j s) = get_user_by_login l s"
  "get_user_by_login l (add_setup_job j s) = get_user_by_login l s"
  "get_user_by_login l (add_setup_event p s) = get_user_by_login l s"
  "get_user_by_login l (add_audit_entry q s) = get_user_by_login l s"
  "get_user_by_login l (record_login_failure k t s) = get_user_by_login l s"
  "get_user_by_login l (clear_login_failures k s) = get_user_by_login l s"
  by (simp_all add: get_user_by_login_def)

lemma has_admin_frame [simp]:
  "has_admin (tick s) = has_admin s"
  "has_admin (use_uuid s) = has_admin s"
  "has_admin (use_random s) = has_admin s"
  "has_admin (save_session b s) = has_admin s"
  "has_admin (add_session b s) = has_admin s"
  "has_admin (revoke_sessions_for_user u t s) = has_admin s"
  "has_admin (save_server_node c s) = has_admin s"
  "has_admin (add_server_node c s) = has_admin s"
  "has_admin (save_device d s) = has_admin s"
  "has_admin (add_device d s) = has_admin s"
  "has_admin (set_issue e s) = has_admin s"
  "has_admin (save_issue e s) = has_admin s"
  "has_admin (drop_issue f s) = has_admin s"
  "has_admin (add_contribution m s) = has_admin s"
  "has_admin (save_support_settings n s) = has_admin s"
  "has_admin (save_setup_job j s) = has_admin s"
  "has_admin (add_setup_job j s) = has_admin s"
  "has_admin (add_setup_event p s) = has_admin s"
  "has_admin (add_audit_entry q s) = has_admin s"
  "has_admin (record_login_failure k t s) = has_admin s"
  "has_admin (clear_login_failures k s) = has_admin s"
  by (simp_all add: has_admin_def)

lemma get_session_by_token_hash_frame [simp]:
  "get_session_by_token_hash h (tick s) = get_session_by_token_hash h s"
  "get_session_by_token_hash h (use_uuid s) = get_session_by_token_hash h s"
  "get_session_by_token_hash h (use_random s) = get_session_by_token_hash h s"
  "get_session_by_token_hash h (save_user a s) = get_session_by_token_hash h s"
  "get_session_by_token_hash h (add_user a s) = get_session_by_token_hash h s"
  "get_session_by_token_hash h (save_server_node c s) = get_session_by_token_hash h s"
  "get_session_by_token_hash h (add_server_node c s) = get_session_by_token_hash h s"
  "get_session_by_token_hash h (save_device d s) = get_session_by_token_hash h s"
  "get_session_by_token_hash h (add_device d s) = get_session_by_token_hash h s"
  "get_session_by_token_hash h (set_issue e s) = get_session_by_token_hash h s"
  "get_session_by_token_hash h (save_issue e s) = get_session_by_token_hash h s"
  "get_session_by_token_hash h (drop_issue f s) = get_session_by_token_hash h s"
  "get_session_by_token_hash h (add_contribution m s) = get_session_by_token_hash h s"
  "get_session_by_token_hash h (save_support_settings n s) = get_session_by_token_hash h s"
  "get_session_by_token_hash h (save_setup_job j s) = get_session_by_token_hash h s"
  "get_session_by_token_hash h (add_setup_job j s) = get_session_by_token_hash h s"
  "get_session_by_token_hash h (add_setup_event p s) = get_session_by_token_hash h s"
  "get_session_by_token_hash h (add_audit_entry q s) = get_session_by_token_hash h s"
  "get_session_by_token_hash h (record_login_failure k t s) = get_session_by_token_hash h s"
  "get_session_by_token_hash h (clear_login_failures k s) = get_session_by_token_hash h s"
  by (simp_all add: get_session_by_token_hash_def)

lemma get_server_node_frame [simp]:
  "get_server_node i (tick s) = get_server_node i s"
  "get_server_node i (use_uuid s) = get_server_node i s"
  "get_server_node i (use_random s) = get_server_node i s"
  "get_server_node i (save_user a s) = get_server_node i s"
  "get_server_node i (add_user a s) = get_server_node i s"
  "get_server_node i (save_session b s) = get_server_node i s"
  "get_server_node i (add_session b s) = get_server_node i s"
  "get_server_node i (revoke_sessions_for_user u t s) = get_server_node i s"
  "get_server_node i (save_device d s) = get_server_node i s"
  "get_server_node i (add_device d s) = get_server_node i s"
  "get_server_node i (set_issue e s) = get_server_node i s"
  "get_server_node i (save_issue e s) = get_server_node i s"
  "get_server_node i (drop_issue f s) = get_server_node i s"
  "get_server_node i (add_contribution m s) = get_server_node i s"
  "get_server_node i (save_support_settings n s) = get_server_node i s"
  "get_server_node i (save_setup_job j s) = get_server_node i s"
  "get_server_node i (add_setup_job j s) = get_server_node i s"
  "get_server_node i (add_setup_event p s) = get_server_node i s"
  "get_server_node i (add_audit_entry q s) = get_server_node i s"
  "get_server_node i (record_login_failure k t s) = get_server_node i s"
  "get_server_node i (clear_login_failures k s) = get_server_node i s"
  by (simp_all add: get_server_node_def)

lemma list_server_nodes_frame [simp]:
  "list_server_nodes (tick s) = list_server_nodes s"
  "list_server_nodes (use_uuid s) = list_server_nodes s"
  "list_server_nodes (use_random s) = list_server_nodes s"
  "list_server_nodes (save_user a s) = list_server_nodes s"
  "list_server_nodes (add_user a s) = list_server_nodes s"
  "list_server_nodes (save_session b s) = list_server_nodes s"
  "list_server_nodes (add_session b s) = list_server_nodes s"
  "list_server_nodes (revoke_sessions_for_user u t s) = list_server_nodes s"
  "list_server_nodes (save_device d s) = list_server_nodes s"
  "list_server_nodes (add_device d s) = list_server_nodes s"
  "list_server_nodes (set_issue e s) = list_server_nodes s"
  "list_server_nodes (save_issue e s) = list_server_nodes s"
  "list_server_nodes (drop_issue f s) = list_server_nodes s"
  "list_server_nodes (add_contribution m s) = list_server_nodes s"
  "list_server_nodes (save_support_settings n s) = list_server_nodes s"
  "list_server_nodes (save_setup_job j s) = list_server_nodes s"
  "list_server_nodes (add_setup_job j s) = list_server_nodes s"
  "list_server_nodes (add_setup_event p s) = list_server_nodes s"
  "list_server_nodes (add_audit_entry q s) = list_server_nodes s"
  "list_server_nodes (record_login_failure k t s) = list_server_nodes s"
  "list_server_nodes (clear_login_failures k s) = list_server_nodes s"
  by (simp_all add: list_server_nodes_def)

lemma get_device_frame [simp]:
  "get_device i (tick s) = get_device i s"
  "get_device i (use_uuid s) = get_device i s"
  "get_device i (use_random s) = get_device i s"
  "get_device i (save_user a s) = get_device i s"
  "get_device i (add_user a s) = get_device i s"
  "get_device i (save_session b s) = get_device i s"
  "get_device i (add_session b s) = get_device i s"
  "get_device i (revoke_sessions_for_user u t s) = get_device i s"
  "get_device i (save_server_node c s) = get_device i s"
  "get_device i (add_server_node c s) = get_device i s"
  "get_device i (set_issue e s) = get_device i s"
  "get_device i (save_issue e s) = get_device i s"
  "get_device i (drop_issue f s) = get_device i s"
  "get_device i (add_contribution m s) = get_device i s"
  "get_device i (save_support_settings n s) = get_device i s"
  "get_device i (save_setup_job j s) = get_device i s"
  "get_device i (add_setup_job j s) = get_device i s"
  "get_device i (add_setup_event p s) = get_device i s"
  "get_device i (add_audit_entry q s) = get_device i s"
  "get_device i (record_login_failure k t s) = get_device i s"
  "get_device i (clear_login_failures k s) = get_device i s"
  by (simp_all add: get_device_def)

lemma list_devices_for_user_frame [simp]:
  "list_devices_for_user i (tick s) = list_devices_for_user i s"
  "list_devices_for_user i (use_uuid s) = list_devices_for_user i s"
  "list_devices_for_user i (use_random s) = list_devices_for_user i s"
  "list_devices_for_user i (save_user a s) = list_devices_for_user i s"
  "list_devices_for_user i (add_user a s) = list_devices_for_user i s"
  "list_devices_for_user i (save_session b s) = list_devices_for_user i s"
  "list_devices_for_user i (add_session b s) = list_devices_for_user i s"
  "list_devices_for_user i (revoke_sessions_for_user u t s) = list_devices_for_user i s"
  "list_devices_for_user i (save_server_node c s) = list_devices_for_user i s"
  "list_devices_for_user i (add_server_node c s) = list_devices_for_user i s"
  "list_devices_for_user i (set_issue e s) = list_devices_for_user i s"
  "list_devices_for_user i (save_issue e s) = list_devices_for_user i s"
  "list_devices_for_user i (drop_issue f s) = list_devices_for_user i s"
  "list_devices_for_user i (add_contribution m s) = list_devices_for_user i s"
  "list_devices_for_user i (save_support_settings n s) = list_devices_for_user i s"
  "list_devices_for_user i (save_setup_job j s) = list_devices_for_user i s"
  "list_devices_for_user i (add_setup_job j s) = list_devices_for_user i s"
  "list_devices_for_user i (add_setup_event p s) = list_devices_for_user i s"
  "list_devices_for_user i (add_audit_entry q s) = list_devices_for_user i s"
  "list_devices_for_user i (record_login_failure k t s) = list_devices_for_user i s"
  "list_devices_for_user i (clear_login_failures k s) = list_devices_for_user i s"
  by (simp_all add: list_devices_for_user_def)

lemma count_devices_toward_limit_frame [simp]:
  "count_devices_toward_limit i (tick s) = count_devices_toward_limit i s"
  "count_devices_toward_limit i (use_uuid s) = count_devices_toward_limit i s"
  "count_devices_toward_limit i (use_random s) = count_devices_toward_limit i s"
  "count_devices_toward_limit i (save_user a s) = count_devices_toward_limit i s"
  "count_devices_toward_limit i (add_user a s) = count_devices_toward_limit i s"
  "count_devices_toward_limit i (save_session b s) = count_devices_toward_limit i s"
  "count_devices_toward_limit i (add_session b s) = count_devices_toward_limit i s"
  "count_devices_toward_limit i (revoke_sessions_for_user u t s) = count_devices_toward_limit i s"
  "count_devices_toward_limit i (save_server_node c s) = count_devices_toward_limit i s"
  "count_devices_toward_limit i (add_server_node c s) = count_devices_toward_limit i s"
  "count_devices_toward_limit i (set_issue e s) = count_devices_toward_limit i s"
  "count_devices_toward_limit i (save_issue e s) = count_devices_toward_limit i s"
  "count_devices_toward_limit i (drop_issue f s) = count_devices_toward_limit i s"
  "count_devices_toward_limit i (add_contribution m s) = count_devices_toward_limit i s"
  "count_devices_toward_limit i (save_support_settings n s) = count_devices_toward_limit i s"
  "count_devices_toward_limit i (save_setup_job j s) = count_devices_toward_limit i s"
  "count_devices_toward_limit i (add_setup_job j s) = count_devices_toward_limit i s"
  "count_devices_toward_limit i (add_setup_event p s) = count_devices_toward_limit i s"
  "count_devices_toward_limit i (add_audit_entry q s) = count_devices_toward_limit i s"
  "count_devices_toward_limit i (record_login_failure k t s) = count_devices_toward_limit i s"
  "count_devices_toward_limit i (clear_login_failures k s) = count_devices_toward_limit i s"
  by (simp_all add: count_devices_toward_limit_def)

lemma count_active_devices_for_server_frame [simp]:
  "count_active_devices_for_server i (tick s) = count_active_devices_for_server i s"
  "count_active_devices_for_server i (use_uuid s) = count_active_devices_for_server i s"
  "count_active_devices_for_server i (use_random s) = count_active_devices_for_server i s"
  "count_active_devices_for_server i (save_user a s) = count_active_devices_for_server i s"
  "count_active_devices_for_server i (add_user a s) = count_active_devices_for_server i s"
  "count_active_devices_for_server i (save_session b s) = count_active_devices_for_server i s"
  "count_active_devices_for_server i (add_session b s) = count_active_devices_for_server i s"
  "count_active_devices_for_server i (revoke_sessions_for_user u t s) = count_active_devices_for_server i s"
  "count_active_devices_for_server i (save_server_node c s) = count_active_devices_for_server i s"
  "count_active_devices_for_server i (add_server_node c s) = count_active_devices_for_server i s"
  "count_active_devices_for_server i (set_issue e s) = count_active_devices_for_server i s"
  "count_active_devices_for_server i (save_issue e s) = count_active_devices_for_server i s"
  "count_active_devices_for_server i (drop_issue f s) = count_active_devices_for_server i s"
  "count_active_devices_for_server i (add_contribution m s) = count_active_devices_for_server i s"
  "count_active_devices_for_server i (save_support_settings n s) = count_active_devices_for_server i s"
  "count_active_devices_for_server i (save_setup_job j s) = count_active_devices_for_server i s"
  "count_active_devices_for_server i (add_setup_job j s) = count_active_devices_for_server i s"
  "count_active_devices_for_server i (add_setup_event p s) = count_active_devices_for_server i s"
  "count_active_devices_for_server i (add_audit_entry q s) = count_active_devices_for_server i s"
  "count_active_devices_for_server i (record_login_failure k t s) = count_active_devices_for_server i s"
  "count_active_devices_for_server i (clear_login_failures k s) = count_active_devices_for_server i s"
  by (simp_all add: count_active_devices_for_server_def)

lemma get_issue_frame [simp]:
  "get_issue i (tick s) = get_issue i s"
  "get_issue i (use_uuid s) = get_issue i s"
  "get_issue i (use_random s) = get_issue i s"
  "get_issue i (save_user a s) = get_issue i s"
  "get_issue i (add_user a s) = get_issue i s"
  "get_issue i (save_session b s) = get_issue i s"
  "get_issue i (add_session b s) = get_issue i s"
  "get_issue i (revoke_sessions_for_user u t s) = get_issue i s"
  "get_issue i (save_server_node c s) = get_issue i s"
  "get_issue i (add_server_node c s) = get_issue i s"
  "get_issue i (save_device d s) = get_issue i s"
  "get_issue i (add_device d s) = get_issue i s"
  "get_issue i (add_contribution m s) = get_issue i s"
  "get_issue i (save_support_settings n s) = get_issue i s"
  "get_issue i (save_setup_job j s) = get_issue i s"
  "get_issue i (add_setup_job j s) = get_issue i s"
  "get_issue i (add_setup_event p s) = get_issue i s"
  "get_issue i (add_audit_entry q s) = get_issue i s"
  "get_issue i (record_login_failure k t s) = get_issue i s"
  "get_issue i (clear_login_failures k s) = get_issue i s"
  by (simp_all add: get_issue_def)

lemma get_support_settings_frame [simp]:
  "get_support_settings (tick s) = get_support_settings s"
  "get_support_settings (use_uuid s) = get_support_settings s"
  "get_support_settings (use_random s) = get_support_settings s"
  "get_support_settings (save_user a s) = get_support_settings s"
  "get_support_settings (add_user a s) = get_support_settings s"
  "get_support_settings (save_session b s) = get_support_settings s"
  "get_support_settings (add_session b s) = get_support_settings s"
  "get_support_settings (revoke_sessions_for_user u t s) = get_support_settings s"
  "get_support_settings (save_server_node c s) = get_support_settings s"
  "get_support_settings (add_server_node c s) = get_support_settings s"
  "get_support_settings (save_device d s) = get_support_settings s"
  "get_support_settings (add_device d s) = get_support_settings s"
  "get_support_settings (set_issue e s) = get_support_settings s"
  "get_support_settings (save_issue e s) = get_support_settings s"
  "get_support_settings (drop_issue f s) = get_support_settings s"
  "get_support_settings (add_contribution m s) = get_support_settings s"
  "get_support_settings (save_setup_job j s) = get_support_settings s"
  "get_support_settings (add_setup_job j s) = get_support_settings s"
  "get_support_settings (add_setup_event p s) = get_support_settings s"
  "get_support_settings (add_audit_entry q s) = get_support_settings s"
  "get_support_settings (record_login_failure k t s) = get_support_settings s"
  "get_support_settings (clear_login_failures k s) = get_support_settings s"
  by (simp_all add: get_support_settings_def)

lemma get_setup_job_frame [simp]:
  "get_setup_job i (tick s) = get_setup_job i s"
  "get_setup_job i (use_uuid s) = get_setup_job i s"
  "get_setup_job i (use_random s) = get_setup_job i s"
  "get_setup_job i (save_user a s) = get_setup_job i s"
  "get_setup_job i (add_user a s) = get_setup_job i s"
  "get_setup_job i (save_session b s) = get_setup_job i s"
  "get_setup_job i (add_session b s) = get_setup_job i s"
  "get_setup_job i (revoke_sessions_for_user u t s) = get_setup_job i s"
  "get_setup_job i (save_server_node c s) = get_setup_job i s"
  "get_setup_job i (add_server_node c s) = get_setup_job i s"
  "get_setup_job i (save_device d s) = get_setup_job i s"
  "get_setup_job i (add_device d s) = get_setup_job i s"
  "get_setup_job i (set_issue e s) = get_setup_job i s"
  "get_setup_job i (save_issue e s) = get_setup_job i s"
  "get_setup_job i (drop_issue f s) = get_setup_job i s"
  "get_setup_job i (add_contribution m s) = get_setup_job i s"
  "get_setup_job i (save_support_settings n s) = get_setup_job i s"
  "get_setup_job i (add_setup_event p s) = get_setup_job i s"
  "get_setup_job i (add_audit_entry q s) = get_setup_job i s"
  "get_setup_job i (record_login_failure k t s) = get_setup_job i s"
  "get_setup_job i (clear_login_failures k s) = get_setup_job i s"
  by (simp_all add: get_setup_job_def)

lemma next_queued_setup_job_frame [simp]:
  "next_queued_setup_job (tick s) = next_queued_setup_job s"
  "next_queued_setup_job (use_uuid s) = next_queued_setup_job s"
  "next_queued_setup_job (use_random s) = next_queued_setup_job s"
  "next_queued_setup_job (save_user a s) = next_queued_setup_job s"
  "next_queued_setup_job (add_user a s) = next_queued_setup_job s"
  "next_queued_setup_job (save_session b s) = next_queued_setup_job s"
  "next_queued_setup_job (add_session b s) = next_queued_setup_job s"
  "next_queued_setup_job (revoke_sessions_for_user u t s) = next_queued_setup_job s"
  "next_queued_setup_job (save_server_node c s) = next_queued_setup_job s"
  "next_queued_setup_job (add_server_node c s) = next_queued_setup_job s"
  "next_queued_setup_job (save_device d s) = next_queued_setup_job s"
  "next_queued_setup_job (add_device d s) = next_queued_setup_job s"
  "next_queued_setup_job (set_issue e s) = next_queued_setup_job s"
  "next_queued_setup_job (save_issue e s) = next_queued_setup_job s"
  "next_queued_setup_job (drop_issue f s) = next_queued_setup_job s"
  "next_queued_setup_job (add_contribution m s) = next_queued_setup_job s"
  "next_queued_setup_job (save_support_settings n s) = next_queued_setup_job s"
  "next_queued_setup_job (add_setup_event p s) = next_queued_setup_job s"
  "next_queued_setup_job (add_audit_entry q s) = next_queued_setup_job s"
  "next_queued_setup_job (record_login_failure k t s) = next_queued_setup_job s"
  "next_queued_setup_job (clear_login_failures k s) = next_queued_setup_job s"
  by (simp_all add: next_queued_setup_job_def)

lemma list_setup_events_frame [simp]:
  "list_setup_events i (tick s) = list_setup_events i s"
  "list_setup_events i (use_uuid s) = list_setup_events i s"
  "list_setup_events i (use_random s) = list_setup_events i s"
  "list_setup_events i (save_user a s) = list_setup_events i s"
  "list_setup_events i (add_user a s) = list_setup_events i s"
  "list_setup_events i (save_session b s) = list_setup_events i s"
  "list_setup_events i (add_session b s) = list_setup_events i s"
  "list_setup_events i (revoke_sessions_for_user u t s) = list_setup_events i s"
  "list_setup_events i (save_server_node c s) = list_setup_events i s"
  "list_setup_events i (add_server_node c s) = list_setup_events i s"
  "list_setup_events i (save_device d s) = list_setup_events i s"
  "list_setup_events i (add_device d s) = list_setup_events i s"
  "list_setup_events i (set_issue e s) = list_setup_events i s"
  "list_setup_events i (save_issue e s) = list_setup_events i s"
  "list_setup_events i (drop_issue f s) = list_setup_events i s"
  "list_setup_events i (add_contribution m s) = list_setup_events i s"
  "list_setup_events i (save_support_settings n s) = list_setup_events i s"
  "list_setup_events i (add_audit_entry q s) = list_setup_events i s"
  "list_setup_events i (record_login_failure k t s) = list_setup_events i s"
  "list_setup_events i (clear_login_failures k s) = list_setup_events i s"
  by (simp_all add: list_setup_events_def)

text \<open>The same for the attributes the services write directly.\<close>

lemma login_failures_upd_frame [simp]:
  "get_user i (s\<lparr>login_failures := x\<rparr>) = get_user i s"
  "get_user_by_login l (s\<lparr>login_failures := x\<rparr>) = get_user_by_login l s"
  "has_admin (s\<lparr>login_failures := x\<rparr>) = has_admin s"
  "get_session_by_token_hash h (s\<lparr>login_failures := x\<rparr>) = get_session_by_token_hash h s"
  "get_server_node i (s\<lparr>login_failures := x\<rparr>) = get_server_node i s"
  "list_server_nodes (s\<lparr>login_failures := x\<rparr>) = list_server_nodes s"
  "get_device i (s\<lparr>login_failures := x\<rparr>) = get_device i s"
  "list_devices_for_user i (s\<lparr>login_failures := x\<rparr>) = list_devices_for_user i s"
  "count_devices_toward_limit i (s\<lparr>login_failures := x\<rparr>) = count_devices_toward_limit i s"
  "count_active_devices_for_server i (s\<lparr>login_failures := x\<rparr>) = count_active_devices_for_server i s"
  "get_issue i (s\<lparr>login_failures := x\<rparr>) = get_issue i s"
  "get_support_settings (s\<lparr>login_failures := x\<rparr>) = get_support_settings s"
  "get_setup_job i (s\<lparr>login_failures := x\<rparr>) = get_setup_job i s"
  "next_queued_setup_job (s\<lparr>login_failures := x\<rparr>) = next_queued_setup_job s"
  "list_setup_events i (s\<lparr>login_failures := x\<rparr>) = list_setup_events i s"
  "now (s\<lparr>login_failures := x\<rparr>) = now s"
  "new_uuid (s\<lparr>login_failures := x\<rparr>) = new_uuid s"
  "new_random (s\<lparr>login_failures := x\<rparr>) = new_random s"
  "used_uuids (s\<lparr>login_failures := x\<rparr>) = used_uuids s"
  by (simp_all add: get_user_def get_user_by_login_def has_admin_def get_session_by_token_hash_def get_server_node_def list_server_nodes_def get_device_def list_devices_for_user_def count_devices_toward_limit_def count_active_devices_for_server_def get_issue_def get_support_settings_def get_setup_job_def next_queued_setup_job_def list_setup_events_def now_def new_uuid_def new_random_def used_uuids_def)

lemma ssh_secrets_upd_frame [simp]:
  "get_user i (s\<lparr>ssh_secrets := x\<rparr>) = get_user i s"
  "get_user_by_login l (s\<lparr>ssh_secrets := x\<rparr>) = get_user_by_login l s"
  "has_admin (s\<lparr>ssh_secrets := x\<rparr>) = has_admin s"
  "get_session_by_token_hash h (s\<lparr>ssh_secrets := x\<rparr>) = get_session_by_token_hash h s"
  "get_server_node i (s\<lparr>ssh_secrets := x\<rparr>) = get_server_node i s"
  "list_server_nodes (s\<lparr>ssh_secrets := x\<rparr>) = list_server_nodes s"
  "get_device i (s\<lparr>ssh_secrets := x\<rparr>) = get_device i s"
  "list_devices_for_user i (s\<lparr>ssh_secrets := x\<rparr>) = list_devices_for_user i s"
  "count_devices_toward_limit i (s\<lparr>ssh_secrets := x\<rparr>) = count_devices_toward_limit i s"
  "count_active_devices_for_server i (s\<lparr>ssh_secrets := x\<rparr>) = count_active_devices_for_server i s"
  "get_issue i (s\<lparr>ssh_secrets := x\<rparr>) = get_issue i s"
  "get_support_settings (s\<lparr>ssh_secrets := x\<rparr>) = get_support_settings s"
  "get_setup_job i (s\<lparr>ssh_secrets := x\<rparr>) = get_setup_job i s"
  "next_queued_setup_job (s\<lparr>ssh_secrets := x\<rparr>) = next_queued_setup_job s"
  "list_setup_events i (s\<lparr>ssh_secrets := x\<rparr>) = list_setup_events i s"
  "now (s\<lparr>ssh_secrets := x\<rparr>) = now s"
  "new_uuid (s\<lparr>ssh_secrets := x\<rparr>) = new_uuid s"
  "new_random (s\<lparr>ssh_secrets := x\<rparr>) = new_random s"
  "used_uuids (s\<lparr>ssh_secrets := x\<rparr>) = used_uuids s"
  by (simp_all add: get_user_def get_user_by_login_def has_admin_def get_session_by_token_hash_def get_server_node_def list_server_nodes_def get_device_def list_devices_for_user_def count_devices_toward_limit_def count_active_devices_for_server_def get_issue_def get_support_settings_def get_setup_job_def next_queued_setup_job_def list_setup_events_def now_def new_uuid_def new_random_def used_uuids_def)

lemma agent_st_upd_frame [simp]:
  "get_user i (s\<lparr>agent_st := x\<rparr>) = get_user i s"
  "get_user_by_login l (s\<lparr>agent_st := x\<rparr>) = get_user_by_login l s"
  "has_admin (s\<lparr>agent_st := x\<rparr>) = has_admin s"
  "get_session_by_token_hash h (s\<lparr>agent_st := x\<rparr>) = get_session_by_token_hash h s"
  "get_server_node i (s\<lparr>agent_st := x\<rparr>) = get_server_node i s"
  "list_server_nodes (s\<lparr>agent_st := x\<rparr>) = list_server_nodes s"
  "get_device i (s\<lparr>agent_st := x\<rparr>) = get_device i s"
  "list_devices_for_user i (s\<lparr>agent_st := x\<rparr>) = list_devices_for_user i s"
  "count_devices_toward_limit i (s\<lparr>agent_st := x\<rparr>) = count_devices_toward_limit i s"
  "count_active_devices_for_server i (s\<lparr>agent_st := x\<rparr>) = count_active_devices_for_server i s"
  "get_issue i (s\<lparr>agent_st := x\<rparr>) = get_issue i s"
  "get_support_settings (s\<lparr>agent_st := x\<rparr>) = get_support_settings s"
  "get_setup_job i (s\<lparr>agent_st := x\<rparr>) = get_setup_job i s"
  "next_queued_setup_job (s\<lparr>agent_st := x\<rparr>) = next_queued_setup_job s"
  "list_setup_events i (s\<lparr>agent_st := x\<rparr>) = list_setup_events i s"
  "now (s\<lparr>agent_st := x\<rparr>) = now s"
  "new_uuid (s\<lparr>agent_st := x\<rparr>) = new_uuid s"
  "new_random (s\<lparr>agent_st := x\<rparr>) = new_random s"
  "used_uuids (s\<lparr>agent_st := x\<rparr>) = used_uuids s"
  by (simp_all add: get_user_def get_user_by_login_def has_admin_def get_session_by_token_hash_def get_server_node_def list_server_nodes_def get_device_def list_devices_for_user_def count_devices_toward_limit_def count_active_devices_for_server_def get_issue_def get_support_settings_def get_setup_job_def next_queued_setup_job_def list_setup_events_def now_def new_uuid_def new_random_def used_uuids_def)

section \<open>Counting devices\<close>

lemma count_devices_toward_limit_save:
  "count_devices_toward_limit u (save_device d s)
     + counts1 (\<lambda>d. dev_user_id d = u \<and> counted (dev_status d)) (get_device (dev_id d) s)
   = count_devices_toward_limit u s
     + (if dev_user_id d = u \<and> counted (dev_status d) then 1 else 0)"
  using count_values_dict_set [of "\<lambda>d. dev_user_id d = u \<and> counted (dev_status d)" "dev_id d" d]
  by (simp add: count_devices_toward_limit_def save_device_def get_device_def)

lemma count_devices_toward_limit_new:
  "get_device (dev_id d) s = None \<Longrightarrow>
     count_devices_toward_limit u (save_device d s) = count_devices_toward_limit u s
       + (if dev_user_id d = u \<and> counted (dev_status d) then 1 else 0)"
  using count_devices_toward_limit_save [of u d s] by simp

lemma count_devices_toward_limit_change:
  "get_device (dev_id d) s = Some e \<Longrightarrow> dev_user_id d = dev_user_id e \<Longrightarrow>
     counted (dev_status d) = counted (dev_status e) \<Longrightarrow>
     count_devices_toward_limit u (save_device d s) = count_devices_toward_limit u s"
  using count_devices_toward_limit_save [of u d s] by (simp split: if_splits)

lemma count_devices_toward_limit_drop:
  "get_device (dev_id d) s = Some e \<Longrightarrow> dev_user_id d = dev_user_id e \<Longrightarrow>
     \<not> counted (dev_status d) \<Longrightarrow>
     count_devices_toward_limit u (save_device d s) \<le> count_devices_toward_limit u s"
  using count_devices_toward_limit_save [of u d s] by simp

section \<open>Taking and moving setup jobs\<close>

lemma next_queued_SomeD:
  assumes "next_queued_setup_job s = Some j"
  shows "j \<in> set (dict_values (setup_jobs s))" "job_status j = Queued"
    and "\<And>k. k \<in> set (dict_values (setup_jobs s)) \<Longrightarrow> job_status k = Queued \<Longrightarrow>
           job_created_at j \<le> job_created_at k"
proof -
  let ?q = "filter (\<lambda>j. job_status j = Queued) (dict_values (setup_jobs s))"
  obtain js where js: "py_sorted job_created_at ?q = j # js"
    using assms by (auto simp: next_queued_setup_job_def split: list.splits)
  then have "j \<in> set ?q" by (metis list.set_intros(1) set_py_sorted)
  then show "j \<in> set (dict_values (setup_jobs s))" "job_status j = Queued" by simp_all
  fix k assume "k \<in> set (dict_values (setup_jobs s))" "job_status k = Queued"
  then have "k \<in> set (py_sorted job_created_at ?q)" by simp
  then show "job_created_at j \<le> job_created_at k"
    using js sorted_py_sorted [of job_created_at ?q] by auto
qed

lemma next_queued_None:
  "next_queued_setup_job s = None \<longleftrightarrow>
     (\<forall>j \<in> set (dict_values (setup_jobs s)). job_status j \<noteq> Queued)"
proof -
  let ?q = "filter (\<lambda>j. job_status j = Queued) (dict_values (setup_jobs s))"
  have "next_queued_setup_job s = None \<longleftrightarrow> py_sorted job_created_at ?q = []"
    by (simp add: next_queued_setup_job_def split: list.splits)
  also have "\<dots> \<longleftrightarrow> ?q = []"
    by (metis set_py_sorted set_empty)
  finally show ?thesis by (simp add: filter_empty_conv)
qed

text \<open>
  Every setup job is filed under its own identifier, and under one entry only. The two store
  operations of the jobs keep it.
\<close>

definition jobs_keyed :: "'z storage_scheme \<Rightarrow> bool" where
  "jobs_keyed s \<longleftrightarrow> distinct (map fst (setup_jobs s)) \<and>
     list_all (\<lambda>(i, j). job_id j = i) (setup_jobs s)"

lemma jobs_keyed_get: "jobs_keyed s \<Longrightarrow> get_setup_job i s = Some j \<Longrightarrow> job_id j = i"
  by (auto simp: jobs_keyed_def get_setup_job_def list_all_iff dest: map_of_SomeD)

lemma jobs_keyed_save: "jobs_keyed s \<Longrightarrow> jobs_keyed (save_setup_job j s)"
  by (auto simp: jobs_keyed_def save_setup_job_def list_all_iff dest!: in_dict_set)

lemma next_queued_get: "jobs_keyed s \<Longrightarrow> next_queued_setup_job s = Some j \<Longrightarrow>
   get_setup_job (job_id j) s = Some j \<and> job_status j = Queued"
  using next_queued_SomeD [of s j]
  by (fastforce simp: jobs_keyed_def get_setup_job_def list_all_iff)

lemma transition_Some:
  assumes "transition_setup_job i expected vals s = (Some j, t)"
  obtains j0 where "get_setup_job i s = Some j0" "job_status j0 \<in> set expected" "j = vals j0"
    "t = save_setup_job j s"
  using assms
  by (auto simp: transition_setup_job_def get_setup_job_def split: option.splits if_splits)

lemma transition_None:
  assumes "transition_setup_job i expected vals s = (None, t)"
  shows "t = s" "\<And>j. get_setup_job i s = Some j \<Longrightarrow> job_status j \<notin> set expected"
  using assms
  by (auto simp: transition_setup_job_def get_setup_job_def split: option.splits if_splits)

end
