(* ===== verification/AuditLog.thy ===== *)
theory AuditLog
  imports Frames "HOL-Library.Sublist"
begin

text \<open>
  \<open>app/services/audit_service.py\<close>: the audit log and the redaction of its metadata. Any value
  under a key that contains a sensitive word is replaced before the entry is stored, at every depth
  of the metadata.
\<close>

definition sensitive_keys :: "string list" where
  "sensitive_keys =
     [''secret'', ''password'', ''ssh_key'', ''private_key'', ''config'', ''vpn_url'']"

definition sensitive :: "string option \<Rightarrow> bool" where
  "sensitive k \<longleftrightarrow>
     (case k of None \<Rightarrow> False
      | Some f \<Rightarrow> f \<noteq> [] \<and> list_ex (\<lambda>t. py_contains t (py_lower f)) sensitive_keys)"

definition redacted :: json where
  "redacted = JStr ''[redacted]''"

fun redact :: "string option \<Rightarrow> json \<Rightarrow> json" where
  "redact k (JObj kvs) =
     (if sensitive k then redacted else JObj (map (\<lambda>(f, v). (f, redact (Some f) v)) kvs))"
| "redact k (JList xs) = (if sensitive k then redacted else JList (map (redact None) xs))"
| "redact k v = (if sensitive k then redacted else v)"

text \<open>
  The keyword arguments of \<open>AuditService.log\<close>.
\<close>

record audit_args =
  arg_actor :: "ident option"
  arg_target_type :: "string option"
  arg_target_id :: "string option"
  arg_metadata :: jdict
  arg_ip :: "string option"
  arg_user_agent :: "string option"

definition no_args :: audit_args where
  "no_args = \<lparr>arg_actor = None, arg_target_type = None, arg_target_id = None, arg_metadata = [],
     arg_ip = None, arg_user_agent = None\<rparr>"

definition audit :: "string \<Rightarrow> audit_args \<Rightarrow> 'z storage_scheme \<Rightarrow> 'z storage_scheme" where
  "audit action a s =
     add_audit_entry
       \<lparr>aud_id = new_uuid s, aud_action = action, aud_created_at = now s,
        aud_actor_user_id = arg_actor a, aud_target_type = arg_target_type a,
        aud_target_id = arg_target_id a, aud_metadata = redact None (JObj (arg_metadata a)),
        aud_ip_address = arg_ip a, aud_user_agent = arg_user_agent a\<rparr>
       (tick (use_uuid s))"

definition audit_list :: "nat \<Rightarrow> 'z storage_scheme \<Rightarrow> audit_entry list" where
  "audit_list limit s = list_audit_entries limit s"

section \<open>Redaction\<close>

text \<open>
  What a clean payload is, said without the code: a key names a secret when some part of it reads as one
  of six words, in capital or small letters; under such a key, at any depth, there is only the
  placeholder.
\<close>

definition capital :: "char \<Rightarrow> bool" where
  "capital c \<longleftrightarrow> of_char c \<in> {65 .. 90 :: nat}"

definition same_letter :: "char \<Rightarrow> char \<Rightarrow> bool" where
  "same_letter c w \<longleftrightarrow> c = w \<or> capital c \<and> of_char w = (of_char c + 32 :: nat)"

definition names_secret :: "string \<Rightarrow> bool" where
  "names_secret f \<longleftrightarrow>
     (\<exists>w \<in> {''secret'', ''password'', ''ssh_key'', ''private_key'', ''config'', ''vpn_url''}.
        \<exists>part. sublist part f \<and> list_all2 same_letter part w)"

fun clean :: "json \<Rightarrow> bool" where
  "clean (JObj kvs) \<longleftrightarrow>
     (\<forall>p \<in> set kvs. (names_secret (fst p) \<longrightarrow> snd p = JStr ''[redacted]'') \<and> clean (snd p))"
| "clean (JList xs) \<longleftrightarrow> (\<forall>x \<in> set xs. clean x)"
| "clean v \<longleftrightarrow> True"

lemma starts_with_prefix: "starts_with p s = prefix p s"
  by (induction p s rule: starts_with.induct) auto

lemma py_contains_sublist: "py_contains p s = sublist p s"
  by (induction s) (auto simp: starts_with_prefix sublist_Cons_right)

lemma lower_letter: "\<not> capital w \<Longrightarrow> py_lower_char c = w \<longleftrightarrow> same_letter c w"
proof (cases "capital c")
  case True
  then have "(of_char (py_lower_char c) :: nat) = of_char c + 32"
    by (simp add: capital_def py_lower_char_def)
  moreover assume "\<not> capital w"
  ultimately show ?thesis using True by (metis char_of_char same_letter_def)
qed (auto simp: capital_def py_lower_char_def same_letter_def Let_def)

lemma lower_reads: "list_all (\<lambda>w. \<not> capital w) ws \<Longrightarrow> map py_lower_char part = ws \<longleftrightarrow> list_all2 same_letter part ws"
proof (induction ws arbitrary: part)
  case (Cons w ws)
  then show ?case by (cases part) (auto simp: lower_letter)
qed simp

lemma sublist_lower:
  "sublist ws (py_lower f) \<longleftrightarrow> (\<exists>part. sublist part f \<and> map py_lower_char part = ws)"
proof
  assume "sublist ws (py_lower f)"
  then obtain a b where "map py_lower_char f = a @ ws @ b" by (auto simp: sublist_def py_lower_def)
  then obtain x y where "f = x @ y" "ws @ b = map py_lower_char y" unfolding map_eq_append_conv [of _ f] by blast
  moreover from this obtain z t where "y = z @ t" "map py_lower_char z = ws"
    by (metis map_eq_append_conv)
  ultimately have "f = x @ z @ t" "map py_lower_char z = ws" by simp_all
  then show "\<exists>part. sublist part f \<and> map py_lower_char part = ws" by (auto simp: sublist_def)
next
  assume "\<exists>part. sublist part f \<and> map py_lower_char part = ws"
  then obtain a b c where "f = a @ b @ c" "map py_lower_char b = ws" by (auto simp: sublist_def)
  then have "py_lower f = map py_lower_char a @ ws @ map py_lower_char c" by (auto simp: py_lower_def)
  then show "sublist ws (py_lower f)" unfolding sublist_def by blast
qed

lemma sensitive_names: "sensitive (Some f) = names_secret f"
proof -
  have "list_all (\<lambda>t. t \<noteq> [] \<and> list_all (\<lambda>w. \<not> capital w) t) sensitive_keys"
    by code_simp
  then have "py_contains t (py_lower f) \<longleftrightarrow> (\<exists>part. sublist part f \<and> list_all2 same_letter part t)"
      and "t \<noteq> []" if "t \<in> set sensitive_keys" for t
    using that lower_reads [of t] by (auto simp: list_all_iff py_contains_sublist sublist_lower)
  then have "sensitive (Some f) \<longleftrightarrow>
      (\<exists>t \<in> set sensitive_keys. \<exists>part. sublist part f \<and> list_all2 same_letter part t)"
    by (auto simp: sensitive_def list_ex_iff)
  then show ?thesis by (simp add: names_secret_def sensitive_keys_def)
qed

lemma redact_sensitive: "sensitive k \<Longrightarrow> redact k v = redacted"
  by (cases v) auto

lemma clean_redacted [simp]: "clean redacted"
  by (simp add: redacted_def)

lemma clean_JObj:
  "clean (JObj kvs) \<longleftrightarrow> (\<forall>p \<in> set kvs. (sensitive (Some (fst p)) \<longrightarrow> snd p = redacted) \<and> clean (snd p))"
  by (simp add: sensitive_names redacted_def)

declare clean.simps(1) [simp del] clean_JObj [simp]

lemma clean_redact: "clean (redact k v)"
  by (induction k v rule: redact.induct) (auto simp: redact_sensitive)

lemma redact_clean: "clean v \<Longrightarrow> \<not> sensitive k \<Longrightarrow> redact k v = v"
proof (induction k v rule: redact.induct)
  case (1 k kvs)
  have "(\<lambda>(f, v). (f, redact (Some f) v)) p = p" if p: "p \<in> set kvs" for p
    using 1 p by (cases p, cases "sensitive (Some (fst p))")
      (force simp: redact_sensitive)+
  then have "map (\<lambda>(f, v). (f, redact (Some f) v)) kvs = kvs"
    by (simp add: map_idI)
  with 1 show ?case by simp
next
  case (2 k xs)
  then show ?case by (auto intro!: map_idI simp: sensitive_def)
qed auto

lemma redact_idem: "redact None (redact None v) = redact None v"
  by (rule redact_clean) (simp_all add: clean_redact sensitive_def)

section \<open>Entries\<close>

lemma audit_frame [simp]:
  "clock_at (audit a x s) = clock_at s" "uuid_at (audit a x s) = uuid_at s"
  "random_at (audit a x s) = random_at s" "random_n (audit a x s) = random_n s"
  "clock_n (audit a x s) = Suc (clock_n s)" "uuid_n (audit a x s) = Suc (uuid_n s)"
  "users (audit a x s) = users s" "sessions (audit a x s) = sessions s"
  "server_nodes (audit a x s) = server_nodes s" "devices (audit a x s) = devices s"
  "issues (audit a x s) = issues s" "contributions (audit a x s) = contributions s"
  "support_settings_of (audit a x s) = support_settings_of s"
  "setup_jobs (audit a x s) = setup_jobs s" "setup_events (audit a x s) = setup_events s"
  "login_failures (audit a x s) = login_failures s"
  by (simp_all add: audit_def tick_def use_uuid_def add_audit_entry_def)

lemma audit_app [simp]:
  "ssh_secrets (audit a x s) = ssh_secrets s" "agent_st (audit a x s) = agent_st s"
  by (simp_all add: audit_def)

lemma audit_queries [simp]:
  "get_user i (audit a x s) = get_user i s"
  "get_user_by_login l (audit a x s) = get_user_by_login l s"
  "has_admin (audit a x s) = has_admin s"
  "get_session_by_token_hash h (audit a x s) = get_session_by_token_hash h s"
  "get_server_node i (audit a x s) = get_server_node i s"
  "list_server_nodes (audit a x s) = list_server_nodes s"
  "get_device i (audit a x s) = get_device i s"
  "list_devices_for_user i (audit a x s) = list_devices_for_user i s"
  "count_devices_toward_limit i (audit a x s) = count_devices_toward_limit i s"
  "count_active_devices_for_server i (audit a x s) = count_active_devices_for_server i s"
  "get_issue i (audit a x s) = get_issue i s"
  "get_support_settings (audit a x s) = get_support_settings s"
  "get_setup_job i (audit a x s) = get_setup_job i s"
  "next_queued_setup_job (audit a x s) = next_queued_setup_job s"
  "list_setup_events i (audit a x s) = list_setup_events i s"
  by (simp_all add: audit_def)

lemma audit_log_audit [simp]:
  "audit_log (audit action a s) = audit_log s @
     [\<lparr>aud_id = new_uuid s, aud_action = action, aud_created_at = now s,
       aud_actor_user_id = arg_actor a, aud_target_type = arg_target_type a,
       aud_target_id = arg_target_id a, aud_metadata = redact None (JObj (arg_metadata a)),
       aud_ip_address = arg_ip a, aud_user_agent = arg_user_agent a\<rparr>]"
  by (simp add: audit_def add_audit_entry_def)

lemma used_uuids_audit [simp]: "used_uuids (audit a x s) = insert (new_uuid s) (used_uuids s)"
  by (simp add: used_uuids_def new_uuid_def lessThan_Suc)

text \<open>Every entry of the log carries clean metadata: the invariant all services keep.\<close>

definition audit_clean :: "'z storage_scheme \<Rightarrow> bool" where
  "audit_clean s \<longleftrightarrow> (\<forall>e \<in> set (audit_log s). clean (aud_metadata e))"

lemma audit_clean_audit [simp]: "audit_clean (audit a x s) = audit_clean s"
  by (auto simp: audit_clean_def clean_redact simp del: redact.simps)

text \<open>
  C34: REDACTION. Whatever metadata an operation passes, logging adds one entry, with what the operation
  gave, the time and an identifier of its own, and changes nothing else of the storage but the readings
  used. Its metadata holds the placeholder under every key that names a secret (in any part of the key,
  in capital or small letters), at every depth; metadata that is already clean is logged unchanged, and a
  log of clean entries stays one.
\<close>

theorem audit_redacts:
  "(\<exists>m. audit action a s = (tick (use_uuid s))\<lparr>audit_log := audit_log s @
        [\<lparr>aud_id = new_uuid s, aud_action = action, aud_created_at = now s, aud_actor_user_id = arg_actor a,
          aud_target_type = arg_target_type a, aud_target_id = arg_target_id a, aud_metadata = m,
          aud_ip_address = arg_ip a, aud_user_agent = arg_user_agent a\<rparr>]\<rparr> \<and>
      clean m \<and> (clean (JObj (arg_metadata a)) \<longrightarrow> m = JObj (arg_metadata a))) \<and>
   audit_clean (audit action a s) = audit_clean s"
proof -
  let ?m = "redact None (JObj (arg_metadata a))"
  have "clean ?m" by (rule clean_redact)
  moreover have "clean (JObj (arg_metadata a)) \<longrightarrow> ?m = JObj (arg_metadata a)"
    using redact_clean [of "JObj (arg_metadata a)" None] by (simp add: sensitive_def del: redact.simps clean_JObj)
  moreover have "audit action a s = (tick (use_uuid s))\<lparr>audit_log := audit_log s @
        [\<lparr>aud_id = new_uuid s, aud_action = action, aud_created_at = now s, aud_actor_user_id = arg_actor a,
          aud_target_type = arg_target_type a, aud_target_id = arg_target_id a, aud_metadata = ?m,
          aud_ip_address = arg_ip a, aud_user_agent = arg_user_agent a\<rparr>]\<rparr>"
    unfolding audit_def add_audit_entry_def by (simp del: redact.simps)
  ultimately show ?thesis using audit_clean_audit by blast
qed

definition leaky_args :: audit_args where
  "leaky_args = no_args\<lparr>arg_metadata := [(''nested'', JList [JObj [(''Agent_Secret'', JStr ''x'')]])]\<rparr>"

theorem audit_redacts_witness:
  "audit_clean (audit ''a'' leaky_args (empty_storage (\<lambda>n. 0) (\<lambda>n. []) (\<lambda>n. [])))"
proof -
  have "audit_clean (empty_storage (\<lambda>n. 0) (\<lambda>n. []) (\<lambda>n. []))"
    by (simp add: audit_clean_def empty_storage_def)
  then show ?thesis using audit_redacts by blast
qed

end
