(* ===== verification/Codec.thy ===== *)
theory Codec
  imports Prelude
begin

text \<open>
  The two text encodings the backend uses from the Python standard library: base64 (password
  hashes, the local secret box, WireGuard keys) and percent-encoding of a path segment (the
  DELETE path of the agent client). Both are on bytes; the main facts are the round trips.
\<close>

section \<open>Base64\<close>

definition b64_char :: "nat \<Rightarrow> char" where
  "b64_char n =
     (if n < 26 then char_of (65 + n) else if n < 52 then char_of (71 + n)
      else if n < 62 then char_of (n - 4) else if n = 62 then CHR ''+'' else CHR ''/'')"

definition b64_val :: "char \<Rightarrow> nat option" where
  "b64_val c =
     (let n = of_char c :: nat in
      if 65 \<le> n \<and> n \<le> 90 then Some (n - 65) else if 97 \<le> n \<and> n \<le> 122 then Some (n - 71)
      else if 48 \<le> n \<and> n \<le> 57 then Some (n + 4) else if n = 43 then Some 62
      else if n = 47 then Some 63 else None)"

definition pad :: char where
  "pad = CHR ''=''"

text \<open>\<open>base64.b64encode\<close>: three bytes become four characters, the rest is padded.\<close>

fun b64encode :: "string \<Rightarrow> string" where
  "b64encode [] = []"
| "b64encode [a] =
     [b64_char (of_char a div 4), b64_char (of_char a mod 4 * 16), pad, pad]"
| "b64encode [a, b] =
     [b64_char (of_char a div 4), b64_char (of_char a mod 4 * 16 + of_char b div 16),
      b64_char (of_char b mod 16 * 4), pad]"
| "b64encode (a # b # c # r) =
     b64_char (of_char a div 4) # b64_char (of_char a mod 4 * 16 + of_char b div 16)
     # b64_char (of_char b mod 16 * 4 + of_char c div 64) # b64_char (of_char c mod 64)
     # b64encode r"

text \<open>
  \<open>binascii.a2b_base64\<close> as \<open>base64.b64decode\<close> calls it (not strict): characters outside the
  alphabet are skipped, a complete padding ends the input, an incomplete group is an error. The
  arguments are the position in the group of four, the bits left over, and the pads seen.
\<close>

fun a2b :: "nat \<Rightarrow> nat \<Rightarrow> nat \<Rightarrow> string \<Rightarrow> string option" where
  "a2b q l p [] = (if q = 0 then Some [] else None)"
| "a2b q l p (c # cs) =
     (if c = pad then
        (if 2 \<le> q then (if 4 \<le> q + Suc p then Some [] else a2b q l (Suc p) cs)
         else a2b q l p cs)
      else
        (case b64_val c of
           None \<Rightarrow> a2b q l p cs
         | Some v \<Rightarrow>
             if q = 0 then a2b 1 v 0 cs
             else if q = 1 then
               map_option (Cons (char_of (l * 4 + v div 16))) (a2b 2 (v mod 16) 0 cs)
             else if q = 2 then
               map_option (Cons (char_of (l * 16 + v div 4))) (a2b 3 (v mod 4) 0 cs)
             else map_option (Cons (char_of (l * 64 + v))) (a2b 0 0 0 cs)))"

definition ascii :: "string \<Rightarrow> bool" where
  "ascii s \<longleftrightarrow> list_all (\<lambda>c. (of_char c :: nat) < 128) s"

definition b64decode :: "string \<Rightarrow> string option" where
  "b64decode s = (if ascii s then a2b 0 0 0 s else None)"

text \<open>A character is compared through its code.\<close>

lemma char_eq_code: "c = d \<longleftrightarrow> (of_char c :: nat) = of_char d"
  by simp

lemma of_b64_char: "n < 64 \<Longrightarrow> (of_char (b64_char n) :: nat) =
    (if n < 26 then 65 + n else if n < 52 then 71 + n else if n < 62 then n - 4
     else if n = 62 then 43 else 47)"
  by (auto simp: b64_char_def)

lemma b64_val_char [simp]: "n < 64 \<Longrightarrow> b64_val (b64_char n) = Some n"
  by (auto simp: b64_val_def of_b64_char Let_def)

lemma b64_char_plain [simp]:
  assumes "n < 64"
  shows "b64_char n \<noteq> pad" "pad \<noteq> b64_char n" "b64_char n \<noteq> CHR ''$''"
    "CHR ''$'' \<noteq> b64_char n" "(of_char (b64_char n) :: nat) < 128"
  using assms of_b64_char [OF assms] unfolding pad_def char_eq_code by (auto split: if_splits)

lemma byte_bounds:
  fixes a :: char
  shows "of_char a div 4 < (64::nat)" "of_char a div 16 < (16::nat)" "of_char a div 64 < (4::nat)"
    "of_char a mod 4 < (4::nat)" "of_char a mod 16 < (16::nat)" "of_char a mod 64 < (64::nat)"
  using nat_of_char_less_256 [of a] by (simp_all add: less_mult_imp_div_less)

lemma sextet_bounds [simp]:
  fixes a b :: char
  shows "of_char a div 4 < (64::nat)" "of_char a mod 4 * 16 < (64::nat)"
    "of_char a mod 4 * 16 + of_char b div 16 < (64::nat)"
    "of_char a mod 16 * 4 < (64::nat)" "of_char a mod 16 * 4 + of_char b div 64 < (64::nat)"
    "of_char a mod 64 < (64::nat)"
  using byte_bounds [of a] byte_bounds [of b] by linarith+

lemma regroup [simp]:
  fixes x y :: nat
  shows "y < 16 \<Longrightarrow> x div 4 * 4 + (x mod 4 * 16 + y) div 16 = x"
    "x div 4 * 4 + x mod 4 * 16 div 16 = x"
    "y < 16 \<Longrightarrow> (x mod 4 * 16 + y) mod 16 = y"
    "y < 4 \<Longrightarrow> x div 16 * 16 + (x mod 16 * 4 + y) div 4 = x"
    "x div 16 * 16 + x mod 16 * 4 div 4 = x"
    "y < 4 \<Longrightarrow> (x mod 16 * 4 + y) mod 4 = y"
    "x div 64 * 64 + x mod 64 = x"
  by simp_all

theorem b64_roundtrip: "a2b 0 0 0 (b64encode s) = Some s"
  by (induction s rule: b64encode.induct)
    (simp_all add: byte_bounds del: div_mult_self1 div_mult_self2 div_mult_self3 div_mult_self4
      div_add1_eq)

lemma b64encode_chars:
  "c \<in> set (b64encode s) \<Longrightarrow> c \<noteq> CHR ''$'' \<and> (of_char c :: nat) < 128"
  by (induction s rule: b64encode.induct) (auto simp: pad_def)

lemma b64decode_encode [simp]: "b64decode (b64encode s) = Some s"
  using b64encode_chars [of _ s] by (simp add: b64decode_def ascii_def list_all_iff b64_roundtrip)

lemma b64encode_no_dollar [simp]: "CHR ''$'' \<notin> set (b64encode s)"
  using b64encode_chars by blast

text \<open>\<open>base64.urlsafe_b64encode\<close>.\<close>

definition urlsafe_char :: "char \<Rightarrow> char" where
  "urlsafe_char c = (if c = CHR ''+'' then CHR ''-'' else if c = CHR ''/'' then CHR ''_'' else c)"

definition urlsafe_b64encode :: "string \<Rightarrow> string" where
  "urlsafe_b64encode s = map urlsafe_char (b64encode s)"

section \<open>Percent-encoding\<close>

text \<open>The characters \<open>urllib.parse.quote\<close> never encodes.\<close>

definition always_safe :: "char \<Rightarrow> bool" where
  "always_safe c \<longleftrightarrow>
     (let n = of_char c :: nat in
      (65 \<le> n \<and> n \<le> 90) \<or> (97 \<le> n \<and> n \<le> 122) \<or> (48 \<le> n \<and> n \<le> 57)
      \<or> c = CHR ''_'' \<or> c = CHR ''.'' \<or> c = CHR ''-'' \<or> c = CHR ''~'')"

definition hex_char :: "nat \<Rightarrow> char" where
  "hex_char n = (if n < 10 then char_of (48 + n) else char_of (55 + n))"

definition hex_val :: "char \<Rightarrow> nat option" where
  "hex_val c =
     (let n = of_char c :: nat in
      if 48 \<le> n \<and> n \<le> 57 then Some (n - 48) else if 65 \<le> n \<and> n \<le> 70 then Some (n - 55)
      else if 97 \<le> n \<and> n \<le> 102 then Some (n - 87) else None)"

definition quote_char :: "char \<Rightarrow> string" where
  "quote_char c =
     (if always_safe c then [c]
      else [CHR ''%'', hex_char (of_char c div 16), hex_char (of_char c mod 16)])"

text \<open>\<open>quote(s, safe="")\<close> and \<open>unquote(s)\<close>.\<close>

definition quote :: "string \<Rightarrow> string" where
  "quote s = concat (map quote_char s)"

fun unquote :: "string \<Rightarrow> string" where
  "unquote [] = []"
| "unquote (c # cs) =
     (case cs of
        a # b # r \<Rightarrow>
          (if c = CHR ''%'' then
             (case (hex_val a, hex_val b) of
                (Some h, Some l) \<Rightarrow> char_of (16 * h + l) # unquote r
              | _ \<Rightarrow> c # unquote cs)
           else c # unquote cs)
      | _ \<Rightarrow> c # unquote cs)"

lemma of_hex_char: "n < 16 \<Longrightarrow> (of_char (hex_char n) :: nat) = (if n < 10 then 48 + n else 55 + n)"
  by (simp add: hex_char_def)

lemma hex_val_char [simp]: "n < 16 \<Longrightarrow> hex_val (hex_char n) = Some n"
  by (auto simp: hex_val_def of_hex_char Let_def)

lemma hex_char_safe [simp]: "n < 16 \<Longrightarrow> always_safe (hex_char n)"
  by (auto simp: always_safe_def of_hex_char Let_def)

lemma not_safe: "\<not> always_safe (CHR ''%'')" "\<not> always_safe (CHR ''/'')"
  by (simp_all add: always_safe_def)

lemma unquote_safe: "c \<noteq> CHR ''%'' \<Longrightarrow> unquote (c # cs) = c # unquote cs"
  by (cases cs rule: unquote.cases) (auto split: list.splits)

lemma unquote_quote_char: "unquote (quote_char c @ s) = c # unquote s"
proof (cases "always_safe c")
  case True
  with not_safe have "c \<noteq> CHR ''%''" by metis
  with True show ?thesis by (simp add: quote_char_def unquote_safe del: unquote.simps)
next
  case False
  then show ?thesis
    using byte_bounds [of c] by (simp add: quote_char_def)
qed

theorem unquote_quote [simp]: "unquote (quote s) = s"
proof (induction s)
  case Nil
  then show ?case by (simp add: quote_def)
next
  case (Cons c s)
  have "unquote (quote (c # s)) = unquote (quote_char c @ quote s)" by (simp add: quote_def)
  also have "\<dots> = c # s" by (simp add: unquote_quote_char Cons.IH)
  finally show ?case .
qed

lemma quote_no_newline: "CHR 0x0A \<notin> set (quote s)"
proof -
  have "\<not> always_safe (CHR 0x0A)" by (simp add: always_safe_def)
  then have "CHR 0x0A \<notin> set (quote_char c)" for c
    using byte_bounds [of c] hex_char_safe by (auto simp: quote_char_def)
  then show ?thesis by (auto simp: quote_def)
qed

text \<open>A quoted text is one path segment: no slash survives.\<close>

lemma quote_no_slash: "CHR ''/'' \<notin> set (quote s)"
proof -
  have "CHR ''/'' \<notin> set (quote_char c)" for c
    using byte_bounds [of c] hex_char_safe not_safe by (auto simp: quote_char_def)
  then show ?thesis by (auto simp: quote_def)
qed

end
