(* ===== verification/Security.thy ===== *)
theory Security
  imports Codec Storage
begin

text \<open>
  \<open>app/core/security.py\<close>: password hashes, session tokens and the boxes that encrypt secrets at
  rest. The digests (\<open>hashlib\<close>, \<open>hmac\<close>) are parameters, gathered in the record \<open>crypto\<close>; random
  bytes and tokens are the draws \<open>new_random\<close> of the world. Fernet is a parameter too.
\<close>

record crypto =
  pbkdf2 :: "string \<Rightarrow> string \<Rightarrow> int \<Rightarrow> string"
  sha256_hex :: "string \<Rightarrow> string"
  hmac_sha256_hex :: "string \<Rightarrow> string \<Rightarrow> string"
  rfc3339 :: "time \<Rightarrow> string"

section \<open>Passwords\<close>

definition pbkdf2_iterations :: nat where
  "pbkdf2_iterations = 120000"

definition hash_password :: "crypto \<Rightarrow> string \<Rightarrow> 'z world_scheme \<Rightarrow> string \<times> 'z world_scheme" where
  "hash_password cr pw s =
     (let salt = new_random s;
          digest = pbkdf2 cr pw salt (int pbkdf2_iterations)
      in (''pbkdf2_sha256$'' @ show_nat pbkdf2_iterations @ ''$'' @ b64encode salt @ ''$''
            @ b64encode digest, use_random s))"

text \<open>
  \<open>verify\<close>: any part that does not parse makes it \<open>False\<close>; \<open>pbkdf2_hmac\<close> itself refuses less than
  one iteration.
\<close>

definition verify_password :: "crypto \<Rightarrow> string \<Rightarrow> string \<Rightarrow> bool" where
  "verify_password cr pw stored =
     (case py_split (CHR ''$'') stored of
        [scheme, iterations_raw, salt_b64, digest_b64] \<Rightarrow>
          if scheme \<noteq> ''pbkdf2_sha256'' then False
          else
            (case (b64decode salt_b64, b64decode digest_b64, py_int iterations_raw) of
               (Some salt, Some expected, Some n) \<Rightarrow>
                 1 \<le> n \<and> pbkdf2 cr pw salt n = expected
             | _ \<Rightarrow> False)
      | _ \<Rightarrow> False)"

lemma show_nat_no_dollar: "CHR ''$'' \<notin> set (show_nat n)"
  using show_nat_digits [of n] by (auto simp: list_all_iff dest: digit_not_special)

lemma split_hash:
  "py_split (CHR ''$'') (''pbkdf2_sha256$'' @ show_nat n @ ''$'' @ b64encode a @ ''$'' @ b64encode b)
   = [''pbkdf2_sha256'', show_nat n, b64encode a, b64encode b]"
  using py_split_append [of "CHR ''$''" "''pbkdf2_sha256''"]
  by (simp add: py_split_append show_nat_no_dollar py_split_none)

lemma verify_hash:
  "verify_password cr pw (fst (hash_password cr pw' s)) \<longleftrightarrow>
     pbkdf2 cr pw (new_random s) (int pbkdf2_iterations)
       = pbkdf2 cr pw' (new_random s) (int pbkdf2_iterations)"
  unfolding verify_password_def hash_password_def Let_def fst_conv split_hash
  by (simp add: pbkdf2_iterations_def)

lemma snd_hash_password [simp]: "snd (hash_password cr pw s) = use_random s"
  by (simp add: hash_password_def Let_def)

section \<open>Tokens\<close>

text \<open>\<open>token.encode("ascii")\<close> raises for a token with other characters.\<close>

definition hash_session_token :: "crypto \<Rightarrow> string \<Rightarrow> string res" where
  "hash_session_token cr token =
     (if ascii token then Inr (sha256_hex cr token) else Inl (Py UnicodeEncodeError))"

definition generate_session_token :: "'z world_scheme \<Rightarrow> string \<times> 'z world_scheme" where
  "generate_session_token s = (new_random s, use_random s)"

definition generate_agent_key_id :: "'z world_scheme \<Rightarrow> string \<times> 'z world_scheme" where
  "generate_agent_key_id s = (''backend-'' @ new_random s, use_random s)"

definition generate_agent_secret :: "'z world_scheme \<Rightarrow> string \<times> 'z world_scheme" where
  "generate_agent_secret s = (new_random s, use_random s)"

definition generate_password :: "'z world_scheme \<Rightarrow> string \<times> 'z world_scheme" where
  "generate_password s = (new_random s, use_random s)"

section \<open>Secrets at rest\<close>

record secret_box =
  encrypt :: "string \<Rightarrow> string"
  decrypt :: "string \<Rightarrow> string res"

definition plain_prefix :: string where
  "plain_prefix = ''plain$''"

definition plaintext_box :: secret_box where
  "plaintext_box =
     \<lparr>encrypt = (\<lambda>v. plain_prefix @ b64encode v),
      decrypt = (\<lambda>v. if \<not> starts_with plain_prefix v then Inl (Py ValueError)
                     else (case b64decode (drop (length plain_prefix) v) of
                             None \<Rightarrow> Inl (Py ValueError)
                           | Some t \<Rightarrow> Inr t))\<rparr>"

definition fernet_prefix :: string where
  "fernet_prefix = ''fernet$''"

text \<open>\<open>FernetSecretBox\<close> over the two operations of its \<open>Fernet\<close> object.\<close>

definition fernet_box :: "(string \<Rightarrow> string) \<Rightarrow> (string \<Rightarrow> string option) \<Rightarrow> secret_box" where
  "fernet_box enc dec =
     \<lparr>encrypt = (\<lambda>v. fernet_prefix @ enc v),
      decrypt = (\<lambda>v. if \<not> starts_with fernet_prefix v then Inl (Py ValueError)
                     else (case dec (drop (length fernet_prefix) v) of
                             None \<Rightarrow> Inl (Py ValueError)
                           | Some t \<Rightarrow> Inr t))\<rparr>"

text \<open>
  What the services rely on: decryption undoes encryption, and a stored secret is never the empty
  text (they test \<open>if not issue.config_encrypted\<close>).
\<close>

locale box =
  fixes sb :: secret_box
  assumes decrypt_encrypt: "decrypt sb (encrypt sb v) = Inr v"
    and encrypt_nonempty: "encrypt sb v \<noteq> []"
begin

lemma encrypt_inj: "encrypt sb v = encrypt sb w \<Longrightarrow> v = w"
  by (metis decrypt_encrypt sum.inject(2))

lemma encrypt_bool [simp]: "py_bool_str (Some (encrypt sb v))"
  by (simp add: encrypt_nonempty)

end

interpretation plain: box plaintext_box
  by unfold_locales (simp_all add: plaintext_box_def plain_prefix_def)

lemma fernet_box_box:
  assumes "\<And>v. dec (enc v) = Some v"
  shows "box (fernet_box enc dec)"
  by unfold_locales (simp_all add: fernet_box_def fernet_prefix_def assms)

text \<open>A secret written by one box is refused by the other, whatever the key.\<close>

lemma box_formats_differ:
  "decrypt plaintext_box (encrypt (fernet_box enc dec) v) = Inl (Py ValueError)"
  "decrypt (fernet_box enc dec) (encrypt plaintext_box v) = Inl (Py ValueError)"
  by (simp_all add: plaintext_box_def fernet_box_def plain_prefix_def fernet_prefix_def)

section \<open>What is stored\<close>

text \<open>
  A stored hash accepts exactly the passwords whose PBKDF2 digest under its salt is the
  one that was stored, among them the password it was made from, whatever bytes salt and digest
  consist of.
\<close>

theorem stored_password_verifies:
  "verify_password cr pw (fst (hash_password cr pw' s)) =
     (pbkdf2 cr pw (new_random s) 120000 = pbkdf2 cr pw' (new_random s) 120000) \<and>
   verify_password cr pw (fst (hash_password cr pw s))"
  using verify_hash [of cr pw pw' s] verify_hash [of cr pw pw s] by (simp add: pbkdf2_iterations_def)

text \<open>
  Either box gives back what it stored, never stores the empty text, keeps different
  secrets apart and refuses what the other one wrote; a Fernet operation is only relied on to undo
  its own encryption.
\<close>

theorem secret_boxes:
  assumes "\<And>v. dec (enc v) = Some v"
  shows "bx \<in> {plaintext_box, fernet_box enc dec} \<Longrightarrow>
      decrypt bx (encrypt bx v) = Inr v \<and> encrypt bx v \<noteq> [] \<and>
      (encrypt bx v = encrypt bx w \<longrightarrow> v = w) \<and>
      (\<forall>other \<in> {plaintext_box, fernet_box enc dec} - {bx}.
         decrypt other (encrypt bx v) = Inl (Py ValueError))"
proof -
  have f: "box (fernet_box enc dec)" using assms by (rule fernet_box_box)
  show ?thesis if "bx \<in> {plaintext_box, fernet_box enc dec}"
  proof (cases "bx = plaintext_box")
    case True
    have "encrypt bx v = encrypt bx w \<longrightarrow> v = w"
      unfolding True by (intro impI) (rule plain.encrypt_inj)
    then show ?thesis
      using box_formats_differ(2) [of enc dec v] by (simp add: True plain.decrypt_encrypt plain.encrypt_nonempty)
  next
    case False
    then have bx: "bx = fernet_box enc dec" using that by simp
    have "encrypt bx v = encrypt bx w \<longrightarrow> v = w"
      unfolding bx by (intro impI) (rule box.encrypt_inj [OF f])
    then show ?thesis
      using box_formats_differ(1) [of enc dec v]
      by (auto simp: bx box.decrypt_encrypt [OF f] box.encrypt_nonempty [OF f])
  qed
qed

theorem secret_boxes_witness:
  "decrypt plaintext_box (encrypt plaintext_box ''s3'') = Inr ''s3''"
  using secret_boxes [of Some "\<lambda>v. v" plaintext_box "''s3''" "''s3''"] by simp

end
