(* ===== verification/Url.thy ===== *)
theory Url
  imports Codec
begin

text \<open>
  The part of \<open>urllib.parse\<close> that \<open>_with_sslmode\<close> of \<open>app/core/config.py\<close> uses, and that function: a
  URL is taken apart, its query read into a dictionary, completed and put together again. Texts are
  UTF-8 bytes. The checks of a network location that need more than the text (an address in brackets,
  compatibility characters) are the parameter \<open>ok\<close>.
\<close>

section \<open>Taking a URL apart\<close>

record url_parts =
  url_scheme :: string
  url_netloc :: string
  url_path :: string
  url_query :: string
  url_fragment :: string

definition before_char :: "char \<Rightarrow> string \<Rightarrow> string" where
  "before_char c s = takeWhile (\<lambda>d. d \<noteq> c) s"

definition after_char :: "char \<Rightarrow> string \<Rightarrow> string" where
  "after_char c s = drop 1 (dropWhile (\<lambda>d. d \<noteq> c) s)"

definition is_alpha :: "char \<Rightarrow> bool" where
  "is_alpha c \<longleftrightarrow> (let n = of_char c :: nat in (65 \<le> n \<and> n \<le> 90) \<or> (97 \<le> n \<and> n \<le> 122))"

definition scheme_char :: "char \<Rightarrow> bool" where
  "scheme_char c \<longleftrightarrow> is_alpha c \<or> is_digit c \<or> c \<in> {CHR ''+'', CHR ''-'', CHR ''.''}"

definition removed_char :: "char \<Rightarrow> bool" where
  "removed_char c \<longleftrightarrow> (of_char c :: nat) \<in> {9, 10, 13}"

definition ends_netloc :: "char \<Rightarrow> bool" where
  "ends_netloc c \<longleftrightarrow> c \<in> {CHR ''/'', CHR ''?'', CHR ''#''}"

definition has_scheme :: "string \<Rightarrow> bool" where
  "has_scheme s \<longleftrightarrow> CHR '':'' \<in> set s \<and>
     (case before_char (CHR '':'') s of [] \<Rightarrow> False | c # cs \<Rightarrow> is_alpha c \<and> list_all scheme_char (c # cs))"

definition urlsplit :: "(string \<Rightarrow> bool) \<Rightarrow> string \<Rightarrow> url_parts option" where
  "urlsplit ok url =
     (let s = filter (\<lambda>c. \<not> removed_char c) (dropWhile (\<lambda>c. (of_char c :: nat) \<le> 32) url);
          (scheme, t) = (if has_scheme s then (py_lower (before_char (CHR '':'') s), after_char (CHR '':'') s)
                         else ([], s));
          (netloc, t) = (if starts_with ''//'' t
                         then (takeWhile (\<lambda>c. \<not> ends_netloc c) (drop 2 t), dropWhile (\<lambda>c. \<not> ends_netloc c) (drop 2 t))
                         else ([], t));
          front = before_char (CHR ''#'') t
      in if ok netloc
         then Some \<lparr>url_scheme = scheme, url_netloc = netloc, url_path = before_char (CHR ''?'') front,
                url_query = after_char (CHR ''?'') front, url_fragment = after_char (CHR ''#'') t\<rparr>
         else None)"

definition uses_netloc :: "string list" where
  "uses_netloc = [[], ''ftp'', ''http'', ''gopher'', ''nntp'', ''telnet'', ''imap'', ''wais'', ''file'', ''mms'',
     ''https'', ''shttp'', ''snews'', ''prospero'', ''rtsp'', ''rtsps'', ''rtspu'', ''rsync'', ''svn'', ''svn+ssh'',
     ''sftp'', ''nfs'', ''git'', ''git+ssh'', ''ws'', ''wss'']"

definition urlunsplit :: "url_parts \<Rightarrow> string" where
  "urlunsplit p =
     (let path = url_path p;
          t = (if url_netloc p \<noteq> [] \<or> url_scheme p \<noteq> [] \<and> url_scheme p \<in> set uses_netloc \<or> starts_with ''//'' path
               then ''//'' @ url_netloc p @
                      (if path \<noteq> [] \<and> \<not> starts_with ''/'' path then CHR ''/'' # path else path)
               else path)
      in (if url_scheme p \<noteq> [] then url_scheme p @ '':'' else []) @ t
         @ (if url_query p \<noteq> [] then CHR ''?'' # url_query p else [])
         @ (if url_fragment p \<noteq> [] then CHR ''#'' # url_fragment p else []))"

section \<open>Queries\<close>

definition plus_to_space :: "char \<Rightarrow> char" where
  "plus_to_space c = (if c = CHR ''+'' then CHR '' '' else c)"

definition unquote_plus :: "string \<Rightarrow> string" where
  "unquote_plus s = unquote (map plus_to_space s)"

definition quote_plus :: "string \<Rightarrow> string" where
  "quote_plus s = concat (map (\<lambda>c. if c = CHR '' '' then ''+'' else quote_char c) s)"

definition parse_qsl :: "string \<Rightarrow> (string \<times> string) list" where
  "parse_qsl q =
     map (\<lambda>w. (unquote_plus (before_char (CHR ''='') w), unquote_plus (after_char (CHR ''='') w)))
       (filter (\<lambda>w. w \<noteq> []) (py_split (CHR ''&'') q))"

definition urlencode :: "(string \<times> string) list \<Rightarrow> string" where
  "urlencode kvs = py_join ''&'' (map (\<lambda>(k, v). quote_plus k @ ''='' @ quote_plus v) kvs)"

definition dict_of_pairs :: "(string \<times> string) list \<Rightarrow> (string, string) dict" where
  "dict_of_pairs kvs = foldl (\<lambda>d (k, v). dict_set k v d) [] kvs"

text \<open>\<open>None\<close> is the \<open>ValueError\<close> of \<open>urlsplit\<close>.\<close>

definition with_sslmode :: "(string \<Rightarrow> bool) \<Rightarrow> string \<Rightarrow> string \<Rightarrow> string option" where
  "with_sslmode ok database_url sslmode =
     (case urlsplit ok database_url of
        None \<Rightarrow> None
      | Some parts \<Rightarrow>
          let query = dict_setdefault ''sslmode'' sslmode (dict_of_pairs (parse_qsl (url_query parts)))
          in Some (urlunsplit (parts\<lparr>url_query := urlencode query\<rparr>)))"

section \<open>The round trip of a query\<close>

lemma quote_char_chars:
  assumes "d \<in> set (quote_char c)"
  shows "d = CHR ''%'' \<or> always_safe d"
  using assms byte_bounds [of c] by (auto simp: quote_char_def split: if_splits)

lemma not_safe_char:
  "\<not> always_safe (CHR ''+'')" "\<not> always_safe (CHR '' '')" "\<not> always_safe (CHR ''&'')"
  "\<not> always_safe (CHR ''='')" "\<not> always_safe (CHR ''#'')" "\<not> always_safe (CHR ''?'')"
  by (simp_all add: always_safe_def)

text \<open>What \<open>quote_plus\<close> writes: no separator of a query or a URL, no white space.\<close>

definition plain_char :: "char \<Rightarrow> bool" where
  "plain_char d \<longleftrightarrow> d = CHR ''%'' \<or> d = CHR ''+'' \<or> always_safe d"

lemma quote_plus_plain: "list_all plain_char (quote_plus s)"
  using quote_char_chars by (auto simp: list_all_iff plain_char_def quote_plus_def)

lemma plain_char_not: "plain_char d \<Longrightarrow> d \<notin> {CHR ''&'', CHR ''='', CHR ''#'', CHR ''?'', CHR '' ''} \<and> \<not> removed_char d"
proof -
  assume d: "plain_char d"
  have "\<not> removed_char d"
    using d by (auto simp: plain_char_def removed_char_def always_safe_def)
  then show ?thesis using d not_safe_char by (auto simp: plain_char_def)
qed

lemma unquote_plus_quote: "unquote_plus (quote_plus s) = s"
proof (induction s)
  case (Cons c s)
  have id: "map plus_to_space (quote_char c) = quote_char c"
    using quote_char_chars [of _ c] not_safe_char(1) by (intro map_idI) (auto simp: plus_to_space_def)
  have "unquote_plus (quote_plus (c # s)) =
      unquote ((if c = CHR '' '' then '' '' else quote_char c) @ map plus_to_space (quote_plus s))"
    using id by (simp add: unquote_plus_def quote_plus_def plus_to_space_def)
  also have "\<dots> = c # s"
    using Cons.IH by (simp add: unquote_quote_char unquote_plus_def unquote_safe del: unquote.simps)
  finally show ?case .
qed (simp add: unquote_plus_def quote_plus_def)

definition pair_text :: "string \<times> string \<Rightarrow> string" where
  "pair_text = (\<lambda>(k, v). quote_plus k @ ''='' @ quote_plus v)"

lemma plain_no:
  assumes "list_all plain_char s"
  shows "CHR ''='' \<notin> set s" "CHR ''&'' \<notin> set s" "CHR ''#'' \<notin> set s" "CHR ''?'' \<notin> set s"
  using assms plain_char_not by (fastforce simp: list_all_iff)+

lemma before_after_append:
  assumes "c \<notin> set s"
  shows "before_char c (s @ c # t) = s" "after_char c (s @ c # t) = t"
proof -
  have "takeWhile (\<lambda>d. d \<noteq> c) (s @ c # t) = s" "dropWhile (\<lambda>d. d \<noteq> c) (s @ c # t) = c # t"
    using assms by (induction s) auto
  then show "before_char c (s @ c # t) = s" "after_char c (s @ c # t) = t"
    by (simp_all add: before_char_def after_char_def)
qed

lemma before_after_none:
  assumes "c \<notin> set s"
  shows "before_char c s = s" "after_char c s = []"
  using assms by (induction s) (auto simp: before_char_def after_char_def)

lemma pair_text_no: "CHR ''&'' \<notin> set (pair_text p)" "CHR ''#'' \<notin> set (pair_text p)" "pair_text p \<noteq> []"
    "\<forall>d \<in> set (pair_text p). \<not> removed_char d"
proof -
  obtain k v where p: "p = (k, v)" by fastforce
  have "\<forall>d \<in> set (quote_plus k) \<union> set (quote_plus v). plain_char d"
    using quote_plus_plain by (auto simp: list_all_iff)
  then show "CHR ''&'' \<notin> set (pair_text p)" "CHR ''#'' \<notin> set (pair_text p)" "pair_text p \<noteq> []"
    "\<forall>d \<in> set (pair_text p). \<not> removed_char d"
    using plain_char_not by (fastforce simp: p pair_text_def removed_char_def)+
qed

lemma parse_pair:
  "(unquote_plus (before_char (CHR ''='') (pair_text p)), unquote_plus (after_char (CHR ''='') (pair_text p))) = p"
  using plain_no(1) [OF quote_plus_plain]
  by (cases p) (simp add: pair_text_def before_after_append unquote_plus_quote)

lemma split_join:
  "\<forall>w \<in> set ws. c \<notin> set w \<Longrightarrow> ws \<noteq> [] \<Longrightarrow> py_split c (py_join [c] ws) = ws"
  by (induction "[c]" ws rule: py_join.induct) (simp_all add: py_split_none py_split_append)

lemma parse_urlencode: "parse_qsl (urlencode kvs) = kvs"
proof (cases "kvs = []")
  case False
  have "py_split (CHR ''&'') (urlencode kvs) = map pair_text kvs"
    unfolding urlencode_def pair_text_def [symmetric]
    by (rule split_join) (use False pair_text_no(1) in auto)
  then show ?thesis
    using pair_text_no(3) parse_pair by (simp add: parse_qsl_def filter_id_conv comp_def)
qed (simp add: parse_qsl_def urlencode_def)

section \<open>The round trip of a URL\<close>

text \<open>What \<open>urlsplit\<close> delivers.\<close>

definition parts_ok :: "url_parts \<Rightarrow> bool" where
  "parts_ok p \<longleftrightarrow>
     (case url_scheme p of [] \<Rightarrow> True | c # cs \<Rightarrow> is_alpha c \<and> list_all scheme_char (c # cs)) \<and>
     py_lower (url_scheme p) = url_scheme p \<and>
     list_all (\<lambda>c. \<not> ends_netloc c \<and> \<not> removed_char c) (url_netloc p) \<and>
     (url_netloc p = [] \<or> url_path p = [] \<or> starts_with ''/'' (url_path p)) \<and>
     CHR ''?'' \<notin> set (url_path p) \<and> CHR ''#'' \<notin> set (url_path p) \<and>
     (\<forall>c \<in> set (url_path p) \<union> set (url_query p) \<union> set (url_fragment p). \<not> removed_char c) \<and>
     CHR ''#'' \<notin> set (url_query p)"

lemma before_char_sub: "set (before_char c s) \<subseteq> set s" "c \<notin> set (before_char c s)"
  by (auto simp: before_char_def dest: set_takeWhileD)

lemma after_char_sub: "set (after_char c s) \<subseteq> set s"
  by (auto simp: after_char_def dest!: in_set_dropD set_dropWhileD)

lemma lower_scheme:
  assumes "list_all scheme_char s"
  shows "list_all scheme_char (py_lower s)" "py_lower (py_lower s) = py_lower s"
    "s = c # cs \<Longrightarrow> is_alpha c \<Longrightarrow> is_alpha (py_lower_char c)"
proof -
  have 1: "is_alpha c \<Longrightarrow> is_alpha (py_lower_char c)" for c
    by (auto simp: is_alpha_def py_lower_char_def Let_def)
  then have "scheme_char c \<Longrightarrow> scheme_char (py_lower_char c)" for c
    by (cases "is_alpha c") (auto simp: scheme_char_def is_digit_def py_lower_char_def Let_def)
  then show "list_all scheme_char (py_lower s)" using assms by (auto simp: py_lower_def list_all_iff)
  show "py_lower (py_lower s) = py_lower s"
    by (auto simp: py_lower_def py_lower_char_def Let_def)
  show "s = c # cs \<Longrightarrow> is_alpha c \<Longrightarrow> is_alpha (py_lower_char c)" using 1 by blast
qed

lemma urlsplit_parts:
  assumes "urlsplit ok url = Some p"
  shows "parts_ok p" "ok (url_netloc p)"
proof -
  define s where "s = filter (\<lambda>c. \<not> removed_char c) (dropWhile (\<lambda>c. (of_char c :: nat) \<le> 32) url)"
  define sch where "sch = (if has_scheme s then py_lower (before_char (CHR '':'') s) else [])"
  define t where "t = (if has_scheme s then after_char (CHR '':'') s else s)"
  define u where "u = (if starts_with ''//'' t then dropWhile (\<lambda>c. \<not> ends_netloc c) (drop 2 t) else t)"
  define net where "net = (if starts_with ''//'' t then takeWhile (\<lambda>c. \<not> ends_netloc c) (drop 2 t) else [])"
  let ?front = "before_char (CHR ''#'') u"
  have p: "p = \<lparr>url_scheme = sch, url_netloc = net, url_path = before_char (CHR ''?'') ?front,
      url_query = after_char (CHR ''?'') ?front, url_fragment = after_char (CHR ''#'') u\<rparr>" and ok: "ok net"
    using assms by (auto simp: urlsplit_def Let_def s_def [symmetric] sch_def t_def u_def net_def split: if_splits)
  show "ok (url_netloc p)" using ok p by simp
  have clean: "\<forall>c \<in> set s. \<not> removed_char c" by (simp add: s_def)
  then have "\<forall>c \<in> set t. \<not> removed_char c" using after_char_sub by (auto simp: t_def)
  then have u: "\<forall>c \<in> set u. \<not> removed_char c" and net: "\<forall>c \<in> set net. \<not> removed_char c \<and> \<not> ends_netloc c"
    by (auto simp: u_def net_def dest!: in_set_dropD set_dropWhileD set_takeWhileD)
  have scheme: "(case sch of [] \<Rightarrow> True | c # cs \<Rightarrow> is_alpha c \<and> list_all scheme_char (c # cs)) \<and> py_lower sch = sch"
  proof (cases "has_scheme s")
    case True
    then obtain c cs where b: "before_char (CHR '':'') s = c # cs" "is_alpha c" "list_all scheme_char (c # cs)"
      by (auto simp: has_scheme_def split: list.splits)
    then show ?thesis
      using True lower_scheme(1,2) [OF b(3)] lower_scheme(3) [OF b(3) refl b(2)]
      by (simp add: sch_def py_lower_def)
  qed (simp add: sch_def py_lower_def)
  have "u = [] \<or> ends_netloc (hd u)" if "starts_with ''//'' t"
    unfolding u_def if_P [OF that] using hd_dropWhile [of "\<lambda>c. \<not> ends_netloc c" "drop 2 t"] by argo
  then have slash: "net = [] \<or> before_char (CHR ''?'') ?front = [] \<or> starts_with ''/'' (before_char (CHR ''?'') ?front)"
    by (cases u) (auto simp: net_def before_char_def ends_netloc_def split: if_splits)
  have "CHR ''#'' \<notin> set ?front" "set ?front \<subseteq> set u" using before_char_sub by blast+
  then have "CHR ''?'' \<notin> set (url_path p)" "CHR ''#'' \<notin> set (url_path p)" "CHR ''#'' \<notin> set (url_query p)"
    "\<forall>c \<in> set (url_path p) \<union> set (url_query p) \<union> set (url_fragment p). \<not> removed_char c"
    using before_char_sub [of "CHR ''?''" ?front] after_char_sub [of "CHR ''?''" ?front]
      after_char_sub [of "CHR ''#''" u] u unfolding p by auto
  then show "parts_ok p"
    using scheme net slash unfolding parts_ok_def p by (simp add: list_all_iff)
qed

lemma scheme_plain:
  assumes "list_all scheme_char s"
  shows "CHR '':'' \<notin> set s" "\<forall>c \<in> set s. \<not> removed_char c"
  using assms by (auto simp: list_all_iff scheme_char_def is_alpha_def is_digit_def removed_char_def)

lemma take_drop_while:
  assumes "list_all P s" "t = [] \<or> \<not> P (hd t)"
  shows "takeWhile P (s @ t) = s" "dropWhile P (s @ t) = t"
  using assms by (induction s) (cases t; auto)+

text \<open>With a scheme and a network location, nothing is lost.\<close>

lemma urlsplit_urlunsplit:
  assumes "parts_ok p" "ok (url_netloc p)" "url_scheme p \<noteq> []" "url_netloc p \<noteq> []" "url_query p \<noteq> []"
  shows "urlsplit ok (urlunsplit p) = Some p"
proof -
  let ?tail = "url_path p @ CHR ''?'' # url_query p @ (if url_fragment p \<noteq> [] then CHR ''#'' # url_fragment p else [])"
  let ?url = "url_scheme p @ CHR '':'' # ''//'' @ url_netloc p @ ?tail"
  obtain c cs where c: "url_scheme p = c # cs" "is_alpha c" "list_all scheme_char (c # cs)"
    using assms(1,3) by (auto simp: parts_ok_def split: list.splits)
  have whole: "urlunsplit p = ?url"
    using assms by (auto simp: urlunsplit_def parts_ok_def)
  have "\<not> removed_char (CHR '':'') \<and> \<not> removed_char (CHR ''/'') \<and> \<not> removed_char (CHR ''?'') \<and>
      \<not> removed_char (CHR ''#'')" by (simp add: removed_char_def)
  moreover have "\<forall>d \<in> set (url_scheme p). \<not> removed_char d" using scheme_plain(2) [OF c(3)] c(1) by simp
  ultimately have "\<forall>d \<in> set ?url. \<not> removed_char d"
    using assms(1) by (cases "url_fragment p") (simp_all add: parts_ok_def list_all_iff ball_Un)
  moreover have "\<not> (of_char c :: nat) \<le> 32" using c(2) by (auto simp: is_alpha_def Let_def)
  ultimately have s: "filter (\<lambda>d. \<not> removed_char d) (dropWhile (\<lambda>d. (of_char d :: nat) \<le> 32) ?url) = ?url"
    using c(1) by (simp add: filter_id_conv)
  have colon: "CHR '':'' \<notin> set (url_scheme p)" using scheme_plain(1) [OF c(3)] c(1) by simp
  have scheme: "has_scheme ?url" "before_char (CHR '':'') ?url = url_scheme p"
    "after_char (CHR '':'') ?url = ''//'' @ url_netloc p @ ?tail"
    using c before_after_append [OF colon] by (simp_all add: has_scheme_def)
  have "ends_netloc (hd ?tail)"
    using assms(1,4) by (cases "url_path p") (auto simp: parts_ok_def ends_netloc_def)
  moreover have "list_all (\<lambda>d. \<not> ends_netloc d) (url_netloc p)"
    using assms(1) by (simp add: parts_ok_def list_all_iff)
  ultimately have net: "takeWhile (\<lambda>d. \<not> ends_netloc d) (url_netloc p @ ?tail) = url_netloc p"
    "dropWhile (\<lambda>d. \<not> ends_netloc d) (url_netloc p @ ?tail) = ?tail"
    by (intro take_drop_while; simp)+
  let ?front = "url_path p @ CHR ''?'' # url_query p"
  have "CHR ''#'' \<notin> set ?front" using assms(1) by (auto simp: parts_ok_def)
  then have front: "before_char (CHR ''#'') ?tail = ?front" "after_char (CHR ''#'') ?tail = url_fragment p"
    using before_after_append [of "CHR ''#''" ?front] before_after_none [of "CHR ''#''" ?front] by auto
  have "CHR ''?'' \<notin> set (url_path p)" using assms(1) by (simp add: parts_ok_def)
  from before_after_append [OF this, of "url_query p"] show ?thesis
    unfolding whole urlsplit_def s Let_def scheme(2,3) if_P [OF scheme(1)]
    using assms(1,2) net front by (simp add: parts_ok_def)
qed

section \<open>The mode of the connection\<close>

lemma setdefault_nonempty: "dict_setdefault k v d \<noteq> []"
  by (cases d) (simp_all add: dict_setdefault_def)

lemma urlencode_nonempty: "kvs \<noteq> [] \<Longrightarrow> urlencode kvs \<noteq> []"
  using parse_urlencode [of kvs] by (auto simp: parse_qsl_def)

lemma join_chars: "set (py_join [CHR ''&''] ws) \<subseteq> insert (CHR ''&'') (\<Union>w \<in> set ws. set w)"
  by (induction "[CHR ''&'']" ws rule: py_join.induct) auto

lemma urlencode_chars: "c \<in> set (urlencode kvs) \<Longrightarrow> c \<noteq> CHR ''#'' \<and> \<not> removed_char c"
proof -
  assume "c \<in> set (urlencode kvs)"
  then have "c \<in> set (py_join [CHR ''&''] (map pair_text kvs))"
    by (simp add: urlencode_def pair_text_def)
  then have "c = CHR ''&'' \<or> (\<exists>p \<in> set kvs. c \<in> set (pair_text p))"
    using join_chars [of "map pair_text kvs"] by auto
  then show ?thesis using pair_text_no(2,4) by (auto simp: removed_char_def)
qed

lemma starts_with_both: "starts_with (a @ p) (a @ s) = starts_with p s"
  by (induction a) simp_all

text \<open>The query of a URL: what stands between the first question mark and the number sign after it.\<close>

definition query_of :: "string \<Rightarrow> string" where
  "query_of url = after_char (CHR ''?'') (before_char (CHR ''#'') url)"

lemma query_of_unsplit:
  assumes "parts_ok p" "url_query p \<noteq> []"
  shows "query_of (urlunsplit p) = url_query p"
proof -
  obtain h where h: "urlunsplit p = h @ CHR ''?'' # url_query p @
      (if url_fragment p \<noteq> [] then CHR ''#'' # url_fragment p else [])"
    "set h \<subseteq> set (url_scheme p) \<union> set (url_netloc p) \<union> set (url_path p) \<union> {CHR '':'', CHR ''/''}"
    using assms(2) by (intro that) (auto simp: urlunsplit_def Let_def split: if_splits)
  have "list_all scheme_char (url_scheme p)"
    using assms(1) by (auto simp: parts_ok_def split: list.splits)
  then have "CHR ''?'' \<notin> set (url_scheme p)" "CHR ''#'' \<notin> set (url_scheme p)"
    by (auto simp: list_all_iff scheme_char_def is_alpha_def is_digit_def)
  moreover have "CHR ''?'' \<notin> set (url_netloc p)" "CHR ''#'' \<notin> set (url_netloc p)"
    using assms(1) by (auto simp: parts_ok_def list_all_iff ends_netloc_def)
  ultimately have no: "CHR ''?'' \<notin> set h" "CHR ''#'' \<notin> set h"
    using h(2) assms(1) by (auto simp: parts_ok_def)
  let ?front = "h @ CHR ''?'' # url_query p"
  have "CHR ''#'' \<notin> set ?front" using no assms(1) by (simp add: parts_ok_def)
  then have "before_char (CHR ''#'') (urlunsplit p) = ?front"
    using before_after_append [of "CHR ''#''" ?front] before_after_none [of "CHR ''#''" ?front] h(1) by auto
  then show ?thesis using before_after_append [OF no(1), of "url_query p"] by (simp add: query_of_def)
qed

text \<open>
  C33: THE MODE OF TLS. Whatever the URL, the query of the address that \<open>_with_sslmode\<close> makes reads as the
  dictionary of the old query (of a key that is repeated the last value only) with a mode of TLS in it: the
  one of the query if it has one, the configured one otherwise. With a scheme and a network location
  everything else stays: the new URL is taken apart into the same parts but for the query. Without a
  network location (a local socket), under a scheme \<open>urllib\<close> has not on its list, the new URL is the
  scheme, a colon and the path: the two slashes are lost.
\<close>

theorem sslmode_stated:
  assumes "urlsplit ok url = Some p"
  shows "\<exists>new. with_sslmode ok url mode = Some new \<and>
    parse_qsl (query_of new) = dict_setdefault ''sslmode'' mode (dict_of_pairs (parse_qsl (url_query p))) \<and>
    map_of (parse_qsl (query_of new)) ''sslmode'' =
      Some (case map_of (dict_of_pairs (parse_qsl (url_query p))) ''sslmode'' of None \<Rightarrow> mode | Some m \<Rightarrow> m) \<and>
    (url_scheme p \<noteq> [] \<and> url_netloc p \<noteq> [] \<longrightarrow> urlsplit ok new = Some (p\<lparr>url_query := query_of new\<rparr>)) \<and>
    (url_scheme p \<noteq> [] \<and> url_netloc p = [] \<and> url_scheme p \<notin> set uses_netloc \<and>
        \<not> starts_with ''//'' (url_path p) \<longrightarrow>
       new = url_scheme p @ '':'' @ url_path p @ ''?'' @ query_of new @
         (if url_fragment p = [] then [] else ''#'' @ url_fragment p) \<and>
       \<not> starts_with (url_scheme p @ ''://'') new)"
proof -
  let ?d = "dict_setdefault ''sslmode'' mode (dict_of_pairs (parse_qsl (url_query p)))"
  let ?q = "urlencode ?d"
  let ?p = "p\<lparr>url_query := ?q\<rparr>"
  let ?new = "urlunsplit ?p"
  have new: "with_sslmode ok url mode = Some ?new"
    using assms(1) by (simp add: with_sslmode_def Let_def)
  have q: "?q \<noteq> []" by (rule urlencode_nonempty) (rule setdefault_nonempty)
  note parts = urlsplit_parts [OF assms(1)]
  have ok: "parts_ok ?p" using parts(1) urlencode_chars by (auto simp: parts_ok_def)
  have query: "query_of ?new = ?q" using query_of_unsplit [OF ok] q by simp
  have "urlsplit ok ?new = Some ?p" if "url_scheme p \<noteq> []" "url_netloc p \<noteq> []"
    using that parts(2) q ok by (intro urlsplit_urlunsplit) simp_all
  moreover have "map_of ?d ''sslmode'' =
      Some (case map_of (dict_of_pairs (parse_qsl (url_query p))) ''sslmode'' of None \<Rightarrow> mode | Some m \<Rightarrow> m)"
    by (auto split: option.split)
  moreover have "?new = url_scheme p @ '':'' @ url_path p @ ''?'' @ ?q @
         (if url_fragment p = [] then [] else ''#'' @ url_fragment p) \<and>
      \<not> starts_with (url_scheme p @ ''://'') ?new"
    if local: "url_scheme p \<noteq> []" "url_netloc p = []" "url_scheme p \<notin> set uses_netloc"
      "\<not> starts_with ''//'' (url_path p)"
  proof
    show n: "?new = url_scheme p @ '':'' @ url_path p @ ''?'' @ ?q @
         (if url_fragment p = [] then [] else ''#'' @ url_fragment p)"
      using local q by (simp add: urlunsplit_def)
    show "\<not> starts_with (url_scheme p @ ''://'') ?new"
      unfolding n starts_with_both using local(4)
      by (cases "url_path p"; cases "tl (url_path p)") auto
  qed
  ultimately show ?thesis
    unfolding new by (intro exI [of _ ?new], unfold query parse_urlencode) blast
qed

definition socket_url :: string where
  "socket_url = ''postgresql+psycopg:///vpn?host=/run/pg''"

definition two_hosts_url :: string where
  "two_hosts_url = ''postgresql+psycopg://u@/vpn?host=a&host=b''"

theorem sslmode_stated_witness:
  "with_sslmode (\<lambda>n. True) socket_url ''require'' = Some ''postgresql+psycopg:/vpn?host=%2Frun%2Fpg&sslmode=require'' \<and>
   with_sslmode (\<lambda>n. True) two_hosts_url ''require'' = Some ''postgresql+psycopg://u@/vpn?host=b&sslmode=require'' \<and>
   (\<exists>new. with_sslmode (\<lambda>n. True) two_hosts_url ''require'' = Some new \<and>
      parse_qsl (query_of new) = [(''host'', ''b''), (''sslmode'', ''require'')])"
proof -
  have two: "urlsplit (\<lambda>n. True) two_hosts_url =
      Some \<lparr>url_scheme = ''postgresql+psycopg'', url_netloc = ''u@'', url_path = ''/vpn'',
        url_query = ''host=a&host=b'', url_fragment = []\<rparr>" by code_simp
  have "dict_setdefault ''sslmode'' ''require'' (dict_of_pairs (parse_qsl ''host=a&host=b''))
      = [(''host'', ''b''), (''sslmode'', ''require'')]" by code_simp
  moreover have "with_sslmode (\<lambda>n. True) socket_url ''require''
      = Some ''postgresql+psycopg:/vpn?host=%2Frun%2Fpg&sslmode=require''"
    "with_sslmode (\<lambda>n. True) two_hosts_url ''require'' = Some ''postgresql+psycopg://u@/vpn?host=b&sslmode=require''"
    by code_simp+
  ultimately show ?thesis using sslmode_stated [OF two, of "''require''"] by auto
qed

end
