(* ===== verification/Settings.thy ===== *)
theory Settings
  imports Url Domain
begin

text \<open>
  \<open>app/core/config.py\<close>: the settings, how they are read from the environment and the validation
  that keeps a production start from silently running as a demo.

  \<open>ipaddress.ip_network\<close>, the \<open>float\<close> parser, the check of a network location (\<open>Url\<close>) and the key
  check of \<open>cryptography.fernet\<close> are parameters, gathered in the record \<open>config_env\<close>. A raised \<open>ValueError\<close> is a constructor of \<open>config_error\<close> for each message.
\<close>

record settings =
  app_env :: string
  database_url :: "string option"
  db_host :: "string option"
  db_port :: int
  db_name :: "string option"
  db_user :: "string option"
  db_password :: "string option"
  db_sslmode :: string
  session_cookie_name :: string
  session_ttl_days :: int
  issue_result_ttl_minutes :: int
  cors_origins :: "string list"
  csrf_enabled :: bool
  cookie_secure :: bool
  first_admin_login :: string
  first_admin_password :: "string option"
  login_rate_limit_attempts :: int
  login_rate_limit_window_minutes :: int
  agent_mode :: string
  encryption_key :: "string option"
  setup_worker_enabled :: bool
  setup_worker_poll_seconds :: rat
  setup_step_delay_seconds :: rat
  setup_runner :: string
  setup_deploy_script_path :: string
  setup_agent_listen :: string
  setup_agent_base_url_template :: string
  setup_agent_allow_ips :: "string list"
  setup_timeout_seconds :: rat
  setup_allow_public_agent_access :: bool

definition default_settings :: settings where
  "default_settings =
     \<lparr>app_env = ''local'', database_url = None, db_host = None, db_port = 5432, db_name = None,
      db_user = None, db_password = None, db_sslmode = ''require'',
      session_cookie_name = ''vca_session'', session_ttl_days = 30, issue_result_ttl_minutes = 15,
      cors_origins = [''http://localhost:5173''], csrf_enabled = False, cookie_secure = False,
      first_admin_login = ''midhey'', first_admin_password = None, login_rate_limit_attempts = 5,
      login_rate_limit_window_minutes = 15, agent_mode = ''fake'', encryption_key = None,
      setup_worker_enabled = True, setup_worker_poll_seconds = 1/2,
      setup_step_delay_seconds = 6/5, setup_runner = ''stub'',
      setup_deploy_script_path = ''../agent/scripts/deploy-agent.sh'',
      setup_agent_listen = ''127.0.0.1:8090'',
      setup_agent_base_url_template = ''http://{host}:8090'', setup_agent_allow_ips = [],
      setup_timeout_seconds = 600, setup_allow_public_agent_access = False\<rparr>"

datatype config_error =
  Bad_agent_mode | Bad_setup_runner | Bad_timeout | Bad_template | Bad_allow_ip string
| Public_allow_ip | Need_http_agent | Need_encryption_key | Bad_encryption_key
| Need_deploy_script | Need_allow_ips | Db_parts_missing "string list" | Bad_number string
| Bad_database_url

text \<open>
  \<open>ip_network v\<close> is \<open>(network.prefixlen, str(network))\<close>, or \<open>None\<close> for a \<open>ValueError\<close>.
\<close>

record config_env =
  ip_network :: "string \<Rightarrow> (nat \<times> string) option"
  parse_float :: "string \<Rightarrow> rat option"
  netloc_ok :: "string \<Rightarrow> bool"
  fernet_key_ok :: "string \<Rightarrow> bool"

section \<open>Parsing\<close>

definition cfg_bool :: "string option \<Rightarrow> bool \<Rightarrow> bool" where
  "cfg_bool v dflt =
     (case v of None \<Rightarrow> dflt
      | Some s \<Rightarrow> if py_strip s = [] then dflt
          else py_lower (py_strip s) \<in> {''1'', ''true'', ''yes'', ''on''})"

definition cfg_csv :: "string option \<Rightarrow> string list \<Rightarrow> string list" where
  "cfg_csv v dflt =
     (case v of None \<Rightarrow> dflt
      | Some s \<Rightarrow> if py_strip s = [] then dflt
          else filter (\<lambda>w. w \<noteq> []) (map py_strip (py_split (CHR '','') s)))"

text \<open>\<open>env.get(k) or None\<close> and \<open>env.get(k) or dflt\<close>.\<close>

definition or_none :: "string option \<Rightarrow> string option" where
  "or_none v = (if py_bool_str v then v else None)"

definition or_default :: "string option \<Rightarrow> string \<Rightarrow> string" where
  "or_default v dflt = (case or_none v of None \<Rightarrow> dflt | Some s \<Rightarrow> s)"

definition normalize_database_url :: "string option \<Rightarrow> string option" where
  "normalize_database_url v =
     (case v of None \<Rightarrow> None
      | Some s \<Rightarrow>
          let t = py_strip s in
          if t = [] then None
          else if starts_with ''postgresql://'' t
            then Some (''postgresql+psycopg://'' @ remove_prefix ''postgresql://'' t)
          else if starts_with ''postgres://'' t
            then Some (''postgresql+psycopg://'' @ remove_prefix ''postgres://'' t)
          else if starts_with ''postgresql+asyncpg://'' t
            then Some (''postgresql+psycopg://'' @ remove_prefix ''postgresql+asyncpg://'' t)
          else Some t)"

definition db_keys :: "string list" where
  "db_keys = [''DB_HOST'', ''DB_NAME'', ''DB_USER'', ''DB_PASSWORD'']"

definition build_database_url ::
  "config_env \<Rightarrow> (string, string) dict \<Rightarrow> config_error + string option" where
  "build_database_url ce env =
     (case normalize_database_url (map_of env ''DATABASE_URL'') of
        Some url \<Rightarrow>
          (case with_sslmode (netloc_ok ce) url (or_default (map_of env ''DB_SSLMODE'') ''require'') of
             None \<Rightarrow> Inl Bad_database_url | Some u \<Rightarrow> Inr (Some u))
      | None \<Rightarrow>
          let missing = filter (\<lambda>k. \<not> py_bool_str (map_of env k)) db_keys;
              val = (\<lambda>k. or_default (map_of env k) []) in
          if missing = db_keys then Inr None
          else if missing \<noteq> [] then Inl (Db_parts_missing missing)
          else
            (case py_int (or_default (map_of env ''DB_PORT'') ''5432'') of
               None \<Rightarrow> Inl (Bad_number ''DB_PORT'')
             | Some port \<Rightarrow>
                 Inr (Some (''postgresql+psycopg://'' @ quote (val ''DB_USER'') @ '':''
                   @ quote (val ''DB_PASSWORD'') @ ''@'' @ val ''DB_HOST'' @ '':''
                   @ show_int port @ ''/'' @ quote (val ''DB_NAME'') @ ''?sslmode=''
                   @ quote (or_default (map_of env ''DB_SSLMODE'') ''require'')))))"

section \<open>Validation\<close>

text \<open>The loop over \<open>setup_agent_allow_ips\<close>: each entry is parsed, checked and normalised.\<close>

fun normalize_allow_ips ::
  "config_env \<Rightarrow> settings \<Rightarrow> string list \<Rightarrow> config_error + string list" where
  "normalize_allow_ips ce st [] = Inr []"
| "normalize_allow_ips ce st (v # vs) =
     (case ip_network ce v of
        None \<Rightarrow> Inl (Bad_allow_ip v)
      | Some (prefixlen, net) \<Rightarrow>
          if app_env st \<noteq> ''local'' \<and> prefixlen = 0 \<and> \<not> setup_allow_public_agent_access st
          then Inl Public_allow_ip
          else (case normalize_allow_ips ce st vs of
                  Inl e \<Rightarrow> Inl e
                | Inr nets \<Rightarrow> Inr (net # nets)))"

definition validate :: "config_env \<Rightarrow> settings \<Rightarrow> config_error + settings" where
  "validate ce st =
     (if agent_mode st \<notin> {''fake'', ''http''} then Inl Bad_agent_mode
      else if setup_runner st \<notin> {''stub'', ''deploy_script''} then Inl Bad_setup_runner
      else if setup_timeout_seconds st \<le> 0 then Inl Bad_timeout
      else if \<not> py_contains ''{host}'' (setup_agent_base_url_template st) then Inl Bad_template
      else
        (case normalize_allow_ips ce st (setup_agent_allow_ips st) of
           Inl e \<Rightarrow> Inl e
         | Inr nets \<Rightarrow>
             let st' = st\<lparr>setup_agent_allow_ips := nets\<rparr> in
             if app_env st' = ''local'' then Inr st'
             else if agent_mode st' \<noteq> ''http'' then Inl Need_http_agent
             else
               (case or_none (encryption_key st') of
                  None \<Rightarrow> Inl Need_encryption_key
                | Some key \<Rightarrow>
                    if \<not> fernet_key_ok ce key then Inl Bad_encryption_key
                    else if setup_runner st' \<noteq> ''deploy_script'' then Inl Need_deploy_script
                    else if setup_agent_allow_ips st' = [] then Inl Need_allow_ips
                    else Inr st')))"

text \<open>\<open>Settings.from_env\<close>: each \<open>int(...)\<close> and \<open>float(...)\<close> may fail, in the order of the code.\<close>

definition cfg_int :: "(string, string) dict \<Rightarrow> string \<Rightarrow> string \<Rightarrow> config_error + int" where
  "cfg_int env k dflt =
     (case py_int (dict_get dflt env k) of None \<Rightarrow> Inl (Bad_number k) | Some i \<Rightarrow> Inr i)"

definition cfg_float ::
  "config_env \<Rightarrow> (string, string) dict \<Rightarrow> string \<Rightarrow> string \<Rightarrow> config_error + rat" where
  "cfg_float ce env k dflt =
     (case parse_float ce (dict_get dflt env k) of None \<Rightarrow> Inl (Bad_number k) | Some i \<Rightarrow> Inr i)"

definition from_env :: "config_env \<Rightarrow> (string, string) dict \<Rightarrow> config_error + settings" where
  "from_env ce env =
     (let e0 = py_strip (dict_get ''local'' env ''APP_ENV'');
          env_name = (if e0 = [] then ''local'' else e0);
          not_local = (env_name \<noteq> ''local'') in
      sum_bind (build_database_url ce env) (\<lambda>url.
      sum_bind (case py_int (or_default (map_of env ''DB_PORT'') ''5432'') of
                  None \<Rightarrow> Inl (Bad_number ''DB_PORT'') | Some i \<Rightarrow> Inr i) (\<lambda>port.
      sum_bind (cfg_int env ''SESSION_TTL_DAYS'' ''30'') (\<lambda>ttl_days.
      sum_bind (cfg_int env ''ISSUE_RESULT_TTL_MINUTES'' ''15'') (\<lambda>ttl_minutes.
      sum_bind (cfg_int env ''LOGIN_RATE_LIMIT_ATTEMPTS'' ''5'') (\<lambda>attempts.
      sum_bind (cfg_int env ''LOGIN_RATE_LIMIT_WINDOW_MINUTES'' ''15'') (\<lambda>window.
      sum_bind (cfg_float ce env ''SETUP_WORKER_POLL_SECONDS'' ''0.5'') (\<lambda>poll.
      sum_bind (cfg_float ce env ''SETUP_STEP_DELAY_SECONDS'' ''1.2'') (\<lambda>delay.
      sum_bind (cfg_float ce env ''SETUP_TIMEOUT_SECONDS'' ''600'') (\<lambda>timeout.
      validate ce
        \<lparr>app_env = env_name, database_url = url, db_host = or_none (map_of env ''DB_HOST''),
         db_port = port, db_name = or_none (map_of env ''DB_NAME''),
         db_user = or_none (map_of env ''DB_USER''),
         db_password = or_none (map_of env ''DB_PASSWORD''),
         db_sslmode = or_default (map_of env ''DB_SSLMODE'') ''require'',
         session_cookie_name = dict_get ''vca_session'' env ''SESSION_COOKIE_NAME'',
         session_ttl_days = ttl_days, issue_result_ttl_minutes = ttl_minutes,
         cors_origins = cfg_csv (map_of env ''CORS_ORIGINS'') [''http://localhost:5173''],
         csrf_enabled = cfg_bool (map_of env ''CSRF_ENABLED'') not_local,
         cookie_secure = cfg_bool (map_of env ''COOKIE_SECURE'') not_local,
         first_admin_login = dict_get ''midhey'' env ''FIRST_ADMIN_LOGIN'',
         first_admin_password = or_none (map_of env ''FIRST_ADMIN_PASSWORD''),
         login_rate_limit_attempts = attempts, login_rate_limit_window_minutes = window,
         agent_mode = dict_get ''fake'' env ''AGENT_MODE'',
         encryption_key = or_none (map_of env ''ENCRYPTION_KEY''),
         setup_worker_enabled = cfg_bool (map_of env ''SETUP_WORKER_ENABLED'') True,
         setup_worker_poll_seconds = poll, setup_step_delay_seconds = delay,
         setup_runner = (let r = py_strip (dict_get ''stub'' env ''SETUP_RUNNER'') in
                         if r = [] then ''stub'' else r),
         setup_deploy_script_path =
           py_strip (dict_get ''../agent/scripts/deploy-agent.sh'' env ''SETUP_DEPLOY_SCRIPT_PATH''),
         setup_agent_listen = py_strip (dict_get ''127.0.0.1:8090'' env ''SETUP_AGENT_LISTEN''),
         setup_agent_base_url_template =
           py_strip (dict_get ''http://{host}:8090'' env ''SETUP_AGENT_BASE_URL_TEMPLATE''),
         setup_agent_allow_ips = cfg_csv (map_of env ''SETUP_AGENT_ALLOW_IPS'') [],
         setup_timeout_seconds = timeout,
         setup_allow_public_agent_access =
           cfg_bool (map_of env ''SETUP_ALLOW_PUBLIC_AGENT_ACCESS'') False\<rparr>))))))))))"

section \<open>What a validated configuration guarantees\<close>

lemma normalize_allow_ips_Inr:
  "normalize_allow_ips ce st vs = Inr nets \<Longrightarrow>
     list_all2 (\<lambda>v net. \<exists>p. ip_network ce v = Some (p, net) \<and>
       (app_env st \<noteq> ''local'' \<longrightarrow> setup_allow_public_agent_access st \<or> p \<noteq> 0)) vs nets"
  by (induction vs arbitrary: nets) (auto split: option.splits sum.splits if_splits)

text \<open>What a configuration has to be outside \<open>APP_ENV=local\<close>.\<close>

definition production_safe :: "config_env \<Rightarrow> settings \<Rightarrow> bool" where
  "production_safe ce st \<longleftrightarrow>
     agent_mode st = ''http'' \<and> setup_runner st = ''deploy_script'' \<and>
     (\<exists>key. encryption_key st = Some key \<and> key \<noteq> [] \<and> fernet_key_ok ce key) \<and>
     setup_agent_allow_ips st \<noteq> [] \<and> setup_timeout_seconds st > 0 \<and>
     py_contains ''{host}'' (setup_agent_base_url_template st)"

lemma validate_Inr:
  assumes "validate ce st = Inr st'"
  obtains nets where "normalize_allow_ips ce st (setup_agent_allow_ips st) = Inr nets"
    "st' = st\<lparr>setup_agent_allow_ips := nets\<rparr>"
    "agent_mode st \<in> {''fake'', ''http''}" "setup_runner st \<in> {''stub'', ''deploy_script''}"
    "app_env st = ''local'' \<or> production_safe ce st'"
  using assms unfolding validate_def or_none_def production_safe_def py_bool_str_def
  by (auto simp: Let_def not_le split: if_splits option.splits sum.splits)

lemma normalize_allow_ips_fix:
  assumes "\<And>v p net. ip_network ce v = Some (p, net) \<Longrightarrow> ip_network ce net = Some (p, net)"
    and "normalize_allow_ips ce st vs = Inr nets"
    and "app_env st' = app_env st"
    and "setup_allow_public_agent_access st' = setup_allow_public_agent_access st"
  shows "normalize_allow_ips ce st' nets = Inr nets"
  using assms(2)
proof (induction vs arbitrary: nets)
  case Nil
  then show ?case by simp
next
  case (Cons v vs)
  then obtain p net ms where *: "ip_network ce v = Some (p, net)" "nets = net # ms"
    "\<not> (app_env st \<noteq> ''local'' \<and> p = 0 \<and> \<not> setup_allow_public_agent_access st)"
    "normalize_allow_ips ce st vs = Inr ms"
    by (auto split: option.splits sum.splits if_splits)
  show ?case
    using Cons.IH [OF *(4)] assms(1) [OF *(1)] *(2,3) assms(3,4) by auto
qed

lemma from_env_Inr:
  assumes "from_env ce env = Inr st"
  obtains st0 where "validate ce st0 = Inr st"
    "csrf_enabled st0 = cfg_bool (map_of env ''CSRF_ENABLED'') (app_env st0 \<noteq> ''local'')"
    "cookie_secure st0 = cfg_bool (map_of env ''COOKIE_SECURE'') (app_env st0 \<noteq> ''local'')"
  using assms unfolding from_env_def Let_def sum_bind_Inr
  by (elim exE conjE) (rule that, assumption, simp, simp)

lemma validate_idem:
  assumes "validate ce st = Inr st'"
    and "\<And>v p net. ip_network ce v = Some (p, net) \<Longrightarrow> ip_network ce net = Some (p, net)"
  shows "validate ce st' = Inr st'"
proof -
  from assms(1) obtain nets where n: "normalize_allow_ips ce st (setup_agent_allow_ips st) = Inr nets"
    "st' = st\<lparr>setup_agent_allow_ips := nets\<rparr>" by (rule validate_Inr)
  have "normalize_allow_ips ce st' nets = Inr nets"
    by (rule normalize_allow_ips_fix [OF assms(2) n(1)]) (simp_all add: n(2))
  then show ?thesis
    using assms(1) n unfolding validate_def
    by (auto simp: Let_def split: if_splits option.splits)
qed

text \<open>
  C35: PRODUCTION. A configuration read from the environment is either local or safe: real agents, the
  real installer, a working encryption key and an allowlist, no entry of which is the whole Internet
  unless that is asked for. Outside of local the CSRF check and secure cookies are on unless they are
  set by name, and validating the result again changes nothing.
\<close>

theorem production_configuration:
  assumes "from_env ce env = Inr st"
    and "\<And>v p net. ip_network ce v = Some (p, net) \<Longrightarrow> ip_network ce net = Some (p, net)"
  shows "(app_env st = ''local'' \<or> production_safe ce st \<and>
      (\<forall>net \<in> set (setup_agent_allow_ips st). \<exists>p. ip_network ce net = Some (p, net) \<and>
         (setup_allow_public_agent_access st \<or> p \<noteq> 0)) \<and>
      (map_of env ''CSRF_ENABLED'' = None \<longrightarrow> csrf_enabled st) \<and>
      (map_of env ''COOKIE_SECURE'' = None \<longrightarrow> cookie_secure st)) \<and>
    validate ce st = Inr st"
proof -
  obtain st0 where v: "validate ce st0 = Inr st"
    "csrf_enabled st0 = cfg_bool (map_of env ''CSRF_ENABLED'') (app_env st0 \<noteq> ''local'')"
    "cookie_secure st0 = cfg_bool (map_of env ''COOKIE_SECURE'') (app_env st0 \<noteq> ''local'')"
    using from_env_Inr [OF assms(1)] by blast
  from v(1) obtain nets where n: "normalize_allow_ips ce st0 (setup_agent_allow_ips st0) = Inr nets"
    "st = st0\<lparr>setup_agent_allow_ips := nets\<rparr>" "app_env st0 = ''local'' \<or> production_safe ce st"
    by (rule validate_Inr)
  have "\<exists>p. ip_network ce net = Some (p, net) \<and> (app_env st0 \<noteq> ''local'' \<longrightarrow>
      setup_allow_public_agent_access st0 \<or> p \<noteq> 0)" if "net \<in> set nets" for net
    using normalize_allow_ips_Inr [OF n(1)] that assms(2)
    by (fastforce simp: list_all2_conv_all_nth in_set_conv_nth)
  then show ?thesis
    using v(2,3) n validate_idem [OF v(1) assms(2)] by (auto simp: cfg_bool_def)
qed

text \<open>An environment of a production install, with stand-ins for the parsers.\<close>

definition demo_config_env :: config_env where
  "demo_config_env = \<lparr>ip_network = (\<lambda>v. Some (length v, v)), parse_float = (\<lambda>v. Some 1),
     netloc_ok = (\<lambda>n. True), fernet_key_ok = (\<lambda>k. True)\<rparr>"

definition production_env :: "(string, string) dict" where
  "production_env = [(''APP_ENV'', ''production''), (''AGENT_MODE'', ''http''),
     (''SETUP_RUNNER'', ''deploy_script''), (''ENCRYPTION_KEY'', ''k''),
     (''SETUP_AGENT_ALLOW_IPS'', ''10.0.0.1, 10.0.0.2'')]"

theorem production_configuration_witness:
  "\<exists>st. from_env demo_config_env production_env = Inr st \<and> production_safe demo_config_env st \<and>
     csrf_enabled st"
proof -
  have "case from_env demo_config_env production_env of Inl e \<Rightarrow> False | Inr st \<Rightarrow> app_env st \<noteq> ''local''"
    by code_simp
  then obtain st where st: "from_env demo_config_env production_env = Inr st" "app_env st \<noteq> ''local''"
    by (auto split: sum.splits)
  have "map_of production_env ''CSRF_ENABLED'' = None" by (simp add: production_env_def)
  moreover have "ip_network demo_config_env net = Some (p, net)"
    if "ip_network demo_config_env v = Some (p, net)" for v p net
    using that by (auto simp: demo_config_env_def)
  ultimately show ?thesis using production_configuration [OF st(1)] st by blast
qed

text \<open>
  The validation, whose stated purpose is to reject what would silently turn a
  production install into a demo, accepts a production environment without any database setting: the
  program then runs on the in-memory storage.
\<close>

theorem production_without_database:
  "case from_env demo_config_env production_env of
     Inl e \<Rightarrow> False
   | Inr st \<Rightarrow> app_env st = ''production'' \<and> database_url st = None"
  by code_simp

end
