(* ===== verification/Demo.thy ===== *)
theory Demo
  imports AuditLog Security Settings
begin

text \<open>
  One concrete deployment on which the examples evaluate the services: a clock that advances by
  one second with every reading, identifiers and random texts that carry their number, an
  administrator, two members, one node of each kind the choice of a node tells apart. The digests
  are stand-ins that keep their inputs readable.
\<close>

definition demo_clock :: "nat \<Rightarrow> time" where
  "demo_clock n = 1000000 * int n"

definition demo_uuid :: "nat \<Rightarrow> ident" where
  "demo_uuid n = CHR ''u'' # show_nat n"

definition demo_random :: "nat \<Rightarrow> string" where
  "demo_random n = CHR ''r'' # show_nat n"

definition demo_crypto :: crypto where
  "demo_crypto =
     \<lparr>pbkdf2 = (\<lambda>pw salt n. pw @ salt), sha256_hex = (\<lambda>t. CHR ''h'' # t),
      hmac_sha256_hex = (\<lambda>k m. k @ ''|'' @ m), rfc3339 = (\<lambda>t. show_nat (nat (t div 1000000)))\<rparr>"

lemma inj_demo_uuid: "inj demo_uuid"
  by (simp add: inj_def demo_uuid_def)

lemma inj_demo_random: "inj demo_random"
  by (simp add: inj_def demo_random_def)

text \<open>The stored hash of the password \<open>pw\<close> under the salt \<open>s\<close>, in the format of \<open>PasswordHasher\<close>.\<close>

definition demo_hash :: string where
  "demo_hash = ''pbkdf2_sha256$1$cw==$cHdz''"

lemma demo_hash_ok: "verify_password demo_crypto ''pw'' demo_hash"
  by code_simp

definition demo_user :: "ident \<Rightarrow> string \<Rightarrow> user_role \<Rightarrow> user" where
  "demo_user i l r =
     \<lparr>usr_id = i, usr_login = l, usr_display_name = l, usr_role = r,
      usr_password_hash = demo_hash, usr_created_at = 0, usr_updated_at = 0,
      usr_is_active = True, usr_telegram_username = None, usr_device_limit = Some 1,
      usr_device_limit_unlimited = False, usr_show_server_support = True,
      usr_free_access = False, usr_note = None, usr_created_by_user_id = None\<rparr>"

definition the_admin :: user where
  "the_admin = demo_user ''a'' ''root'' Admin"

definition the_member :: user where
  "the_member = demo_user ''m'' ''bob'' Plain_user"

definition the_outsider :: user where
  "the_outsider = (demo_user ''o'' ''eve'' Plain_user)\<lparr>usr_is_active := False\<rparr>"

definition demo_node :: "ident \<Rightarrow> server_status \<Rightarrow> server_node" where
  "demo_node i st =
     (new_server_node i i ''vpn.example'' ''http://vpn.example:8090'' 0 0)
       \<lparr>node_status := st, node_agent_key_id := Some ''backend-1'',
        node_agent_secret_encrypted := Some ''plain$czM=''\<rparr>"

lemma demo_secret_ok: "decrypt plaintext_box ''plain$czM='' = Inr ''s3''"
  by code_simp

definition demo_storage :: storage where
  "demo_storage =
     add_server_node (demo_node ''n2'' Disabled)
       (add_server_node (demo_node ''n1'' Online)
         (add_user the_outsider (add_user the_member (add_user the_admin
           (empty_storage demo_clock demo_uuid demo_random)))))"

text \<open>The same as the state of a process whose agents have the state \<open>x\<close>.\<close>

definition demo_app :: "'t \<Rightarrow> 't app" where
  "demo_app x = storage.extend demo_storage \<lparr>ssh_secrets = [], agent_st = x\<rparr>"

lemmas demo_defs [defs] =
  demo_clock_def demo_uuid_def demo_random_def demo_crypto_def demo_hash_def demo_user_def
  the_admin_def the_member_def the_outsider_def demo_node_def demo_storage_def

end
