(* ===== verification/Auth.thy ===== *)
theory Auth
  imports Demo
begin

text \<open>
  \<open>app/services/auth_service.py\<close>: login with its rate limit, session resolution, logout. A session
  is filed under the digest of its token; the token itself is only in the answer.
\<close>

definition minutes :: "int \<Rightarrow> time" where
  "minutes n = n * 60000000"

definition days :: "int \<Rightarrow> time" where
  "days n = n * 86400000000"

definition login_key :: "string \<Rightarrow> string" where
  "login_key l = ''login:'' @ l"

definition ip_key :: "string \<Rightarrow> string" where
  "ip_key i = ''ip:'' @ i"

definition enforce_rate_limit ::
  "settings \<Rightarrow> string \<Rightarrow> string option \<Rightarrow> time \<Rightarrow> 'z storage_scheme \<Rightarrow> unit res \<times> 'z storage_scheme" where
  "enforce_rate_limit st l ip tm s =
     (let since = tm - minutes (login_rate_limit_window_minutes st);
          (n, s1) = count_login_failures (login_key l) since s;
          (attempts, s2) =
            (case ip of
               None \<Rightarrow> (n, s1)
             | Some i \<Rightarrow>
                 if i = [] then (n, s1)
                 else (let (m, s2) = count_login_failures (ip_key i) since s1 in (max n m, s2)))
      in if login_rate_limit_attempts st \<le> int attempts
         then (Inl (App (AppError Rate_limited M_too_many_attempts 429 [])), s2)
         else (Inr (), s2))"

text \<open>The user whose login, password and state let the login through.\<close>

definition check_credentials :: "crypto \<Rightarrow> string \<Rightarrow> string \<Rightarrow> 'z storage_scheme \<Rightarrow> user option" where
  "check_credentials cr l pw s =
     (case get_user_by_login l s of
        None \<Rightarrow> None
      | Some u \<Rightarrow>
          if verify_password cr pw (usr_password_hash u) \<and> usr_is_active u then Some u else None)"

definition login_failed ::
  "string \<Rightarrow> string option \<Rightarrow> string option \<Rightarrow> time \<Rightarrow> 'z storage_scheme \<Rightarrow> 'z storage_scheme" where
  "login_failed l ip ua tm s =
     (let s1 = record_login_failure (login_key l) tm s;
          s2 = (case ip of None \<Rightarrow> s1
                | Some i \<Rightarrow> if i = [] then s1 else record_login_failure (ip_key i) tm s1)
      in audit ''login_failed''
           (no_args\<lparr>arg_metadata := [(''login'', JStr l)], arg_ip := ip, arg_user_agent := ua\<rparr>) s2)"

definition new_session ::
  "settings \<Rightarrow> user \<Rightarrow> string \<Rightarrow> string option \<Rightarrow> string option \<Rightarrow> time \<Rightarrow> ident \<Rightarrow> session" where
  "new_session st u h ip ua tm i =
     \<lparr>ses_id = i, ses_user_id = usr_id u, ses_token_hash = h, ses_created_at = tm,
      ses_expires_at = tm + days (session_ttl_days st), ses_last_seen_at = tm,
      ses_user_agent = ua, ses_ip_address = ip, ses_revoked_at = None\<rparr>"

definition login ::
  "crypto \<Rightarrow> settings \<Rightarrow> string \<Rightarrow> string \<Rightarrow> string option \<Rightarrow> string option \<Rightarrow> 'z storage_scheme
    \<Rightarrow> (user \<times> string) res \<times> 'z storage_scheme" where
  "login cr st lg pw ip ua s =
     (let l = normalize_login lg; tm = now s in
      case enforce_rate_limit st l ip tm (tick s) of
        (Inl e, s1) \<Rightarrow> (Inl e, s1)
      | (Inr _, s1) \<Rightarrow>
          (case check_credentials cr l pw s1 of
             None \<Rightarrow> (Inl (unauthorized M_bad_credentials), login_failed l ip ua tm s1)
           | Some u \<Rightarrow>
               let s2 = clear_login_failures (login_key l) s1;
                   (token, s3) = generate_session_token s2;
                   i = new_uuid s3; s4 = use_uuid s3 in
               (case hash_session_token cr token of
                  Inl e \<Rightarrow> (Inl e, s4)
                | Inr h \<Rightarrow>
                    (Inr (u, token),
                     audit ''login_success''
                       (no_args\<lparr>arg_actor := Some (usr_id u), arg_ip := ip, arg_user_agent := ua\<rparr>)
                       (add_session (new_session st u h ip ua tm i) s4)))))"

definition resolve_session ::
  "crypto \<Rightarrow> string \<Rightarrow> 'z storage_scheme \<Rightarrow> user option res \<times> 'z storage_scheme" where
  "resolve_session cr token s =
     (case hash_session_token cr token of
        Inl e \<Rightarrow> (Inl e, s)
      | Inr h \<Rightarrow>
          let tm = now s; s1 = tick s in
          (case get_session_by_token_hash h s of
             None \<Rightarrow> (Inr None, s1)
           | Some x \<Rightarrow>
               if ses_revoked_at x \<noteq> None \<or> ses_expires_at x \<le> tm then (Inr None, s1)
               else
                 (case get_user (ses_user_id x) s1 of
                    None \<Rightarrow> (Inr None, s1)
                  | Some u \<Rightarrow>
                      if \<not> usr_is_active u then (Inr None, s1)
                      else (Inr (Some u), save_session (x\<lparr>ses_last_seen_at := tm\<rparr>) s1))))"

definition logout ::
  "crypto \<Rightarrow> string \<Rightarrow> string option \<Rightarrow> string option \<Rightarrow> 'z storage_scheme
    \<Rightarrow> unit res \<times> 'z storage_scheme" where
  "logout cr token ip ua s =
     (case hash_session_token cr token of
        Inl e \<Rightarrow> (Inl e, s)
      | Inr h \<Rightarrow>
          (case get_session_by_token_hash h s of
             None \<Rightarrow> (Inr (), s)
           | Some x \<Rightarrow>
               if ses_revoked_at x \<noteq> None then (Inr (), s)
               else
                 (Inr (),
                  audit ''logout''
                    (no_args\<lparr>arg_actor := Some (ses_user_id x), arg_ip := ip,
                       arg_user_agent := ua\<rparr>)
                    (save_session (x\<lparr>ses_revoked_at := Some (now s)\<rparr>) (tick s)))))"

section \<open>The rate limit\<close>

text \<open>The failures under a key that lie in the window.\<close>

definition fresh_failures :: "string \<Rightarrow> time \<Rightarrow> 'z storage_scheme \<Rightarrow> nat" where
  "fresh_failures k since s = length (filter (\<lambda>a. since \<le> a) (dict_get [] (login_failures s) k))"

lemma fresh_failures_tick [simp]: "fresh_failures k t (tick s) = fresh_failures k t s"
  by (simp add: fresh_failures_def)

lemma fresh_failures_audit [simp]: "fresh_failures k t (audit a x s) = fresh_failures k t s"
  by (simp add: fresh_failures_def)

lemma fresh_failures_record [simp]:
  "fresh_failures k t (record_login_failure j tm s) =
     fresh_failures k t s + (if k = j \<and> t \<le> tm then 1 else 0)"
  by (simp add: fresh_failures_def record_login_failure_def)

text \<open>Counting drops what is older than the window and nothing else.\<close>

lemma count_login_failures_fresh:
  assumes "count_login_failures j since s = (n, s')"
  shows "n = fresh_failures j since s"
    and "since \<le> t \<Longrightarrow> fresh_failures k t s' = fresh_failures k t s"
proof -
  show "n = fresh_failures j since s"
    using assms by (auto simp: count_login_failures_def fresh_failures_def Let_def)
  have "filter (\<lambda>a. t \<le> a) (filter (\<lambda>a. since \<le> a) xs) = filter (\<lambda>a. t \<le> a) xs"
    if "since \<le> t" for xs :: "int list"
    using that by (auto intro!: filter_cong)
  then show "since \<le> t \<Longrightarrow> fresh_failures k t s' = fresh_failures k t s"
    using assms by (auto simp: count_login_failures_def fresh_failures_def Let_def)
qed

lemma count_login_failures_state:
  "count_login_failures k since s = (n, s') \<Longrightarrow> \<exists>d. s' = s\<lparr>login_failures := d\<rparr>"
  by (auto simp: count_login_failures_def Let_def)

definition ip_failures :: "string option \<Rightarrow> time \<Rightarrow> 'z storage_scheme \<Rightarrow> nat" where
  "ip_failures ip since s =
     (case ip of None \<Rightarrow> 0 | Some i \<Rightarrow> if i = [] then 0 else fresh_failures (ip_key i) since s)"

lemma ip_failures_tick [simp]: "ip_failures ip t (tick s) = ip_failures ip t s"
  by (simp add: ip_failures_def split: option.splits)

lemma key_neq [simp]: "login_key l \<noteq> ip_key i" "ip_key i \<noteq> login_key l"
  by (simp_all add: login_key_def ip_key_def)

lemma enforce_rate_limit_cases:
  fixes st l ip tm s
  defines "since \<equiv> tm - minutes (login_rate_limit_window_minutes st)"
  obtains d where "enforce_rate_limit st l ip tm s =
      (if login_rate_limit_attempts st
            \<le> int (max (fresh_failures (login_key l) since s) (ip_failures ip since s))
       then Inl (App (AppError Rate_limited M_too_many_attempts 429 [])) else Inr (),
       s\<lparr>login_failures := d\<rparr>)"
    "\<And>k t. since \<le> t \<Longrightarrow> fresh_failures k t (s\<lparr>login_failures := d\<rparr>) = fresh_failures k t s"
proof -
  obtain n s1 where c1: "count_login_failures (login_key l) since s = (n, s1)"
    by (cases "count_login_failures (login_key l) since s")
  note f1 = count_login_failures_fresh [OF c1]
  obtain d1 where d1: "s1 = s\<lparr>login_failures := d1\<rparr>"
    using count_login_failures_state [OF c1] by blast
  show thesis
  proof (cases "py_bool_str ip")
    case False
    then have "ip = None \<or> ip = Some []" by (cases ip) auto
    then show thesis
      using that [of d1] c1 f1 d1
      by (auto simp: enforce_rate_limit_def since_def Let_def ip_failures_def)
  next
    case True
    then obtain i where i: "ip = Some i" "i \<noteq> []" by (cases ip) auto
    obtain m s2 where c2: "count_login_failures (ip_key i) since s1 = (m, s2)"
      by (cases "count_login_failures (ip_key i) since s1")
    note f2 = count_login_failures_fresh [OF c2]
    obtain d2 where d2: "s2 = s1\<lparr>login_failures := d2\<rparr>"
      using count_login_failures_state [OF c2] by blast
    have "enforce_rate_limit st l ip tm s =
      (if login_rate_limit_attempts st
            \<le> int (max (fresh_failures (login_key l) since s) (ip_failures ip since s))
       then Inl (App (AppError Rate_limited M_too_many_attempts 429 [])) else Inr (), s2)"
      using c1 c2 f1 f2 i
      by (simp add: enforce_rate_limit_def since_def [symmetric] Let_def ip_failures_def)
    moreover have "fresh_failures k t s2 = fresh_failures k t s" if "since \<le> t" for k t
      using f1(2) [OF that] f2(2) [OF that] by simp
    ultimately show thesis
      using that [of d2] d1 d2 by simp
  qed
qed

lemma enforce_rate_limit_frame:
  assumes "enforce_rate_limit st l ip tm s = (r, s')"
  shows "\<exists>d. s' = s\<lparr>login_failures := d\<rparr>"
  using enforce_rate_limit_cases [of st l ip tm s] assms by auto


section \<open>Login\<close>

text \<open>The three outcomes of \<open>login\<close>, for an ASCII token (the alphabet of \<open>token_urlsafe\<close>).\<close>

lemma check_credentials_frame [simp]:
  "check_credentials cr l pw (tick s) = check_credentials cr l pw s"
  "check_credentials cr l pw (s\<lparr>login_failures := d\<rparr>) = check_credentials cr l pw s"
  by (simp_all add: check_credentials_def get_user_by_login_def)

lemma check_credentials_Some:
  "check_credentials cr l pw s = Some u \<longleftrightarrow>
     get_user_by_login l s = Some u \<and> verify_password cr pw (usr_password_hash u) \<and> usr_is_active u"
  by (auto simp: check_credentials_def split: option.splits)

lemma login_Inr:
  assumes "login cr st lg pw ip ua s = (Inr (u, token), s')"
  obtains h d x where
    "check_credentials cr (normalize_login lg) pw s = Some u"
    "hash_session_token cr token = Inr h" "token = new_random s"
    "x = new_session st u h ip ua (now s) (new_uuid s)"
    "s' = audit ''login_success''
       (no_args\<lparr>arg_actor := Some (usr_id u), arg_ip := ip, arg_user_agent := ua\<rparr>)
       (add_session x (use_uuid (use_random (clear_login_failures (login_key (normalize_login lg))
          (tick s\<lparr>login_failures := d\<rparr>)))))"
proof -
  let ?l = "normalize_login lg"
  obtain r s1 where e: "enforce_rate_limit st ?l ip (now s) (tick s) = (r, s1)"
    by (cases "enforce_rate_limit st ?l ip (now s) (tick s)")
  then obtain d where d: "s1 = tick s\<lparr>login_failures := d\<rparr>"
    using enforce_rate_limit_frame by blast
  show thesis
    using assms e d that [of _ _ d]
    by (auto simp: login_def Let_def generate_session_token_def split: sum.splits option.splits)
qed

text \<open>The user a session names, if the session is good at the time \<open>tm\<close>.\<close>

definition session_user :: "time \<Rightarrow> string \<Rightarrow> 'z storage_scheme \<Rightarrow> user option" where
  "session_user tm h s =
     (case get_session_by_token_hash h s of
        None \<Rightarrow> None
      | Some x \<Rightarrow>
          if ses_revoked_at x = None \<and> tm < ses_expires_at x
          then (case get_user (ses_user_id x) s of
                  None \<Rightarrow> None
                | Some u \<Rightarrow> if usr_is_active u then Some u else None)
          else None)"

lemma resolve_session_eq:
  "resolve_session cr token s =
     (case hash_session_token cr token of
        Inl e \<Rightarrow> (Inl e, s)
      | Inr h \<Rightarrow>
          (case session_user (now s) h s of
             None \<Rightarrow> (Inr None, tick s)
           | Some u \<Rightarrow>
               (Inr (Some u),
                save_session
                  ((the (get_session_by_token_hash h s))\<lparr>ses_last_seen_at := now s\<rparr>) (tick s))))"
  by (auto simp: resolve_session_def session_user_def Let_def split: sum.splits option.splits)

text \<open>
  C2: LOGIN. A login succeeds only for the active user of that login whose stored hash accepts
  the password; afterwards the digest of the returned token names that user until exactly
  \<open>session_ttl_days\<close> later, the failures counted for the login are gone, and no user, device or
  node has changed.
\<close>

theorem login_success:
  assumes "login cr st lg pw ip ua s = (Inr (u, token), s')" "get_user (usr_id u) s = Some u"
  shows "get_user_by_login lg s = Some u \<and> usr_is_active u \<and>
    verify_password cr pw (usr_password_hash u) \<and>
    (\<exists>h. hash_session_token cr token = Inr h \<and>
       (\<forall>tm. session_user tm h s' =
          (if tm < now s + days (session_ttl_days st) then Some u else None))) \<and>
    fresh_failures (login_key (normalize_login lg)) t s' = 0 \<and>
    users s' = users s \<and> devices s' = devices s \<and> server_nodes s' = server_nodes s"
proof -
  from assms(1) obtain h d x where *:
    "check_credentials cr (normalize_login lg) pw s = Some u"
    "hash_session_token cr token = Inr h"
    "x = new_session st u h ip ua (now s) (new_uuid s)"
    "s' = audit ''login_success''
       (no_args\<lparr>arg_actor := Some (usr_id u), arg_ip := ip, arg_user_agent := ua\<rparr>)
       (add_session x (use_uuid (use_random (clear_login_failures (login_key (normalize_login lg))
          (tick s\<lparr>login_failures := d\<rparr>)))))"
    by (rule login_Inr)
  then have "get_user_by_login lg s = Some u" "usr_is_active u"
    "verify_password cr pw (usr_password_hash u)" "users s' = users s" "devices s' = devices s"
    "server_nodes s' = server_nodes s"
    by (auto simp: check_credentials_Some get_user_by_login_def)
  moreover have "fresh_failures (login_key (normalize_login lg)) t s' = 0"
    using * by (simp add: fresh_failures_def clear_login_failures_def)
  moreover have "session_user tm h s' =
      (if tm < now s + days (session_ttl_days st) then Some u else None)" for tm
    using * assms(2) \<open>usr_is_active u\<close> by (simp add: session_user_def new_session_def)
  ultimately show ?thesis using * by blast
qed

theorem login_success_witness:
  "get_user_by_login '' Bob '' demo_storage = Some the_member \<and>
   users (snd (login demo_crypto default_settings '' Bob '' ''pw'' None None demo_storage))
     = users demo_storage"
proof -
  have "login demo_crypto default_settings '' Bob '' ''pw'' None None demo_storage
      = (Inr (the_member, ''r0''),
         snd (login demo_crypto default_settings '' Bob '' ''pw'' None None demo_storage))"
    by (rule prod_eqI, code_simp, simp)
  moreover have "get_user (usr_id the_member) demo_storage = Some the_member" by code_simp
  ultimately show ?thesis by (blast dest: login_success)
qed

text \<open>
  C26: RATE LIMIT. When as many failures as the limit allows lie in the window, for the login or for
  the address, the attempt is refused with 429 whatever the password: no session, no audit entry
  and no new failure.
\<close>

theorem login_rate_limited:
  fixes st lg ip s
  defines "since \<equiv> now s - minutes (login_rate_limit_window_minutes st)"
  defines "l \<equiv> normalize_login lg"
  assumes "login_rate_limit_attempts st
             \<le> int (max (fresh_failures (login_key l) since s) (ip_failures ip since s))"
  shows "fst (login cr st lg pw ip ua s) = Inl (App (AppError Rate_limited M_too_many_attempts 429 []))
    \<and> sessions (snd (login cr st lg pw ip ua s)) = sessions s
    \<and> audit_log (snd (login cr st lg pw ip ua s)) = audit_log s
    \<and> fresh_failures k since (snd (login cr st lg pw ip ua s)) = fresh_failures k since s"
proof -
  obtain d where d: "enforce_rate_limit st l ip (now s) (tick s) =
      (Inl (App (AppError Rate_limited M_too_many_attempts 429 [])), (tick s)\<lparr>login_failures := d\<rparr>)"
    and f: "\<And>k t. since \<le> t \<Longrightarrow>
        fresh_failures k t ((tick s)\<lparr>login_failures := d\<rparr>) = fresh_failures k t (tick s)"
    using enforce_rate_limit_cases [of st l ip "now s" "tick s"] assms(3)
    by (auto simp: since_def)
  show ?thesis
    using d f [of since k] by (simp add: login_def Let_def flip: l_def)
qed

theorem login_rate_limited_witness:
  "fst (login demo_crypto default_settings ''bob'' ''pw'' None None
     (demo_storage\<lparr>login_failures := [(''login:bob'', [0, 0, 0, 0, 0])]\<rparr>))
   = Inl (App (AppError Rate_limited M_too_many_attempts 429 []))"
  by (rule login_rate_limited [THEN conjunct1]) code_simp

section \<open>Guessing\<close>

text \<open>A sequence of attempts on one login: passwords, addresses and agents, with their answers.\<close>

fun login_run ::
  "crypto \<Rightarrow> settings \<Rightarrow> string \<Rightarrow> (string \<times> string option \<times> string option) list
    \<Rightarrow> 'z storage_scheme \<Rightarrow> (user \<times> string) res list \<times> 'z storage_scheme" where
  "login_run cr st lg [] s = ([], s)"
| "login_run cr st lg ((pw, ip, ua) # as) s =
     (let (r, s1) = login cr st lg pw ip ua s; (rs, s2) = login_run cr st lg as s1 in (r # rs, s2))"

definition wrong_guess :: "'a res \<Rightarrow> bool" where
  "wrong_guess r \<longleftrightarrow> (case r of Inl e \<Rightarrow> e = unauthorized M_bad_credentials | Inr _ \<Rightarrow> False)"

definition refused :: "'a res \<Rightarrow> bool" where
  "refused r \<longleftrightarrow> wrong_guess r \<or>
     (case r of Inl e \<Rightarrow> e = App (AppError Rate_limited M_too_many_attempts 429 []) | Inr _ \<Rightarrow> False)"

lemma login_wrong_guess:
  fixes t0 lg
  defines "k \<equiv> login_key (normalize_login lg)"
  assumes "login cr st lg pw ip ua s = (r, s')" "refused r"
    and "now s - minutes (login_rate_limit_window_minutes st) \<le> t0" "t0 \<le> now s"
  shows "if wrong_guess r
     then fresh_failures k t0 s' = Suc (fresh_failures k t0 s) \<and>
          int (fresh_failures k t0 s) < login_rate_limit_attempts st
     else fresh_failures k t0 s' = fresh_failures k t0 s"
proof -
  let ?l = "normalize_login lg"
  let ?since = "now s - minutes (login_rate_limit_window_minutes st)"
  obtain d where d: "enforce_rate_limit st ?l ip (now s) (tick s) =
      (if login_rate_limit_attempts st
            \<le> int (max (fresh_failures k ?since s) (ip_failures ip ?since s))
       then Inl (App (AppError Rate_limited M_too_many_attempts 429 [])) else Inr (),
       (tick s)\<lparr>login_failures := d\<rparr>)"
    and f: "\<And>t. ?since \<le> t \<Longrightarrow>
        fresh_failures k t ((tick s)\<lparr>login_failures := d\<rparr>) = fresh_failures k t s"
    by (rule enforce_rate_limit_cases [of st ?l ip "now s" "tick s"]) (rule that; simp add: k_def)
  have le: "fresh_failures k t0 s \<le> fresh_failures k ?since s"
  proof -
    have "filter (\<lambda>a. t0 \<le> a) xs = filter (\<lambda>a. t0 \<le> a) (filter (\<lambda>a. ?since \<le> a) xs)" for xs
      using assms(4) by (auto intro!: filter_cong)
    then show ?thesis unfolding fresh_failures_def by (metis length_filter_le)
  qed
  show ?thesis
    using assms(2,3,5) d le f [OF assms(4)]
    by (auto simp: login_def Let_def login_failed_def refused_def wrong_guess_def unauthorized_def
        k_def hash_session_token_def generate_session_token_def
        split: if_splits option.splits sum.splits)
qed

lemma login_clock:
  "clock_at (snd (login cr st lg pw ip ua s)) = clock_at s"
  "clock_n s \<le> clock_n (snd (login cr st lg pw ip ua s))"
  "uuid_at (snd (login cr st lg pw ip ua s)) = uuid_at s"
proof -
  let ?l = "normalize_login lg"
  obtain r s1 where e: "enforce_rate_limit st ?l ip (now s) (tick s) = (r, s1)"
    by (cases "enforce_rate_limit st ?l ip (now s) (tick s)")
  then obtain d where "s1 = (tick s)\<lparr>login_failures := d\<rparr>"
    using enforce_rate_limit_frame by blast
  then show "clock_at (snd (login cr st lg pw ip ua s)) = clock_at s"
    "clock_n s \<le> clock_n (snd (login cr st lg pw ip ua s))"
    "uuid_at (snd (login cr st lg pw ip ua s)) = uuid_at s"
    using e by (auto simp: login_def Let_def login_failed_def generate_session_token_def
        split: sum.splits option.splits)
qed

lemma login_run_clock:
  "clock_at (snd (login_run cr st lg as s)) = clock_at s"
  "clock_n s \<le> clock_n (snd (login_run cr st lg as s))"
proof (induction as arbitrary: s)
  case (Cons a as)
  { case 1 then show ?case using Cons login_clock
      by (cases a) (auto simp: split_beta)
  next
    case 2 then show ?case using le_trans [OF login_clock(2) Cons(2)]
      by (cases a) (simp add: split_beta) }
qed simp_all

lemma login_run_bound:
  assumes "mono (clock_at s)" "t0 \<le> now s"
    and "now (snd (login_run cr st lg as s)) \<le> t0 + minutes (login_rate_limit_window_minutes st)"
    and "list_all refused (fst (login_run cr st lg as s))"
  shows "int (length (filter wrong_guess (fst (login_run cr st lg as s))))
     \<le> max 0 (login_rate_limit_attempts st
         - int (fresh_failures (login_key (normalize_login lg)) t0 s))"
  using assms
proof (induction as arbitrary: s)
  case Nil
  then show ?case by simp
next
  case (Cons a as)
  obtain pw ip ua where a: "a = (pw, ip, ua)" by (cases a)
  obtain r s1 where r: "login cr st lg pw ip ua s = (r, s1)" by (cases "login cr st lg pw ip ua s")
  have clk: "clock_at s1 = clock_at s" "clock_n s \<le> clock_n s1"
    using login_clock [where s = s and pw = pw and ip = ip and ua = ua and cr = cr and st = st
      and lg = lg] r by simp_all
  then have n1: "now s \<le> now s1"
    using Cons.prems(1) by (simp add: now_def monoD)
  have "now s1 \<le> now (snd (login_run cr st lg as s1))"
    using Cons.prems(1) clk login_run_clock [where s = s1] by (simp add: now_def monoD)
  with Cons.prems(3) a r n1
  have win: "now s - minutes (login_rate_limit_window_minutes st) \<le> t0"
    by (simp add: split_beta)
  have ref: "refused r" using Cons.prems(4) a r by (simp add: split_beta)
  note step = login_wrong_guess [OF r ref win Cons.prems(2)]
  have "int (length (filter wrong_guess (fst (login_run cr st lg as s1))))
     \<le> max 0 (login_rate_limit_attempts st
         - int (fresh_failures (login_key (normalize_login lg)) t0 s1))"
    by (rule Cons.IH) (use Cons.prems a r clk n1 in \<open>simp_all add: split_beta\<close>)
  with step a r show ?case by (auto simp: split_beta split: if_splits)
qed

text \<open>
  C3: GUESSING. Whatever passwords and addresses are tried against one login, while the attempts stay
  within one window and none is let through, the passwords actually compared are at most the limit
  less the failures already counted; every further attempt is answered without looking at it.
\<close>

theorem guesses_bounded:
  assumes "mono (clock_at s)"
    and "now (snd (login_run cr st lg as s)) \<le> now s + minutes (login_rate_limit_window_minutes st)"
    and "list_all refused (fst (login_run cr st lg as s))"
  shows "int (length (filter wrong_guess (fst (login_run cr st lg as s))))
     \<le> max 0 (login_rate_limit_attempts st
         - int (fresh_failures (login_key (normalize_login lg)) (now s) s))"
  by (rule login_run_bound) (use assms in simp_all)

theorem guesses_bounded_witness:
  defines "tight \<equiv> default_settings\<lparr>login_rate_limit_attempts := 2\<rparr>"
  shows "int (length (filter wrong_guess (fst (login_run demo_crypto tight ''bob''
      (replicate 3 (''pw1'', Some ''1.1'', None)) demo_storage)))) \<le> 2"
proof -
  have "int (length (filter wrong_guess (fst (login_run demo_crypto tight ''bob''
      (replicate 3 (''pw1'', Some ''1.1'', None)) demo_storage))))
    \<le> max 0 (login_rate_limit_attempts tight
         - int (fresh_failures (login_key (normalize_login ''bob'')) (now demo_storage) demo_storage))"
  proof (rule guesses_bounded)
    show "mono (clock_at demo_storage)"
      by (simp add: demo_defs add_is_save empty_storage_def save_user_def save_server_node_def mono_def
          demo_clock_def)
  qed (unfold tight_def, code_simp+)
  also have "\<dots> \<le> 2" unfolding tight_def by code_simp
  finally show ?thesis .
qed

section \<open>Sessions\<close>

text \<open>
  A token resolves to a user exactly when the digest of the token names a session that
  is not revoked and not expired, of a user that is active; it then changes nothing but the time
  the session was last seen, and otherwise nothing at all.
\<close>

theorem resolve_session_exact:
  "resolve_session cr token s =
     (case hash_session_token cr token of
        Inl e \<Rightarrow> (Inl e, s)
      | Inr h \<Rightarrow>
          (case session_user (now s) h s of
             None \<Rightarrow> (Inr None, tick s)
           | Some u \<Rightarrow>
               (Inr (Some u),
                save_session
                  ((the (get_session_by_token_hash h s))\<lparr>ses_last_seen_at := now s\<rparr>) (tick s))))"
  by (rule resolve_session_eq)

text \<open>
  After a logout the token names no session any more, at any time, and no other session
  is touched.
\<close>

theorem logout_ends_session:
  assumes "hash_session_token cr token = Inr h"
    and "\<And>x. get_session_by_token_hash h s = Some x \<Longrightarrow> ses_token_hash x = h"
  shows "fst (logout cr token ip ua s) = Inr () \<and>
    session_user tm h (snd (logout cr token ip ua s)) = None \<and>
    (k \<noteq> h \<longrightarrow> session_user tm k (snd (logout cr token ip ua s)) = session_user tm k s)"
proof (cases "get_session_by_token_hash h s")
  case None
  then show ?thesis using assms by (simp add: logout_def session_user_def)
next
  case (Some x)
  with assms(2) have "ses_token_hash x = h" by simp
  then show ?thesis
    using Some assms(1) by (auto simp: logout_def session_user_def Let_def split: option.splits)
qed

theorem logout_ends_session_witness:
  defines "s \<equiv> snd (login demo_crypto default_settings ''bob'' ''pw'' None None demo_storage)"
  shows "session_user 5 ''hr0'' s = Some the_member \<and>
    session_user 5 ''hr0'' (snd (logout demo_crypto ''r0'' None None s)) = None"
proof -
  have "session_user 5 ''hr0'' s = Some the_member"
    unfolding s_def by code_simp
  moreover have "hash_session_token demo_crypto ''r0'' = Inr ''hr0''" by code_simp
  moreover have "ses_token_hash x = ''hr0''" if "get_session_by_token_hash ''hr0'' s = Some x" for x
  proof -
    have "map_option ses_token_hash (get_session_by_token_hash ''hr0'' s) = Some ''hr0''"
      unfolding s_def by code_simp
    with that show ?thesis by simp
  qed
  ultimately show ?thesis using logout_ends_session by blast
qed

end
