(* ===== verification/Users.thy ===== *)
theory Users
  imports Patch Auth
begin

text \<open>
  \<open>app/services/user_service.py\<close> and \<open>bootstrap_first_admin\<close> of \<open>app/main.py\<close>: the members, whom only
  an administrator creates and changes. The lemmas show that logins stay unique and normalised,
  what a PATCH can and cannot reach, that disabling a member or resetting the password ends all
  of the member's sessions and nobody else's, and that an administrator is always left.
\<close>

section \<open>Operations\<close>

definition user_get :: "ident \<Rightarrow> 'z storage_scheme \<Rightarrow> user res" where
  "user_get i s =
     (case get_user i s of None \<Rightarrow> Inl (not_found M_user_not_found) | Some u \<Rightarrow> Inr u)"

definition list_with_device_counts :: "'z storage_scheme \<Rightarrow> (user \<times> nat) list" where
  "list_with_device_counts s =
     map (\<lambda>u. (u, count_devices_toward_limit (usr_id u) s)) (list_users s)"

text \<open>The keyword arguments of \<open>create\<close>.\<close>

record user_args =
  ua_login :: string
  ua_display_name :: string
  ua_password :: string
  ua_role :: user_role
  ua_telegram_username :: "string option"
  ua_device_limit :: "int option"
  ua_device_limit_unlimited :: bool
  ua_show_server_support :: bool
  ua_free_access :: bool
  ua_note :: "string option"

definition new_user :: "user \<Rightarrow> user_args \<Rightarrow> ident \<Rightarrow> string \<Rightarrow> time \<Rightarrow> user" where
  "new_user actor a i pwh tm =
     \<lparr>usr_id = i, usr_login = normalize_login (ua_login a),
      usr_display_name = py_strip (ua_display_name a), usr_role = ua_role a,
      usr_password_hash = pwh, usr_created_at = tm, usr_updated_at = tm, usr_is_active = True,
      usr_telegram_username = ua_telegram_username a, usr_device_limit = ua_device_limit a,
      usr_device_limit_unlimited = ua_device_limit_unlimited a,
      usr_show_server_support = ua_show_server_support a, usr_free_access = ua_free_access a,
      usr_note = ua_note a, usr_created_by_user_id = Some (usr_id actor)\<rparr>"

definition user_create ::
  "crypto \<Rightarrow> user \<Rightarrow> user_args \<Rightarrow> 'z storage_scheme \<Rightarrow> user res \<times> 'z storage_scheme" where
  "user_create cr actor a s =
     (if get_user_by_login (normalize_login (ua_login a)) s \<noteq> None
      then (Inl (App (AppError Validation_error M_login_taken 409 [])), s)
      else
        (let tm = now s; s1 = tick s;
             i = new_uuid s1; s2 = use_uuid s1;
             (pwh, s3) = hash_password cr (ua_password a) s2;
             u = new_user actor a i pwh tm
         in (Inr u,
             audit ''user_created''
               (no_args\<lparr>arg_actor := Some (usr_id actor), arg_target_type := Some ''user'',
                  arg_target_id := Some (usr_id u),
                  arg_metadata := [(''login'', JStr (usr_login u)),
                                   (''role'', JStr (role_value (usr_role u)))]\<rparr>)
               (add_user u s3))))"

definition user_patchable :: "string list" where
  "user_patchable =
     [''display_name'', ''telegram_username'', ''role'', ''device_limit'',
      ''device_limit_unlimited'', ''show_server_support'', ''free_access'', ''note'']"

definition user_getattr :: "string \<Rightarrow> user \<Rightarrow> json" where
  "user_getattr f u =
     (if f = ''display_name'' then JStr (usr_display_name u)
      else if f = ''telegram_username'' then json_opt_str (usr_telegram_username u)
      else if f = ''role'' then JStr (role_value (usr_role u))
      else if f = ''device_limit'' then json_opt_int (usr_device_limit u)
      else if f = ''device_limit_unlimited'' then JBool (usr_device_limit_unlimited u)
      else if f = ''show_server_support'' then JBool (usr_show_server_support u)
      else if f = ''free_access'' then JBool (usr_free_access u)
      else if f = ''note'' then json_opt_str (usr_note u)
      else JNull)"

fun as_role :: "json \<Rightarrow> user_role option" where
  "as_role (JStr s) =
     (if s = ''admin'' then Some Admin else if s = ''user'' then Some Plain_user else None)"
| "as_role _ = None"

definition user_setattr :: "string \<Rightarrow> json \<Rightarrow> user \<Rightarrow> user option" where
  "user_setattr f v u =
     (if f = ''display_name'' then map_option (\<lambda>w. u\<lparr>usr_display_name := w\<rparr>) (as_str v)
      else if f = ''telegram_username''
        then map_option (\<lambda>w. u\<lparr>usr_telegram_username := w\<rparr>) (as_opt_str v)
      else if f = ''role'' then map_option (\<lambda>w. u\<lparr>usr_role := w\<rparr>) (as_role v)
      else if f = ''device_limit'' then map_option (\<lambda>w. u\<lparr>usr_device_limit := w\<rparr>) (as_opt_int v)
      else if f = ''device_limit_unlimited''
        then map_option (\<lambda>w. u\<lparr>usr_device_limit_unlimited := w\<rparr>) (as_bool v)
      else if f = ''show_server_support''
        then map_option (\<lambda>w. u\<lparr>usr_show_server_support := w\<rparr>) (as_bool v)
      else if f = ''free_access'' then map_option (\<lambda>w. u\<lparr>usr_free_access := w\<rparr>) (as_bool v)
      else if f = ''note'' then map_option (\<lambda>w. u\<lparr>usr_note := w\<rparr>) (as_opt_str v)
      else None)"

definition user_update ::
  "user \<Rightarrow> ident \<Rightarrow> jdict \<Rightarrow> 'z storage_scheme \<Rightarrow> user res \<times> 'z storage_scheme" where
  "user_update actor i patch s =
     (case user_get i s of
        Inl e \<Rightarrow> (Inl e, s)
      | Inr u \<Rightarrow>
          (case patch_loop no_hook user_getattr user_setattr user_patchable patch u [] of
             Inl f \<Rightarrow> (Inl (Py (Ill_typed f)), s)
           | Inr (u1, changed) \<Rightarrow>
               if changed = [] then (Inr u1, s)
               else
                 (let u2 = u1\<lparr>usr_updated_at := now s\<rparr> in
                  (Inr u2,
                   audit ''user_updated''
                     (no_args\<lparr>arg_actor := Some (usr_id actor), arg_target_type := Some ''user'',
                        arg_target_id := Some (usr_id u2),
                        arg_metadata := [(''changed'', JList (map JStr changed))]\<rparr>)
                     (save_user u2 (tick s))))))"

definition reset_password ::
  "crypto \<Rightarrow> user \<Rightarrow> ident \<Rightarrow> string \<Rightarrow> 'z storage_scheme \<Rightarrow> unit res \<times> 'z storage_scheme" where
  "reset_password cr actor i pw s =
     (case user_get i s of
        Inl e \<Rightarrow> (Inl e, s)
      | Inr u \<Rightarrow>
          let (pwh, s1) = hash_password cr pw s;
              u1 = u\<lparr>usr_password_hash := pwh, usr_updated_at := now s1\<rparr>;
              s2 = save_user u1 (tick s1);
              s3 = revoke_sessions_for_user (usr_id u1) (now s2) (tick s2)
          in (Inr (),
              audit ''user_password_reset''
                (no_args\<lparr>arg_actor := Some (usr_id actor), arg_target_type := Some ''user'',
                   arg_target_id := Some (usr_id u1)\<rparr>) s3))"

definition set_active ::
  "user \<Rightarrow> ident \<Rightarrow> bool \<Rightarrow> 'z storage_scheme \<Rightarrow> user res \<times> 'z storage_scheme" where
  "set_active actor i b s =
     (case user_get i s of
        Inl e \<Rightarrow> (Inl e, s)
      | Inr u \<Rightarrow>
          if usr_id u = usr_id actor \<and> \<not> b
          then (Inl (App (AppError Validation_error M_cannot_disable_self 400 [])), s)
          else if usr_is_active u \<noteq> b then
            (let u1 = u\<lparr>usr_is_active := b, usr_updated_at := now s\<rparr>;
                 s1 = save_user u1 (tick s);
                 s2 = (if \<not> b then revoke_sessions_for_user (usr_id u1) (now s1) (tick s1) else s1)
             in (Inr u1,
                 audit (if b then ''user_enabled'' else ''user_disabled'')
                   (no_args\<lparr>arg_actor := Some (usr_id actor), arg_target_type := Some ''user'',
                      arg_target_id := Some (usr_id u1)\<rparr>) s2))
          else (Inr u, s))"

definition bootstrap_first_admin ::
  "crypto \<Rightarrow> settings \<Rightarrow> 'z storage_scheme \<Rightarrow> 'z storage_scheme" where
  "bootstrap_first_admin cr st s =
     (if has_admin s then s
      else
        (let (pw, s1) = (case first_admin_password st of
                           None \<Rightarrow> generate_password s | Some p \<Rightarrow> (p, s));
             tm = now s1; s2 = tick s1;
             i = new_uuid s2; s3 = use_uuid s2;
             (pwh, s4) = hash_password cr pw s3;
             u = \<lparr>usr_id = i, usr_login = normalize_login (first_admin_login st),
                  usr_display_name = first_admin_login st, usr_role = Admin,
                  usr_password_hash = pwh, usr_created_at = tm, usr_updated_at = tm,
                  usr_is_active = True, usr_telegram_username = None, usr_device_limit = None,
                  usr_device_limit_unlimited = True, usr_show_server_support = False,
                  usr_free_access = True, usr_note = None, usr_created_by_user_id = None\<rparr>
         in audit ''bootstrap_admin_created''
              (no_args\<lparr>arg_target_type := Some ''user'', arg_target_id := Some (usr_id u)\<rparr>)
              (add_user u s4)))"


section \<open>Well-formed members\<close>

text \<open>
  Every member is filed under the own identifier, logins are in normal form and no two are equal.
\<close>

definition users_ok :: "'z storage_scheme \<Rightarrow> bool" where
  "users_ok s \<longleftrightarrow> distinct (map fst (users s)) \<and>
     (\<forall>(k, u) \<in> set (users s). usr_id u = k \<and> normalize_login (usr_login u) = usr_login u) \<and>
     distinct (map usr_login (dict_values (users s)))"

lemma users_ok_frame:
  "users s' = users s \<Longrightarrow> users_ok s' = users_ok s"
  by (simp add: users_ok_def)

lemma users_ok_get:
  "users_ok s \<Longrightarrow> get_user i s = Some u \<Longrightarrow> usr_id u = i \<and> normalize_login (usr_login u) = usr_login u"
  by (auto simp: users_ok_def get_user_def dest: map_of_SomeD)

lemma get_user_by_login_None:
  "get_user_by_login l s = None \<longleftrightarrow> normalize_login l \<notin> usr_login ` snd ` set (users s)"
  by (force simp: get_user_by_login_def find_None_iff image_iff)

lemma get_user_by_login_Some:
  "users_ok s \<Longrightarrow> get_user_by_login l s = Some u \<longleftrightarrow>
     get_user (usr_id u) s = Some u \<and> usr_login u = normalize_login l"
proof
  assume ok: "users_ok s" and "get_user_by_login l s = Some u"
  then obtain k where "(k, u) \<in> set (users s)" "usr_login u = normalize_login l"
    by (auto simp: get_user_by_login_def find_Some_iff in_set_conv_nth) (metis nth_mem prod.collapse)
  with ok show "get_user (usr_id u) s = Some u \<and> usr_login u = normalize_login l"
    by (auto simp: users_ok_def get_user_def)
next
  assume ok: "users_ok s" and u: "get_user (usr_id u) s = Some u \<and> usr_login u = normalize_login l"
  then have mem: "u \<in> set (dict_values (users s))"
    by (force simp: get_user_def dest: map_of_SomeD)
  then obtain v where v: "get_user_by_login l s = Some v"
    using u by (cases "get_user_by_login l s") (auto simp: get_user_by_login_None image_iff)
  then have "v \<in> set (dict_values (users s))" "usr_login v = normalize_login l"
    by (auto simp: get_user_by_login_def find_Some_iff)
  then have "v = u"
    using ok mem u by (auto simp: users_ok_def distinct_map inj_on_def)
  with v show "get_user_by_login l s = Some u" by simp
qed

lemma distinct_logins_new:
  "map_of d k = None \<Longrightarrow> distinct (map usr_login (dict_values d)) \<Longrightarrow>
     usr_login u \<notin> usr_login ` snd ` set d \<Longrightarrow> distinct (map usr_login (dict_values (dict_set k u d)))"
  by (auto simp: dict_set_new)

lemma logins_same:
  "map_of d k = Some v \<Longrightarrow> usr_login u = usr_login v \<Longrightarrow>
     map usr_login (dict_values (dict_set k u d)) = map usr_login (dict_values d)"
  by (induction d) auto

lemma users_ok_add:
  assumes "users_ok s" "get_user (usr_id u) s = None" "get_user_by_login (usr_login u) s = None"
    and "normalize_login (usr_login u) = usr_login u"
  shows "users_ok (save_user u s)"
  unfolding users_ok_def
proof (intro conjI)
  show "distinct (map fst (users (save_user u s)))"
    using assms(1) by (simp add: users_ok_def save_user_def)
  show "\<forall>(k, v) \<in> set (users (save_user u s)). usr_id v = k \<and> normalize_login (usr_login v) = usr_login v"
    using assms(1,4) by (auto simp: users_ok_def save_user_def dest!: in_dict_set)
  show "distinct (map usr_login (dict_values (users (save_user u s))))"
    using assms by (simp add: users_ok_def save_user_def get_user_def get_user_by_login_None
        distinct_logins_new del: map_map)
qed

lemma users_ok_change:
  assumes "users_ok s" "get_user (usr_id u) s = Some v" "usr_login u = usr_login v"
  shows "users_ok (save_user u s)"
  unfolding users_ok_def
proof (intro conjI)
  show "distinct (map fst (users (save_user u s)))"
    using assms(1) by (simp add: users_ok_def save_user_def)
  have "normalize_login (usr_login u) = usr_login u"
    using users_ok_get [OF assms(1,2)] assms(3) by simp
  then show "\<forall>(k, v) \<in> set (users (save_user u s)). usr_id v = k \<and> normalize_login (usr_login v) = usr_login v"
    using assms(1) by (auto simp: users_ok_def save_user_def dest!: in_dict_set)
  show "distinct (map usr_login (dict_values (users (save_user u s))))"
    using assms by (simp add: users_ok_def save_user_def get_user_def logins_same del: map_map)
qed

section \<open>What a PATCH reaches\<close>

text \<open>The part of a user that no PATCH reaches.\<close>

definition user_core :: "user \<Rightarrow> ident \<times> string \<times> string \<times> time \<times> bool \<times> ident option" where
  "user_core u = (usr_id u, usr_login u, usr_password_hash u, usr_created_at u, usr_is_active u,
     usr_created_by_user_id u)"

lemma as_role_Some [simp]: "as_role v = Some r \<longleftrightarrow> v = JStr (role_value r)"
  by (cases v; cases r) auto

lemma user_set_get:
  "f \<in> set user_patchable \<Longrightarrow> user_setattr f v x = Some y \<Longrightarrow> user_getattr f y = v"
  by (simp add: user_patchable_def, elim disjE; clarsimp simp: user_setattr_def;
      simp add: user_getattr_def)

lemma user_set_other:
  "f \<in> set user_patchable \<Longrightarrow> g \<noteq> f \<Longrightarrow> user_setattr f v x = Some y \<Longrightarrow>
     user_getattr g y = user_getattr g x"
  by (simp add: user_patchable_def, elim disjE; clarsimp simp: user_setattr_def;
      simp add: user_getattr_def)

lemma user_set_core:
  "f \<in> set user_patchable \<Longrightarrow> user_setattr f v x = Some y \<Longrightarrow> user_core y = user_core x"
  by (simp add: user_patchable_def, elim disjE; clarsimp simp: user_setattr_def user_core_def)

interpretation user_attrs: attributes user_getattr user_setattr user_patchable no_hook user_core
  by unfold_locales (simp_all add: user_set_get user_set_other user_set_core no_hook_def)

text \<open>The result of a successful PATCH is the loop's, with a new \<open>updated_at\<close> if it changed.\<close>

lemma user_update_Inr:
  assumes "user_update actor i patch s = (Inr u', s')"
  obtains u u1 ch where "get_user i s = Some u" "user_attrs.loop patch u [] = Inr (u1, ch)"
    "u' = (if ch = [] then u1 else u1\<lparr>usr_updated_at := now s\<rparr>)"
    "s' = (if ch = [] then s else
       audit ''user_updated''
         (no_args\<lparr>arg_actor := Some (usr_id actor), arg_target_type := Some ''user'',
            arg_target_id := Some (usr_id u'),
            arg_metadata := [(''changed'', JList (map JStr ch))]\<rparr>) (save_user u' (tick s)))"
proof (cases "get_user i s")
  case None
  then show thesis using assms by (simp add: user_update_def user_get_def)
next
  case (Some u)
  show thesis
  proof (cases "user_attrs.loop patch u []")
    case (Inl f)
    then show thesis using assms Some by (simp add: user_update_def user_get_def)
  next
    case (Inr r)
    then show thesis
      using assms Some that [OF Some]
      by (cases r) (auto simp: user_update_def user_get_def Let_def split: if_splits)
  qed
qed

lemma user_core_upd [simp]: "user_core (u\<lparr>usr_updated_at := t\<rparr>) = user_core u"
  by (simp add: user_core_def)

lemma user_getattr_upd [simp]: "user_getattr f (u\<lparr>usr_updated_at := t\<rparr>) = user_getattr f u"
  by (simp add: user_getattr_def)

lemma user_update_cases:
  assumes "user_update actor i patch s = (r, s')"
  obtains (err) e where "r = Inl e" "s' = s"
  | (ok) u u' where "r = Inr u'" "get_user i s = Some u" "user_core u' = user_core u"
      "users s' = users s \<or> users s' = users (save_user u' s)" "sessions s' = sessions s"
proof (cases r)
  case (Inl e)
  then show thesis
    using assms err by (auto simp: user_update_def Let_def split: sum.splits if_splits)
next
  case (Inr u')
  with assms have "user_update actor i patch s = (Inr u', s')" by simp
  then obtain u u1 ch where *: "get_user i s = Some u" "user_attrs.loop patch u [] = Inr (u1, ch)"
    "u' = (if ch = [] then u1 else u1\<lparr>usr_updated_at := now s\<rparr>)"
    "s' = (if ch = [] then s else
       audit ''user_updated''
         (no_args\<lparr>arg_actor := Some (usr_id actor), arg_target_type := Some ''user'',
            arg_target_id := Some (usr_id u'),
            arg_metadata := [(''changed'', JList (map JStr ch))]\<rparr>) (save_user u' (tick s)))"
    by (rule user_update_Inr)
  from user_attrs.loop_core [OF *(2)] * have "user_core u' = user_core u" by auto
  then show thesis
    using ok Inr *(1,4) by (auto simp: save_user_def split: if_splits)
qed


section \<open>Logins\<close>

text \<open>The requests of an administrator to the service, applied in turn.\<close>

datatype user_call =
  Call_create user user_args
| Call_update user ident jdict
| Call_reset user ident string
| Call_active user ident bool

fun run_user_call :: "crypto \<Rightarrow> user_call \<Rightarrow> 'z storage_scheme \<Rightarrow> 'z storage_scheme" where
  "run_user_call cr (Call_create a x) s = snd (user_create cr a x s)"
| "run_user_call cr (Call_update a i p) s = snd (user_update a i p s)"
| "run_user_call cr (Call_reset a i pw) s = snd (reset_password cr a i pw s)"
| "run_user_call cr (Call_active a i b) s = snd (set_active a i b s)"

text \<open>Identifiers in use come from the generator, which gives no identifier twice.\<close>

definition user_ids_ok :: "'z storage_scheme \<Rightarrow> bool" where
  "user_ids_ok s \<longleftrightarrow> inj (uuid_at s) \<and>
     (\<forall>n \<ge> uuid_n s. map_of (users s) (uuid_at s n) = None)"

lemma users_keys_change:
  "map_of (users s) (usr_id u) \<noteq> None \<Longrightarrow> map_of (users (save_user u s)) j = None \<longleftrightarrow> map_of (users s) j = None"
  by (auto simp: save_user_def)

lemma user_call_ok:
  assumes "users_ok s" "user_ids_ok s"
  shows "users_ok (run_user_call cr c s) \<and> user_ids_ok (run_user_call cr c s)"
proof (cases c)
  case (Call_create a x)
  have fresh: "get_user (new_uuid s) s = None"
    using assms(2) by (simp add: user_ids_ok_def new_uuid_def get_user_def)
  show ?thesis
  proof (cases "get_user_by_login (normalize_login (ua_login x)) s = None")
    case False
    then show ?thesis using Call_create assms by (simp add: user_create_def)
  next
    case True
    let ?u = "new_user a x (new_uuid s) (fst (hash_password cr (ua_password x) (use_uuid (tick s)))) (now s)"
    have "users_ok (save_user ?u s)"
      by (rule users_ok_add) (use assms fresh True in \<open>simp_all add: new_user_def\<close>)
    moreover have "users (run_user_call cr c s) = users (save_user ?u s)"
      using True Call_create
      by (simp add: user_create_def Let_def split_beta add_is_save) (simp add: save_user_def)
    moreover have "user_ids_ok (run_user_call cr c s)"
      using assms(2) True Call_create
      by (auto simp: user_create_def Let_def split_beta add_is_save user_ids_ok_def save_user_def
          new_user_def new_uuid_def dest: injD)
    ultimately show ?thesis using users_ok_frame by blast
  qed
next
  case (Call_update a i p)
  obtain r s' where u: "user_update a i p s = (r, s')" by (cases "user_update a i p s")
  then show ?thesis
  proof (cases rule: user_update_cases)
    case err
    then show ?thesis using Call_update u assms by simp
  next
    case (ok v v')
    have i: "usr_id v' = i" "usr_login v' = usr_login v"
      using ok users_ok_get [OF assms(1) ok(2)] by (auto simp: user_core_def)
    have "users_ok (save_user v' s)"
      by (rule users_ok_change [where v = v]) (use assms ok i in simp_all)
    moreover have "uuid_at s' = uuid_at s" "uuid_n s \<le> uuid_n s'"
      using u by (auto simp: user_update_def Let_def split: sum.splits if_splits)
    moreover have "map_of (users s') j = None \<longleftrightarrow> map_of (users s) j = None" for j
      using ok i users_keys_change [of s v'] by (auto simp: get_user_def)
    ultimately show ?thesis
      using Call_update u ok(4) assms users_ok_frame [of s' s] users_ok_frame [of s' "save_user v' s"]
      by (auto simp: user_ids_ok_def)
  qed
next
  case (Call_reset a i pw)
  show ?thesis
  proof (cases "get_user i s")
    case None
    then show ?thesis using Call_reset assms by (simp add: reset_password_def user_get_def)
  next
    case (Some v)
    let ?v = "v\<lparr>usr_password_hash := fst (hash_password cr pw s), usr_updated_at := now s\<rparr>"
    have i: "usr_id v = i" using users_ok_get [OF assms(1) Some] by simp
    have "users_ok (save_user ?v s)"
      by (rule users_ok_change [where v = v]) (use assms Some i in simp_all)
    moreover have us: "users (run_user_call cr c s) = users (save_user ?v s)"
      using Some Call_reset
      by (simp add: reset_password_def user_get_def Let_def split_beta) (simp add: save_user_def)
    moreover have "user_ids_ok (run_user_call cr c s)"
      using assms(2) us users_keys_change [of s ?v] Some Call_reset i
      by (auto simp: user_ids_ok_def reset_password_def user_get_def Let_def split_beta get_user_def)
    ultimately show ?thesis using users_ok_frame by blast
  qed
next
  case (Call_active a i b)
  show ?thesis
  proof (cases "get_user i s")
    case None
    then show ?thesis using Call_active assms by (simp add: set_active_def user_get_def)
  next
    case (Some v)
    let ?v = "v\<lparr>usr_is_active := b, usr_updated_at := now s\<rparr>"
    have i: "usr_id v = i" using users_ok_get [OF assms(1) Some] by simp
    have "users_ok (save_user ?v s)"
      by (rule users_ok_change [where v = v]) (use assms Some i in simp_all)
    moreover have us: "users (run_user_call cr c s) = users s \<or>
        users (run_user_call cr c s) = users (save_user ?v s)"
      using Some Call_active
      by (simp add: set_active_def user_get_def Let_def) (simp add: save_user_def)
    moreover have "user_ids_ok (run_user_call cr c s)"
      using assms(2) us users_keys_change [of s ?v] Some Call_active i
      by (auto simp: user_ids_ok_def set_active_def user_get_def Let_def get_user_def)
    ultimately show ?thesis using assms users_ok_frame by blast
  qed
qed

text \<open>
  Whatever sequence of requests administrators make, every member stays filed under the
  own identifier, every login is in normal form and no two members share one.
\<close>

theorem logins_stay_unique:
  assumes "users_ok s" "user_ids_ok s"
  shows "users_ok (fold (run_user_call cr) cs s) \<and> user_ids_ok (fold (run_user_call cr) cs s)"
  using assms by (induction cs arbitrary: s) (simp_all add: user_call_ok)

definition bob_args :: user_args where
  "bob_args = \<lparr>ua_login = '' Bob'', ua_display_name = ''B'', ua_password = ''secret'',
     ua_role = Plain_user, ua_telegram_username = None, ua_device_limit = Some 3,
     ua_device_limit_unlimited = False, ua_show_server_support = True, ua_free_access = False,
     ua_note = None\<rparr>"

definition blank_storage :: storage where
  "blank_storage = empty_storage demo_clock demo_uuid demo_random"

theorem logins_stay_unique_witness:
  "users_ok (fold (run_user_call demo_crypto)
     [Call_create the_admin bob_args, Call_create the_admin bob_args,
      Call_update the_admin ''u0'' [(''note'', JStr ''x'')]] blank_storage)"
  by (rule logins_stay_unique [THEN conjunct1])
    (simp_all add: users_ok_def user_ids_ok_def blank_storage_def empty_storage_def inj_demo_uuid)


section \<open>PATCH\<close>

lemma sensitive_changed: "\<not> sensitive (Some ''changed'')"
  by code_simp

lemma sensitive_None: "\<not> sensitive None"
  by code_simp

text \<open>The names of changed fields are logged as they are.\<close>

lemma redact_changed:
  "redact None (JObj [(''changed'', JList (map JStr xs))]) = JObj [(''changed'', JList (map JStr xs))]"
  using sensitive_changed by (simp add: sensitive_None)

text \<open>
  A successful PATCH gives every patchable field named in it the value given and
  leaves every other field alone (the login, the password hash and the activity among them); the
  fields whose value differed are what one new audit entry lists, and without any the storage is
  not touched.
\<close>

theorem user_patch_exact:
  assumes "user_update actor i patch s = (Inr u', s')" "distinct (map fst patch)"
  shows "\<exists>u. get_user i s = Some u \<and> user_core u' = user_core u \<and>
    (\<forall>f \<in> set user_patchable.
       user_getattr f u' = (case map_of patch f of None \<Rightarrow> user_getattr f u | Some v \<Rightarrow> v)) \<and>
    (let changed = map fst (filter (\<lambda>(f, v). f \<in> set user_patchable \<and> user_getattr f u \<noteq> v) patch) in
     if changed = [] then s' = s
     else get_user (usr_id u') s' = Some u' \<and>
       (\<exists>e. audit_log s' = audit_log s @ [e] \<and> aud_actor_user_id e = Some (usr_id actor) \<and>
          aud_metadata e = JObj [(''changed'', JList (map JStr changed))]))"
proof -
  from assms(1) obtain u u1 ch where *: "get_user i s = Some u"
    "user_attrs.loop patch u [] = Inr (u1, ch)"
    "u' = (if ch = [] then u1 else u1\<lparr>usr_updated_at := now s\<rparr>)"
    "s' = (if ch = [] then s else
       audit ''user_updated''
         (no_args\<lparr>arg_actor := Some (usr_id actor), arg_target_type := Some ''user'',
            arg_target_id := Some (usr_id u'),
            arg_metadata := [(''changed'', JList (map JStr ch))]\<rparr>) (save_user u' (tick s)))"
    by (rule user_update_Inr)
  have ch: "ch = map fst (filter (\<lambda>(f, v). f \<in> set user_patchable \<and> user_getattr f u \<noteq> v) patch)"
        using user_attrs.loop_changed [OF *(2) assms(2), where special = "\<lambda>_. False"]
    by (simp add: no_hook_def)
  note get = user_attrs.loop_value [OF *(2) assms(2)]
  show ?thesis
    unfolding Let_def
  proof (rule exI [of _ u], unfold ch [symmetric], intro conjI)
    show "if ch = [] then s' = s
     else get_user (usr_id u') s' = Some u' \<and>
       (\<exists>e. audit_log s' = audit_log s @ [e] \<and> aud_actor_user_id e = Some (usr_id actor) \<and>
          aud_metadata e = JObj [(''changed'', JList (map JStr ch))])"
      using *(4) redact_changed [of ch] by (simp del: redact.simps)
  qed (use * get user_attrs.loop_core [OF *(2)] in auto)
qed

definition role_patch :: jdict where
  "role_patch = [(''role'', JStr ''user''), (''login'', JStr ''x''), (''note'', JNull)]"

theorem user_patch_exact_witness:
  "\<exists>e. audit_log (snd (user_update the_admin ''a'' role_patch demo_storage)) = [e] \<and>
     aud_metadata e = JObj [(''changed'', JList [JStr ''role''])]"
proof -
  have run: "user_update the_admin ''a'' role_patch demo_storage
      = (Inr (the_admin\<lparr>usr_role := Plain_user\<rparr>),
         snd (user_update the_admin ''a'' role_patch demo_storage))"
    by (rule prod_eqI, code_simp, simp)
  have dist: "distinct (map fst role_patch)" by code_simp
  have get: "get_user ''a'' demo_storage = Some the_admin" by code_simp
  have ch: "map fst (filter (\<lambda>(f, v). f \<in> set user_patchable \<and> user_getattr f the_admin \<noteq> v) role_patch)
      = [''role'']" by code_simp
  have old: "audit_log demo_storage = []" by code_simp
  show ?thesis
    using user_patch_exact [OF run dist] get ch old by auto
qed

section \<open>Disabled members and changed passwords\<close>

lemma revoked_sessions:
  "get_session_by_token_hash h (revoke_sessions_for_user uid t s) =
     map_option (revoke_session_of uid t) (get_session_by_token_hash h s)"
  by (simp add: get_session_by_token_hash_def revoke_sessions_for_user_def map_of_map)

lemma session_user_revoke:
  "session_user tm h (revoke_sessions_for_user uid t s) =
     (case get_session_by_token_hash h s of
        Some x \<Rightarrow> if ses_user_id x = uid then None else session_user tm h s
      | None \<Rightarrow> None)"
  by (auto simp: session_user_def revoked_sessions revoke_session_of_def split: option.splits)

lemma session_user_cong:
  "sessions s' = sessions s \<Longrightarrow> (\<And>i. get_user i s' = get_user i s) \<Longrightarrow>
     session_user tm h s' = session_user tm h s"
  by (auto simp: session_user_def get_session_by_token_hash_def split: option.split)

lemma session_user_frame [simp]:
  "session_user tm h (audit a x s) = session_user tm h s"
  "session_user tm h (tick s) = session_user tm h s"
  "session_user tm h (use_random s) = session_user tm h s"
  by (rule session_user_cong; simp)+

lemma session_user_owner:
  "session_user tm h s = Some u \<Longrightarrow> users_ok s \<Longrightarrow>
     \<exists>x. get_session_by_token_hash h s = Some x \<and> ses_user_id x = usr_id u"
  by (auto simp: session_user_def dest: users_ok_get split: option.splits if_splits)

text \<open>What \<open>reset_password\<close> and disabling do to the sessions, and enabling does not.\<close>

lemma session_user_save_user:
  assumes "users_ok s" "get_user (usr_id u) s = Some v" "usr_is_active u = usr_is_active v"
  shows "session_user tm h (save_user u s) = (case session_user tm h s of None \<Rightarrow> None
    | Some w \<Rightarrow> Some (if usr_id w = usr_id u then u else w))"
  using assms by (auto simp: session_user_def dest: users_ok_get split: option.splits)

definition locked_out :: "ident \<Rightarrow> 'z storage_scheme \<Rightarrow> bool" where
  "locked_out i s \<longleftrightarrow>
     (\<forall>h x. get_session_by_token_hash h s = Some x \<and> ses_user_id x = i \<longrightarrow> ses_revoked_at x \<noteq> None)"

lemma locked_outD:
  "locked_out i s \<Longrightarrow> get_session_by_token_hash h s = Some x \<Longrightarrow> ses_user_id x = i \<Longrightarrow>
     ses_revoked_at x \<noteq> None"
  unfolding locked_out_def by blast

lemma locked_out_revoke: "locked_out i (revoke_sessions_for_user i t s)"
proof -
  have "ses_revoked_at x \<noteq> None"
    if "map_option (revoke_session_of i t) o' = Some x" "ses_user_id x = i" for o' x
  proof -
    from that(1) obtain y where "x = revoke_session_of i t y" by (cases o') auto
    with that(2) show ?thesis by (simp add: revoke_session_of_def split: if_splits)
  qed
  then show ?thesis unfolding locked_out_def revoked_sessions by blast
qed

lemma locked_out_cong: "sessions s' = sessions s \<Longrightarrow> locked_out i s' = locked_out i s"
  by (simp add: locked_out_def get_session_by_token_hash_def)

lemma locked_out_user:
  assumes "locked_out i s" "users_ok s" "session_user tm h s = Some v"
  shows "usr_id v \<noteq> i"
proof -
  from assms(3) obtain x where x: "get_session_by_token_hash h s = Some x"
    "ses_revoked_at x = None" "get_user (ses_user_id x) s = Some v"
    by (auto simp: session_user_def split: option.splits if_splits)
  with users_ok_get [OF assms(2) x(3)] locked_outD [OF assms(1) x(1)] show ?thesis by metis
qed

text \<open>How the two requests change sessions and members.\<close>

lemma reset_password_sessions:
  assumes get: "get_user i s = Some v" "usr_id v = i"
    and s'_def: "s' = snd (reset_password cr actor i pw s)"
  shows "locked_out i s'"
    and "get_session_by_token_hash h s = Some x \<Longrightarrow> ses_user_id x \<noteq> i \<Longrightarrow>
      get_session_by_token_hash h s' = Some x"
    and "j \<noteq> i \<Longrightarrow> get_user j s' = get_user j s"
proof -
  obtain s1 t where s1: "sessions s' = sessions (revoke_sessions_for_user i t s)"
    by (rule that [of "now (tick (use_random s))"])
      (use assms in \<open>simp add: reset_password_def user_get_def Let_def split_beta
        revoke_sessions_for_user_def\<close>)
  then show "locked_out i s'" using locked_out_cong locked_out_revoke by blast
  show "get_session_by_token_hash h s = Some x \<Longrightarrow> ses_user_id x \<noteq> i \<Longrightarrow>
      get_session_by_token_hash h s' = Some x"
    using s1 revoked_sessions [of h i t s]
    by (simp add: get_session_by_token_hash_def revoke_session_of_def)
  show "j \<noteq> i \<Longrightarrow> get_user j s' = get_user j s"
    using assms by (simp add: reset_password_def user_get_def Let_def split_beta)
qed

lemma set_active_sessions:
  assumes get: "get_user i s = Some v" "usr_id v = i"
    and s'_def: "s' = snd (set_active actor i b s)"
  shows "b \<Longrightarrow> sessions s' = sessions s"
    and "\<not> b \<Longrightarrow> usr_is_active v \<Longrightarrow> usr_id actor \<noteq> i \<Longrightarrow> locked_out i s'"
    and "get_session_by_token_hash h s = Some x \<Longrightarrow> ses_user_id x \<noteq> i \<Longrightarrow>
      get_session_by_token_hash h s' = Some x"
    and "j \<noteq> i \<Longrightarrow> get_user j s' = get_user j s"
proof -
  show "b \<Longrightarrow> sessions s' = sessions s"
    using assms by (simp add: set_active_def user_get_def Let_def)
  have s1: "sessions s' = sessions s \<and> (b \<or> \<not> usr_is_active v \<or> usr_id actor = i) \<or>
      (\<exists>t. sessions s' = sessions (revoke_sessions_for_user i t s))"
    using assms by (auto simp: set_active_def user_get_def Let_def revoke_sessions_for_user_def)
  then show "\<not> b \<Longrightarrow> usr_is_active v \<Longrightarrow> usr_id actor \<noteq> i \<Longrightarrow> locked_out i s'"
    using locked_out_cong locked_out_revoke by blast
  show "get_session_by_token_hash h s = Some x \<Longrightarrow> ses_user_id x \<noteq> i \<Longrightarrow>
      get_session_by_token_hash h s' = Some x"
    using s1 revoked_sessions [of h i _ s]
    by (auto simp: get_session_by_token_hash_def revoke_session_of_def)
  show "j \<noteq> i \<Longrightarrow> get_user j s' = get_user j s"
    using assms by (simp add: set_active_def user_get_def Let_def)
qed

text \<open>
  C16: LOCK OUT. Disabling a member, or setting a new password, ends every session of that member at
  once and for all: none names the member any more, even after the member is enabled again. The
  sessions of everybody else keep their meaning.
\<close>

theorem lock_out:
  assumes "users_ok s" "user_ids_ok s" "get_user i s = Some u"
    and "c = Call_reset actor i pw \<or> c = Call_active actor i False \<and> usr_id actor \<noteq> i \<and> usr_is_active u"
    and "s1 = run_user_call cr c s" "s2 = s1 \<or> s2 = run_user_call cr (Call_active actor i True) s1"
  shows "(\<forall>v. session_user tm h s2 = Some v \<longrightarrow> usr_id v \<noteq> i) \<and>
    (\<forall>v. session_user tm h s = Some v \<and> usr_id v \<noteq> i \<longrightarrow> session_user tm h s2 = Some v)"
proof -
  note i = users_ok_get [OF assms(1,3), THEN conjunct1]
  have s1: "locked_out i s1" "\<And>j. j \<noteq> i \<Longrightarrow> get_user j s1 = get_user j s"
    "\<And>h x. get_session_by_token_hash h s = Some x \<Longrightarrow> ses_user_id x \<noteq> i \<Longrightarrow>
      get_session_by_token_hash h s1 = Some x"
    using assms(4,5) reset_password_sessions [OF assms(3) i] set_active_sessions [OF assms(3) i]
    by auto
  have ok1: "users_ok s1" and ids1: "user_ids_ok s1"
    using user_call_ok [OF assms(1,2)] assms(5) by blast+
  have s2: "locked_out i s2 \<and> users_ok s2 \<and> (\<forall>j. j \<noteq> i \<longrightarrow> get_user j s2 = get_user j s1) \<and>
      (\<forall>h x. get_session_by_token_hash h s1 = Some x \<and> ses_user_id x \<noteq> i \<longrightarrow>
        get_session_by_token_hash h s2 = Some x)"
  proof (cases "s2 = s1")
    case True
    then show ?thesis using s1 ok1 by simp
  next
    case False
    then have s2: "s2 = snd (set_active actor i True s1)" using assms(6) by simp
    show ?thesis
    proof (cases "get_user i s1")
      case None
      then show ?thesis using s2 s1(1) ok1 by (simp add: set_active_def user_get_def)
    next
      case (Some w)
      note a = set_active_sessions [OF Some users_ok_get [OF ok1 Some, THEN conjunct1]]
      have "users_ok s2"
        using ok1 ids1 user_call_ok [of s1 cr "Call_active actor i True"] by (simp only: s2 run_user_call.simps)
      moreover have "sessions s2 = sessions s1" "\<And>j. j \<noteq> i \<Longrightarrow> get_user j s2 = get_user j s1"
        using a(1,4) [OF s2] by simp_all
      ultimately show ?thesis
        using s1(1) locked_out_cong [of s2 s1 i] by (simp add: get_session_by_token_hash_def)
    qed
  qed
  have "session_user tm h s2 = Some v" if named: "session_user tm h s = Some v" "usr_id v \<noteq> i" for v
  proof -
    obtain x where x: "get_session_by_token_hash h s = Some x" "ses_user_id x = usr_id v"
      using session_user_owner [OF named(1) assms(1)] by blast
    then have "get_session_by_token_hash h s2 = Some x" "get_user (ses_user_id x) s2 = get_user (ses_user_id x) s"
      using s1 s2 named(2) by simp_all
    with named(1) x(1) show ?thesis by (simp add: session_user_def split: if_splits)
  qed
  then show ?thesis using locked_out_user [of i s2] s2 by blast
qed

text \<open>The deployment after \<open>bob\<close> has logged in: the member's session is filed under \<open>hr0\<close>.\<close>

definition bob_in :: storage where
  "bob_in = snd (login demo_crypto default_settings ''bob'' ''pw'' None None demo_storage)"

lemma demo_users_ok: "users_ok demo_storage" "user_ids_ok demo_storage"
proof -
  have "users demo_storage = [(''a'', the_admin), (''m'', the_member), (''o'', the_outsider)]"
    by code_simp
  moreover have "uuid_at demo_storage = demo_uuid"
    by (simp add: demo_storage_def empty_storage_def)
  ultimately show "users_ok demo_storage" "user_ids_ok demo_storage"
    by (simp_all add: users_ok_def user_ids_ok_def inj_demo_uuid the_admin_def the_member_def
        the_outsider_def demo_user_def demo_uuid_def)
      (simp_all add: normalize_login_def py_lower_def py_strip_def py_lstrip_def py_rstrip_def
        py_space_def py_lower_char_def)
qed

theorem lock_out_witness:
  "session_user 5 ''hr0'' bob_in = Some the_member \<and>
   session_user 5 ''hr0'' (run_user_call demo_crypto (Call_active the_admin ''m'' False) bob_in)
     \<noteq> Some the_member"
proof
  show "session_user 5 ''hr0'' bob_in = Some the_member" by code_simp
  have u: "users bob_in = users demo_storage" by code_simp
  have ids: "uuid_at bob_in = uuid_at demo_storage"
    by (simp add: bob_in_def login_clock)
  have n: "uuid_n demo_storage = 0" by code_simp
  have "users_ok bob_in" "user_ids_ok bob_in"
    using demo_users_ok users_ok_frame [OF u] u ids n by (simp_all add: user_ids_ok_def)
  moreover have "get_user ''m'' bob_in = Some the_member" by code_simp
  moreover have "usr_id the_admin \<noteq> ''m'' \<and> usr_is_active the_member" by code_simp
  ultimately have "\<forall>v. session_user 5 ''hr0''
      (run_user_call demo_crypto (Call_active the_admin ''m'' False) bob_in) = Some v \<longrightarrow> usr_id v \<noteq> ''m''"
    by (intro lock_out [where s = bob_in and actor = the_admin and cr = demo_crypto and pw = "[]"
          and c = "Call_active the_admin ''m'' False" and u = the_member
          and ?s1.0 = "run_user_call demo_crypto (Call_active the_admin ''m'' False) bob_in",
          THEN conjunct1])
      simp_all
  moreover have "usr_id the_member = ''m''" by code_simp
  ultimately show "session_user 5 ''hr0''
      (run_user_call demo_crypto (Call_active the_admin ''m'' False) bob_in) \<noteq> Some the_member" by blast
qed

section \<open>There is always an administrator\<close>

definition active_admin :: "'z storage_scheme \<Rightarrow> bool" where
  "active_admin s \<longleftrightarrow> (\<exists>i u. get_user i s = Some u \<and> usr_role u = Admin \<and> usr_is_active u)"

text \<open>
  An active administrator cannot disable the own account, so that
  whatever member is enabled or disabled, that administrator is still active afterwards.
\<close>

theorem set_active_keeps_admin:
  assumes "users_ok s" "get_user (usr_id actor) s = Some actor" "usr_role actor = Admin"
    "usr_is_active actor"
  shows "active_admin (snd (set_active actor i b s)) \<and>
    (\<not> b \<longrightarrow> fst (set_active actor (usr_id actor) b s)
        = Inl (App (AppError Validation_error M_cannot_disable_self 400 [])))"
proof -
  have "\<exists>u. get_user (usr_id actor) (snd (set_active actor i b s)) = Some u \<and> usr_role u = Admin \<and>
      usr_is_active u"
  proof (cases "get_user i s")
    case None
    then show ?thesis using assms by (simp add: set_active_def user_get_def)
  next
    case (Some v)
    have v: "usr_id v = i" using users_ok_get [OF assms(1) Some] by simp
    show ?thesis
    proof (cases "usr_id actor = i")
      case False
      then show ?thesis using set_active_sessions(4) [OF Some v refl] assms by simp
    next
      case True
      with Some assms have "v = actor" by simp
      then have "set_active actor i b s
          = (if b then (Inr actor, s)
             else (Inl (App (AppError Validation_error M_cannot_disable_self 400 [])), s))"
        using Some True assms(4) by (simp add: set_active_def user_get_def)
      with assms show ?thesis by simp
    qed
  qed
  moreover have "fst (set_active actor (usr_id actor) False s)
      = Inl (App (AppError Validation_error M_cannot_disable_self 400 []))"
    using assms(2) by (simp add: set_active_def user_get_def)
  ultimately show ?thesis
    unfolding active_admin_def by (cases b) auto
qed

theorem set_active_keeps_admin_witness:
  "active_admin (snd (set_active the_admin ''m'' False demo_storage))"
proof (rule set_active_keeps_admin [THEN conjunct1])
  show "users_ok demo_storage" by (rule demo_users_ok)
qed code_simp+

text \<open>The user \<open>bootstrap_first_admin\<close> makes.\<close>

lemma bootstrap_new_admin:
  assumes "\<not> has_admin s"
  obtains u where "users (bootstrap_first_admin cr st s) = dict_set (usr_id u) u (users s)"
    "usr_id u = new_uuid s" "usr_login u = normalize_login (first_admin_login st)"
    "usr_role u = Admin" "usr_is_active u"
  using assms
  by (cases "first_admin_password st")
    (auto simp: bootstrap_first_admin_def Let_def generate_password_def split_beta add_user_def)

lemma bootstrap_frame:
  "sessions (bootstrap_first_admin cr st s) = sessions s"
  "server_nodes (bootstrap_first_admin cr st s) = server_nodes s"
  "devices (bootstrap_first_admin cr st s) = devices s"
  "setup_jobs (bootstrap_first_admin cr st s) = setup_jobs s"
  "contributions (bootstrap_first_admin cr st s) = contributions s"
  by (auto simp: bootstrap_first_admin_def Let_def generate_password_def split_beta add_user_def split: option.split)

lemma bootstrap_appends:
  assumes "\<not> has_admin s" "user_ids_ok s"
  obtains u where "users (bootstrap_first_admin cr st s) = users s @ [(usr_id u, u)]"
    "usr_id u = new_uuid s" "usr_login u = normalize_login (first_admin_login st)"
    "usr_role u = Admin" "usr_is_active u"
proof -
  obtain u where u: "users (bootstrap_first_admin cr st s) = dict_set (usr_id u) u (users s)"
    "usr_id u = new_uuid s" "usr_login u = normalize_login (first_admin_login st)"
    "usr_role u = Admin" "usr_is_active u"
    by (rule bootstrap_new_admin [OF assms(1)])
  then have "map_of (users s) (usr_id u) = None"
    using assms(2) by (simp add: user_ids_ok_def new_uuid_def)
  with u show thesis by (intro that [of u]) (simp_all add: dict_set_new)
qed

lemma has_admin_users: "has_admin s \<longleftrightarrow> (\<exists>u \<in> set (dict_values (users s)). usr_role u = Admin)"
proof -
  have "role_value r = ''admin'' \<longleftrightarrow> r = Admin" for r by (cases r) simp_all
  then show ?thesis by (auto simp: has_admin_def list_ex_iff)
qed

lemma find_append_Some: "find P xs = Some x \<Longrightarrow> find P (xs @ ys) = Some x"
  by (induction xs) (auto split: if_splits)

lemma find_append_None: "find P xs = None \<Longrightarrow> find P (xs @ ys) = find P ys"
  by (induction xs) (auto split: if_splits)

text \<open>
  C36: BOOTSTRAP. With an administrator there, the start changes nothing (so a second start is a no-op).
  Without one it adds one member after those there are, who stay as they are: an active administrator
  under an identifier not used before, whose login is the configured one in normal form; sessions, nodes,
  devices, installations and contributions stay as they are. If that login was free, the members are
  still well formed, and the configured login names the new administrator.
\<close>

theorem bootstrap_gives_admin:
  assumes "user_ids_ok s"
  shows "if has_admin s then bootstrap_first_admin cr st s = s
    else (let b = bootstrap_first_admin cr st s in
      bootstrap_first_admin cr st b = b \<and>
      sessions b = sessions s \<and> server_nodes b = server_nodes s \<and> devices b = devices s \<and>
      setup_jobs b = setup_jobs s \<and> contributions b = contributions s \<and>
      (\<exists>u. users b = users s @ [(usr_id u, u)] \<and> get_user (usr_id u) s = None \<and>
         usr_login u = normalize_login (first_admin_login st) \<and> usr_role u = Admin \<and> usr_is_active u \<and>
         (users_ok s \<and> get_user_by_login (first_admin_login st) s = None \<longrightarrow>
            users_ok b \<and> get_user_by_login (first_admin_login st) b = Some u)))"
proof (cases "has_admin s")
  case True
  then show ?thesis by (simp add: bootstrap_first_admin_def)
next
  case False
  let ?b = "bootstrap_first_admin cr st s"
  obtain u where u: "users ?b = users s @ [(usr_id u, u)]" "usr_id u = new_uuid s"
    "usr_login u = normalize_login (first_admin_login st)" "usr_role u = Admin" "usr_is_active u"
    by (rule bootstrap_appends [OF False assms])
  have new: "get_user (usr_id u) s = None"
    using assms u(2) by (simp add: user_ids_ok_def new_uuid_def get_user_def)
  have "has_admin ?b" using u(1,4) by (simp add: has_admin_users)
  then have "bootstrap_first_admin cr st ?b = ?b" by (subst bootstrap_first_admin_def) simp
  moreover have "users_ok ?b \<and> get_user_by_login (first_admin_login st) ?b = Some u"
    if "users_ok s" "get_user_by_login (first_admin_login st) s = None"
  proof
    have "users_ok (save_user u s)"
      by (rule users_ok_add)
        (use that u assms in \<open>simp_all add: user_ids_ok_def new_uuid_def get_user_def get_user_by_login_def\<close>)
    then show ok: "users_ok ?b"
      using users_ok_frame [of ?b "save_user u s"] u(1) new
      by (simp add: save_user_def dict_set_new get_user_def)
    show "get_user_by_login (first_admin_login st) ?b = Some u"
      using that(2) u(1,3) by (auto simp: get_user_by_login_def find_None_iff find_append_None)
  qed
  ultimately show ?thesis
    using False u new bootstrap_frame [of cr st s] unfolding Let_def by auto
qed

theorem bootstrap_gives_admin_witness:
  "\<exists>u. get_user_by_login ''Admin'' (bootstrap_first_admin demo_crypto
       (default_settings\<lparr>first_admin_login := ''Admin''\<rparr>) blank_storage) = Some u \<and> usr_role u = Admin"
proof -
  let ?st = "default_settings\<lparr>first_admin_login := ''Admin''\<rparr>"
  have "\<not> has_admin blank_storage \<and> users_ok blank_storage \<and> get_user_by_login ''Admin'' blank_storage = None"
    by (simp add: blank_storage_def empty_storage_def has_admin_def list_users_def users_ok_def
      get_user_by_login_def get_user_def)
  moreover have ids: "user_ids_ok blank_storage"
    by (auto simp: user_ids_ok_def blank_storage_def empty_storage_def get_user_def inj_demo_uuid)
  ultimately show ?thesis
    using bootstrap_gives_admin [OF ids, of demo_crypto ?st] unfolding Let_def by auto
qed

text \<open>
  C39: DUPLICATE LOGIN. The login is not looked up before: when no administrator is left but a member
  has the configured login, the start adds a second member with that very login, so the members are no
  longer well formed, and the login still names the old one: nobody can log in as the new administrator.
  An administrator gets there by taking the own role away, which \<open>update\<close> allows.
\<close>

theorem bootstrap_duplicates_login:
  assumes "\<not> has_admin s" "users_ok s" "user_ids_ok s"
    and "get_user_by_login (first_admin_login st) s = Some v"
  shows "\<exists>u. users (bootstrap_first_admin cr st s) = users s @ [(usr_id u, u)] \<and>
    usr_role u = Admin \<and> usr_login u = usr_login v \<and> usr_id u \<noteq> usr_id v \<and>
    \<not> users_ok (bootstrap_first_admin cr st s) \<and>
    (\<forall>l. normalize_login l = usr_login u \<longrightarrow> get_user_by_login l (bootstrap_first_admin cr st s) = Some v)"
proof -
  obtain u where u: "users (bootstrap_first_admin cr st s) = users s @ [(usr_id u, u)]"
    "usr_id u = new_uuid s" "usr_login u = normalize_login (first_admin_login st)" "usr_role u = Admin"
    by (rule bootstrap_appends [OF assms(1,3)])
  have v: "v \<in> set (dict_values (users s))"
    using assms(4) by (auto simp: get_user_by_login_def find_Some_iff)
  then obtain k where k: "(k, v) \<in> set (users s)" by auto
  then have "k = usr_id v" using assms(2) by (auto simp: users_ok_def)
  with k have "map_of (users s) (usr_id v) \<noteq> None" by (metis fst_conv image_eqI map_of_eq_None_iff)
  then have id: "usr_id u \<noteq> usr_id v"
    using assms(3) u(2) by (auto simp: user_ids_ok_def new_uuid_def)
  have same: "usr_login u = usr_login v"
    using assms(4) u(3) get_user_by_login_Some [OF assms(2)] by simp
  then have "\<not> users_ok (bootstrap_first_admin cr st s)"
    using u(1) v by (auto simp: users_ok_def image_iff)
  moreover have "get_user_by_login l (bootstrap_first_admin cr st s) = Some v"
    if "normalize_login l = usr_login u" for l
    using that u(1,3) assms(4) by (simp add: get_user_by_login_def find_append_Some)
  ultimately show ?thesis using u id same by blast
qed

theorem bootstrap_duplicates_login_witness:
  "\<not> users_ok (bootstrap_first_admin demo_crypto (default_settings\<lparr>first_admin_login := ''root''\<rparr>)
     (run_user_call demo_crypto (Call_update the_admin ''a'' role_patch) demo_storage))"
proof -
  let ?s = "run_user_call demo_crypto (Call_update the_admin ''a'' role_patch) demo_storage"
  have ok: "users_ok ?s" "user_ids_ok ?s" using user_call_ok [OF demo_users_ok] by blast+
  have none: "\<not> has_admin ?s" by code_simp
  have "get_user_by_login (first_admin_login (default_settings\<lparr>first_admin_login := ''root''\<rparr>)) ?s
      = Some (the_admin\<lparr>usr_role := Plain_user\<rparr>)" by code_simp
  then show ?thesis using bootstrap_duplicates_login [OF none ok] by blast
qed

end
