(* ===== verification/Json.thy ===== *)
theory Json
  imports Domain
begin

text \<open>
  What the source uses of Python's \<open>json\<close>: \<open>dumps(v, ensure_ascii=False, separators=(",", ":"))\<close>,
  which makes the body the agent client signs, and \<open>loads\<close>, which reads it back in the fake agent.
  The numbers are integers: no request of the program carries another, and \<open>loads\<close> answers \<open>None\<close>
  (for its \<open>ValueError\<close>) at a fraction. The theorem of the file is that \<open>loads\<close> undoes \<open>dumps\<close>.
\<close>

section \<open>Printing\<close>

definition hex_digit :: "nat \<Rightarrow> char" where
  "hex_digit d = (if d < 10 then char_of (48 + d) else char_of (87 + d))"

definition escape_char :: "char \<Rightarrow> string" where
  "escape_char c =
     (if c = CHR 0x22 then [CHR 0x5C, CHR 0x22]
      else if c = CHR 0x5C then [CHR 0x5C, CHR 0x5C]
      else if c = CHR 0x0A then [CHR 0x5C, CHR ''n'']
      else if c = CHR 0x0D then [CHR 0x5C, CHR ''r'']
      else if c = CHR 0x09 then [CHR 0x5C, CHR ''t'']
      else if c = CHR 0x08 then [CHR 0x5C, CHR ''b'']
      else if c = CHR 0x0C then [CHR 0x5C, CHR ''f'']
      else if (of_char c :: nat) < 32
        then [CHR 0x5C, CHR ''u'', CHR ''0'', CHR ''0'', hex_digit (of_char c div 16),
              hex_digit (of_char c mod 16)]
      else [c])"

definition dump_string :: "string \<Rightarrow> string" where
  "dump_string s = CHR 0x22 # concat (map escape_char s) @ [CHR 0x22]"

fun json_dumps :: "json \<Rightarrow> string" where
  "json_dumps JNull = ''null''"
| "json_dumps (JBool b) = (if b then ''true'' else ''false'')"
| "json_dumps (JInt i) = show_int i"
| "json_dumps (JStr s) = dump_string s"
| "json_dumps (JList xs) = ''['' @ py_join '','' (map json_dumps xs) @ '']''"
| "json_dumps (JObj kvs) =
     ''{'' @ py_join '','' (map (\<lambda>(k, v). dump_string k @ '':'' @ json_dumps v) kvs) @ ''}''"
| "json_dumps (JFloat r) = []"
| "json_dumps (JMsg m) = []"

text \<open>The values the two functions are about.\<close>

fun json_plain :: "json \<Rightarrow> bool" where
  "json_plain (JList xs) \<longleftrightarrow> list_all json_plain xs"
| "json_plain (JObj kvs) \<longleftrightarrow> distinct (map fst kvs) \<and> list_all json_plain (map snd kvs)"
| "json_plain (JFloat r) \<longleftrightarrow> False"
| "json_plain (JMsg m) \<longleftrightarrow> False"
| "json_plain v \<longleftrightarrow> True"

section \<open>Parsing\<close>

definition json_ws :: "char \<Rightarrow> bool" where
  "json_ws c \<longleftrightarrow> c = CHR '' '' \<or> c = CHR 0x09 \<or> c = CHR 0x0A \<or> c = CHR 0x0D"

definition skip_ws :: "string \<Rightarrow> string" where
  "skip_ws s = dropWhile json_ws s"

definition hex_digit_val :: "char \<Rightarrow> nat option" where
  "hex_digit_val c =
     (let n = of_char c :: nat in
      if 48 \<le> n \<and> n \<le> 57 then Some (n - 48)
      else if 97 \<le> n \<and> n \<le> 102 then Some (n - 87)
      else if 65 \<le> n \<and> n \<le> 70 then Some (n - 55)
      else None)"

definition unescape :: "char \<Rightarrow> char option" where
  "unescape c =
     (if c = CHR 0x22 then Some (CHR 0x22) else if c = CHR 0x5C then Some (CHR 0x5C)
      else if c = CHR ''/'' then Some (CHR ''/'') else if c = CHR ''n'' then Some (CHR 0x0A)
      else if c = CHR ''r'' then Some (CHR 0x0D) else if c = CHR ''t'' then Some (CHR 0x09)
      else if c = CHR ''b'' then Some (CHR 0x08) else if c = CHR ''f'' then Some (CHR 0x0C)
      else None)"

text \<open>The bytes of a code point of the basic plane (a surrogate stands for itself).\<close>

definition utf8 :: "nat \<Rightarrow> string" where
  "utf8 n =
     (if n < 128 then [char_of n]
      else if n < 2048 then [char_of (192 + n div 64), char_of (128 + n mod 64)]
      else [char_of (224 + n div 4096), char_of (128 + n div 64 mod 64), char_of (128 + n mod 64)])"

fun parse_hex :: "nat \<Rightarrow> string \<Rightarrow> nat option" where
  "parse_hex n [] = Some n"
| "parse_hex n (c # cs) =
     (case hex_digit_val c of None \<Rightarrow> None | Some d \<Rightarrow> parse_hex (16 * n + d) cs)"

text \<open>The rest of a string after its opening quote: the text and what follows the closing one.\<close>

fun parse_string :: "string \<Rightarrow> (string \<times> string) option" where
  "parse_string [] = None"
| "parse_string (c # cs) =
     (if c = CHR 0x22 then Some ([], cs)
      else if c = CHR 0x5C then
        (case cs of
           [] \<Rightarrow> None
         | e # ds \<Rightarrow>
             (case unescape e of
                Some d \<Rightarrow> map_option (\<lambda>(w, r). (d # w, r)) (parse_string ds)
              | None \<Rightarrow>
                  if e = CHR ''u'' \<and> 4 \<le> length ds then
                    (case parse_hex 0 (take 4 ds) of
                       None \<Rightarrow> None
                     | Some n \<Rightarrow> map_option (\<lambda>(w, r). (utf8 n @ w, r)) (parse_string (drop 4 ds)))
                  else None))
      else if (of_char c :: nat) < 32 then None
      else map_option (\<lambda>(w, r). (c # w, r)) (parse_string cs))"

definition parse_nat :: "string \<Rightarrow> (nat \<times> string) option" where
  "parse_nat s =
     (case s of
        [] \<Rightarrow> None
      | c # cs \<Rightarrow>
          if \<not> is_digit c then None
          else
            (let ds = (if c = CHR ''0'' then [c] else takeWhile is_digit s);
                 r = drop (length ds) s in
             if r \<noteq> [] \<and> hd r \<in> {CHR ''.'', CHR ''e'', CHR ''E''} then None
             else Some (read_digits ds, r)))"

definition parse_number :: "string \<Rightarrow> (json \<times> string) option" where
  "parse_number s =
     (case s of
        [] \<Rightarrow> None
      | c # cs \<Rightarrow>
          if c = CHR ''-'' then map_option (\<lambda>(n, r). (JInt (- int n), r)) (parse_nat cs)
          else map_option (\<lambda>(n, r). (JInt (int n), r)) (parse_nat s))"

definition parse_scalar :: "string \<Rightarrow> (json \<times> string) option" where
  "parse_scalar s =
     (if starts_with ''null'' s then Some (JNull, drop 4 s)
      else if starts_with ''true'' s then Some (JBool True, drop 4 s)
      else if starts_with ''false'' s then Some (JBool False, drop 5 s)
      else parse_number s)"

text \<open>The fuel bounds the depth of the calls; the length of the text is always enough.\<close>

fun parse_value :: "nat \<Rightarrow> string \<Rightarrow> (json \<times> string) option"
  and parse_items :: "nat \<Rightarrow> string \<Rightarrow> (json list \<times> string) option"
  and parse_members :: "nat \<Rightarrow> string \<Rightarrow> (jdict \<times> string) option" where
  "parse_value 0 s = None"
| "parse_value (Suc n) s =
     (case s of
        [] \<Rightarrow> None
      | c # cs \<Rightarrow>
          if c = CHR 0x22 then map_option (\<lambda>(w, r). (JStr w, r)) (parse_string cs)
          else if c = CHR ''['' then
            (let t = skip_ws cs in
             if starts_with '']'' t then Some (JList [], tl t)
             else map_option (\<lambda>(xs, r). (JList xs, r)) (parse_items n t))
          else if c = CHR ''{'' then
            (let t = skip_ws cs in
             if starts_with ''}'' t then Some (JObj [], tl t)
             else map_option (\<lambda>(kvs, r). (JObj (fold (\<lambda>(k, v). dict_set k v) kvs []), r))
                    (parse_members n t))
          else parse_scalar s)"
| "parse_items 0 s = None"
| "parse_items (Suc n) s =
     (case parse_value n s of
        None \<Rightarrow> None
      | Some (v, r) \<Rightarrow>
          let t = skip_ws r in
          if starts_with '','' t
            then map_option (\<lambda>(xs, q). (v # xs, q)) (parse_items n (skip_ws (tl t)))
          else if starts_with '']'' t then Some ([v], tl t)
          else None)"
| "parse_members 0 s = None"
| "parse_members (Suc n) s =
     (if \<not> starts_with [CHR 0x22] s then None
      else
        (case parse_string (tl s) of
           None \<Rightarrow> None
         | Some (k, r) \<Rightarrow>
             let t = skip_ws r in
             if \<not> starts_with '':'' t then None
             else
               (case parse_value n (skip_ws (tl t)) of
                  None \<Rightarrow> None
                | Some (v, r2) \<Rightarrow>
                    let t2 = skip_ws r2 in
                    if starts_with '','' t2
                      then map_option (\<lambda>(kvs, q). ((k, v) # kvs, q))
                             (parse_members n (skip_ws (tl t2)))
                    else if starts_with ''}'' t2 then Some ([(k, v)], tl t2)
                    else None)))"

definition json_loads :: "string \<Rightarrow> json option" where
  "json_loads s =
     (case parse_value (length s) (skip_ws s) of
        None \<Rightarrow> None
      | Some (v, r) \<Rightarrow> if skip_ws r = [] then Some v else None)"


section \<open>Values as texts\<close>

text \<open>
  \<open>str(v)\<close> of a parsed value: a text is itself; inside a container it is shown in quotes, single
  ones unless the text has a single and no double quote.
\<close>

definition repr_char :: "char \<Rightarrow> char \<Rightarrow> string" where
  "repr_char q c =
     (if c = q \<or> c = CHR 0x5C then [CHR 0x5C, c]
      else if c = CHR 0x0A then [CHR 0x5C, CHR ''n'']
      else if c = CHR 0x0D then [CHR 0x5C, CHR ''r'']
      else if c = CHR 0x09 then [CHR 0x5C, CHR ''t'']
      else if (of_char c :: nat) < 32 \<or> (of_char c :: nat) = 127
        then [CHR 0x5C, CHR ''x'', hex_digit (of_char c div 16), hex_digit (of_char c mod 16)]
      else [c])"

definition repr_string :: "string \<Rightarrow> string" where
  "repr_string s =
     (let q = (if CHR 0x27 \<in> set s \<and> CHR 0x22 \<notin> set s then CHR 0x22 else CHR 0x27)
      in q # concat (map (repr_char q) s) @ [q])"

fun py_repr :: "json \<Rightarrow> string" where
  "py_repr JNull = ''None''"
| "py_repr (JBool b) = (if b then ''True'' else ''False'')"
| "py_repr (JInt i) = show_int i"
| "py_repr (JStr s) = repr_string s"
| "py_repr (JList xs) = ''['' @ py_join '', '' (map py_repr xs) @ '']''"
| "py_repr (JObj kvs) =
     ''{'' @ py_join '', '' (map (\<lambda>(k, v). repr_string k @ '': '' @ py_repr v) kvs) @ ''}''"
| "py_repr (JFloat r) = []"
| "py_repr (JMsg m) = []"

fun py_str :: "json \<Rightarrow> string" where
  "py_str (JStr s) = s"
| "py_str v = py_repr v"

text \<open>\<open>bool(v)\<close>.\<close>

fun py_truthy :: "json \<Rightarrow> bool" where
  "py_truthy JNull \<longleftrightarrow> False"
| "py_truthy (JBool b) \<longleftrightarrow> b"
| "py_truthy (JInt i) \<longleftrightarrow> i \<noteq> 0"
| "py_truthy (JFloat r) \<longleftrightarrow> r \<noteq> 0"
| "py_truthy (JStr s) \<longleftrightarrow> s \<noteq> []"
| "py_truthy (JMsg m) \<longleftrightarrow> True"
| "py_truthy (JList xs) \<longleftrightarrow> xs \<noteq> []"
| "py_truthy (JObj kvs) \<longleftrightarrow> kvs \<noteq> []"

section \<open>Parsing undoes printing\<close>

lemma hex_digit_val_digit [simp]: "d < 16 \<Longrightarrow> hex_digit_val (hex_digit d) = Some d"
  by (auto simp: hex_digit_val_def hex_digit_def Let_def)

lemma parse_string_escape:
  "parse_string (escape_char c @ r) = map_option (\<lambda>(w, q). (c # w, q)) (parse_string r)"
proof (cases "c \<in> {CHR 0x22, CHR 0x5C, CHR 0x0A, CHR 0x0D, CHR 0x09, CHR 0x08, CHR 0x0C}")
  case True
  then show ?thesis by (auto simp: escape_char_def unescape_def)
next
  case False
  show ?thesis
  proof (cases "(of_char c :: nat) < 32")
    case True
    then have "(of_char c :: nat) div 16 < 16" by linarith
    moreover have "16 * (of_char c div 16) + of_char c mod 16 = (of_char c :: nat)" by presburger
    moreover have "hex_digit_val (CHR ''0'') = Some 0" by (simp add: hex_digit_val_def)
    ultimately show ?thesis
      using False True by (simp add: escape_char_def unescape_def utf8_def)
  qed (use False in \<open>simp add: escape_char_def\<close>)
qed

lemma parse_string_dump: "parse_string (concat (map escape_char w) @ CHR 0x22 # r) = Some (w, r)"
  by (induction w) (simp_all add: parse_string_escape)

text \<open>What may follow a value in a document.\<close>

definition follow :: "string \<Rightarrow> bool" where
  "follow r \<longleftrightarrow> r = [] \<or> hd r \<in> {CHR '','', CHR '']'', CHR ''}''}"

lemma follow_simps [simp]:
  "follow []" "follow (CHR '','' # r)" "follow (CHR '']'' # r)" "follow (CHR ''}'' # r)"
  by (simp_all add: follow_def)

lemma follow_digit: "follow r \<Longrightarrow> list_all is_digit w \<Longrightarrow> takeWhile is_digit (w @ r) = w"
proof -
  assume r: "follow r" and w: "list_all is_digit w"
  have "takeWhile is_digit r = []"
    using r by (cases r) (auto simp: follow_def is_digit_def)
  with w show ?thesis by (simp add: list_all_iff)
qed

lemma show_nat_zero: "show_nat n = CHR ''0'' # cs \<Longrightarrow> n = 0 \<and> cs = []"
proof (induction n arbitrary: cs rule: show_nat.induct)
  case (1 n)
  show ?case
  proof (cases "n < 10")
    case True
    then have "digit_char n = CHR ''0'' \<and> cs = []" using 1(2) by (subst (asm) show_nat.simps) simp
    with True show ?thesis
      using of_char_digit_char [of n] by simp
  next
    case False
    then obtain ds where ds: "show_nat (n div 10) = CHR ''0'' # ds"
      using 1(2) by (subst (asm) show_nat.simps) (cases "show_nat (n div 10)"; simp)
    from 1(1) [OF False ds] have "n div 10 = 0" by simp
    with False show ?thesis by simp
  qed
qed

lemma parse_nat_show:
  assumes "follow r"
  shows "parse_nat (show_nat n @ r) = Some (n, r)"
proof -
  obtain c cs where c: "show_nat n = c # cs" by (cases "show_nat n") auto
  have dig: "list_all is_digit (show_nat n)" by (rule show_nat_digits)
  have ds: "(if c = CHR ''0'' then [c] else takeWhile is_digit (c # cs @ r)) = c # cs"
  proof (cases "c = CHR ''0''")
    case True
    with c show_nat_zero [of n cs] show ?thesis by simp
  next
    case False
    then show ?thesis using follow_digit [OF assms dig] c by simp
  qed
  have r: "\<not> (r \<noteq> [] \<and> hd r \<in> {CHR ''.'', CHR ''e'', CHR ''E''})"
    using assms by (auto simp: follow_def)
  have "read_digits (c # cs) = n" using c read_digits_show_nat [of n] by simp
  moreover have "drop (length (c # cs)) (c # cs @ r) = r" by simp
  ultimately have "parse_nat (c # cs @ r) = Some (n, r)"
    using dig c r unfolding parse_nat_def list.case Let_def ds by simp
  with c show ?thesis by simp
qed

lemma show_nat_head: "\<exists>c cs. show_nat n = c # cs \<and> is_digit c"
  using show_nat_digits [of n] by (cases "show_nat n") auto

lemma digit_head:
  "is_digit c \<Longrightarrow> c \<noteq> CHR 0x22 \<and> c \<noteq> CHR ''['' \<and> c \<noteq> CHR ''{'' \<and> c \<noteq> CHR ''n'' \<and> c \<noteq> CHR ''t'' \<and>
     c \<noteq> CHR ''f'' \<and> c \<noteq> CHR ''-'' \<and> c \<noteq> CHR '']'' \<and> c \<noteq> CHR ''}'' \<and> \<not> json_ws c"
  by (auto simp: is_digit_def json_ws_def)

lemma parse_scalar_int: "follow r \<Longrightarrow> parse_scalar (show_int i @ r) = Some (JInt i, r)"
proof -
  assume r: "follow r"
  obtain c cs where c: "show_nat (nat i) = c # cs" "is_digit c" using show_nat_head by blast
  show ?thesis
    using parse_nat_show [OF r, of "nat i"] parse_nat_show [OF r, of "nat (- i)"] c digit_head [OF c(2)]
    by (auto simp: parse_scalar_def parse_number_def show_int_def)
qed

lemma dumps_head:
  "json_plain v \<Longrightarrow> \<exists>c cs. json_dumps v = c # cs \<and> \<not> json_ws c \<and> c \<noteq> CHR '']'' \<and> c \<noteq> CHR ''}''"
proof (cases v)
  case (JInt i)
  then show ?thesis
    using show_nat_head [of "nat i"] show_nat_head [of "nat (- i)"]
    by (auto simp: show_int_def json_ws_def dest: digit_head)
qed (auto simp: dump_string_def json_ws_def)

lemma skip_ws_dumps [simp]: "json_plain v \<Longrightarrow> skip_ws (json_dumps v @ r) = json_dumps v @ r"
  using dumps_head [of v] by (auto simp: skip_ws_def)

lemma skip_ws_punct [simp]:
  "skip_ws (CHR '','' # r) = CHR '','' # r" "skip_ws (CHR '']'' # r) = CHR '']'' # r"
  "skip_ws (CHR ''}'' # r) = CHR ''}'' # r" "skip_ws (CHR '':'' # r) = CHR '':'' # r"
  "skip_ws (CHR 0x22 # r) = CHR 0x22 # r" "skip_ws [] = []"
  by (simp_all add: skip_ws_def json_ws_def)

definition parses :: "json \<Rightarrow> bool" where
  "parses v \<longleftrightarrow> (\<forall>n r. follow r \<longrightarrow> length (json_dumps v) \<le> n \<longrightarrow>
     parse_value n (json_dumps v @ r) = Some (v, r))"

lemma parse_items_join:
  assumes "xs \<noteq> []" "\<forall>x \<in> set xs. parses x \<and> json_plain x"
    and "length (py_join '','' (map json_dumps xs)) < n"
  shows "parse_items n (py_join '','' (map json_dumps xs) @ CHR '']'' # r) = Some (xs, r)"
  using assms
proof (induction xs arbitrary: n)
  case Nil
  then show ?case by simp
next
  case (Cons x xs)
  then obtain m where n: "n = Suc m" by (cases n) auto
  show ?case
  proof (cases xs)
    case Nil
    then show ?thesis using Cons.prems n by (simp add: parses_def)
  next
    case (Cons y ys)
    let ?rest = "py_join '','' (map json_dumps xs)"
    have len: "length (json_dumps x) \<le> m" "length ?rest < m"
      using Cons.prems(3) Cons n by simp_all
    have IH: "parse_items m (?rest @ CHR '']'' # r) = Some (xs, r)"
      by (rule Cons.IH) (use Cons Cons.prems(2) len in simp_all)
    obtain t where t: "?rest = json_dumps y @ t"
      using Cons by (cases ys) auto
    have "skip_ws (?rest @ CHR '']'' # r) = ?rest @ CHR '']'' # r"
      using Cons.prems(2) Cons t by simp
    with IH len Cons.prems(2) n Cons show ?thesis
      by (simp add: parses_def)
  qed
qed

lemma dump_string_append:
  "dump_string k @ r = CHR 0x22 # concat (map escape_char k) @ CHR 0x22 # r"
  by (simp add: dump_string_def)

lemma parse_members_join:
  assumes "kvs \<noteq> []" "\<forall>x \<in> set kvs. parses (snd x) \<and> json_plain (snd x)"
    and "length (py_join '','' (map (\<lambda>(k, v). dump_string k @ '':'' @ json_dumps v) kvs)) < n"
  shows "parse_members n (py_join '','' (map (\<lambda>(k, v). dump_string k @ '':'' @ json_dumps v) kvs)
     @ CHR ''}'' # r) = Some (kvs, r)"
  using assms
proof (induction kvs arbitrary: n)
  case Nil
  then show ?case by simp
next
  case (Cons x kvs)
  obtain k v where x: "x = (k, v)" by (cases x)
  obtain m where n: "n = Suc m" using Cons.prems(3) by (cases n) auto
  show ?case
  proof (cases kvs)
    case Nil
    then show ?thesis
      using Cons.prems n x
      by (simp add: parses_def dump_string_append parse_string_dump)
  next
    case (Cons y ys)
    let ?rest = "py_join '','' (map (\<lambda>(k, v). dump_string k @ '':'' @ json_dumps v) kvs)"
    have len: "length (json_dumps v) \<le> m" "length ?rest < m"
      using Cons.prems(3) Cons n x by simp_all
    have IH: "parse_members m (?rest @ CHR ''}'' # r) = Some (kvs, r)"
      by (rule Cons.IH) (use Cons Cons.prems(2) len in simp_all)
    obtain t where t: "?rest = CHR 0x22 # t"
      using Cons by (cases y; cases ys) (auto simp: dump_string_def)
    then have "skip_ws (?rest @ CHR ''}'' # r) = ?rest @ CHR ''}'' # r" by simp
    with IH len Cons.prems(2) n x Cons show ?thesis
      by (simp add: parses_def dump_string_append parse_string_dump)
  qed
qed

lemma fold_dict_set: "distinct (map fst kvs) \<Longrightarrow> fold (\<lambda>(k, v). dict_set k v) kvs [] = kvs"
proof -
  have new: "map_of d k = None \<Longrightarrow> dict_set k v d = d @ [(k, v)]" for k v and d :: "('a \<times> 'b) list"
    by (induction d) (auto split: if_splits)
  have "distinct (map fst (d @ kvs)) \<Longrightarrow> fold (\<lambda>(k, v). dict_set k v) kvs d = d @ kvs"
    for d kvs :: "('a \<times> 'b) list"
    by (induction kvs arbitrary: d) (auto simp: new map_of_eq_None_iff)
  from this [of "[]"] show "distinct (map fst kvs) \<Longrightarrow> ?thesis" by simp
qed

lemma parse_literals:
  "0 < n \<Longrightarrow> parse_value n (CHR ''n'' # CHR ''u'' # CHR ''l'' # CHR ''l'' # r) = Some (JNull, r)"
  "0 < n \<Longrightarrow> parse_value n (CHR ''t'' # CHR ''r'' # CHR ''u'' # CHR ''e'' # r) = Some (JBool True, r)"
  "0 < n \<Longrightarrow> parse_value n (CHR ''f'' # CHR ''a'' # CHR ''l'' # CHR ''s'' # CHR ''e'' # r)
     = Some (JBool False, r)"
  by (cases n; simp add: parse_scalar_def)+

lemma parses_plain: "json_plain v \<Longrightarrow> parses v"
proof (induction v)
  case (JStr s)
  show ?case
    unfolding parses_def json_dumps.simps dump_string_append
  proof (intro allI impI)
    fix n r assume "length (dump_string s) \<le> n"
    then obtain m where "n = Suc m" by (cases n) (auto simp: dump_string_def)
    then show "parse_value n (CHR 0x22 # concat (map escape_char s) @ CHR 0x22 # r) = Some (JStr s, r)"
      by (simp add: parse_string_dump)
  qed
next
  case (JInt i)
  show ?case
    unfolding parses_def
  proof (intro allI impI)
    fix n r assume r: "follow r" and "length (json_dumps (JInt i)) \<le> n"
    obtain c cs where c: "show_int i = c # cs" "c \<noteq> CHR 0x22 \<and> c \<noteq> CHR ''['' \<and> c \<noteq> CHR ''{''"
    proof (cases "i < 0")
      case True
      then show thesis using that by (simp add: show_int_def)
    next
      case False
      obtain d ds where "show_nat (nat i) = d # ds" "is_digit d" using show_nat_head by blast
      with False show thesis using that digit_head [of d] by (simp add: show_int_def)
    qed
    with \<open>length _ \<le> n\<close> obtain m where "n = Suc m" by (cases n) auto
    then show "parse_value n (json_dumps (JInt i) @ r) = Some (JInt i, r)"
      using parse_scalar_int [OF r, of i] c by simp
  qed
next
  case (JList xs)
  show ?case
    unfolding parses_def
  proof (intro allI impI)
    fix n r assume r: "follow r" and len: "length (json_dumps (JList xs)) \<le> n"
    then obtain m where n: "n = Suc m" by (cases n) auto
    show "parse_value n (json_dumps (JList xs) @ r) = Some (JList xs, r)"
    proof (cases xs)
      case Nil
      then show ?thesis using n by simp
    next
      case (Cons y ys)
      let ?w = "py_join '','' (map json_dumps xs)"
      have ok: "\<forall>x \<in> set xs. parses x \<and> json_plain x"
        using JList by (auto simp: list_all_iff)
      obtain t where t: "?w = json_dumps y @ t" using Cons by (cases ys) auto
      have "json_plain y" using ok Cons by simp
      then have skip: "skip_ws (?w @ CHR '']'' # r) = ?w @ CHR '']'' # r"
        "\<not> starts_with '']'' (?w @ CHR '']'' # r)"
        using t dumps_head [of y] by auto
      have "parse_items m (?w @ CHR '']'' # r) = Some (xs, r)"
        by (rule parse_items_join) (use ok len n Cons in simp_all)
      then show ?thesis using n skip by simp
    qed
  qed
next
  case (JObj kvs)
  show ?case
    unfolding parses_def
  proof (intro allI impI)
    fix n r assume r: "follow r" and len: "length (json_dumps (JObj kvs)) \<le> n"
    then obtain m where n: "n = Suc m" by (cases n) auto
    show "parse_value n (json_dumps (JObj kvs) @ r) = Some (JObj kvs, r)"
    proof (cases kvs)
      case Nil
      then show ?thesis using n by simp
    next
      case (Cons y ys)
      let ?w = "py_join '','' (map (\<lambda>(k, v). dump_string k @ '':'' @ json_dumps v) kvs)"
      have ok: "\<forall>x \<in> set kvs. parses (snd x) \<and> json_plain (snd x)"
        using JObj by (fastforce simp: list_all_iff)
      obtain t where t: "?w = CHR 0x22 # t"
        using Cons by (cases y; cases ys) (auto simp: dump_string_def)
      have "parse_members m (?w @ CHR ''}'' # r) = Some (kvs, r)"
        by (rule parse_members_join) (use ok len n Cons in simp_all)
      then show ?thesis using n t JObj.prems by (simp add: fold_dict_set)
    qed
  qed
qed (use parse_literals in \<open>auto simp: parses_def\<close>)

text \<open>
  Reading back what was printed gives the value again, for every value without fractions
  whose objects have distinct keys: control characters, quotes and backslashes included.
\<close>

theorem json_loads_dumps:
  assumes "json_plain v"
  shows "json_loads (json_dumps v) = Some v"
proof -
  have "parse_value (length (json_dumps v)) (json_dumps v @ []) = Some (v, [])"
    using parses_plain [OF assms] unfolding parses_def by (meson follow_simps(1) order_refl)
  then show ?thesis using skip_ws_dumps [OF assms, of "[]"] by (simp add: json_loads_def)
qed

theorem json_loads_dumps_witness:
  "json_loads (json_dumps (JObj [([CHR 0x22, CHR 0x0A, CHR 0x01], JList [JInt (-120), JNull])]))
   = Some (JObj [([CHR 0x22, CHR 0x0A, CHR 0x01], JList [JInt (-120), JNull])])"
  by (rule json_loads_dumps) simp

end
