(* ===== verification/Agent.thy ===== *)
theory Agent
  imports Json Settings Demo
begin

text \<open>
  \<open>app/services/agent_client.py\<close>: the client of the agents on the nodes, the signature of a request,
  how an answer becomes a result or an error, and the two transports: the fake agent, which is
  modelled in full, and the one over \<open>httpx\<close>, whose client is a parameter.

  A transport takes a request and the state of the agents; it answers, fails with a network error,
  or lets an exception of the language through.
\<close>

section \<open>Requests and their signature\<close>

definition header_key_id :: string where "header_key_id = ''X-Agent-Key-Id''"
definition header_timestamp :: string where "header_timestamp = ''X-Agent-Timestamp''"
definition header_signature :: string where "header_signature = ''X-Agent-Signature''"

definition skew_message :: string where
  "skew_message = ''timestamp outside allowed skew''"

definition newline :: string where
  "newline = [CHR 0x0A]"

definition sign_payload :: "crypto \<Rightarrow> string \<Rightarrow> string \<Rightarrow> string \<Rightarrow> string \<Rightarrow> string" where
  "sign_payload cr meth path ts body =
     py_join newline [py_upper meth, path, ts, sha256_hex cr body]"

definition sign_agent_request ::
  "crypto \<Rightarrow> string \<Rightarrow> string \<Rightarrow> string \<Rightarrow> string \<Rightarrow> string \<Rightarrow> string" where
  "sign_agent_request cr secret meth path ts body =
     hmac_sha256_hex cr secret (sign_payload cr meth path ts body)"

definition peer_path :: "string \<Rightarrow> string" where
  "peer_path k = ''/peers/'' @ quote k"

record wire_request =
  rq_base_url :: string
  rq_method :: string
  rq_path :: string
  rq_headers :: "(string, string) dict"
  rq_body :: string

record agent_response =
  resp_status :: int
  resp_payload :: json

datatype transport_result = Net_error string | Raised exn | Replied agent_response

type_synonym 't transport = "wire_request \<Rightarrow> 't \<Rightarrow> transport_result \<times> 't"

section \<open>The client\<close>

record 't agent_client =
  ac_crypto :: crypto
  ac_box :: secret_box
  ac_transport :: "'t transport"

definition secret_required :: "server_node \<Rightarrow> exn" where
  "secret_required nd =
     App (AppError Secret_required M_agent_access_missing 400
       [(''server_node_id'', JStr (node_id nd))])"

text \<open>The request \<open>_request\<close> makes; only a signed one reads the clock and the node's secret.\<close>

definition build_request ::
  "'t agent_client \<Rightarrow> server_node \<Rightarrow> string \<Rightarrow> string \<Rightarrow> json option \<Rightarrow> bool \<Rightarrow> 'z world_scheme
    \<Rightarrow> wire_request res \<times> 'z world_scheme" where
  "build_request ac nd meth path body_obj signed s =
     (let body = (case body_obj of None \<Rightarrow> [] | Some v \<Rightarrow> json_dumps v);
          headers = (case body_obj of None \<Rightarrow> [] | Some v \<Rightarrow> [(''Content-Type'', ''application/json'')]);
          req = (\<lambda>hs. \<lparr>rq_base_url = node_agent_base_url nd, rq_method = meth, rq_path = path,
                       rq_headers = hs, rq_body = body\<rparr>)
      in
      if \<not> signed then (Inr (req headers), s)
      else
        (case (or_none (node_agent_key_id nd), or_none (node_agent_secret_encrypted nd)) of
           (Some key_id, Some enc) \<Rightarrow>
             (case decrypt (ac_box ac) enc of
                Inl e \<Rightarrow> (Inl e, s)
              | Inr secret \<Rightarrow>
                  let ts = rfc3339 (ac_crypto ac) (now s) in
                  (Inr (req (dict_set header_signature
                               (sign_agent_request (ac_crypto ac) secret meth path ts body)
                               (dict_set header_timestamp ts
                                 (dict_set header_key_id key_id headers)))),
                   tick s))
         | _ \<Rightarrow> (Inl (secret_required nd), s)))"

definition node_unreachable :: "server_node \<Rightarrow> string \<Rightarrow> exn" where
  "node_unreachable nd reason =
     App (AppError Agent_unavailable M_node_unreachable 502
       [(''server_node_id'', JStr (node_id nd)), (''reason'', JStr reason)])"

definition agent_request ::
  "'t agent_client \<Rightarrow> server_node \<Rightarrow> string \<Rightarrow> string \<Rightarrow> json option \<Rightarrow> bool \<Rightarrow> 't app
    \<Rightarrow> agent_response res \<times> 't app" where
  "agent_request ac nd meth path body_obj signed s =
     (case build_request ac nd meth path body_obj signed s of
        (Inl e, s1) \<Rightarrow> (Inl e, s1)
      | (Inr rq, s1) \<Rightarrow>
          (case ac_transport ac rq (agent_st s1) of
             (Net_error reason, t) \<Rightarrow> (Inl (node_unreachable nd reason), s1\<lparr>agent_st := t\<rparr>)
           | (Raised e, t) \<Rightarrow> (Inl e, s1\<lparr>agent_st := t\<rparr>)
           | (Replied r, t) \<Rightarrow> (Inr r, s1\<lparr>agent_st := t\<rparr>)))"

definition agent_message_of :: "json \<Rightarrow> string" where
  "agent_message_of payload =
     (case payload of JObj kvs \<Rightarrow> (case map_of kvs ''error'' of None \<Rightarrow> [] | Some v \<Rightarrow> py_str v)
      | _ \<Rightarrow> [])"

definition agent_expect :: "agent_response \<Rightarrow> int \<Rightarrow> server_node \<Rightarrow> json res" where
  "agent_expect r expected nd =
     (if resp_status r = expected then Inr (resp_payload r)
      else
        (let msg = agent_message_of (resp_payload r);
             details = [(''server_node_id'', JStr (node_id nd)), (''agent_status'', JInt (resp_status r)),
                        (''agent_message'', JStr msg)]
         in
         if 500 \<le> resp_status r then Inl (App (AppError Agent_unavailable M_node_error 502 details))
         else
           Inl (App (AppError Agent_rejected M_node_rejected 502
             (if py_contains skew_message msg then details @ [(''hint'', JMsg M_clock_skew_hint)]
              else details)))))"

definition agent_call ::
  "'t agent_client \<Rightarrow> server_node \<Rightarrow> string \<Rightarrow> string \<Rightarrow> json option \<Rightarrow> bool \<Rightarrow> int \<Rightarrow> 't app
    \<Rightarrow> json res \<times> 't app" where
  "agent_call ac nd meth path body_obj signed expected s =
     (let (r, s1) = agent_request ac nd meth path body_obj signed s
      in (sum_bind r (\<lambda>x. agent_expect x expected nd), s1))"

definition agent_health :: "'t agent_client \<Rightarrow> server_node \<Rightarrow> 't app \<Rightarrow> json res \<times> 't app" where
  "agent_health ac nd s = agent_call ac nd ''GET'' ''/health'' None False 200 s"

definition agent_status :: "'t agent_client \<Rightarrow> server_node \<Rightarrow> 't app \<Rightarrow> json res \<times> 't app" where
  "agent_status ac nd s = agent_call ac nd ''GET'' ''/status'' None True 200 s"

definition agent_peers :: "'t agent_client \<Rightarrow> server_node \<Rightarrow> 't app \<Rightarrow> json res \<times> 't app" where
  "agent_peers ac nd s = agent_call ac nd ''GET'' ''/peers'' None True 200 s"

record agent_issue_result =
  ir_public_key :: string
  ir_client_ip :: string
  ir_config :: string
  ir_vpn_url :: string

text \<open>\<open>payload[f]\<close>, where the result is used as a text.\<close>

definition payload_str :: "string \<Rightarrow> json \<Rightarrow> string res" where
  "payload_str f payload =
     (case payload of
        JObj kvs \<Rightarrow>
          (case map_of kvs f of
             None \<Rightarrow> Inl (Py (KeyError f))
           | Some (JStr v) \<Rightarrow> Inr v
           | Some _ \<Rightarrow> Inl (Py (Ill_typed f)))
      | _ \<Rightarrow> Inl (Py TypeError))"

definition issue_body :: "string \<Rightarrow> string list \<Rightarrow> string option \<Rightarrow> jdict \<Rightarrow> json" where
  "issue_body nm dns endpoint_host metadata =
     JObj ([(''name'', JStr nm)]
       @ (if dns \<noteq> [] then [(''dns'', JList (map JStr dns))] else [])
       @ (case or_none endpoint_host of None \<Rightarrow> [] | Some h \<Rightarrow> [(''endpoint_host'', JStr h)])
       @ (if metadata \<noteq> [] then [(''metadata'', JObj metadata)] else []))"

definition read_issue_result :: "json \<Rightarrow> agent_issue_result res" where
  "read_issue_result payload =
     sum_bind (payload_str ''public_key'' payload) (\<lambda>pk.
     sum_bind (payload_str ''client_ip'' payload) (\<lambda>ip.
     sum_bind (payload_str ''config'' payload) (\<lambda>cfg.
     sum_bind (payload_str ''vpn_url'' payload) (\<lambda>url.
       Inr \<lparr>ir_public_key = pk, ir_client_ip = ip, ir_config = cfg, ir_vpn_url = url\<rparr>))))"

definition issue_peer ::
  "'t agent_client \<Rightarrow> server_node \<Rightarrow> string \<Rightarrow> string list \<Rightarrow> string option \<Rightarrow> jdict \<Rightarrow> 't app
    \<Rightarrow> agent_issue_result res \<times> 't app" where
  "issue_peer ac nd nm dns endpoint_host metadata s =
     (let (r, s1) = agent_call ac nd ''POST'' ''/peers''
                      (Some (issue_body nm dns endpoint_host metadata)) True 201 s
      in (sum_bind r read_issue_result, s1))"

definition revoke_peer ::
  "'t agent_client \<Rightarrow> server_node \<Rightarrow> string \<Rightarrow> 't app \<Rightarrow> json res \<times> 't app" where
  "revoke_peer ac nd pk s = agent_call ac nd ''DELETE'' (peer_path pk) None True 200 s"

section \<open>The transport over \<open>httpx\<close>\<close>

text \<open>What is read of an answer of \<open>httpx\<close>; \<open>hr_json\<close> is \<open>None\<close> where \<open>json()\<close> raises.\<close>

record http_answer =
  hr_status :: int
  hr_content :: string
  hr_text :: string
  hr_json :: "json option"

definition read_timeout :: "string \<Rightarrow> string \<Rightarrow> int" where
  "read_timeout meth path =
     (if meth \<in> {''POST'', ''DELETE''} \<and> starts_with ''/peers'' path then 30 else 15)"

definition httpx_transport ::
  "(int \<Rightarrow> wire_request \<Rightarrow> 't \<Rightarrow> (string + http_answer) \<times> 't) \<Rightarrow> 't transport" where
  "httpx_transport send rq t =
     (case send (read_timeout (rq_method rq) (rq_path rq)) rq t of
        (Inl reason, t1) \<Rightarrow> (Net_error reason, t1)
      | (Inr a, t1) \<Rightarrow>
          (Replied \<lparr>resp_status = hr_status a,
             resp_payload =
               (if hr_content a = [] then JNull
                else (case hr_json a of Some v \<Rightarrow> v
                      | None \<Rightarrow> JObj [(''error'', JStr (take 500 (hr_text a)))]))\<rparr>, t1))"


section \<open>The agent's side of the signature\<close>

text \<open>
  \<open>newAuthenticator\<close>, \<open>checkAllowlist\<close> and \<open>authorize\<close> of \<open>agent/internal/httpapi/auth.go\<close>. The functions
  of Go's packages \<open>net\<close> and \<open>time\<close> they call are parameters (\<open>go_lib\<close>); a network is what it contains.
  A refusal is its status and message.
\<close>

definition go_space :: "char \<Rightarrow> bool" where
  "go_space c \<longleftrightarrow> (let n = of_char c :: nat in n = 32 \<or> (9 \<le> n \<and> n \<le> 13))"

definition go_trim :: "string \<Rightarrow> string" where
  "go_trim s = rev (dropWhile go_space (rev (dropWhile go_space s)))"

definition sign_request :: "crypto \<Rightarrow> string \<Rightarrow> string \<Rightarrow> string \<Rightarrow> string \<Rightarrow> string \<Rightarrow> string" where
  "sign_request cr secret meth path ts body =
     hmac_sha256_hex cr secret (py_join newline [meth, path, ts, sha256_hex cr body])"

text \<open>\<open>parse_network\<close> is \<open>parseAllowedIP\<close>: \<open>net.ParseCIDR\<close>, or \<open>net.ParseIP\<close> and a mask of one address.\<close>

record 'ip go_lib =
  parse_network :: "string \<Rightarrow> ('ip \<Rightarrow> bool) option"
  parse_ip :: "string \<Rightarrow> 'ip option"
  split_host_port :: "string \<Rightarrow> string option"
  parse_time :: "string \<Rightarrow> time option"

record auth_config =
  cfg_key_id :: string
  cfg_secret :: string
  cfg_allowed_ips :: "string list"
  cfg_allowed_skew :: time
  cfg_allow_no_auth :: bool

record 'ip agent_auth =
  aa_key_id :: string
  aa_secret :: string
  aa_allowed_nets :: "('ip \<Rightarrow> bool) list"
  aa_allowed_skew :: time
  aa_allow_no_auth :: bool

text \<open>\<open>None\<close> where the agent does not start: an entry that is no address, or no entry at all.\<close>

definition new_authenticator :: "'ip go_lib \<Rightarrow> auth_config \<Rightarrow> 'ip agent_auth option" where
  "new_authenticator gl c =
     (let values = filter (\<lambda>v. v \<noteq> []) (map go_trim (cfg_allowed_ips c));
          nets = map (parse_network gl) values
      in if None \<in> set nets \<or> nets = [] then None
         else Some \<lparr>aa_key_id = go_trim (cfg_key_id c), aa_secret = cfg_secret c, aa_allowed_nets = map the nets,
           aa_allowed_skew = (if cfg_allowed_skew c = 0 then 60000000 else cfg_allowed_skew c),
           aa_allow_no_auth = cfg_allow_no_auth c\<rparr>)"

definition check_allowlist :: "'ip go_lib \<Rightarrow> 'ip agent_auth \<Rightarrow> string \<Rightarrow> (int \<times> string) option" where
  "check_allowlist gl a remote =
     (if aa_allowed_nets a = [] then Some (403, ''IP allowlist is empty'')
      else
        (let host = (case split_host_port gl remote of None \<Rightarrow> remote | Some h \<Rightarrow> h) in
         case parse_ip gl host of
           None \<Rightarrow> Some (403, ''invalid remote address'')
         | Some ip \<Rightarrow>
             if list_ex (\<lambda>net. net ip) (aa_allowed_nets a) then None
             else Some (403, ''remote address is not allowed'')))"

definition agent_authorize ::
  "'ip go_lib \<Rightarrow> crypto \<Rightarrow> 'ip agent_auth \<Rightarrow> string \<Rightarrow> time \<Rightarrow> wire_request \<Rightarrow> (int \<times> string) option" where
  "agent_authorize gl cr a remote tm rq =
     (case check_allowlist gl a remote of
        Some e \<Rightarrow> Some e
      | None \<Rightarrow>
          if aa_secret a = []
          then (if aa_allow_no_auth a then None else Some (401, ''HMAC secret is not configured''))
          else
            (let hdr = dict_get [] (rq_headers rq) in
             if hdr header_key_id \<noteq> aa_key_id a then Some (401, ''invalid key id'')
             else
               (case parse_time gl (hdr header_timestamp) of
                  None \<Rightarrow> Some (401, ''invalid timestamp'')
                | Some ts \<Rightarrow>
                    if aa_allowed_skew a < \<bar>tm - ts\<bar> then Some (401, skew_message)
                    else if go_trim (hdr header_signature)
                        \<noteq> sign_request cr (aa_secret a) (rq_method rq) (rq_path rq) (hdr header_timestamp)
                            (rq_body rq)
                      then Some (401, ''invalid signature'')
                    else None)))"

section \<open>What a signature covers\<close>

lemma join_newline_inj:
  assumes "CHR 0x0A \<notin> set a" "CHR 0x0A \<notin> set b" "a @ CHR 0x0A # x = b @ CHR 0x0A # y"
  shows "a = b \<and> x = y"
  using assms
proof (induction a arbitrary: b)
  case Nil
  then show ?case by (cases b) auto
next
  case (Cons c a)
  then show ?case by (cases b) auto
qed

text \<open>
  The signed text determines the method, the path, the timestamp and the digest of the
  body: no two different requests share one, as long as the first three hold no line break, and a
  path made from a public key never does.
\<close>

theorem sign_payload_inj:
  assumes "sign_payload cr m p t b = sign_payload cr m' p' t' b'"
    and "CHR 0x0A \<notin> set (m @ m' @ p @ p' @ t @ t')"
  shows "py_upper m = py_upper m' \<and> p = p' \<and> t = t' \<and> sha256_hex cr b = sha256_hex cr b' \<and>
    CHR 0x0A \<notin> set (peer_path k)"
proof -
  have up: "CHR 0x0A \<notin> set (py_upper w)" if "CHR 0x0A \<notin> set w" for w
  proof -
    have "py_upper_char c \<noteq> CHR 0x0A" if "c \<noteq> CHR 0x0A" for c
    proof (cases "97 \<le> (of_char c :: nat) \<and> (of_char c :: nat) \<le> 122")
      case False
      with that show ?thesis by (auto simp: py_upper_char_def Let_def)
    next
      case True
      define n :: nat where "n = of_char c - 32"
      from True have "65 \<le> n" "n \<le> 90" unfolding n_def by linarith+
      have up: "py_upper_char c = char_of n"
        using True by (simp add: py_upper_char_def Let_def n_def)
      have of: "(of_char (char_of n) :: nat) = n mod 256" by (rule of_char_of)
      have ten: "(of_char (CHR 0x0A) :: nat) = 10" by simp
      show ?thesis
      proof
        assume "py_upper_char c = CHR 0x0A"
        then have "n mod 256 = 10" using up of ten by metis
        moreover have "n mod 256 = n" using \<open>n \<le> 90\<close> by (intro mod_less) linarith
        ultimately show False using \<open>65 \<le> n\<close> by linarith
      qed
    qed
    with that show ?thesis unfolding py_upper_def set_map by (metis imageE)
  qed
  have nl: "CHR 0x0A \<notin> set (py_upper m)" "CHR 0x0A \<notin> set (py_upper m')" "CHR 0x0A \<notin> set p"
    "CHR 0x0A \<notin> set p'" "CHR 0x0A \<notin> set t" "CHR 0x0A \<notin> set t'"
    using assms(2) up by auto
  have eq: "py_upper m @ CHR 0x0A # p @ CHR 0x0A # t @ CHR 0x0A # sha256_hex cr b
      = py_upper m' @ CHR 0x0A # p' @ CHR 0x0A # t' @ CHR 0x0A # sha256_hex cr b'"
    using assms(1) by (simp add: sign_payload_def newline_def)
  note e1 = join_newline_inj [OF nl(1,2) eq]
  note e2 = join_newline_inj [OF nl(3,4) e1 [THEN conjunct2]]
  note e3 = join_newline_inj [OF nl(5,6) e2 [THEN conjunct2]]
  have "py_upper m = py_upper m' \<and> p = p' \<and> t = t' \<and> sha256_hex cr b = sha256_hex cr b'"
    using e1 e2 e3 by blast
  then show ?thesis using quote_no_newline by (simp add: peer_path_def)
qed

theorem sign_payload_inj_witness:
  "sign_payload demo_crypto ''delete'' (peer_path ''a/b'') ''t'' [] \<noteq>
   sign_payload demo_crypto ''DELETE'' (peer_path ''a'') ''t'' []"
proof
  assume "sign_payload demo_crypto ''delete'' (peer_path ''a/b'') ''t'' [] =
   sign_payload demo_crypto ''DELETE'' (peer_path ''a'') ''t'' []"
  from sign_payload_inj [OF this, of "[]"] have "peer_path ''a/b'' = peer_path ''a''"
    using quote_no_newline by (simp add: peer_path_def)
  then show False by code_simp
qed

lemma go_trim_id: "list_all (\<lambda>c. \<not> go_space c) s \<Longrightarrow> go_trim s = s"
  by (simp add: go_trim_def dropWhile_none list_all_rev)


text \<open>An agent of the example deployment, whose timestamps are numbers.\<close>

definition demo_go :: "string go_lib" where
  "demo_go = \<lparr>parse_network = (\<lambda>v. Some (\<lambda>ip. ip = v)), parse_ip = Some, split_host_port = (\<lambda>r. None),
     parse_time = py_int\<rparr>"

definition demo_auth_config :: auth_config where
  "demo_auth_config = \<lparr>cfg_key_id = '' backend-1 '', cfg_secret = ''s3'', cfg_allowed_ips = ['' 10.0.0.1''],
     cfg_allowed_skew = 0, cfg_allow_no_auth = False\<rparr>"

definition demo_client :: "'t transport \<Rightarrow> 't agent_client" where
  "demo_client tr = \<lparr>ac_crypto = demo_crypto\<lparr>hmac_sha256_hex := (\<lambda>k m. ''f0'')\<rparr>,
     ac_box = plaintext_box, ac_transport = tr\<rparr>"


section \<open>From an answer to a result\<close>

lemma agent_request_Inr:
  "agent_request ac nd meth path bo sg s = (Inr r, s') \<Longrightarrow>
     \<exists>rq s1 t. build_request ac nd meth path bo sg s = (Inr rq, s1) \<and>
       ac_transport ac rq (agent_st s1) = (Replied r, t) \<and> s' = s1\<lparr>agent_st := t\<rparr>"
  by (auto simp: agent_request_def split: prod.splits sum.splits transport_result.splits)

text \<open>An exchange changes nothing but the clock's position and the agents.\<close>

lemma build_request_state:
  "build_request ac nd meth path bo sg s = (r, s') \<Longrightarrow> s' = s \<or> s' = tick s"
  by (auto simp: build_request_def Let_def split: if_splits option.splits sum.splits)

lemma agent_call_state:
  assumes "agent_call ac nd meth path bo sg n s = (r, s')"
  shows "\<exists>t. s' = s\<lparr>agent_st := t\<rparr> \<or> s' = (tick s)\<lparr>agent_st := t\<rparr>"
proof -
  obtain q s1 where b: "build_request ac nd meth path bo sg s = (q, s1)"
    by (cases "build_request ac nd meth path bo sg s")
  then have s1: "s1 = s \<or> s1 = tick s" by (rule build_request_state)
  show ?thesis
  proof (cases q)
    case (Inl e)
    then have "s' = s1\<lparr>agent_st := agent_st s1\<rparr>"
      using assms b by (simp add: agent_call_def agent_request_def)
    then show ?thesis using s1 by blast
  next
    case (Inr rq)
    then obtain t where "s' = s1\<lparr>agent_st := t\<rparr>"
      using assms b by (auto simp: agent_call_def agent_request_def Let_def split_beta
          split: prod.splits transport_result.splits)
    then show ?thesis using s1 by blast
  qed
qed

text \<open>What the result \<open>r\<close> of a call has to be when the transport said \<open>w\<close>.\<close>

definition call_outcome :: "server_node \<Rightarrow> int \<Rightarrow> transport_result \<Rightarrow> json res \<Rightarrow> bool" where
  "call_outcome nd expected w r \<longleftrightarrow>
     (\<forall>v. r = Inr v \<longleftrightarrow> w = Replied \<lparr>resp_status = expected, resp_payload = v\<rparr>) \<and>
     (\<forall>e. w = Raised e \<longrightarrow> r = Inl e) \<and>
     (\<forall>e. r = Inl e \<and> w \<noteq> Raised e \<longrightarrow>
        (\<exists>c m d. e = App (AppError c m 502 d) \<and> (''server_node_id'', JStr (node_id nd)) \<in> set d \<and>
           (c, m) = (case w of
              Replied a \<Rightarrow> if 500 \<le> resp_status a then (Agent_unavailable, M_node_error)
                else (Agent_rejected, M_node_rejected)
            | _ \<Rightarrow> (Agent_unavailable, M_node_unreachable)) \<and>
           ((''hint'', JMsg M_clock_skew_hint) \<in> set d \<longleftrightarrow>
              (\<exists>a. w = Replied a \<and> resp_status a < 500 \<and>
                 py_contains skew_message (agent_message_of (resp_payload a))))))"

lemma expect_outcome: "call_outcome nd expected (Replied a) (agent_expect a expected nd)"
proof (cases "resp_status a = expected")
  case True
  then show ?thesis by (cases a) (auto simp: call_outcome_def agent_expect_def)
next
  case False
  then show ?thesis
    by (cases "500 \<le> resp_status a") (auto simp: call_outcome_def agent_expect_def Let_def)
qed

lemma failed_outcome:
  "call_outcome nd expected (Net_error x) (Inl (node_unreachable nd x))"
  "call_outcome nd expected (Raised e) (Inl e)"
  by (auto simp: call_outcome_def node_unreachable_def)

lemma sent_outcome:
  assumes "build_request ac nd meth path bo sg s = (Inr rq, s1)"
    and "agent_call ac nd meth path bo sg expected s = (r, s')"
  shows "s' = s1\<lparr>agent_st := snd (ac_transport ac rq (agent_st s1))\<rparr> \<and>
    call_outcome nd expected (fst (ac_transport ac rq (agent_st s1))) r"
  using assms expect_outcome failed_outcome
  by (auto simp: agent_call_def agent_request_def split: prod.splits transport_result.splits)

text \<open>
  C27: OUTCOMES. What every call of an agent amounts to. A signed call of a node without a key or a secret
  is the error that they are missing, and one whose secret cannot be opened the box's error: nothing is
  sent, so the agents are as before, and the clock is not read. Otherwise the request is sent once, and
  the call yields the payload exactly when the agent replies with the expected status. A network failure
  and a status from 500 on are reported as the node being unavailable, any other status as a refusal,
  with the hint about the clocks exactly when the agent complains of them; all of these carry the
  identifier of the node and are answered with 502.
\<close>

theorem agent_call_outcomes:
  assumes "agent_call ac nd meth path bo sg expected s = (r, s')"
  shows "if sg \<and> (or_none (node_agent_key_id nd) = None \<or> or_none (node_agent_secret_encrypted nd) = None)
    then r = Inl (secret_required nd) \<and> s' = s
    else
      (case if sg then decrypt (ac_box ac) (the (or_none (node_agent_secret_encrypted nd))) else Inr [] of
         Inl e \<Rightarrow> r = Inl e \<and> s' = s
       | Inr secret \<Rightarrow>
           (\<exists>rq. rq_base_url rq = node_agent_base_url nd \<and> rq_method rq = meth \<and> rq_path rq = path \<and>
              rq_body rq = (case bo of None \<Rightarrow> [] | Some v \<Rightarrow> json_dumps v) \<and>
              s' = (if sg then tick s else s)\<lparr>agent_st := snd (ac_transport ac rq (agent_st s))\<rparr> \<and>
              call_outcome nd expected (fst (ac_transport ac rq (agent_st s))) r))"
proof (cases "sg \<and> (or_none (node_agent_key_id nd) = None \<or> or_none (node_agent_secret_encrypted nd) = None)")
  case True
  then show ?thesis
    using assms by (auto simp: agent_call_def agent_request_def build_request_def Let_def split: option.splits)
next
  case False
  let ?k = "if sg then decrypt (ac_box ac) (the (or_none (node_agent_secret_encrypted nd))) else Inr []"
  show ?thesis
  proof (cases ?k)
    case (Inl e)
    then show ?thesis
      using False assms
      by (auto simp: agent_call_def agent_request_def build_request_def Let_def split: if_splits)
  next
    case (Inr k)
    then obtain rq where b: "build_request ac nd meth path bo sg s = (Inr rq, if sg then tick s else s)"
      and rq: "rq_base_url rq = node_agent_base_url nd" "rq_method rq = meth" "rq_path rq = path"
        "rq_body rq = (case bo of None \<Rightarrow> [] | Some v \<Rightarrow> json_dumps v)"
      using False by (cases sg) (auto simp: build_request_def Let_def)
    have "agent_st (if sg then tick s else s) = agent_st s" by simp
    with sent_outcome [OF b assms] have
      "s' = (if sg then tick s else s)\<lparr>agent_st := snd (ac_transport ac rq (agent_st s))\<rparr>"
      "call_outcome nd expected (fst (ac_transport ac rq (agent_st s))) r"
      by (simp_all only:)
    then show ?thesis
      unfolding if_not_P [OF False] Inr sum.case using rq by (intro exI [of _ rq] conjI)
  qed
qed

text \<open>An agent whose clock is off, as the example of a refusal.\<close>

definition skewed_agent :: "unit transport" where
  "skewed_agent rq t =
     (Replied \<lparr>resp_status = 401, resp_payload = JObj [(''error'', JStr skew_message)]\<rparr>, t)"

theorem agent_call_outcomes_witness:
  "\<exists>d. fst (agent_health (demo_client skewed_agent) (demo_node ''n1'' Online) (demo_app ()))
       = Inl (App (AppError Agent_rejected M_node_rejected 502 d)) \<and>
     (''hint'', JMsg M_clock_skew_hint) \<in> set d"
proof -
  let ?nd = "demo_node ''n1'' Online" and ?s = "demo_app ()" and ?ac = "demo_client skewed_agent"
  obtain r s' where c: "agent_call ?ac ?nd ''GET'' ''/health'' None False 200 ?s = (r, s')"
    by (cases "agent_call ?ac ?nd ''GET'' ''/health'' None False 200 ?s")
  let ?a = "\<lparr>resp_status = 401, resp_payload = JObj [(''error'', JStr skew_message)]\<rparr>"
  have "call_outcome ?nd 200 (Replied ?a) r"
    using agent_call_outcomes [OF c] by (auto simp: demo_client_def skewed_agent_def)
  moreover have "r \<noteq> Inr v" for v using calculation by (auto simp: call_outcome_def)
  then obtain e where "r = Inl e" by (cases r) auto
  moreover have "py_contains skew_message (agent_message_of (resp_payload ?a))" by code_simp
  ultimately have "\<exists>d. r = Inl (App (AppError Agent_rejected M_node_rejected 502 d)) \<and>
      (''hint'', JMsg M_clock_skew_hint) \<in> set d"
    by (auto simp: call_outcome_def)
  then show ?thesis using c by (simp add: agent_health_def)
qed

end
