(* ===== verification/FakeAgent.thy ===== *)
theory FakeAgent
  imports Agent
begin

text \<open>
  \<open>FakeAgentTransport\<close> of \<open>app/services/agent_client.py\<close>, the agent of the default mode: one state
  for each base URL, with the peers by public key and the next address to hand out. The keys it
  makes are draws of its own. The theorem shows that what the client issues on a node it can revoke
  there again, whatever characters the key has, without touching any other peer or node.
\<close>

record fake_peer =
  fp_public_key :: string
  fp_name :: string
  fp_client_ip :: string

record fake_node =
  fn_peers :: "(string, fake_peer) dict"
  fn_next_ip_octet :: nat

definition new_fake_node :: fake_node where
  "new_fake_node = \<lparr>fn_peers = [], fn_next_ip_octet = 2\<rparr>"

record fake_state =
  fs_nodes :: "(string, fake_node) dict"
  fs_last_request :: "wire_request option"
  fs_random_at :: "nat \<Rightarrow> string"
  fs_random_n :: nat

definition error_reply :: "int \<Rightarrow> string \<Rightarrow> string \<Rightarrow> agent_response" where
  "error_reply n msg txt = \<lparr>resp_status = n, resp_payload =
     JObj [(''error'', JStr msg), (''status'', JInt n), (''status_text'', JStr txt)]\<rparr>"

text \<open>\<open>', '.join(dns)\<close>: the elements have to be texts; the elements of a text are its characters.\<close>

fun texts :: "json list \<Rightarrow> string list option" where
  "texts [] = Some []"
| "texts (JStr s # xs) = map_option ((#) s) (texts xs)"
| "texts (_ # xs) = None"

fun join_dns :: "json \<Rightarrow> string res" where
  "join_dns (JList xs) =
     (case texts xs of None \<Rightarrow> Inl (Py TypeError) | Some ws \<Rightarrow> Inr (py_join '', '' ws))"
| "join_dns (JStr s) = Inr (py_join '', '' (map (\<lambda>c. [c]) s))"
| "join_dns (JObj kvs) = Inr (py_join '', '' (map fst kvs))"
| "join_dns _ = Inl (Py TypeError)"

definition default_dns :: json where
  "default_dns = JList [JStr ''1.1.1.1'', JStr ''8.8.8.8'']"

definition fake_config :: "string \<Rightarrow> string \<Rightarrow> string \<Rightarrow> string" where
  "fake_config client_ip dns endpoint_host =
     ''[Interface]'' @ newline @ ''Address = '' @ client_ip @ ''/32'' @ newline
     @ ''DNS = '' @ dns @ newline @ ''PrivateKey = fake-client-private-key'' @ newline
     @ ''Jc = 6'' @ newline @ ''Jmin = 10'' @ newline @ ''Jmax = 50'' @ newline @ newline
     @ ''[Peer]'' @ newline @ ''PublicKey = fake-server-public-key'' @ newline
     @ ''PresharedKey = fake-preshared-key'' @ newline @ ''AllowedIPs = 0.0.0.0/0, ::/0'' @ newline
     @ ''Endpoint = '' @ endpoint_host @ '':51820'' @ newline"

definition fake_ip :: "nat \<Rightarrow> string" where
  "fake_ip n = ''10.8.1.'' @ show_nat n"

text \<open>The body of \<open>_issue\<close> once the body is parsed: \<open>get\<close> needs a dictionary.\<close>

definition fake_issue ::
  "fake_node \<Rightarrow> string \<Rightarrow> fake_state \<Rightarrow> transport_result \<times> fake_node \<times> fake_state" where
  "fake_issue nd body fs =
     (case json_loads body of
        None \<Rightarrow> (Replied (error_reply 400 ''invalid JSON'' ''Bad Request''), nd, fs)
      | Some request \<Rightarrow>
          let public_key = b64encode (fs_random_at fs (fs_random_n fs));
              fs1 = fs\<lparr>fs_random_n := Suc (fs_random_n fs)\<rparr>;
              client_ip = fake_ip (fn_next_ip_octet nd);
              nd1 = nd\<lparr>fn_next_ip_octet := Suc (fn_next_ip_octet nd)\<rparr> in
          (case request of
             JObj kvs \<Rightarrow>
               let peer = \<lparr>fp_public_key = public_key,
                           fp_name = py_str (dict_get (JStr []) kvs ''name''),
                           fp_client_ip = client_ip\<rparr>;
                   nd2 = nd1\<lparr>fn_peers := dict_set public_key peer (fn_peers nd1)\<rparr>;
                   d = dict_get JNull kvs ''dns'';
                   dns = (if py_truthy d then d else default_dns);
                   h = dict_get JNull kvs ''endpoint_host'';
                   endpoint_host = (if py_truthy h then py_str h else ''203.0.113.10'') in
               (case join_dns dns of
                  Inl e \<Rightarrow> (Raised e, nd2, fs1)
                | Inr joined \<Rightarrow>
                    (Replied \<lparr>resp_status = 201, resp_payload =
                       JObj [(''public_key'', JStr public_key), (''client_ip'', JStr client_ip),
                         (''config'', JStr (fake_config client_ip joined endpoint_host)),
                         (''vpn_url'', JStr (''vpn://'' @ py_rstrip_char (CHR ''='')
                            (urlsafe_b64encode (''fake:'' @ public_key @ '':'' @ client_ip))))]\<rparr>,
                     nd2, fs1))
           | _ \<Rightarrow> (Raised (Py (AttributeError ''get'')), nd1, fs1)))"

definition fake_revoke :: "fake_node \<Rightarrow> string \<Rightarrow> agent_response \<times> fake_node" where
  "fake_revoke nd pk =
     (if map_of (fn_peers nd) pk = None then (error_reply 404 ''peer not found'' ''Not Found'', nd)
      else
        (\<lparr>resp_status = 200, resp_payload = JObj [(''revoked'', JBool True), (''public_key'', JStr pk)]\<rparr>,
         nd\<lparr>fn_peers := dict_pop pk (fn_peers nd)\<rparr>))"

definition fake_status_payload :: "fake_node \<Rightarrow> json" where
  "fake_status_payload nd =
     JObj [(''container'', JStr ''amnezia-awg2''), (''container_running'', JBool True),
       (''container_image'', JStr ''amneziavpn/amnezia-wg:fake''),
       (''container_created'', JStr ''2026-01-01T00:00:00Z''), (''interface'', JStr ''awg0''),
       (''runtime_interface'', JStr ''awg0''),
       (''runtime_public_key'', JStr ''fake-server-public-key''), (''listen_port'', JStr ''51820''),
       (''config_path'', JStr ''/opt/amnezia/awg/awg0.conf''), (''config_exists'', JBool True),
       (''clients_table_path'', JStr ''/opt/amnezia/awg/clientsTable''),
       (''peer_count_config'', JInt (int (length (fn_peers nd)))),
       (''peer_count_runtime'', JInt (int (length (fn_peers nd))))]"

definition fake_peer_view :: "fake_peer \<Rightarrow> json" where
  "fake_peer_view p =
     JObj [(''public_key'', JStr (fp_public_key p)), (''name'', JStr (fp_name p)),
       (''allowed_ips_config'', JList [JStr (fp_client_ip p @ ''/32'')]),
       (''allowed_ips_runtime'', JList [JStr (fp_client_ip p @ ''/32'')]),
       (''in_config'', JBool True), (''in_runtime'', JBool True), (''in_clients_table'', JBool True),
       (''endpoint'', JStr ''198.51.100.7:54321''),
       (''latest_handshake'', JStr ''1 minute, 3 seconds ago''),
       (''transfer_received'', JStr ''1.2 MiB''), (''transfer_sent'', JStr ''3.4 MiB'')]"

text \<open>\<open>request\<close>: the node's state is created when it is first named and written back at the end.\<close>

definition fake_transport :: "fake_state transport" where
  "fake_transport rq fs0 =
     (let url = rq_base_url rq; meth = rq_method rq; path = rq_path rq;
          fs = fs0\<lparr>fs_last_request := Some rq,
                   fs_nodes := dict_setdefault url new_fake_node (fs_nodes fs0)\<rparr>;
          nd = dict_get new_fake_node (fs_nodes fs) url;
          reply = (\<lambda>n v. Replied \<lparr>resp_status = n, resp_payload = v\<rparr>)
      in
      if meth = ''GET'' \<and> path = ''/health'' then
        (reply 200 (JObj [(''status'', JStr ''ok''), (''version'', JStr ''0.2.0'')]), fs)
      else if meth = ''GET'' \<and> path = ''/status'' then (reply 200 (fake_status_payload nd), fs)
      else if meth = ''GET'' \<and> path = ''/peers'' then
        (reply 200 (JList (map fake_peer_view (dict_values (fn_peers nd)))), fs)
      else if meth = ''POST'' \<and> path = ''/peers'' then
        (let (r, nd1, fs1) = fake_issue nd (rq_body rq) fs
         in (r, fs1\<lparr>fs_nodes := dict_set url nd1 (fs_nodes fs1)\<rparr>))
      else if meth = ''DELETE'' \<and> starts_with ''/peers/'' path then
        (let (r, nd1) = fake_revoke nd (unquote (remove_prefix ''/peers/'' path))
         in (Replied r, fs\<lparr>fs_nodes := dict_set url nd1 (fs_nodes fs)\<rparr>))
      else (Replied (error_reply 404 ''not found'' ''Not Found''), fs))"

definition fake_node_of :: "string \<Rightarrow> fake_state \<Rightarrow> fake_node" where
  "fake_node_of url fs = dict_get new_fake_node (fs_nodes fs) url"

section \<open>Issuing and revoking\<close>

lemma dict_get_setdefault [simp]:
  "dict_get v (dict_setdefault k v d) j = dict_get v d j"
  by (auto simp: dict_get_def split: option.splits)

definition fake_client :: "crypto \<Rightarrow> secret_box \<Rightarrow> fake_state agent_client" where
  "fake_client cr bx = \<lparr>ac_crypto = cr, ac_box = bx, ac_transport = fake_transport\<rparr>"

lemma issue_body_plain:
  "list_all json_plain (map snd md) \<Longrightarrow> distinct (map fst md) \<Longrightarrow> json_plain (issue_body nm dns h md)"
  by (auto simp: issue_body_def list_all_iff split: option.splits)

text \<open>What the fake agent does for an issue request of the client.\<close>

lemma fake_issue_client:
  fixes fs :: fake_state and nm dns h md
  defines "body \<equiv> json_dumps (issue_body nm dns h md)"
  defines "pk \<equiv> b64encode (fs_random_at fs (fs_random_n fs))"
  assumes "list_all json_plain (map snd md)" "distinct (map fst md)"
  shows "\<exists>kvs nm'. fake_issue nd body fs =
    (Replied \<lparr>resp_status = 201, resp_payload = JObj kvs\<rparr>,
     nd\<lparr>fn_next_ip_octet := Suc (fn_next_ip_octet nd),
        fn_peers := dict_set pk \<lparr>fp_public_key = pk, fp_name = nm',
          fp_client_ip = fake_ip (fn_next_ip_octet nd)\<rparr> (fn_peers nd)\<rparr>,
     fs\<lparr>fs_random_n := Suc (fs_random_n fs)\<rparr>) \<and>
    (\<exists>r. read_issue_result (JObj kvs) = Inr r \<and> ir_public_key r = pk \<and>
       ir_client_ip r = fake_ip (fn_next_ip_octet nd))"
proof -
  have loads: "json_loads body = Some (issue_body nm dns h md)"
    unfolding body_def by (rule json_loads_dumps) (rule issue_body_plain [OF assms(3,4)])
  have texts: "texts (map JStr ws) = Some ws" for ws by (induction ws) auto
  obtain kvs where kvs: "issue_body nm dns h md = JObj kvs" by (simp add: issue_body_def)
  define ws where "ws = (if dns = [] then [''1.1.1.1'', ''8.8.8.8''] else dns)"
  have ws: "(if py_truthy (dict_get JNull kvs ''dns'') then dict_get JNull kvs ''dns''
      else default_dns) = JList (map JStr ws)"
    using kvs by (auto simp: ws_def issue_body_def dict_get_def default_dns_def split: option.splits)
  show ?thesis
    by (simp add: fake_issue_def loads kvs ws texts Let_def read_issue_result_def payload_str_def
        flip: pk_def) (rule exI, rule refl)
qed

text \<open>Whether a signed request can be made does not depend on what is asked.\<close>

lemma build_request_signed:
  "(\<exists>rq. build_request ac nd meth path bo True s = (Inr rq, s') \<and>
      rq_base_url rq = node_agent_base_url nd \<and> rq_method rq = meth \<and> rq_path rq = path \<and>
      rq_body rq = (case bo of None \<Rightarrow> [] | Some v \<Rightarrow> json_dumps v)) \<longleftrightarrow>
   (\<exists>k enc sec. or_none (node_agent_key_id nd) = Some k \<and>
      or_none (node_agent_secret_encrypted nd) = Some enc \<and> decrypt (ac_box ac) enc = Inr sec \<and>
      s' = tick s)"
  by (auto simp: build_request_def Let_def split: option.splits sum.splits)

lemma build_request_Inr:
  assumes "build_request ac nd meth path bo True s = (Inr rq, s')"
  shows "rq_base_url rq = node_agent_base_url nd \<and> rq_method rq = meth \<and> rq_path rq = path \<and>
      rq_body rq = (case bo of None \<Rightarrow> [] | Some v \<Rightarrow> json_dumps v) \<and> s' = tick s"
  using assms by (auto simp: build_request_def Let_def split: option.splits sum.splits)

lemma agent_st_app [simp]: "agent_st (s\<lparr>agent_st := t\<rparr>) = t"
  by simp

lemma fake_issue_peer:
  assumes "issue_peer (fake_client cr bx) nd nm dns h md s = (Inr r, s1)"
    and "list_all json_plain (map snd md)" "distinct (map fst md)"
  defines "node \<equiv> fake_node_of (node_agent_base_url nd) (agent_st s)"
  shows "\<exists>p. fs_nodes (agent_st s1) = dict_set (node_agent_base_url nd)
      (node\<lparr>fn_next_ip_octet := Suc (fn_next_ip_octet node),
            fn_peers := dict_set (ir_public_key r) p (fn_peers node)\<rparr>)
      (dict_setdefault (node_agent_base_url nd) new_fake_node (fs_nodes (agent_st s)))"
    and "ir_public_key r = b64encode (fs_random_at (agent_st s) (fs_random_n (agent_st s)))"
    and "\<exists>k enc sec. or_none (node_agent_key_id nd) = Some k \<and>
      or_none (node_agent_secret_encrypted nd) = Some enc \<and> decrypt bx enc = Inr sec"
proof -
  let ?ac = "fake_client cr bx" and ?url = "node_agent_base_url nd"
  let ?body = "issue_body nm dns h md"
  obtain q s0 where b: "build_request ?ac nd ''POST'' ''/peers'' (Some ?body) True s = (q, s0)"
    by (cases "build_request ?ac nd ''POST'' ''/peers'' (Some ?body) True s")
  obtain rq where q: "q = Inr rq"
    using assms(1) b by (cases q) (auto simp: issue_peer_def agent_call_def agent_request_def)
  have rq: "rq_base_url rq = ?url" "rq_method rq = ''POST''" "rq_path rq = ''/peers''"
    "rq_body rq = json_dumps ?body" "s0 = tick s"
    using build_request_Inr [OF b [unfolded q]] by simp_all
  let ?fs = "(agent_st s)\<lparr>fs_last_request := Some rq,
    fs_nodes := dict_setdefault ?url new_fake_node (fs_nodes (agent_st s))\<rparr>"
  obtain kvs nm' r' where f: "fake_issue node (json_dumps ?body) ?fs =
    (Replied \<lparr>resp_status = 201, resp_payload = JObj kvs\<rparr>,
     node\<lparr>fn_next_ip_octet := Suc (fn_next_ip_octet node),
        fn_peers := dict_set (ir_public_key r') \<lparr>fp_public_key = ir_public_key r', fp_name = nm',
          fp_client_ip = fake_ip (fn_next_ip_octet node)\<rparr> (fn_peers node)\<rparr>,
     ?fs\<lparr>fs_random_n := Suc (fs_random_n ?fs)\<rparr>)"
    "read_issue_result (JObj kvs) = Inr r'"
    "ir_public_key r' = b64encode (fs_random_at (agent_st s) (fs_random_n (agent_st s)))"
    using fake_issue_client [OF assms(2,3), of node nm dns h ?fs] by auto
  have res: "issue_peer ?ac nd nm dns h md s = (Inr r', (tick s)\<lparr>agent_st :=
      ?fs\<lparr>fs_random_n := Suc (fs_random_n ?fs), fs_nodes := dict_set ?url
        (node\<lparr>fn_next_ip_octet := Suc (fn_next_ip_octet node),
        fn_peers := dict_set (ir_public_key r') \<lparr>fp_public_key = ir_public_key r', fp_name = nm',
          fp_client_ip = fake_ip (fn_next_ip_octet node)\<rparr> (fn_peers node)\<rparr>)
        (fs_nodes ?fs)\<rparr>\<rparr>)"
    using b q rq f
    by (simp add: issue_peer_def agent_call_def agent_request_def fake_client_def
        fake_transport_def agent_expect_def node_def fake_node_of_def Let_def)
  then have r: "r' = r" using assms(1) by simp
  show "ir_public_key r = b64encode (fs_random_at (agent_st s) (fs_random_n (agent_st s)))"
    using f(3) r by simp
  show "\<exists>p. fs_nodes (agent_st s1) = dict_set (node_agent_base_url nd)
      (node\<lparr>fn_next_ip_octet := Suc (fn_next_ip_octet node),
            fn_peers := dict_set (ir_public_key r) p (fn_peers node)\<rparr>)
      (dict_setdefault (node_agent_base_url nd) new_fake_node (fs_nodes (agent_st s)))"
    using assms(1) res r by auto
  show "\<exists>k enc sec. or_none (node_agent_key_id nd) = Some k \<and>
      or_none (node_agent_secret_encrypted nd) = Some enc \<and> decrypt bx enc = Inr sec"
    using build_request_signed [of ?ac nd "''POST''" "''/peers''" "Some ?body" s s0] b q rq
    by (simp add: fake_client_def)
qed

text \<open>
  C25: ISSUE AND REVOKE. A key the fake agent of a node issued for the client is revoked by the
  client's DELETE, whatever its characters: the path, one percent-encoded segment, leads back to the
  key, the call succeeds, the node has the peers it had before, and no other node is affected.
\<close>

theorem fake_issue_revoke:
  assumes "issue_peer (fake_client cr bx) nd nm dns h md s = (Inr r, s1)"
    and "list_all json_plain (map snd md)" "distinct (map fst md)"
    and "map_of (fn_peers (fake_node_of (node_agent_base_url nd) (agent_st s)))
           (b64encode (fs_random_at (agent_st s) (fs_random_n (agent_st s)))) = None"
    and "revoke_peer (fake_client cr bx) nd (ir_public_key r) s1 = (x, s2)"
  shows "x = Inr (JObj [(''revoked'', JBool True), (''public_key'', JStr (ir_public_key r))]) \<and>
    (\<forall>url. fn_peers (fake_node_of url (agent_st s2)) = fn_peers (fake_node_of url (agent_st s)))"
proof -
  let ?ac = "fake_client cr bx" and ?url = "node_agent_base_url nd" and ?pk = "ir_public_key r"
  let ?node = "fake_node_of ?url (agent_st s)"
  obtain p where p: "fs_nodes (agent_st s1) = dict_set ?url
      (?node\<lparr>fn_next_ip_octet := Suc (fn_next_ip_octet ?node),
            fn_peers := dict_set ?pk p (fn_peers ?node)\<rparr>)
      (dict_setdefault ?url new_fake_node (fs_nodes (agent_st s)))"
    using fake_issue_peer(1) [OF assms(1-3)] by blast
  obtain rq where b: "build_request ?ac nd ''DELETE'' (peer_path ?pk) None True s1 = (Inr rq, tick s1)"
    and rq: "rq_base_url rq = ?url" "rq_method rq = ''DELETE''" "rq_path rq = peer_path ?pk"
    using fake_issue_peer(3) [OF assms(1-3)]
      build_request_signed [of ?ac nd "''DELETE''" "peer_path ?pk" None s1 "tick s1"]
    by (auto simp: fake_client_def)
  have path: "starts_with ''/peers/'' (peer_path ?pk)"
    "unquote (remove_prefix ''/peers/'' (peer_path ?pk)) = ?pk"
    using starts_with_append [of "''/peers/''"] remove_prefix_append [of "''/peers/''"]
    by (simp_all only: peer_path_def unquote_quote)
  have new: "dict_pop ?pk (fn_peers ?node) = fn_peers ?node"
    using assms(4) fake_issue_peer(2) [OF assms(1-3)]
    by (simp add: delete_id map_of_eq_None_iff)
  have run: "revoke_peer ?ac nd ?pk s1 =
      (Inr (JObj [(''revoked'', JBool True), (''public_key'', JStr ?pk)]),
       (tick s1)\<lparr>agent_st := (agent_st s1)\<lparr>fs_last_request := Some rq,
         fs_nodes := dict_set ?url (?node\<lparr>fn_next_ip_octet := Suc (fn_next_ip_octet ?node)\<rparr>)
           (dict_setdefault ?url new_fake_node (fs_nodes (agent_st s1)))\<rparr>\<rparr>)"
    using b rq path p new
    by (simp add: revoke_peer_def agent_call_def agent_request_def fake_client_def
        fake_transport_def agent_expect_def fake_revoke_def Let_def)
  then show ?thesis
    using assms(5) p by (auto simp: fake_node_of_def)
qed

text \<open>A fake agent whose keys are full of slashes.\<close>

definition demo_fake :: fake_state where
  "demo_fake = \<lparr>fs_nodes = [], fs_last_request = None,
     fs_random_at = (\<lambda>n. [CHR 0xFF, CHR 0xFF, CHR 0xFF]), fs_random_n = 0\<rparr>"

theorem fake_issue_revoke_witness:
  "\<exists>r s1. issue_peer (fake_client demo_crypto plaintext_box) (demo_node ''n1'' Online) ''d'' [] None
       [(''k'', JStr ''v'')] (demo_app demo_fake) = (Inr r, s1) \<and> ir_public_key r = ''////'' \<and>
     fst (revoke_peer (fake_client demo_crypto plaintext_box) (demo_node ''n1'' Online) ''////'' s1)
       = Inr (JObj [(''revoked'', JBool True), (''public_key'', JStr ''////'')])"
proof -
  let ?ac = "fake_client demo_crypto plaintext_box" and ?nd = "demo_node ''n1'' Online"
  let ?md = "[(''k'', JStr ''v'')]" and ?s = "demo_app demo_fake"
  obtain q s1 where i: "issue_peer ?ac ?nd ''d'' [] None ?md ?s = (q, s1)"
    by (cases "issue_peer ?ac ?nd ''d'' [] None ?md ?s")
  have "(case fst (issue_peer ?ac ?nd ''d'' [] None ?md ?s) of Inl e \<Rightarrow> [] | Inr r \<Rightarrow> ir_public_key r)
      = ''////''" by code_simp
  then obtain r where r: "q = Inr r" "ir_public_key r = ''////''" using i by (cases q) auto
  obtain x s2 where v: "revoke_peer ?ac ?nd (ir_public_key r) s1 = (x, s2)"
    by (cases "revoke_peer ?ac ?nd (ir_public_key r) s1")
  have "x = Inr (JObj [(''revoked'', JBool True), (''public_key'', JStr (ir_public_key r))])"
    by (rule fake_issue_revoke [OF i [unfolded r(1)] _ _ _ v, THEN conjunct1]) (simp, simp, code_simp)
  then show ?thesis using i r v by auto
qed

end
