(* ===== verification/Machine.thy ===== *)
theory Machine
  imports Main
begin

text \<open>
  Runs of a labelled step relation. The locale \<open>preserved\<close> is an invariant of one; \<open>tracked\<close>
  follows one part of the state, which every step moves along an edge of a given graph or leaves
  alone, so that over a whole run it moves along a path; \<open>ranked\<close> adds a rank that grows along
  every edge, which bounds the number of moves.
\<close>

inductive run :: "('l \<Rightarrow> 's \<Rightarrow> 's \<Rightarrow> bool) \<Rightarrow> 's \<Rightarrow> 'l list \<Rightarrow> 's \<Rightarrow> bool" for step where
  run_nil: "run step s [] s"
| run_cons: "step l s s1 \<Longrightarrow> run step s1 ls s' \<Longrightarrow> run step s (l # ls) s'"

inductive_simps run_nil_iff [simp]: "run step s [] s'"
inductive_simps run_cons_iff: "run step s (l # ls) s'"

lemma run_append: "run step s (ls @ ls') s' \<longleftrightarrow> (\<exists>t. run step s ls t \<and> run step t ls' s')"
  by (induction ls arbitrary: s) (auto simp: run_cons_iff)

lemma run_restrict:
  "run step s ls s' \<Longrightarrow> (\<And>l. l \<in> set ls \<Longrightarrow> P l) \<Longrightarrow> run (\<lambda>l s s'. step l s s' \<and> P l) s ls s'"
  by (induction rule: run.induct) (auto simp: run_cons_iff)

locale preserved =
  fixes step :: "'l \<Rightarrow> 's \<Rightarrow> 's \<Rightarrow> bool"
    and inv :: "'s \<Rightarrow> bool"
  assumes keep: "inv s \<Longrightarrow> step l s s' \<Longrightarrow> inv s'"
begin

lemma run_keep: "run step s ls s' \<Longrightarrow> inv s \<Longrightarrow> inv s'"
  by (induction rule: run.induct) (auto dest: keep)

end

locale tracked = preserved step inv
  for step :: "'l \<Rightarrow> 's \<Rightarrow> 's \<Rightarrow> bool" and inv :: "'s \<Rightarrow> bool" +
  fixes part :: "'i \<Rightarrow> 's \<Rightarrow> 'c option"
    and edge :: "'c \<Rightarrow> 'c \<Rightarrow> bool"
  assumes move: "inv s \<Longrightarrow> step l s s' \<Longrightarrow> part i s = Some a \<Longrightarrow>
      \<exists>b. part i s' = Some b \<and> (b = a \<or> edge a b)"
begin

lemma run_path: "run step s ls s' \<Longrightarrow> inv s \<Longrightarrow> part i s = Some a \<Longrightarrow>
    \<exists>b. part i s' = Some b \<and> edge\<^sup>*\<^sup>* a b"
proof (induction arbitrary: a rule: run.induct)
  case (run_nil s)
  then show ?case by blast
next
  case (run_cons l s s1 ls s')
  from move [OF run_cons.prems(1) run_cons.hyps(1) run_cons.prems(2)]
  obtain b where b: "part i s1 = Some b" "b = a \<or> edge a b" by blast
  from run_cons.IH [OF keep [OF run_cons.prems(1) run_cons.hyps(1)] b(1)]
  obtain c where "part i s' = Some c" "edge\<^sup>*\<^sup>* b c" by blast
  with b(2) show ?case by (blast intro: converse_rtranclp_into_rtranclp)
qed

lemma run_stuck: "run step s ls s' \<Longrightarrow> inv s \<Longrightarrow> part i s = Some a \<Longrightarrow> (\<And>b. \<not> edge a b) \<Longrightarrow>
    part i s' = Some a"
  using run_path [of s ls s' i a] by (auto elim: converse_rtranclpE)

end

locale ranked = tracked step inv part edge
  for step :: "'l \<Rightarrow> 's \<Rightarrow> 's \<Rightarrow> bool" and inv :: "'s \<Rightarrow> bool"
    and part :: "'i \<Rightarrow> 's \<Rightarrow> 'c option" and edge :: "'c \<Rightarrow> 'c \<Rightarrow> bool" +
  fixes rank :: "'c \<Rightarrow> nat"
  assumes climb: "edge a b \<Longrightarrow> rank a < rank b"
begin

lemma path_climb: "edge\<^sup>*\<^sup>* a b \<Longrightarrow> b = a \<or> rank a < rank b"
  by (induction rule: rtranclp.induct) (auto dest: climb)

text \<open>A value once left is never taken again.\<close>

lemma never_back:
  assumes "run step s ls s'" "run step s' ls' s''" "inv s"
    and "part i s = Some a" "part i s' = Some b" "b \<noteq> a"
  shows "part i s'' \<noteq> Some a"
proof
  assume again: "part i s'' = Some a"
  obtain c where "part i s' = Some c" "edge\<^sup>*\<^sup>* a c" using run_path [OF assms(1,3,4)] by blast
  then have "rank a < rank b" using assms(5,6) path_climb by auto
  moreover obtain d where "part i s'' = Some d" "edge\<^sup>*\<^sup>* b d"
    using run_path [OF assms(2) run_keep [OF assms(1,3)] assms(5)] by blast
  ultimately show False using again path_climb [of b d] assms(6) by auto
qed

end

end
