(* ===== verification/Servers.thy ===== *)
theory Servers
  imports Users FakeAgent Machine
begin

text \<open>
  \<open>app/services/server_service.py\<close>: the inventory of nodes, their health and the choice of a node
  for a new device. \<open>health_check\<close> awaits the agent twice, without the storage lock: \<open>health_probe\<close> makes
  the two calls and lets the rest of the program run during each, \<open>health_finish\<close> writes the outcome into
  a node. With the in-memory storage that node is the stored object itself, as it is when the answer comes
  (\<open>health_check\<close>); with the database storage it is the copy that was read before (\<open>health_check_stale\<close>).
\<close>

section \<open>Operations\<close>

definition server_get :: "ident \<Rightarrow> 'z storage_scheme \<Rightarrow> server_node res" where
  "server_get i s =
     (case get_server_node i s of None \<Rightarrow> Inl (not_found M_server_not_found) | Some n \<Rightarrow> Inr n)"

definition selectable_status :: "server_status \<Rightarrow> bool" where
  "selectable_status st \<longleftrightarrow> st \<in> {Online, Warning}"

definition selectable :: "server_node \<Rightarrow> bool" where
  "selectable n \<longleftrightarrow> node_is_available_for_new_devices n \<and> selectable_status (node_status n)"

definition list_available :: "'z storage_scheme \<Rightarrow> server_node list" where
  "list_available s = filter selectable (list_server_nodes s)"

definition pick_for_new_device :: "'z storage_scheme \<Rightarrow> server_node option" where
  "pick_for_new_device s =
     (case list_available s of
        [] \<Rightarrow> None
      | n # ns \<Rightarrow> Some (py_min (\<lambda>m. count_active_devices_for_server (node_id m) s) n ns))"

definition ensure_selectable :: "server_node \<Rightarrow> unit res" where
  "ensure_selectable n =
     (if \<not> node_is_available_for_new_devices n \<or> \<not> selectable_status (node_status n)
      then Inl (App (AppError Server_unavailable M_server_not_selectable 503 []))
      else Inr ())"

record node_args =
  na_name :: string
  na_public_host :: string
  na_agent_base_url :: string
  na_public_port :: "int option"
  na_region_note :: "string option"
  na_provider :: "string option"
  na_agent_key_id :: "string option"
  na_agent_secret :: "string option"
  na_agent_allowed_ip_note :: "string option"
  na_is_available_for_new_devices :: bool

definition server_create_manual ::
  "secret_box \<Rightarrow> user \<Rightarrow> node_args \<Rightarrow> 'z storage_scheme \<Rightarrow> server_node \<times> 'z storage_scheme" where
  "server_create_manual bx actor a s =
     (let tm = now s; s1 = tick s; i = new_uuid s1; s2 = use_uuid s1;
          n = (new_server_node i (py_strip (na_name a)) (py_strip (na_public_host a))
                 (py_rstrip_char (CHR ''/'') (py_strip (na_agent_base_url a))) tm tm)
                \<lparr>node_public_port := na_public_port a, node_region_note := na_region_note a,
                 node_provider := na_provider a, node_agent_key_id := na_agent_key_id a,
                 node_agent_secret_encrypted := map_option (encrypt bx) (or_none (na_agent_secret a)),
                 node_agent_allowed_ip_note := na_agent_allowed_ip_note a,
                 node_is_available_for_new_devices := na_is_available_for_new_devices a,
                 node_created_by_user_id := Some (usr_id actor)\<rparr>
      in (n,
          audit ''server_created''
            (no_args\<lparr>arg_actor := Some (usr_id actor), arg_target_type := Some ''server_node'',
               arg_target_id := Some (node_id n), arg_metadata := [(''name'', JStr (node_name n))]\<rparr>)
            (add_server_node n s2)))"

definition server_create_from_setup ::
  "secret_box \<Rightarrow> setup_job \<Rightarrow> string \<Rightarrow> string \<Rightarrow> string \<Rightarrow> 'z storage_scheme
    \<Rightarrow> server_node \<times> 'z storage_scheme" where
  "server_create_from_setup bx j url key_id secret s =
     (let tm = now s; s1 = tick s; i = new_uuid s1; s2 = use_uuid s1;
          n = (new_server_node i (job_server_name j) (job_host j) url tm tm)
                \<lparr>node_region_note := job_region_note j, node_agent_key_id := Some key_id,
                 node_agent_secret_encrypted := Some (encrypt bx secret),
                 node_status := Setup_running, node_is_available_for_new_devices := False,
                 node_created_by_user_id := Some (job_created_by_user_id j)\<rparr>
      in (n, add_server_node n s2))"

definition activate_after_setup ::
  "ident \<Rightarrow> bool \<Rightarrow> 'z storage_scheme \<Rightarrow> server_node res \<times> 'z storage_scheme" where
  "activate_after_setup i available s =
     (case server_get i s of
        Inl e \<Rightarrow> (Inl e, s)
      | Inr n \<Rightarrow>
          let n1 = n\<lparr>node_is_available_for_new_devices := available, node_updated_at := now s\<rparr>
          in (Inr n1, save_server_node n1 (tick s)))"

definition server_patchable :: "string list" where
  "server_patchable =
     [''name'', ''public_host'', ''public_port'', ''region_note'', ''provider'', ''agent_base_url'',
      ''agent_key_id'', ''agent_allowed_ip_note'', ''is_available_for_new_devices'',
      ''awg_container_name'', ''awg_interface'', ''awg_config_path'', ''clients_table_path'']"

definition server_getattr :: "string \<Rightarrow> server_node \<Rightarrow> json" where
  "server_getattr f n =
     (if f = ''name'' then JStr (node_name n)
      else if f = ''public_host'' then JStr (node_public_host n)
      else if f = ''public_port'' then json_opt_int (node_public_port n)
      else if f = ''region_note'' then json_opt_str (node_region_note n)
      else if f = ''provider'' then json_opt_str (node_provider n)
      else if f = ''agent_base_url'' then JStr (node_agent_base_url n)
      else if f = ''agent_key_id'' then json_opt_str (node_agent_key_id n)
      else if f = ''agent_allowed_ip_note'' then json_opt_str (node_agent_allowed_ip_note n)
      else if f = ''is_available_for_new_devices'' then JBool (node_is_available_for_new_devices n)
      else if f = ''awg_container_name'' then JStr (node_awg_container_name n)
      else if f = ''awg_interface'' then JStr (node_awg_interface n)
      else if f = ''awg_config_path'' then JStr (node_awg_config_path n)
      else if f = ''clients_table_path'' then JStr (node_clients_table_path n)
      else JNull)"

definition server_setattr :: "string \<Rightarrow> json \<Rightarrow> server_node \<Rightarrow> server_node option" where
  "server_setattr f v n =
     (if f = ''name'' then map_option (\<lambda>w. n\<lparr>node_name := w\<rparr>) (as_str v)
      else if f = ''public_host'' then map_option (\<lambda>w. n\<lparr>node_public_host := w\<rparr>) (as_str v)
      else if f = ''public_port'' then map_option (\<lambda>w. n\<lparr>node_public_port := w\<rparr>) (as_opt_int v)
      else if f = ''region_note'' then map_option (\<lambda>w. n\<lparr>node_region_note := w\<rparr>) (as_opt_str v)
      else if f = ''provider'' then map_option (\<lambda>w. n\<lparr>node_provider := w\<rparr>) (as_opt_str v)
      else if f = ''agent_base_url'' then map_option (\<lambda>w. n\<lparr>node_agent_base_url := w\<rparr>) (as_str v)
      else if f = ''agent_key_id'' then map_option (\<lambda>w. n\<lparr>node_agent_key_id := w\<rparr>) (as_opt_str v)
      else if f = ''agent_allowed_ip_note''
        then map_option (\<lambda>w. n\<lparr>node_agent_allowed_ip_note := w\<rparr>) (as_opt_str v)
      else if f = ''is_available_for_new_devices''
        then map_option (\<lambda>w. n\<lparr>node_is_available_for_new_devices := w\<rparr>) (as_bool v)
      else if f = ''awg_container_name''
        then map_option (\<lambda>w. n\<lparr>node_awg_container_name := w\<rparr>) (as_str v)
      else if f = ''awg_interface'' then map_option (\<lambda>w. n\<lparr>node_awg_interface := w\<rparr>) (as_str v)
      else if f = ''awg_config_path'' then map_option (\<lambda>w. n\<lparr>node_awg_config_path := w\<rparr>) (as_str v)
      else if f = ''clients_table_path''
        then map_option (\<lambda>w. n\<lparr>node_clients_table_path := w\<rparr>) (as_str v)
      else None)"

text \<open>
  The name \<open>agent_secret\<close>: always counted as changed; an empty value removes the secret. A value
  that is neither empty nor a text is refused before the loop.
\<close>

definition secret_hook :: "secret_box \<Rightarrow> string \<Rightarrow> json \<Rightarrow> server_node \<Rightarrow> server_node option" where
  "secret_hook bx f v n =
     (if f = ''agent_secret''
      then Some (n\<lparr>node_agent_secret_encrypted := map_option (encrypt bx) (case v of JStr x \<Rightarrow> or_none (Some x) | _ \<Rightarrow> None)\<rparr>)
      else None)"

definition secret_value_ok :: "json \<Rightarrow> bool" where
  "secret_value_ok v \<longleftrightarrow> \<not> py_truthy v \<or> (case v of JStr _ \<Rightarrow> True | _ \<Rightarrow> False)"

definition server_update ::
  "secret_box \<Rightarrow> user \<Rightarrow> ident \<Rightarrow> jdict \<Rightarrow> 'z storage_scheme \<Rightarrow> server_node res \<times> 'z storage_scheme" where
  "server_update bx actor i patch s =
     (case server_get i s of
        Inl e \<Rightarrow> (Inl e, s)
      | Inr n \<Rightarrow>
          if \<not> list_all (\<lambda>(f, v). f = ''agent_secret'' \<longrightarrow> secret_value_ok v) patch
          then (Inl (Py (Ill_typed ''agent_secret'')), s)
          else
            (case patch_loop (secret_hook bx) server_getattr server_setattr server_patchable patch n [] of
               Inl f \<Rightarrow> (Inl (Py (Ill_typed f)), s)
             | Inr (n1, changed) \<Rightarrow>
                 if changed = [] then (Inr n1, s)
                 else
                   (let n2 = n1\<lparr>node_updated_at := now s\<rparr> in
                    (Inr n2,
                     audit ''server_updated''
                       (no_args\<lparr>arg_actor := Some (usr_id actor),
                          arg_target_type := Some ''server_node'', arg_target_id := Some (node_id n2),
                          arg_metadata := [(''changed'', JList (map JStr changed))]\<rparr>)
                       (save_server_node n2 (tick s))))))"

definition server_set_disabled ::
  "user \<Rightarrow> ident \<Rightarrow> bool \<Rightarrow> 'z storage_scheme \<Rightarrow> server_node res \<times> 'z storage_scheme" where
  "server_set_disabled actor i disabled s =
     (case server_get i s of
        Inl e \<Rightarrow> (Inl e, s)
      | Inr n \<Rightarrow>
          let n1 = n\<lparr>node_status := (if disabled then Disabled
                                    else if node_status n = Disabled then Draft else node_status n),
                     node_updated_at := now s\<rparr>
          in (Inr n1,
              audit (if disabled then ''server_disabled'' else ''server_enabled'')
                (no_args\<lparr>arg_actor := Some (usr_id actor), arg_target_type := Some ''server_node'',
                   arg_target_id := Some (node_id n1)\<rparr>)
                (save_server_node n1 (tick s))))"

section \<open>Health\<close>

text \<open>
  The part of \<open>health_check\<close> in the \<open>try\<close>: two calls of the agent. \<open>f\<close> is what the rest of the program does
  to the state while the first is awaited, \<open>g\<close> while the second is; \<open>live\<close> is the object \<open>node\<close> as it is in
  a state.
\<close>

definition health_probe ::
  "'t agent_client \<Rightarrow> ('t app \<Rightarrow> server_node) \<Rightarrow> ('t app \<Rightarrow> 't app) \<Rightarrow> ('t app \<Rightarrow> 't app) \<Rightarrow> 't app
    \<Rightarrow> json res \<times> 't app" where
  "health_probe ac live f g s =
     (case agent_health ac (live s) s of
        (Inl e, s1) \<Rightarrow> (Inl e, f s1)
      | (Inr _, s1) \<Rightarrow> let s2 = f s1; (r, s3) = agent_status ac (live s2) s2 in (r, g s3))"

definition health_failed ::
  "ident option \<Rightarrow> error_code \<Rightarrow> message \<Rightarrow> jdict \<Rightarrow> time \<Rightarrow> server_node \<Rightarrow> 'z storage_scheme
    \<Rightarrow> server_node \<times> 'z storage_scheme" where
  "health_failed actor c m d tm n s =
     (let n1 = n\<lparr>node_status := (if node_status n \<noteq> Disabled then Offline else node_status n),
                 node_last_error := Some m, node_updated_at := tm\<rparr>
      in (n1,
          audit ''agent_call_failed''
            (no_args\<lparr>arg_actor := actor, arg_target_type := Some ''server_node'',
               arg_target_id := Some (node_id n1),
               arg_metadata := [(''code'', JStr (error_code_value c)), (''details'', JObj d)]\<rparr>)
            (save_server_node n1 s)))"

definition health_status :: "jdict \<Rightarrow> server_status" where
  "health_status kvs =
     (if py_truthy (dict_get JNull kvs ''container_running'')
         \<and> \<not> py_truthy (dict_get JNull kvs ''warnings'')
      then Online else Warning)"

text \<open>
  What follows the calls, for a node as it is then. A payload that is no dictionary raises in
  \<open>status_payload.get\<close>, before the node is saved; \<open>shared\<close> says whether the object whose first three fields
  are set by then is the stored one.
\<close>

definition health_finish ::
  "bool \<Rightarrow> ident option \<Rightarrow> server_status \<Rightarrow> time \<Rightarrow> json res \<Rightarrow> server_node \<Rightarrow> 'z storage_scheme
    \<Rightarrow> server_node res \<times> 'z storage_scheme" where
  "health_finish shared actor previous tm r n s =
     (case r of
        Inl (App (AppError c m st d)) \<Rightarrow>
          if c = Secret_required then (Inl (App (AppError c m st d)), s)
          else (let (n1, s1) = health_failed actor c m d tm n s in (Inr n1, s1))
      | Inl e \<Rightarrow> (Inl e, s)
      | Inr payload \<Rightarrow>
          let n1 = n\<lparr>node_last_seen_at := Some tm, node_last_status_payload := Some payload,
                     node_last_error := None\<rparr>;
              done = (\<lambda>st.
                let n2 = n1\<lparr>node_status := st, node_updated_at := tm\<rparr>; s1 = save_server_node n2 s in
                (Inr n2,
                 if node_status n2 \<noteq> previous
                 then audit ''server_status_changed''
                        (no_args\<lparr>arg_actor := actor, arg_target_type := Some ''server_node'',
                           arg_target_id := Some (node_id n2),
                           arg_metadata := [(''from'', JStr (server_status_value previous)),
                                            (''to'', JStr (server_status_value (node_status n2)))]\<rparr>) s1
                 else s1))
          in
          if node_status n = Disabled then done Disabled
          else
            (case payload of
               JObj kvs \<Rightarrow> done (health_status kvs)
             | _ \<Rightarrow> (Inl (Py (AttributeError ''get'')), if shared then save_server_node n1 s else s)))"

definition stored_node :: "ident \<Rightarrow> server_node \<Rightarrow> 'z storage_scheme \<Rightarrow> server_node" where
  "stored_node i n s = (case get_server_node i s of None \<Rightarrow> n | Some m \<Rightarrow> m)"

definition health_check ::
  "'t agent_client \<Rightarrow> ident option \<Rightarrow> ident \<Rightarrow> ('t app \<Rightarrow> 't app) \<Rightarrow> ('t app \<Rightarrow> 't app) \<Rightarrow> 't app
    \<Rightarrow> server_node res \<times> 't app" where
  "health_check ac actor i f g s =
     (case server_get i s of
        Inl e \<Rightarrow> (Inl e, s)
      | Inr n \<Rightarrow>
          let (r, s1) = health_probe ac (stored_node i n) f g (tick s)
          in health_finish True actor (node_status n) (now s) r (stored_node i n s1) s1)"

definition health_check_stale ::
  "'t agent_client \<Rightarrow> ident option \<Rightarrow> ident \<Rightarrow> ('t app \<Rightarrow> 't app) \<Rightarrow> ('t app \<Rightarrow> 't app) \<Rightarrow> 't app
    \<Rightarrow> server_node res \<times> 't app" where
  "health_check_stale ac actor i f g s =
     (case server_get i s of
        Inl e \<Rightarrow> (Inl e, s)
      | Inr n \<Rightarrow>
          let (r, s1) = health_probe ac (\<lambda>_. n) f g (tick s)
          in health_finish False actor (node_status n) (now s) r n s1)"

definition server_agent_peers :: "'t agent_client \<Rightarrow> ident \<Rightarrow> 't app \<Rightarrow> json res \<times> 't app" where
  "server_agent_peers ac i s =
     (case server_get i s of Inl e \<Rightarrow> (Inl e, s) | Inr n \<Rightarrow> agent_peers ac n s)"


section \<open>The choice of a node\<close>

lemma pick_cases:
  "pick_for_new_device s = None \<longleftrightarrow> list_available s = []"
  by (simp add: pick_for_new_device_def split: list.split)

lemma pick_Some:
  assumes "pick_for_new_device s = Some n"
  shows "n \<in> set (list_available s)"
    and "m \<in> set (list_available s) \<Longrightarrow>
      count_active_devices_for_server (node_id n) s \<le> count_active_devices_for_server (node_id m) s"
proof -
  let ?f = "\<lambda>m. count_active_devices_for_server (node_id m) s"
  from assms obtain x xs where x: "list_available s = x # xs" "n = py_min ?f x xs"
    by (auto simp: pick_for_new_device_def split: list.splits)
  then show "n \<in> set (list_available s)" using py_min_in [of ?f x xs] by simp
  show "m \<in> set (list_available s) \<Longrightarrow> ?f n \<le> ?f m"
    using x py_min_le [of m x xs ?f] by simp
qed

lemma list_available_in:
  "n \<in> set (list_available s) \<longleftrightarrow> n \<in> set (dict_values (server_nodes s)) \<and> selectable n"
  by (auto simp: list_available_def list_server_nodes_def)

text \<open>
  C29: CHOICE. The node chosen for a new device is open for new devices, online (possibly with
  warnings) and carries the fewest devices among all such nodes; none is chosen exactly when there
  is no such node.
\<close>

theorem pick_least_loaded:
  "case pick_for_new_device s of
     None \<Rightarrow> \<forall>n \<in> set (dict_values (server_nodes s)). \<not> selectable n
   | Some n \<Rightarrow> n \<in> set (dict_values (server_nodes s)) \<and> selectable n \<and> ensure_selectable n = Inr () \<and>
       (\<forall>m \<in> set (dict_values (server_nodes s)). selectable m \<longrightarrow>
          count_active_devices_for_server (node_id n) s
            \<le> count_active_devices_for_server (node_id m) s)"
proof (cases "pick_for_new_device s")
  case None
  then have "list_available s = []" by (simp add: pick_cases)
  then show ?thesis
    using None list_available_in [of _ s] by auto
next
  case (Some n)
  then show ?thesis
    using pick_Some [OF Some] list_available_in [of _ s]
    by (auto simp: ensure_selectable_def selectable_def)
qed

theorem pick_least_loaded_witness:
  "\<exists>n. pick_for_new_device demo_storage = Some n \<and> node_id n = ''n1'' \<and>
     count_active_devices_for_server ''n1'' demo_storage
       \<le> count_active_devices_for_server (node_id (demo_node ''n1'' Online)) demo_storage"
proof -
  have p: "pick_for_new_device demo_storage = Some (demo_node ''n1'' Online)" by code_simp
  have i: "node_id (demo_node ''n1'' Online) = ''n1''" by code_simp
  have "demo_node ''n1'' Online \<in> set (dict_values (server_nodes demo_storage))"
    "selectable (demo_node ''n1'' Online)" by code_simp+
  then show ?thesis
    using pick_least_loaded [of demo_storage] p i by auto
qed

section \<open>The life of a node\<close>

text \<open>
  The operations on the nodes as the steps of a relation, with the result of a health check written
  into the stored node at any time after it was begun, and whatever else happens to the storage but leaves
  the nodes alone and draws identifiers in their order.
\<close>

datatype server_op =
  Op_create | Op_setup | Op_activate ident | Op_update ident | Op_disable ident | Op_enable ident
| Op_health ident | Op_other

inductive server_step :: "secret_box \<Rightarrow> server_op \<Rightarrow> 'z storage_scheme \<Rightarrow> 'z storage_scheme \<Rightarrow> bool"
  for bx where
  st_create: "server_step bx Op_create s (snd (server_create_manual bx actor a s))"
| st_setup: "server_step bx Op_setup s (snd (server_create_from_setup bx j url k sec s))"
| st_activate: "server_step bx (Op_activate i) s (snd (activate_after_setup i b s))"
| st_update: "server_step bx (Op_update i) s (snd (server_update bx actor i patch s))"
| st_disable: "server_step bx (Op_disable i) s (snd (server_set_disabled actor i True s))"
| st_enable: "server_step bx (Op_enable i) s (snd (server_set_disabled actor i False s))"
| st_health: "get_server_node i s = Some n \<Longrightarrow>
    server_step bx (Op_health i) s (snd (health_finish True act prev tm r n s))"
| st_other: "server_nodes s' = server_nodes s \<Longrightarrow> uuid_at s' = uuid_at s \<Longrightarrow> uuid_n s \<le> uuid_n s' \<Longrightarrow>
    server_step bx Op_other s s'"

inductive_cases server_stepE: "server_step bx l s s'"

definition nodes_keyed :: "'z storage_scheme \<Rightarrow> bool" where
  "nodes_keyed s \<longleftrightarrow> (\<forall>i n. get_server_node i s = Some n \<longrightarrow> node_id n = i)"

lemma nodes_keyed_save: "nodes_keyed s \<Longrightarrow> nodes_keyed (save_server_node n s)"
  by (auto simp: nodes_keyed_def split: if_splits)

lemma nodes_keyed_frame:
  "server_nodes s' = server_nodes s \<Longrightarrow> nodes_keyed s' = nodes_keyed s"
  by (simp add: nodes_keyed_def get_server_node_def)

text \<open>The part of a node that no PATCH reaches.\<close>

definition server_core ::
  "server_node \<Rightarrow> ident \<times> time \<times> server_status \<times> time option \<times> message option \<times> json option \<times> ident option"
  where
  "server_core n = (node_id n, node_created_at n, node_status n, node_last_seen_at n,
     node_last_error n, node_last_status_payload n, node_created_by_user_id n)"

lemma server_set_get:
  "f \<in> set server_patchable \<Longrightarrow> server_setattr f v x = Some y \<Longrightarrow> server_getattr f y = v"
  by (simp add: server_patchable_def, elim disjE; clarsimp simp: server_setattr_def;
      simp add: server_getattr_def)

lemma server_set_other:
  "f \<in> set server_patchable \<Longrightarrow> g \<noteq> f \<Longrightarrow> server_setattr f v x = Some y \<Longrightarrow>
     server_getattr g y = server_getattr g x"
  by (simp add: server_patchable_def, elim disjE; clarsimp simp: server_setattr_def;
      simp add: server_getattr_def)

lemma server_set_core:
  "f \<in> set server_patchable \<Longrightarrow> server_setattr f v x = Some y \<Longrightarrow> server_core y = server_core x"
  by (simp add: server_patchable_def, elim disjE; clarsimp simp: server_setattr_def server_core_def)

lemma secret_not_patchable: "''agent_secret'' \<notin> set server_patchable"
  by (simp add: server_patchable_def)

lemma secret_hook_get: "server_getattr g (n\<lparr>node_agent_secret_encrypted := x\<rparr>) = server_getattr g n"
  by (simp add: server_getattr_def)

lemma server_core_secret: "server_core (n\<lparr>node_agent_secret_encrypted := x\<rparr>) = server_core n"
  by (simp add: server_core_def)

interpretation server_attrs: attributes server_getattr server_setattr server_patchable "secret_hook bx"
    server_core for bx
  by unfold_locales
    (use secret_not_patchable in \<open>auto simp: server_set_get server_set_other server_set_core
      secret_hook_def secret_hook_get server_core_secret split: if_splits\<close>)

lemma server_core_upd [simp]:
  "server_core (n\<lparr>node_updated_at := t\<rparr>) = server_core n"
  by (simp add: server_core_def)

lemma server_update_Inr:
  assumes "server_update bx actor i patch s = (Inr n', s')"
  obtains n n1 ch where "get_server_node i s = Some n"
    "server_attrs.loop bx patch n [] = Inr (n1, ch)"
    "n' = (if ch = [] then n1 else n1\<lparr>node_updated_at := now s\<rparr>)"
    "s' = (if ch = [] then s else
       audit ''server_updated''
         (no_args\<lparr>arg_actor := Some (usr_id actor), arg_target_type := Some ''server_node'',
            arg_target_id := Some (node_id n'),
            arg_metadata := [(''changed'', JList (map JStr ch))]\<rparr>) (save_server_node n' (tick s)))"
proof (cases "get_server_node i s")
  case None
  then show thesis using assms by (simp add: server_update_def server_get_def)
next
  case (Some n)
  show thesis
  proof (cases "server_attrs.loop bx patch n []")
    case (Inl f)
    then show thesis using assms Some by (simp add: server_update_def server_get_def split: if_splits)
  next
    case (Inr r)
    then show thesis
      using assms Some that [OF Some]
      by (cases r) (auto simp: server_update_def server_get_def Let_def split: if_splits)
  qed
qed

lemma server_update_Inl: "server_update bx actor i patch s = (Inl e, s') \<Longrightarrow> s' = s"
  by (auto simp: server_update_def Let_def split: sum.splits if_splits)

text \<open>What a step does to the node it is about, and to the others.\<close>

lemma server_update_node:
  assumes "nodes_keyed s" "s' = snd (server_update bx actor i patch s)"
  shows "nodes_keyed s'"
    and "get_server_node j s' = Some n' \<Longrightarrow>
      \<exists>n. get_server_node j s = Some n \<and> node_status n' = node_status n"
proof -
  obtain r where u: "server_update bx actor i patch s = (r, s')"
    using assms(2) by (cases "server_update bx actor i patch s") simp
  have "nodes_keyed s' \<and> (\<forall>n'. get_server_node j s' = Some n' \<longrightarrow>
      (\<exists>n. get_server_node j s = Some n \<and> node_status n' = node_status n))"
  proof (cases r)
    case (Inl e)
    then have "s' = s" using server_update_Inl u by blast
    then show ?thesis using assms(1) by blast
  next
    case (Inr n1)
    with u have "server_update bx actor i patch s = (Inr n1, s')" by simp
    then obtain n n0 ch where *: "get_server_node i s = Some n"
      "server_attrs.loop bx patch n [] = Inr (n0, ch)"
      "n1 = (if ch = [] then n0 else n0\<lparr>node_updated_at := now s\<rparr>)"
      "s' = (if ch = [] then s else
       audit ''server_updated''
         (no_args\<lparr>arg_actor := Some (usr_id actor), arg_target_type := Some ''server_node'',
            arg_target_id := Some (node_id n1),
            arg_metadata := [(''changed'', JList (map JStr ch))]\<rparr>) (save_server_node n1 (tick s)))"
      by (rule server_update_Inr)
    have core: "server_core n1 = server_core n"
      using server_attrs.loop_core [OF *(2)] *(3) by auto
    then have "node_id n1 = i" "node_status n1 = node_status n"
      using assms(1) *(1) by (auto simp: server_core_def nodes_keyed_def)
    then have st: "node_status n1 = node_status n" by simp
    have w: "server_nodes s' = server_nodes s \<or> server_nodes s' = server_nodes (save_server_node n1 s)"
      using *(4) by (auto simp: save_server_node_def)
    then have at: "get_server_node j s' = get_server_node j s \<or>
        get_server_node j s' = (if j = i then Some n1 else get_server_node j s)"
      using \<open>node_id n1 = i\<close> by (auto simp: get_server_node_def save_server_node_def)
    have "nodes_keyed s'"
      using w assms(1) nodes_keyed_save [OF assms(1), of n1] nodes_keyed_frame by blast
    then show ?thesis using at st *(1) by (auto split: if_splits)
  qed
  then show "nodes_keyed s'"
    "get_server_node j s' = Some n' \<Longrightarrow> \<exists>n. get_server_node j s = Some n \<and> node_status n' = node_status n"
    by blast+
qed

lemma health_finish_node:
  assumes "nodes_keyed s" "get_server_node i s = Some n"
    and "s' = snd (health_finish sh act prev tm r n s)"
  shows "nodes_keyed s' \<and> (get_server_node j s' = Some n' \<longrightarrow>
      (j \<noteq> i \<and> get_server_node j s = Some n') \<or>
      (j = i \<and> (node_status n' = node_status n \<or> node_status n \<noteq> Disabled \<and>
         (node_status n' = Offline \<or> node_status n' \<in> {Online, Warning} \<and> (\<exists>kvs. r = Inr (JObj kvs))))))"
proof -
  have i: "node_id n = i" using assms(1,2) by (simp add: nodes_keyed_def)
  have st: "health_status kvs \<in> {Online, Warning}" for kvs by (simp add: health_status_def)
  have "\<exists>m. node_id m = i \<and> (server_nodes s' = server_nodes s \<or> server_nodes s' = server_nodes (save_server_node m s)) \<and>
      (node_status m = node_status n \<or> node_status n \<noteq> Disabled \<and>
         (node_status m = Offline \<or> node_status m \<in> {Online, Warning} \<and> (\<exists>kvs. r = Inr (JObj kvs))))"
    (is "\<exists>m. ?P m")
  proof (cases r)
    case (Inl e)
    show ?thesis
    proof (cases "\<exists>c m d. (\<exists>st. e = App (AppError c m st d)) \<and> c \<noteq> Secret_required")
      case True
      then obtain c msg st d where "e = App (AppError c msg st d)" "c \<noteq> Secret_required" by blast
      with Inl show ?thesis
        using assms(3) i
        by (intro exI [of _ "n\<lparr>node_status := (if node_status n \<noteq> Disabled then Offline else node_status n),
             node_last_error := Some msg, node_updated_at := tm\<rparr>"])
          (auto simp: health_finish_def health_failed_def Let_def save_server_node_def)
    next
      case False
      with Inl have "s' = s"
        using assms(3) by (auto simp: health_finish_def split: exn.splits app_error.splits)
      then show ?thesis using i by (intro exI [of _ n]) simp
    qed
  next
    case (Inr payload)
    let ?n1 = "n\<lparr>node_last_seen_at := Some tm, node_last_status_payload := Some payload,
      node_last_error := None\<rparr>"
    show ?thesis
    proof (cases "node_status n = Disabled")
      case True
      with Inr show ?thesis
        using assms(3) i by (intro exI [of _ "?n1\<lparr>node_status := Disabled, node_updated_at := tm\<rparr>"])
          (simp add: health_finish_def Let_def save_server_node_def)
    next
      case False
      show ?thesis
      proof (cases "\<exists>kvs. payload = JObj kvs")
        case True
        then obtain kvs where "payload = JObj kvs" by blast
        with Inr False show ?thesis
          using assms(3) i st [of kvs]
          by (intro exI [of _ "?n1\<lparr>node_status := health_status kvs, node_updated_at := tm\<rparr>"])
            (auto simp: health_finish_def Let_def save_server_node_def)
      next
        case no: False
        then have "server_nodes s' = server_nodes (if sh then save_server_node ?n1 s else s)"
          using Inr False assms(3)
          by (cases payload) (simp_all add: health_finish_def Let_def)
        then show ?thesis using i by (intro exI [of _ ?n1]) (auto split: if_splits)
      qed
    qed
  qed
  then obtain m where m: "node_id m = i"
    "server_nodes s' = server_nodes s \<or> server_nodes s' = server_nodes (save_server_node m s)"
    "node_status m = node_status n \<or> node_status n \<noteq> Disabled \<and>
         (node_status m = Offline \<or> node_status m \<in> {Online, Warning} \<and> (\<exists>kvs. r = Inr (JObj kvs)))"
    by blast
  then have "get_server_node j s' = get_server_node j s \<or>
      get_server_node j s' = (if j = i then Some m else get_server_node j s)"
    by (auto simp: get_server_node_def save_server_node_def)
  moreover have "nodes_keyed s'"
    using m(2) assms(1) nodes_keyed_save [OF assms(1), of m] nodes_keyed_frame by blast
  ultimately show ?thesis using m(3) assms(2) by (auto split: if_splits)
qed

lemma activate_node:
  assumes "nodes_keyed s" "s' = snd (activate_after_setup i b s)"
  shows "nodes_keyed s' \<and> (get_server_node j s' = Some n' \<longrightarrow>
     (\<exists>n. get_server_node j s = Some n \<and> node_status n' = node_status n))"
proof (cases "get_server_node i s")
  case None
  then show ?thesis using assms by (simp add: activate_after_setup_def server_get_def)
next
  case (Some n)
  then have "node_id n = i" using assms(1) by (simp add: nodes_keyed_def)
  then show ?thesis
    using Some assms
    by (auto simp: activate_after_setup_def server_get_def Let_def nodes_keyed_def split: if_splits)
qed

lemma set_disabled_node:
  assumes "nodes_keyed s" "s' = snd (server_set_disabled actor i b s)"
  shows "nodes_keyed s' \<and> (get_server_node j s' = Some n' \<longrightarrow>
     (\<exists>n. get_server_node j s = Some n \<and>
        node_status n' = (if j \<noteq> i then node_status n else if b then Disabled
          else if node_status n = Disabled then Draft else node_status n)))"
proof (cases "get_server_node i s")
  case None
  then show ?thesis using assms by (auto simp: server_set_disabled_def server_get_def)
next
  case (Some n)
  then have "node_id n = i" using assms(1) by (simp add: nodes_keyed_def)
  then show ?thesis
    using Some assms
    by (auto simp: server_set_disabled_def server_get_def Let_def nodes_keyed_def split: if_splits)
qed

text \<open>A new node is a draft or under installation.\<close>

lemma server_create_node:
  assumes "nodes_keyed s" "s' = snd (server_create_manual bx actor a s) \<or>
    s' = snd (server_create_from_setup bx job url k sec s)"
  shows "nodes_keyed s' \<and> (get_server_node j s' = Some n' \<longrightarrow>
     get_server_node j s = Some n' \<or> node_status n' \<in> {Draft, Setup_running})"
  using assms
  by (auto simp: server_create_manual_def server_create_from_setup_def Let_def nodes_keyed_def
      new_server_node_def split: if_splits)

lemma server_step_node:
  assumes "server_step bx l s s'" "nodes_keyed s"
  shows "nodes_keyed s'"
    and "get_server_node j s' = Some n' \<Longrightarrow>
      get_server_node j s = Some n' \<or> node_status n' \<in> {Draft, Setup_running} \<and> l \<in> {Op_create, Op_setup} \<or>
      (\<exists>n. get_server_node j s = Some n \<and>
        (node_status n' = node_status n \<or>
         l = Op_disable j \<and> node_status n' = Disabled \<or>
         l = Op_enable j \<and> node_status n = Disabled \<and> node_status n' = Draft \<or>
         l = Op_health j \<and> node_status n \<noteq> Disabled \<and> node_status n' \<in> {Offline, Online, Warning}))"
proof -
  have "nodes_keyed s' \<and> (get_server_node j s' = Some n' \<longrightarrow>
      get_server_node j s = Some n' \<or> node_status n' \<in> {Draft, Setup_running} \<and> l \<in> {Op_create, Op_setup} \<or>
      (\<exists>n. get_server_node j s = Some n \<and>
        (node_status n' = node_status n \<or>
         l = Op_disable j \<and> node_status n' = Disabled \<or>
         l = Op_enable j \<and> node_status n = Disabled \<and> node_status n' = Draft \<or>
         l = Op_health j \<and> node_status n \<noteq> Disabled \<and> node_status n' \<in> {Offline, Online, Warning})))"
    using assms(1)
  proof cases
    case (st_create actor a)
    then show ?thesis using server_create_node [OF assms(2)] by blast
  next
    case (st_setup job url k sec)
    then show ?thesis using server_create_node [OF assms(2)] by blast
  next
    case (st_activate i b)
    then show ?thesis using activate_node [OF assms(2) st_activate(2), of j n'] by blast
  next
    case (st_update i actor patch)
    then show ?thesis using server_update_node [OF assms(2) st_update(2)] by blast
  next
    case (st_disable i actor)
    then show ?thesis using set_disabled_node [OF assms(2), of s' actor i True j n'] by (auto split: if_splits)
  next
    case (st_enable i actor)
    then show ?thesis using set_disabled_node [OF assms(2), of s' actor i False j n'] by (auto split: if_splits)
  next
    case (st_health i n act prev tm r)
    then show ?thesis
      using health_finish_node [OF assms(2), of i n s' True act prev tm r j n'] by auto
  next
    case st_other
    then show ?thesis using assms(2) by (auto simp: nodes_keyed_def get_server_node_def)
  qed
  then show "nodes_keyed s'" "get_server_node j s' = Some n' \<Longrightarrow>
      get_server_node j s = Some n' \<or> node_status n' \<in> {Draft, Setup_running} \<and> l \<in> {Op_create, Op_setup} \<or>
      (\<exists>n. get_server_node j s = Some n \<and>
        (node_status n' = node_status n \<or>
         l = Op_disable j \<and> node_status n' = Disabled \<or>
         l = Op_enable j \<and> node_status n = Disabled \<and> node_status n' = Draft \<or>
         l = Op_health j \<and> node_status n \<noteq> Disabled \<and> node_status n' \<in> {Offline, Online, Warning}))"
    by blast+
qed

text \<open>Every node is filed under its own identifier, and those still to be drawn are free.\<close>

definition nodes_ok :: "'z storage_scheme \<Rightarrow> bool" where
  "nodes_ok s \<longleftrightarrow> nodes_keyed s \<and> inj (uuid_at s) \<and>
     (\<forall>k \<ge> uuid_n s. get_server_node (uuid_at s k) s = None)"

lemma create_known:
  assumes "nodes_ok s" "s' = snd (server_create_manual bx actor a s) \<or>
    s' = snd (server_create_from_setup bx job url k sec s)"
  shows "get_server_node j s = Some n \<Longrightarrow> get_server_node j s' = Some n" "nodes_ok s'"
proof -
  have free: "get_server_node (new_uuid s) s = None"
    using assms(1) by (simp add: nodes_ok_def new_uuid_def)
  show "get_server_node j s = Some n \<Longrightarrow> get_server_node j s' = Some n"
    using free assms(2)
    by (auto simp: server_create_manual_def server_create_from_setup_def Let_def new_server_node_def)
  have "nodes_keyed s'" using server_create_node [OF _ assms(2)] assms(1) by (simp add: nodes_ok_def)
  moreover have "uuid_at s' = uuid_at s" "uuid_n s < uuid_n s'"
    "get_server_node i s' \<noteq> None \<Longrightarrow> get_server_node i s \<noteq> None \<or> i = uuid_at s (uuid_n s)" for i
    using assms(2)
    by (auto simp: server_create_manual_def server_create_from_setup_def Let_def new_server_node_def
        new_uuid_def split: if_splits)
  ultimately show "nodes_ok s'"
    using assms(1) unfolding nodes_ok_def by (metis injD less_le_trans less_imp_le nat_neq_iff)
qed

text \<open>No operation takes a node away.\<close>

lemma server_step_grows:
  assumes "server_step bx l s s'"
  shows "uuid_at s' = uuid_at s \<and> uuid_n s \<le> uuid_n s' \<and>
    (get_server_node j s \<noteq> None \<longrightarrow> get_server_node j s' \<noteq> None)"
  using assms
proof cases
  case (st_update i actor patch)
  obtain r where u: "server_update bx actor i patch s = (r, s')"
    using st_update(2) by (cases "server_update bx actor i patch s") simp
  show ?thesis
  proof (cases r)
    case (Inl e)
    then show ?thesis using server_update_Inl u by blast
  next
    case (Inr n1)
    from u have "server_update bx actor i patch s = (Inr n1, s')" unfolding Inr .
    then obtain n n0 ch where "s' = (if ch = [] then s else
       audit ''server_updated''
         (no_args\<lparr>arg_actor := Some (usr_id actor), arg_target_type := Some ''server_node'',
            arg_target_id := Some (node_id n1),
            arg_metadata := [(''changed'', JList (map JStr ch))]\<rparr>) (save_server_node n1 (tick s)))"
      by (rule server_update_Inr)
    then show ?thesis by (cases "ch = []") simp_all
  qed
next
  case st_other
  then show ?thesis by (simp add: get_server_node_def)
next
  case (st_create actor a)
  then show ?thesis by (simp add: server_create_manual_def Let_def)
next
  case (st_setup j url k sec)
  then show ?thesis by (simp add: server_create_from_setup_def Let_def)
next
  case (st_activate i b)
  then show ?thesis by (simp add: activate_after_setup_def Let_def split: sum.split)
next
  case (st_disable i actor)
  then show ?thesis by (simp add: server_set_disabled_def Let_def split: sum.split)
next
  case (st_enable i actor)
  then show ?thesis by (simp add: server_set_disabled_def Let_def split: sum.split)
next
  case (st_health i n act prev tm r)
  then show ?thesis
    by (cases r)
      (simp_all add: health_finish_def health_failed_def Let_def split: exn.split app_error.split json.split)
qed

lemma server_step_ok:
  assumes "server_step bx l s s'" "nodes_ok s"
  shows "nodes_ok s'"
    and "get_server_node j s = Some n \<Longrightarrow> \<exists>n'. get_server_node j s' = Some n' \<and>
      (node_status n' = node_status n \<or>
       l = Op_disable j \<and> node_status n' = Disabled \<or>
       l = Op_enable j \<and> node_status n = Disabled \<and> node_status n' = Draft \<or>
       l = Op_health j \<and> node_status n \<noteq> Disabled \<and> node_status n' \<in> {Offline, Online, Warning})"
    and "get_server_node j s = None \<Longrightarrow> get_server_node j s' = Some n' \<Longrightarrow>
      node_status n' \<in> {Draft, Setup_running} \<and> l \<in> {Op_create, Op_setup}"
proof -
  have keyed: "nodes_keyed s" using assms(2) by (simp add: nodes_ok_def)
  note step = server_step_node [OF assms(1) keyed] and grow = server_step_grows [OF assms(1)]
  have creating: "l \<in> {Op_create, Op_setup} \<Longrightarrow> nodes_ok s' \<and>
      (get_server_node j s = Some n \<longrightarrow> get_server_node j s' = Some n)" for j n
    using assms(1)
  proof cases
    case (st_create actor a)
    then show ?thesis using create_known [OF assms(2) disjI1 [OF st_create(2)]] by blast
  next
    case (st_setup j url k sec)
    then show ?thesis using create_known [OF assms(2) disjI2 [OF st_setup(2)]] by blast
  qed auto
  show "nodes_ok s'"
  proof (cases "l \<in> {Op_create, Op_setup}")
    case False
    then have "get_server_node i s' \<noteq> None \<Longrightarrow> get_server_node i s \<noteq> None" for i
      using step(2) by fastforce
    then show ?thesis using step(1) grow assms(2) unfolding nodes_ok_def by (metis le_trans)
  qed (use creating in blast)
  show "get_server_node j s = Some n \<Longrightarrow> \<exists>n'. get_server_node j s' = Some n' \<and>
      (node_status n' = node_status n \<or>
       l = Op_disable j \<and> node_status n' = Disabled \<or>
       l = Op_enable j \<and> node_status n = Disabled \<and> node_status n' = Draft \<or>
       l = Op_health j \<and> node_status n \<noteq> Disabled \<and> node_status n' \<in> {Offline, Online, Warning})"
  proof (cases "l \<in> {Op_create, Op_setup}")
    case False
    assume n: "get_server_node j s = Some n"
    then obtain n' where n': "get_server_node j s' = Some n'" using grow [of j] by auto
    then show ?thesis using step(2) [OF n'] n False by auto
  qed (use creating in blast)
  show "get_server_node j s = None \<Longrightarrow> get_server_node j s' = Some n' \<Longrightarrow>
      node_status n' \<in> {Draft, Setup_running} \<and> l \<in> {Op_create, Op_setup}"
    using step(2) [of j n'] by auto
qed

interpretation node_steps: preserved "server_step bx" nodes_ok for bx
  by unfold_locales (rule server_step_ok(1))

definition enabled_node :: "ident \<Rightarrow> 'z storage_scheme \<Rightarrow> bool" where
  "enabled_node i s \<longleftrightarrow> (\<exists>n. get_server_node i s = Some n \<and> node_status n \<noteq> Disabled)"

definition in_service :: "ident \<Rightarrow> 'z storage_scheme \<Rightarrow> bool" where
  "in_service i s \<longleftrightarrow> (\<exists>n. get_server_node i s = Some n \<and> selectable_status (node_status n))"

text \<open>Coming into service, and leaving the state of a disabled node, in one step.\<close>

lemma service_step:
  assumes "server_step bx l s s'" "nodes_ok s" "in_service i s'" "\<not> in_service i s"
  shows "l = Op_health i \<and> enabled_node i s"
proof -
  obtain n' where n': "get_server_node i s' = Some n'" "selectable_status (node_status n')"
    using assms(3) by (auto simp: in_service_def)
  show ?thesis
  proof (cases "get_server_node i s")
    case None
    then show ?thesis using server_step_ok(3) [OF assms(1,2) None n'(1)] n'(2) by (auto simp: selectable_status_def)
  next
    case (Some n)
    then show ?thesis
      using server_step_ok(2) [OF assms(1,2) Some] n' assms(4)
      by (auto simp: in_service_def enabled_node_def selectable_status_def)
  qed
qed

lemma disabled_step:
  assumes "server_step bx l s s'" "nodes_ok s" "get_server_node i s = Some n" "node_status n = Disabled"
  shows "\<exists>n'. get_server_node i s' = Some n' \<and> \<not> selectable_status (node_status n') \<and>
    (l \<noteq> Op_enable i \<longrightarrow> node_status n' = Disabled)"
  using server_step_ok(2) [OF assms(1-3)] assms(4) by (auto simp: selectable_status_def)

lemma service_run:
  assumes "run (server_step bx) s ls s'" "nodes_ok s" "in_service i s'" "\<not> in_service i s"
  shows "\<exists>as bs t. ls = as @ Op_health i # bs \<and> run (server_step bx) s as t \<and> enabled_node i t"
  using assms
proof (induction rule: run.induct)
  case (run_cons l s s1 ls s')
  show ?case
  proof (cases "in_service i s1")
    case True
    then have "l = Op_health i" "enabled_node i s"
      using service_step [OF run_cons.hyps(1) run_cons.prems(1)] run_cons.prems(3) by blast+
    then show ?thesis by (intro exI [of _ "[]"] exI [of _ ls] exI [of _ s]) simp
  next
    case False
    from run_cons.IH [OF node_steps.keep [OF run_cons.prems(1) run_cons.hyps(1)] run_cons.prems(2) this]
    obtain as bs t where "ls = as @ Op_health i # bs" "run (server_step bx) s1 as t" "enabled_node i t"
      by blast
    then show ?thesis
      using run_cons.hyps(1) by (intro exI [of _ "l # as"] exI [of _ bs] exI [of _ t]) (auto simp: run_cons_iff)
  qed
qed simp

lemma disabled_run:
  assumes "run (server_step bx) s ls s'" "nodes_ok s" "get_server_node i s = Some n" "node_status n = Disabled"
    "Op_enable i \<notin> set ls"
  shows "\<exists>n'. get_server_node i s' = Some n' \<and> node_status n' = Disabled"
  using assms
proof (induction arbitrary: n rule: run.induct)
  case (run_cons l s s1 ls s')
  then obtain m where "get_server_node i s1 = Some m" "node_status m = Disabled"
    using disabled_step [OF run_cons.hyps(1) run_cons.prems(1-3)] by auto
  then show ?case using run_cons.IH [OF node_steps.keep [OF run_cons.prems(1) run_cons.hyps(1)]] run_cons.prems(4) by simp
qed blast



text \<open>
  C38: STALE HEALTH. With the database storage the outcome is written into the copy of the node read
  before the agent was asked: a node that an administrator disables while an answer is awaited is
  put back in service by a good answer. With the in-memory storage it stays disabled, whatever is answered.
\<close>

theorem stale_health_undoes_disable:
  assumes "nodes_keyed s" "get_server_node i s = Some n" "node_status n \<noteq> Disabled"
    and "health_probe ac (\<lambda>_. n) f g (tick s) = (Inr (JObj kvs), s1)"
    and "get_server_node i s1 = Some m" "node_id m = i" "node_status m = Disabled"
    and "health_probe ac (stored_node i n) f g (tick s) = (r, s2)"
    and "get_server_node i s2 = Some m2" "node_id m2 = i" "node_status m2 = Disabled"
  shows "map_option node_status (get_server_node i (snd (health_check_stale ac act i f g s)))
      = Some (health_status kvs) \<and> selectable_status (health_status kvs) \<and>
    map_option node_status (get_server_node i (snd (health_check ac act i f g s))) = Some Disabled"
proof -
  have "node_id n = i" using assms(1,2) by (simp add: nodes_keyed_def)
  then have "map_option node_status (get_server_node i (snd (health_check_stale ac act i f g s)))
      = Some (health_status kvs)"
    using assms(2-7) by (simp add: health_check_stale_def server_get_def health_finish_def Let_def)
  moreover have "selectable_status (health_status kvs)"
    by (simp add: health_status_def selectable_status_def)
  moreover have "map_option node_status (get_server_node i (snd (health_finish True act st tm r m2 s2)))
      = Some Disabled" for st tm
    using assms(9-11)
    by (auto simp: health_finish_def health_failed_def Let_def split: sum.split exn.split app_error.split)
  then have "map_option node_status (get_server_node i (snd (health_check ac act i f g s))) = Some Disabled"
    using assms(2,8,9) by (simp add: health_check_def server_get_def stored_node_def)
  ultimately show ?thesis by blast
qed

theorem stale_health_undoes_disable_witness:
  "map_option node_status (get_server_node ''n1'' (snd (health_check_stale
     (fake_client demo_crypto plaintext_box) None ''n1''
     (\<lambda>s. snd (server_set_disabled the_admin ''n1'' True s)) (\<lambda>s. s) (demo_app demo_fake)))) = Some Online"
proof -
  let ?ac = "fake_client demo_crypto plaintext_box" and ?s = "demo_app demo_fake"
  let ?f = "\<lambda>s::fake_state app. snd (server_set_disabled the_admin ''n1'' True s)" and ?g = "\<lambda>s. s"
  let ?n = "demo_node ''n1'' Online"
  let ?p = "health_probe ?ac (\<lambda>_. ?n) ?f ?g (tick ?s)" and ?q = "health_probe ?ac (stored_node ''n1'' ?n) ?f ?g (tick ?s)"
  have g: "get_server_node ''n1'' ?s = Some ?n" by code_simp
  have id: "node_id (demo_node i st) = i" for i st
    by (simp add: demo_node_def new_server_node_def)
  have "server_nodes ?s = [(''n1'', demo_node ''n1'' Online), (''n2'', demo_node ''n2'' Disabled)]"
    by code_simp
  then have k: "nodes_keyed ?s" using id by (simp add: nodes_keyed_def get_server_node_def)
  obtain r s1 where p: "?p = (r, s1)" by (cases ?p)
  obtain q s2 where q: "?q = (q, s2)" by (cases ?q)
  have "(case fst ?p of Inr (JObj kvs) \<Rightarrow> health_status kvs = Online | _ \<Rightarrow> False)" by code_simp
  then obtain kvs where r: "r = Inr (JObj kvs)" "health_status kvs = Online"
    using p by (auto split: sum.splits json.splits)
  have "map_option (\<lambda>m. (node_id m, node_status m)) (get_server_node ''n1'' (snd ?p)) = Some (''n1'', Disabled)"
    by code_simp
  then obtain m where m: "get_server_node ''n1'' s1 = Some m" "node_id m = ''n1''" "node_status m = Disabled"
    using p by auto
  have "map_option (\<lambda>m. (node_id m, node_status m)) (get_server_node ''n1'' (snd ?q)) = Some (''n1'', Disabled)"
    by code_simp
  then obtain m2 where m2: "get_server_node ''n1'' s2 = Some m2" "node_id m2 = ''n1''" "node_status m2 = Disabled"
    using q by auto
  have "node_status ?n \<noteq> Disabled" by (simp add: demo_node_def)
  from stale_health_undoes_disable [OF k g this p [unfolded r(1)] m q m2, THEN conjunct1] r(2)
  show ?thesis by simp
qed

section \<open>PATCH\<close>

text \<open>
  A successful PATCH of a node gives every patchable field named in it the value
  given and leaves the others alone, with the status, the health data and the identity out of reach;
  the audit entry lists the names of the fields that differed, and of the secret whenever it is
  given, never a value.
\<close>

theorem server_patch_exact:
  assumes "server_update bx actor i patch s = (Inr n', s')" "distinct (map fst patch)"
  shows "\<exists>n. get_server_node i s = Some n \<and> server_core n' = server_core n \<and>
    (\<forall>f \<in> set server_patchable.
       server_getattr f n' = (case map_of patch f of None \<Rightarrow> server_getattr f n | Some v \<Rightarrow> v)) \<and>
    (let changed = map fst (filter (\<lambda>(f, v). f = ''agent_secret'' \<or>
           f \<in> set server_patchable \<and> server_getattr f n \<noteq> v) patch) in
     if changed = [] then s' = s
     else get_server_node (node_id n') s' = Some n' \<and>
       (\<exists>e. audit_log s' = audit_log s @ [e] \<and> aud_actor_user_id e = Some (usr_id actor) \<and>
          aud_metadata e = JObj [(''changed'', JList (map JStr changed))]))"
proof -
  from assms(1) obtain n n1 ch where *: "get_server_node i s = Some n"
    "server_attrs.loop bx patch n [] = Inr (n1, ch)"
    "n' = (if ch = [] then n1 else n1\<lparr>node_updated_at := now s\<rparr>)"
    "s' = (if ch = [] then s else
       audit ''server_updated''
         (no_args\<lparr>arg_actor := Some (usr_id actor), arg_target_type := Some ''server_node'',
            arg_target_id := Some (node_id n'),
            arg_metadata := [(''changed'', JList (map JStr ch))]\<rparr>) (save_server_node n' (tick s)))"
    by (rule server_update_Inr)
  have ch: "ch = map fst (filter (\<lambda>(f, v). f = ''agent_secret'' \<or>
           f \<in> set server_patchable \<and> server_getattr f n \<noteq> v) patch)"
    using server_attrs.loop_changed [OF *(2) assms(2), where special = "\<lambda>f. f = ''agent_secret''"]
    by (simp add: secret_hook_def)
  note get = server_attrs.loop_value [OF *(2) assms(2)]
  have upd: "server_getattr f (n1\<lparr>node_updated_at := t\<rparr>) = server_getattr f n1" for f t
    by (simp add: server_getattr_def)
  show ?thesis
    unfolding Let_def
  proof (rule exI [of _ n], unfold ch [symmetric], intro conjI)
    show "if ch = [] then s' = s
     else get_server_node (node_id n') s' = Some n' \<and>
       (\<exists>e. audit_log s' = audit_log s @ [e] \<and> aud_actor_user_id e = Some (usr_id actor) \<and>
          aud_metadata e = JObj [(''changed'', JList (map JStr ch))])"
      using *(4) redact_changed [of ch] by (simp del: redact.simps)
  qed (use * get upd server_attrs.loop_core [OF *(2)] in auto)
qed

definition node_patch :: jdict where
  "node_patch = [(''name'', JStr ''n1''), (''agent_secret'', JStr ''top''), (''status'', JStr ''online''),
     (''provider'', JStr ''x'')]"

theorem server_patch_exact_witness:
  "\<exists>e. audit_log (snd (server_update plaintext_box the_admin ''n1'' node_patch demo_storage)) = [e] \<and>
     aud_metadata e = JObj [(''changed'', JList [JStr ''agent_secret'', JStr ''provider''])]"
proof -
  let ?r = "server_update plaintext_box the_admin ''n1'' node_patch demo_storage"
  have "\<not> isl (fst ?r)" by code_simp
  then obtain n' where run: "?r = (Inr n', snd ?r)" by (cases "fst ?r") (auto simp: prod_eq_iff)
  have dist: "distinct (map fst node_patch)" by code_simp
  have get: "get_server_node ''n1'' demo_storage = Some (demo_node ''n1'' Online)" by code_simp
  have ch: "map fst (filter (\<lambda>(f, v). f = ''agent_secret'' \<or> f \<in> set server_patchable \<and>
      server_getattr f (demo_node ''n1'' Online) \<noteq> v) node_patch) = [''agent_secret'', ''provider'']"
    by code_simp
  have old: "audit_log demo_storage = []" by code_simp
  show ?thesis
    using server_patch_exact [OF run dist] get ch old by auto
qed

end
