(* ===== verification/Devices.thy ===== *)
theory Devices
  imports Servers Machine
begin

text \<open>
  \<open>app/services/device_service.py\<close>: issuing and revoking VPN configurations. Both operations hold the
  storage lock over their call of the agent, so that no other device is issued or revoked in between,
  but the rest of the program runs: \<open>f\<close> is what it makes of the state meanwhile, and leaves the
  devices alone. The lemmas are about the limit, which a member cannot exceed,
  about who sees a device, and about what is left when the agent fails.
\<close>

section \<open>Operations\<close>

definition get_for_actor :: "user \<Rightarrow> ident \<Rightarrow> 'z storage_scheme \<Rightarrow> device res" where
  "get_for_actor actor i s =
     (case get_device i s of
        None \<Rightarrow> Inl (not_found M_device_not_found)
      | Some d \<Rightarrow>
          if dev_user_id d \<noteq> usr_id actor \<and> usr_role actor \<noteq> Admin
          then Inl (not_found M_device_not_found) else Inr d)"

definition list_for_user :: "ident \<Rightarrow> 'z storage_scheme \<Rightarrow> device list" where
  "list_for_user i s = list_devices_for_user i s"

definition device_server_name :: "device \<Rightarrow> 'z storage_scheme \<Rightarrow> string option" where
  "device_server_name d s = map_option node_name (get_server_node (dev_server_node_id d) s)"

definition limit_error :: "nat \<Rightarrow> int \<Rightarrow> exn" where
  "limit_error used limit =
     App (AppError Device_limit_reached M_device_limit_reached 409
       [(''used'', JInt (int used)), (''limit'', JInt limit)])"

definition enforce_limit :: "user \<Rightarrow> 'z storage_scheme \<Rightarrow> unit res" where
  "enforce_limit u s =
     (if usr_device_limit_unlimited u then Inr ()
      else
        (case usr_device_limit u of
           None \<Rightarrow> Inr ()
         | Some limit \<Rightarrow>
             let used = count_devices_toward_limit (usr_id u) s in
             if limit \<le> int used then Inl (limit_error used limit) else Inr ()))"

definition choose_node :: "ident option \<Rightarrow> 'z storage_scheme \<Rightarrow> server_node res" where
  "choose_node sid s =
     (case sid of
        Some i \<Rightarrow> sum_bind (server_get i s) (\<lambda>n. sum_bind (ensure_selectable n) (\<lambda>_. Inr n))
      | None \<Rightarrow>
          (case pick_for_new_device s of
             None \<Rightarrow> Inl (App (AppError Server_unavailable M_no_server_available 503 []))
           | Some n \<Rightarrow> Inr n))"

text \<open>The dash between the two names, as its three bytes.\<close>

definition peer_name :: "user \<Rightarrow> device \<Rightarrow> string" where
  "peer_name u d = usr_display_name u @ [CHR '' '', CHR 0xE2, CHR 0x80, CHR 0x94, CHR '' ''] @ dev_name d"

record issue_view =
  iv_device_id :: ident
  iv_config :: string
  iv_vpn_url :: "string option"
  iv_expires_at :: time

text \<open>\<open>create\<close> up to the call of the agent: the limit, the node, the new device.\<close>

definition device_begin ::
  "user \<Rightarrow> string \<Rightarrow> ident option \<Rightarrow> 'z storage_scheme \<Rightarrow> (device \<times> server_node) res \<times> 'z storage_scheme"
  where
  "device_begin u nm sid s =
     (case sum_bind (enforce_limit u s) (\<lambda>_. choose_node sid s) of
        Inl e \<Rightarrow> (Inl e, s)
      | Inr n \<Rightarrow>
          let tm = now s; s1 = tick s;
              d = new_device (new_uuid s1) (usr_id u) (node_id n) (py_strip nm) tm tm
          in (Inr (d, n), add_device d (use_uuid s1)))"

definition device_failed ::
  "user \<Rightarrow> server_node \<Rightarrow> error_code \<Rightarrow> message \<Rightarrow> string option \<Rightarrow> string option \<Rightarrow> device
    \<Rightarrow> 'z storage_scheme \<Rightarrow> 'z storage_scheme" where
  "device_failed u n c m ip ua d s =
     (let d1 = d\<lparr>dev_status := Device_failed, dev_failure_message := Some m, dev_updated_at := now s\<rparr>
      in audit ''device_issue_failed''
           (no_args\<lparr>arg_actor := Some (usr_id u), arg_target_type := Some ''device'',
              arg_target_id := Some (dev_id d1),
              arg_metadata := [(''code'', JStr (error_code_value c)),
                               (''server_node_id'', JStr (node_id n))],
              arg_ip := ip, arg_user_agent := ua\<rparr>)
           (save_device d1 (tick s)))"

definition device_issued ::
  "secret_box \<Rightarrow> settings \<Rightarrow> user \<Rightarrow> server_node \<Rightarrow> agent_issue_result \<Rightarrow> string option \<Rightarrow> string option
    \<Rightarrow> device \<Rightarrow> 'z storage_scheme \<Rightarrow> (device \<times> issue_view) \<times> 'z storage_scheme" where
  "device_issued bx st u n r ip ua d s =
     (let tm = now s; s1 = tick s;
          d1 = d\<lparr>dev_public_key := Some (ir_public_key r), dev_client_ip := Some (ir_client_ip r),
                 dev_status := Active, dev_last_config_issued_at := Some tm, dev_updated_at := tm\<rparr>;
          s2 = save_device d1 s1;
          iss = \<lparr>iss_id = new_uuid s2, iss_device_id = dev_id d1, iss_issued_to_user_id = usr_id u,
                 iss_created_at = tm, iss_expires_at = tm + minutes (issue_result_ttl_minutes st),
                 iss_config_encrypted = Some (encrypt bx (ir_config r)),
                 iss_vpn_url_encrypted = Some (encrypt bx (ir_vpn_url r)), iss_consumed_at = None\<rparr>
      in ((d1, \<lparr>iv_device_id = dev_id d1, iv_config = ir_config r, iv_vpn_url = Some (ir_vpn_url r),
                iv_expires_at = iss_expires_at iss\<rparr>),
          audit ''device_issued''
            (no_args\<lparr>arg_actor := Some (usr_id u), arg_target_type := Some ''device'',
               arg_target_id := Some (dev_id d1),
               arg_metadata := [(''server_node_id'', JStr (node_id n))],
               arg_ip := ip, arg_user_agent := ua\<rparr>)
            (set_issue iss (use_uuid s2))))"

text \<open>What follows the call; an exception that is no \<open>AppError\<close> is not caught.\<close>

definition device_finish ::
  "secret_box \<Rightarrow> settings \<Rightarrow> user \<Rightarrow> server_node \<Rightarrow> agent_issue_result res \<Rightarrow> string option
    \<Rightarrow> string option \<Rightarrow> device \<Rightarrow> 'z storage_scheme \<Rightarrow> (device \<times> issue_view) res \<times> 'z storage_scheme" where
  "device_finish bx st u n r ip ua d s =
     (case r of
        Inl (App (AppError c m status dt)) \<Rightarrow>
          (Inl (App (AppError c m status dt)), device_failed u n c m ip ua d s)
      | Inl e \<Rightarrow> (Inl e, s)
      | Inr ir \<Rightarrow> (let (x, s1) = device_issued bx st u n ir ip ua d s in (Inr x, s1)))"

definition device_create ::
  "'t agent_client \<Rightarrow> secret_box \<Rightarrow> settings \<Rightarrow> user \<Rightarrow> string \<Rightarrow> ident option \<Rightarrow> string option
    \<Rightarrow> string option \<Rightarrow> ('t app \<Rightarrow> 't app) \<Rightarrow> 't app \<Rightarrow> (device \<times> issue_view) res \<times> 't app" where
  "device_create ac bx st u nm sid ip ua f s =
     (case device_begin u nm sid s of
        (Inl e, s1) \<Rightarrow> (Inl e, s1)
      | (Inr (d, n), s1) \<Rightarrow>
          let (r, s2) = issue_peer ac n (peer_name u d) [] (Some (node_public_host n))
                          [(''backend_device_id'', JStr (dev_id d))] s1
          in device_finish bx st u n r ip ua d (f s2))"

text \<open>
  \<open>revoke\<close>: only the node being unavailable stops it.
\<close>

definition device_revoked ::
  "user \<Rightarrow> string option \<Rightarrow> string option \<Rightarrow> device \<Rightarrow> 'z storage_scheme \<Rightarrow> device \<times> 'z storage_scheme" where
  "device_revoked actor ip ua d s =
     (let tm = now s;
          d1 = d\<lparr>dev_status := Revoked, dev_revoked_at := Some tm, dev_updated_at := tm\<rparr>
      in (d1,
          audit ''device_revoked''
            (no_args\<lparr>arg_actor := Some (usr_id actor), arg_target_type := Some ''device'',
               arg_target_id := Some (dev_id d1),
               arg_metadata := [(''owner_user_id'', JStr (dev_user_id d1))],
               arg_ip := ip, arg_user_agent := ua\<rparr>)
            (drop_issue (dev_id d1) (save_device d1 (tick s)))))"

definition revoke_stops :: "json res \<Rightarrow> exn option" where
  "revoke_stops r =
     (case r of
        Inl (App (AppError c m status dt)) \<Rightarrow>
          if c = Agent_unavailable then Some (App (AppError c m status dt)) else None
      | Inl e \<Rightarrow> Some e
      | Inr _ \<Rightarrow> None)"

definition device_revoke ::
  "'t agent_client \<Rightarrow> user \<Rightarrow> ident \<Rightarrow> string option \<Rightarrow> string option \<Rightarrow> ('t app \<Rightarrow> 't app) \<Rightarrow> 't app
    \<Rightarrow> device res \<times> 't app" where
  "device_revoke ac actor i ip ua f s =
     (case get_for_actor actor i s of
        Inl e \<Rightarrow> (Inl e, s)
      | Inr d \<Rightarrow>
          if dev_status d = Revoked then (Inr d, s)
          else
            (case (or_none (dev_public_key d), get_server_node (dev_server_node_id d) s) of
               (Some pk, Some n) \<Rightarrow>
                 (let (r, s1) = revoke_peer ac n pk s; s2 = f s1 in
                  case revoke_stops r of
                    Some e \<Rightarrow> (Inl e, s2)
                  | None \<Rightarrow> (let (d1, s3) = device_revoked actor ip ua d s2 in (Inr d1, s3)))
             | _ \<Rightarrow> (let (d1, s3) = device_revoked actor ip ua d s in (Inr d1, s3))))"

definition issue_result ::
  "secret_box \<Rightarrow> user \<Rightarrow> ident \<Rightarrow> 'z storage_scheme \<Rightarrow> issue_view res \<times> 'z storage_scheme" where
  "issue_result bx actor i s =
     (case get_for_actor actor i s of
        Inl e \<Rightarrow> (Inl e, s)
      | Inr d \<Rightarrow>
          (case get_issue (dev_id d) s of
             None \<Rightarrow> (Inl (not_found M_issue_unavailable), s)
           | Some iss \<Rightarrow>
               (case or_none (iss_config_encrypted iss) of
                  None \<Rightarrow> (Inl (not_found M_issue_unavailable), s)
                | Some enc \<Rightarrow>
                    let tm = now s; s1 = tick s in
                    if iss_expires_at iss \<le> tm
                    then (Inl (App (AppError Issue_result_expired M_issue_expired 404 [])),
                          drop_issue (dev_id d) s1)
                    else
                      (let s2 = (if iss_consumed_at iss = None
                                 then save_issue (iss\<lparr>iss_consumed_at := Some tm\<rparr>) s1 else s1) in
                       (sum_bind (decrypt bx enc) (\<lambda>cfg.
                        sum_bind (case or_none (iss_vpn_url_encrypted iss) of
                                    None \<Rightarrow> Inr None
                                  | Some v \<Rightarrow> sum_bind (decrypt bx v) (\<lambda>t. Inr (Some t))) (\<lambda>url.
                          Inr \<lparr>iv_device_id = dev_id d, iv_config = cfg, iv_vpn_url = url,
                               iv_expires_at = iss_expires_at iss\<rparr>)), s2)))))"


section \<open>What the calls of the agent leave alone\<close>

lemma issue_peer_state:
  assumes "issue_peer ac n nm dns h md s = (r, s')"
  shows "devices s' = devices s \<and> issues s' = issues s \<and> uuid_at s' = uuid_at s \<and> uuid_n s' = uuid_n s"
proof -
  obtain q where q: "agent_call ac n ''POST'' ''/peers'' (Some (issue_body nm dns h md)) True 201 s = (q, s')"
    using assms by (auto simp: issue_peer_def Let_def split_beta prod_eq_iff)
  show ?thesis using agent_call_state [OF q] by auto
qed

lemma revoke_peer_state:
  assumes "revoke_peer ac n pk s = (r, s')"
  shows "devices s' = devices s \<and> issues s' = issues s \<and> uuid_at s' = uuid_at s \<and> uuid_n s' = uuid_n s"
  using agent_call_state [OF assms [unfolded revoke_peer_def]] by auto

text \<open>What the rest of the program may do while a device operation waits.\<close>

definition quiet :: "('t app \<Rightarrow> 't app) \<Rightarrow> bool" where
  "quiet f \<longleftrightarrow> (\<forall>x. devices (f x) = devices x \<and>
     uuid_at (f x) = uuid_at x \<and> uuid_n x \<le> uuid_n (f x))"

lemma quietD:
  "quiet f \<Longrightarrow> devices (f x) = devices x \<and> uuid_at (f x) = uuid_at x \<and> uuid_n x \<le> uuid_n (f x)"
  by (simp add: quiet_def)

lemma quiet_id [simp]: "quiet (\<lambda>x. x)"
  by (simp add: quiet_def)

text \<open>Devices are filed under their own identifier, and the coming identifiers are free.\<close>

definition devices_ok :: "'z storage_scheme \<Rightarrow> bool" where
  "devices_ok s \<longleftrightarrow> inj (uuid_at s) \<and> (\<forall>n \<ge> uuid_n s. get_device (uuid_at s n) s = None) \<and>
     (\<forall>i d. get_device i s = Some d \<longrightarrow> dev_id d = i)"

lemma get_device_cong: "devices s' = devices s \<Longrightarrow> get_device i s' = get_device i s"
  by (simp add: get_device_def)

lemma count_cong: "devices s' = devices s \<Longrightarrow> count_devices_toward_limit v s' = count_devices_toward_limit v s"
  by (simp add: count_devices_toward_limit_def)

lemma devices_ok_mono:
  "devices_ok s \<Longrightarrow> devices s' = devices s \<Longrightarrow> uuid_at s' = uuid_at s \<Longrightarrow> uuid_n s \<le> uuid_n s' \<Longrightarrow>
     devices_ok s'"
  by (auto simp: devices_ok_def get_device_def)

lemma devices_ok_change:
  assumes "devices_ok s" "get_device (dev_id d) s = Some e" "devices s' = devices (save_device d s)"
    "uuid_at s' = uuid_at s" "uuid_n s \<le> uuid_n s'"
  shows "devices_ok s'"
proof -
  have g: "get_device i s' = get_device i (save_device d s)" for i
    using assms(3) by (rule get_device_cong)
  have "uuid_at s n \<noteq> dev_id d" if "uuid_n s \<le> n" for n
    using assms(1,2) that by (force simp: devices_ok_def)
  then show ?thesis using assms(1,4,5) by (auto simp: devices_ok_def g)
qed

section \<open>The limit\<close>

lemma device_begin_cases:
  assumes "device_begin u nm sid s = (r, s')"
  obtains (refused) e where "r = Inl e" "s' = s"
    "enforce_limit u s = Inl e \<or> enforce_limit u s = Inr ()"
  | (new) d n where "r = Inr (d, n)" "enforce_limit u s = Inr ()" "dev_id d = new_uuid s"
    "dev_user_id d = usr_id u" "dev_status d = Provisioning" "dev_server_node_id d = node_id n"
    "choose_node sid s = Inr n" "s' = save_device d (use_uuid (tick s))"
  using assms
  by (cases "enforce_limit u s"; cases "choose_node sid s")
    (auto simp: device_begin_def Let_def new_device_def add_is_save)

lemma enforce_limit_Inr:
  "enforce_limit u s = Inr () \<longleftrightarrow>
     usr_device_limit_unlimited u \<or>
     (\<forall>limit. usr_device_limit u = Some limit \<longrightarrow> int (count_devices_toward_limit (usr_id u) s) < limit)"
  by (auto simp: enforce_limit_def Let_def split: option.splits)

text \<open>
  What \<open>create\<close> makes of the new device: active, failed, or, when something else than an \<open>AppError\<close>
  came back, still being provisioned.
\<close>

definition create_status :: "(device \<times> issue_view) res \<Rightarrow> device_status" where
  "create_status r = (case r of Inr _ \<Rightarrow> Active | Inl (App _) \<Rightarrow> Device_failed | Inl _ \<Rightarrow> Provisioning)"

lemma device_finish_device:
  assumes "device_finish bx st u n r ip ua d s = (q, s')" "get_device (dev_id d) s = Some d"
    "dev_status d = Provisioning"
  shows "\<exists>d'. get_device (dev_id d) s' = Some d' \<and> dev_id d' = dev_id d \<and> dev_user_id d' = dev_user_id d \<and>
      dev_server_node_id d' = dev_server_node_id d \<and> devices s' = devices (save_device d' s) \<and>
      uuid_at s' = uuid_at s \<and> uuid_n s \<le> uuid_n s' \<and> dev_status d' = create_status q \<and>
      (\<forall>x v. q = Inr (x, v) \<longrightarrow> x = d')"
proof (cases r)
  case (Inr ir)
  then show ?thesis
    using assms by (auto simp: device_finish_def device_issued_def Let_def split_beta save_device_def
      get_device_def add_is_save create_status_def)
next
  case (Inl e)
  show ?thesis
  proof (cases "\<exists>c m t dt. e = App (AppError c m t dt)")
    case True
    then show ?thesis
      using Inl assms by (auto simp: device_finish_def device_failed_def Let_def save_device_def
        get_device_def create_status_def)
  next
    case False
    then have "s' = s" "q = Inl e" and st: "create_status q = Provisioning"
      using Inl assms(1) by (auto simp: device_finish_def create_status_def split: exn.splits app_error.splits)
    moreover have "devices s = devices (save_device d s)"
    proof -
      have "map_of (devices s) (dev_id d) = Some d" using assms(2) by (simp add: get_device_def)
      then show ?thesis by (simp add: save_device_def dict_set_id)
    qed
    ultimately show ?thesis using assms(2,3) by (intro exI [of _ d]) simp
  qed
qed

text \<open>The whole of \<open>create\<close> and of \<open>revoke\<close>, as far as the devices are concerned.\<close>

definition device_made ::
  "user \<Rightarrow> server_node \<Rightarrow> (device \<times> issue_view) res \<Rightarrow> device \<Rightarrow> 't app \<Rightarrow> 't app \<Rightarrow> bool" where
  "device_made u n r d s s' \<longleftrightarrow> dev_id d = new_uuid s \<and> dev_user_id d = usr_id u \<and>
     dev_server_node_id d = node_id n \<and> devices s' = devices (save_device d s) \<and>
     uuid_at s' = uuid_at s \<and> uuid_n s < uuid_n s' \<and> dev_status d = create_status r \<and>
     (\<forall>x v. r = Inr (x, v) \<longrightarrow> x = d)"

lemma device_create_effect:
  assumes "device_create ac bx st u nm sid ip ua f s = (r, s')" "quiet f"
  obtains (refused) e where "r = Inl e" "s' = s" "enforce_limit u s = Inl e \<or> choose_node sid s = Inl e"
  | (made) n d where "enforce_limit u s = Inr ()" "choose_node sid s = Inr n" "device_made u n r d s s'"
proof -
  obtain b s1 where b: "device_begin u nm sid s = (b, s1)" by fastforce
  show thesis
  proof (cases b)
    case (Inl e)
    then have "r = Inl e" "s' = s" "enforce_limit u s = Inl e \<or> choose_node sid s = Inl e"
      using b assms(1) by (auto simp: device_create_def device_begin_def Let_def sum_bind_def
          split: sum.splits)
    then show thesis by (rule refused)
  next
    case (Inr dn)
    obtain d n where dn: "dn = (d, n)" by fastforce
    from b Inr dn have begun: "enforce_limit u s = Inr ()" "choose_node sid s = Inr n"
      "dev_id d = new_uuid s" "dev_user_id d = usr_id u" "dev_status d = Provisioning"
      "dev_server_node_id d = node_id n" "s1 = save_device d (use_uuid (tick s))"
      using device_begin_cases [of u nm sid s b s1] by auto
    obtain q s2 where q: "issue_peer ac n (peer_name u d) [] (Some (node_public_host n))
        [(''backend_device_id'', JStr (dev_id d))] s1 = (q, s2)" by fastforce
    have s2: "devices (f s2) = devices s1" "uuid_at (f s2) = uuid_at s" "Suc (uuid_n s) \<le> uuid_n (f s2)"
      using issue_peer_state [OF q] quietD [OF assms(2), of s2] begun(7) by auto
    have fin: "device_finish bx st u n q ip ua d (f s2) = (r, s')"
      using assms(1) b Inr dn q by (simp add: device_create_def)
    have "get_device (dev_id d) (f s2) = Some d"
      using s2(1) begun(7) by (simp add: get_device_cong [OF s2(1)])
    from device_finish_device [OF fin this begun(5)] obtain d' where d':
      "dev_id d' = dev_id d" "dev_user_id d' = dev_user_id d" "dev_server_node_id d' = dev_server_node_id d"
      "devices s' = devices (save_device d' (f s2))" "uuid_at s' = uuid_at (f s2)"
      "uuid_n (f s2) \<le> uuid_n s'" "dev_status d' = create_status r" "\<forall>x v. r = Inr (x, v) \<longrightarrow> x = d'"
      by blast
    have "devices (save_device d' (f s2)) = devices (save_device d' s)"
      using s2(1) begun(7) d'(1) by (simp add: save_device_def)
    then have "device_made u n r d' s s'"
      using d' begun s2 by (simp add: device_made_def)
    with begun(1,2) show thesis by (rule made)
  qed
qed

definition device_dropped :: "device \<Rightarrow> device \<Rightarrow> 't app \<Rightarrow> 't app \<Rightarrow> bool" where
  "device_dropped d0 d s s' \<longleftrightarrow> get_device (dev_id d) s = Some d0 \<and> dev_status d0 \<noteq> Revoked \<and>
     (\<exists>t. d = d0\<lparr>dev_status := Revoked, dev_revoked_at := Some t, dev_updated_at := t\<rparr>) \<and>
     devices s' = devices (save_device d s) \<and> get_issue (dev_id d) s' = None \<and>
     uuid_at s' = uuid_at s \<and> uuid_n s \<le> uuid_n s'"

lemma get_for_actor_Inr:
  "get_for_actor a i s = Inr d \<longleftrightarrow>
     get_device i s = Some d \<and> (dev_user_id d = usr_id a \<or> usr_role a = Admin)"
  by (auto simp: get_for_actor_def split: option.splits)

lemma device_revoked_effect:
  assumes "device_revoked a ip ua d s1 = (d', s')" "devices s1 = devices s"
    "get_device (dev_id d) s = Some d" "dev_status d \<noteq> Revoked" "uuid_at s1 = uuid_at s" "uuid_n s \<le> uuid_n s1"
  shows "device_dropped d d' s s'"
proof -
  have "devices (save_device x (tick s1)) = devices (save_device x s)" for x
    using assms(2) by (simp add: save_device_def)
  then show ?thesis
    using assms by (auto simp: device_revoked_def device_dropped_def Let_def)
qed

lemma device_revoke_effect:
  assumes "device_revoke ac a i ip ua f s = (r, s')" "quiet f" "devices_ok s"
  obtains (refused) e where "r = Inl e" "get_for_actor a i s = Inl e" "s' = s"
  | (already) d where "r = Inr d" "get_device i s = Some d" "dev_status d = Revoked" "s' = s"
  | (stopped) e where "r = Inl e" "devices s' = devices s" "uuid_at s' = uuid_at s" "uuid_n s \<le> uuid_n s'"
      "\<And>x. e = App x \<Longrightarrow> err_code x = Agent_unavailable"
  | (dropped) d0 d where "r = Inr d" "dev_id d = i" "device_dropped d0 d s s'"
proof (cases "get_for_actor a i s")
  case (Inl e)
  then show thesis using assms(1) by (intro refused [of e]) (simp_all add: device_revoke_def)
next
  case (Inr d0)
  then have d0: "get_device i s = Some d0" "dev_id d0 = i"
    using assms(3) by (auto simp: get_for_actor_Inr devices_ok_def)
  consider "dev_status d0 = Revoked" | "dev_status d0 \<noteq> Revoked" by blast
  then show thesis
  proof cases
    case 1
    then show thesis
      using assms(1) Inr d0 by (intro already [of d0]) (simp_all add: device_revoke_def)
  next
    case 2
    show thesis
    proof (cases "\<exists>pk n. or_none (dev_public_key d0) = Some pk \<and>
        get_server_node (dev_server_node_id d0) s = Some n")
      case True
      then obtain pk n where pk: "or_none (dev_public_key d0) = Some pk"
        "get_server_node (dev_server_node_id d0) s = Some n" by blast
      obtain q s1 where q: "revoke_peer ac n pk s = (q, s1)" by fastforce
      have s1: "devices (f s1) = devices s" "uuid_at (f s1) = uuid_at s" "uuid_n s \<le> uuid_n (f s1)"
        using revoke_peer_state [OF q] quietD [OF assms(2), of s1] by auto
      show thesis
      proof (cases "revoke_stops q")
        case (Some e)
        then have "r = Inl e" "s' = f s1"
          using assms(1) Inr 2 pk q by (simp_all add: device_revoke_def)
        moreover have "err_code x = Agent_unavailable" if "e = App x" for x
          using Some that by (auto simp: revoke_stops_def split: sum.splits exn.splits app_error.splits if_splits)
        ultimately show thesis using s1 by (intro stopped) auto
      next
        case None
        obtain d where d: "device_revoked a ip ua d0 (f s1) = (d, s')" "r = Inr d"
          using assms(1) Inr 2 pk q None by (auto simp: device_revoke_def split: prod.splits)
        from device_revoked_effect [OF d(1) s1(1) _ 2 s1(2,3)] d0 d show thesis
          by (intro dropped [of d d0]) (auto simp: device_dropped_def)
      qed
    next
      case False
      then obtain d where d: "device_revoked a ip ua d0 s = (d, s')" "r = Inr d"
        using assms(1) Inr 2 by (auto simp: device_revoke_def split: prod.splits option.splits)
      from device_revoked_effect [OF d(1) refl _ 2 refl] d0 d show thesis
        by (intro dropped [of d d0]) (auto simp: device_dropped_def)
    qed
  qed
qed

lemma issue_result_effect:
  "devices (snd (issue_result bx a i s)) = devices s \<and> uuid_at (snd (issue_result bx a i s)) = uuid_at s \<and>
     uuid_n (snd (issue_result bx a i s)) = uuid_n s"
  by (auto simp: issue_result_def Let_def split: sum.split option.split)

section \<open>Histories of devices\<close>

text \<open>Issuing, revoking and reading back, with anything in between that leaves the devices alone.\<close>

datatype device_op =
  Op_issue user string "ident option" | Op_revoke user ident | Op_read user ident | Op_rest

inductive device_step ::
  "'t agent_client \<Rightarrow> secret_box \<Rightarrow> settings \<Rightarrow> device_op \<Rightarrow> 't app \<Rightarrow> 't app \<Rightarrow> bool" for ac bx st where
  ds_issue: "quiet f \<Longrightarrow> device_step ac bx st (Op_issue u nm sid) s
     (snd (device_create ac bx st u nm sid ip ua f s))"
| ds_revoke: "quiet f \<Longrightarrow> device_step ac bx st (Op_revoke a i) s (snd (device_revoke ac a i ip ua f s))"
| ds_read: "device_step ac bx st (Op_read a i) s (snd (issue_result bx a i s))"
| ds_rest: "quiet f \<Longrightarrow> device_step ac bx st Op_rest s (f s)"

inductive_cases device_stepE: "device_step ac bx st l s s'"

lemma device_step_effect:
  assumes "device_step ac bx st l s s'" "devices_ok s"
  shows "(devices s' = devices s \<and> uuid_at s' = uuid_at s \<and> uuid_n s \<le> uuid_n s') \<or>
    (\<exists>u nm sid r n d. l = Op_issue u nm sid \<and> enforce_limit u s = Inr () \<and> device_made u n r d s s') \<or>
    (\<exists>d0 d. device_dropped d0 d s s')"
  using assms
proof (induction rule: device_step.induct)
  case (ds_issue f u nm sid s ip ua)
  obtain r s' where r: "device_create ac bx st u nm sid ip ua f s = (r, s')" by fastforce
  from device_create_effect [OF r ds_issue(1)] r show ?case by cases auto
next
  case (ds_revoke f a i s ip ua)
  obtain r s' where r: "device_revoke ac a i ip ua f s = (r, s')" by fastforce
  from device_revoke_effect [OF r ds_revoke(1,2)] r show ?case by cases auto
next
  case (ds_read a i s)
  then show ?case using issue_result_effect [of bx a i s] by auto
next
  case (ds_rest f s)
  then show ?case using quietD [OF ds_rest(1), of s] by auto
qed

lemma devices_ok_new:
  assumes "devices_ok s" "dev_id d = new_uuid s" "devices s' = devices (save_device d s)"
    "uuid_at s' = uuid_at s" "uuid_n s < uuid_n s'"
  shows "devices_ok s'"
proof -
  have g: "get_device i s' = (if i = dev_id d then Some d else get_device i s)" for i
    using assms(3) by (simp add: get_device_def save_device_def)
  have "uuid_at s n \<noteq> dev_id d" if "uuid_n s' \<le> n" for n
    using assms(1,2,5) that by (auto simp: devices_ok_def new_uuid_def dest: injD)
  then show ?thesis using assms(1,4,5) by (auto simp: devices_ok_def g)
qed

lemma devices_ok_step:
  assumes "devices_ok s" "device_step ac bx st l s s'"
  shows "devices_ok s'"
  using device_step_effect [OF assms(2,1)]
proof (elim disjE exE conjE)
  fix u nm sid r n d assume "device_made u n r d s s'"
  then show ?thesis using devices_ok_new [OF assms(1), of d s'] by (simp add: device_made_def)
next
  fix d0 d assume "device_dropped d0 d s s'"
  then show ?thesis using assms(1) devices_ok_change [of s d d0 s'] by (simp add: device_dropped_def)
qed (use assms(1) devices_ok_mono in blast)

lemma count_save:
  "count_devices_toward_limit v (save_device d s)
     + counts1 (\<lambda>x. dev_user_id x = v \<and> counted (dev_status x)) (get_device (dev_id d) s)
   = count_devices_toward_limit v s
     + (if dev_user_id d = v \<and> counted (dev_status d) then 1 else 0)"
  using count_values_dict_set [of "\<lambda>x. dev_user_id x = v \<and> counted (dev_status x)" "dev_id d" d "devices s"]
  by (simp add: count_devices_toward_limit_def save_device_def get_device_def)

text \<open>An operation that hands in member \<open>v\<close> with a limit of at most \<open>L\<close>.\<close>

definition within_limit :: "ident \<Rightarrow> int \<Rightarrow> device_op \<Rightarrow> bool" where
  "within_limit v L l \<longleftrightarrow> (\<forall>u nm sid. l = Op_issue u nm sid \<and> usr_id u = v \<longrightarrow>
     \<not> usr_device_limit_unlimited u \<and> (\<exists>x. usr_device_limit u = Some x \<and> x \<le> L))"

lemma count_step:
  assumes "devices_ok s" "device_step ac bx st l s s'" "within_limit v L l"
  shows "int (count_devices_toward_limit v s') \<le> max L (int (count_devices_toward_limit v s))"
  using device_step_effect [OF assms(2,1)]
proof (elim disjE exE conjE)
  assume same: "devices s' = devices s"
  show ?thesis by (simp add: count_cong [OF same])
next
  fix u nm sid r n d
  assume l: "l = Op_issue u nm sid" and lim: "enforce_limit u s = Inr ()" and m: "device_made u n r d s s'"
  have c: "count_devices_toward_limit v s' = count_devices_toward_limit v (save_device d s)"
    by (rule count_cong) (use m in \<open>simp add: device_made_def\<close>)
  have "dev_user_id d = usr_id u" using m by (simp add: device_made_def)
  moreover have "int (count_devices_toward_limit v s) < L" if own: "usr_id u = v"
  proof -
    obtain x where "\<not> usr_device_limit_unlimited u" "usr_device_limit u = Some x" "x \<le> L"
      using assms(3) l own by (auto simp: within_limit_def)
    then show ?thesis using lim own by (simp add: enforce_limit_Inr)
  qed
  ultimately show ?thesis using count_save [of v d s] c by (auto split: if_splits)
next
  fix d0 d assume m: "device_dropped d0 d s s'"
  have c: "count_devices_toward_limit v s' = count_devices_toward_limit v (save_device d s)"
    by (rule count_cong) (use m in \<open>simp add: device_dropped_def\<close>)
  have "dev_status d = Revoked" using m by (auto simp: device_dropped_def)
  then show ?thesis using count_save [of v d s] c by (simp add: counted_def)
qed

interpretation limited: preserved "\<lambda>l s s'. device_step ac bx st l s s' \<and> within_limit v L l"
    "\<lambda>s. devices_ok s \<and> int (count_devices_toward_limit v s) \<le> max L B" for ac bx st v L B
proof unfold_locales
  fix s l s'
  assume "devices_ok s \<and> int (count_devices_toward_limit v s) \<le> max L B"
    and "device_step ac bx st l s s' \<and> within_limit v L l"
  then show "devices_ok s' \<and> int (count_devices_toward_limit v s') \<le> max L B"
    using count_step [of s ac bx st l s' v L] devices_ok_step [of s ac bx st l s'] by linarith
qed

text \<open>
  C4: DEVICE LIMIT. Whatever members and administrators issue, revoke and read back, and whatever
  the agents answer, a member whose limit is at most \<open>L\<close> never holds more than \<open>L\<close> devices that
  count, or than there were to begin with.
\<close>

theorem device_limit_kept:
  assumes "run (device_step ac bx st) s ls s'" "devices_ok s" "\<And>l. l \<in> set ls \<Longrightarrow> within_limit v L l"
  shows "int (count_devices_toward_limit v s') \<le> max L (int (count_devices_toward_limit v s))"
proof -
  from run_restrict [where P = "within_limit v L", OF assms(1,3)]
  have "run (\<lambda>l s s'. device_step ac bx st l s s' \<and> within_limit v L l) s ls s'" .
  from limited.run_keep [OF this, of "int (count_devices_toward_limit v s)"] assms(2) show ?thesis by simp
qed

text \<open>An agent that issues one key and takes it back, on the sample state.\<close>

definition one_key_agent :: "unit transport" where
  "one_key_agent rq x =
     (if rq_method rq = ''POST''
      then (Replied \<lparr>resp_status = 201, resp_payload = JObj
              [(''public_key'', JStr ''K''), (''client_ip'', JStr ''10.8.1.2''), (''config'', JStr ''C''),
               (''vpn_url'', JStr ''vpn://x'')]\<rparr>, x)
      else (Replied \<lparr>resp_status = 200, resp_payload = JObj []\<rparr>, x))"

abbreviation one_key_client :: "unit agent_client" where
  "one_key_client \<equiv> demo_client one_key_agent"

definition issued_demo :: "(device \<times> issue_view) res \<times> unit app" where
  "issued_demo = device_create one_key_client plaintext_box default_settings
     (the_member\<lparr>usr_device_limit := Some 1\<rparr>) '' Phone '' None None None (\<lambda>x. x) (demo_app ())"

lemma demo_devices_ok: "devices_ok (demo_app x)"
  by (simp add: devices_ok_def demo_app_def demo_storage_def empty_storage_def get_device_def
      storage.defs add_is_save save_user_def save_server_node_def inj_demo_uuid)

theorem device_limit_kept_witness:
  "int (count_devices_toward_limit ''m'' (snd (device_create one_key_client plaintext_box
      default_settings (the_member\<lparr>usr_device_limit := Some 1\<rparr>) ''Laptop'' None None None (\<lambda>x. x)
      (snd issued_demo)))) \<le> 1"
proof -
  let ?u = "the_member\<lparr>usr_device_limit := Some 1\<rparr>"
  let ?t = "snd (device_create one_key_client plaintext_box default_settings ?u ''Laptop'' None None
    None (\<lambda>x. x) (snd issued_demo))"
  note st = ds_issue [OF quiet_id, where ip = None and ua = None]
  have r: "run (device_step one_key_client plaintext_box default_settings) (demo_app ())
      [Op_issue ?u '' Phone '' None, Op_issue ?u ''Laptop'' None] ?t"
    unfolding issued_demo_def by (rule run_cons, rule st, rule run_cons, rule st, rule run_nil)
  have "within_limit ''m'' 1 l" if "l \<in> set [Op_issue ?u '' Phone '' None, Op_issue ?u ''Laptop'' None]" for l
    using that by (auto simp: within_limit_def the_member_def demo_user_def)
  from device_limit_kept [OF r demo_devices_ok this]
  have "int (count_devices_toward_limit ''m'' ?t) \<le> max 1 (int (count_devices_toward_limit ''m'' (demo_app ())))" .
  moreover have "count_devices_toward_limit ''m'' (demo_app ()) = 0" by code_simp
  ultimately show ?thesis by simp
qed

section \<open>The life of a device\<close>

definition device_edge :: "device \<Rightarrow> device \<Rightarrow> bool" where
  "device_edge d0 d \<longleftrightarrow> dev_status d0 \<noteq> Revoked \<and>
     (\<exists>t. d = d0\<lparr>dev_status := Revoked, dev_revoked_at := Some t, dev_updated_at := t\<rparr>)"

lemma device_moves_step:
  assumes "devices_ok s" "device_step ac bx st l s s'" "get_device i s = Some d"
  shows "\<exists>d'. get_device i s' = Some d' \<and> (d' = d \<or> device_edge d d')"
  using device_step_effect [OF assms(2,1)]
proof (elim disjE exE conjE)
  assume same: "devices s' = devices s"
  show ?thesis using assms(3) by (simp add: get_device_cong [OF same])
next
  fix u nm sid r n x assume m: "device_made u n r x s s'"
  then have g: "get_device i s' = get_device i (save_device x s)"
    by (intro get_device_cong) (simp add: device_made_def)
  have "get_device (dev_id x) s = None" using m assms(1) by (simp add: device_made_def devices_ok_def new_uuid_def)
  then show ?thesis using assms(3) by (auto simp: g)
next
  fix d0 x assume m: "device_dropped d0 x s s'"
  then have g: "get_device i s' = get_device i (save_device x s)"
    by (intro get_device_cong) (simp add: device_dropped_def)
  then show ?thesis using assms(3) m by (auto simp: device_dropped_def device_edge_def)
qed

interpretation device_life: ranked "device_step ac bx st" devices_ok get_device device_edge
    "\<lambda>d. if dev_status d = Revoked then 1 else 0" for ac bx st
  by unfold_locales
    (blast intro: devices_ok_step device_moves_step | auto simp: device_edge_def)+

text \<open>
  C21: DEVICE LIFE. A device once created is never lost, belongs to its member and its node for good,
  and the one thing that ever happens to it later is that it is revoked; a revoked device never
  changes again.
\<close>

theorem device_life_kept:
  assumes "run (device_step ac bx st) s ls s'" "devices_ok s" "get_device i s = Some d"
  shows "\<exists>d'. get_device i s' = Some d' \<and> (d' = d \<or> dev_status d \<noteq> Revoked \<and>
    (\<exists>t. d' = d\<lparr>dev_status := Revoked, dev_revoked_at := Some t, dev_updated_at := t\<rparr>))"
proof -
  obtain d' where d': "get_device i s' = Some d'" "device_edge\<^sup>*\<^sup>* d d'"
    using device_life.run_path [OF assms] by blast
  from d'(2) have "d' = d \<or> device_edge d d'"
    by (induction rule: rtranclp.induct) (auto simp: device_edge_def)
  then show ?thesis using d'(1) by (auto simp: device_edge_def)
qed

text \<open>The sample state with an active device of the member on the first node.\<close>

definition held_app :: "unit app" where
  "held_app = save_device ((new_device ''d'' ''m'' ''n1'' ''Phone'' 0 0)
     \<lparr>dev_status := Active, dev_public_key := Some ''K''\<rparr>) (demo_app ())"

lemma held_app_ok: "devices_ok held_app"
proof -
  have "demo_uuid n \<noteq> ''d''" for n by (simp add: demo_uuid_def)
  then show ?thesis
    using demo_devices_ok [of "()"]
    by (auto simp: held_app_def devices_ok_def new_device_def demo_app_def demo_storage_def
        storage.defs empty_storage_def add_is_save)
qed

lemma held_device:
  obtains d where "get_device ''d'' held_app = Some d" "dev_status d = Active" "dev_id d = ''d''"
    "dev_user_id d = ''m''" "dev_server_node_id d = ''n1''"
  by (rule that [OF dev.get_put_same [of "(new_device ''d'' ''m'' ''n1'' ''Phone'' 0 0)
     \<lparr>dev_status := Active, dev_public_key := Some ''K''\<rparr>" "demo_app ()", folded held_app_def,
        simplified new_device_def, simplified]])
    (simp_all add: new_device_def)

theorem device_life_kept_witness:
  "map_option dev_user_id (get_device ''d''
     (snd (device_revoke one_key_client the_member ''d'' None None (\<lambda>x. x) held_app))) = Some ''m''"
proof -
  let ?t = "snd (device_revoke one_key_client the_member ''d'' None None (\<lambda>x. x) held_app)"
  note st = ds_revoke [OF quiet_id, where ip = None and ua = None]
  have r: "run (device_step one_key_client plaintext_box default_settings) held_app
      [Op_revoke the_member ''d''] ?t"
    by (rule run_cons, rule st, rule run_nil)
  obtain d where d: "get_device ''d'' held_app = Some d" "dev_user_id d = ''m''" by (rule held_device)
  show ?thesis using device_life_kept [OF r held_app_ok d(1)] d(2) by auto
qed

section \<open>Who sees a device\<close>

text \<open>
  C19: DEVICE PRIVACY. To a member who is no administrator the device of somebody else looks exactly
  like one that does not exist, whether it is looked up, revoked or its configuration read, and
  nothing changes; the list of a member holds the member's devices alone.
\<close>

theorem foreign_device_hidden:
  "(usr_role a \<noteq> Admin \<and> (\<forall>d. get_device i s = Some d \<longrightarrow> dev_user_id d \<noteq> usr_id a) \<longrightarrow>
     get_for_actor a i s = Inl (not_found M_device_not_found) \<and>
     issue_result bx a i s = (Inl (not_found M_device_not_found), s) \<and>
     device_revoke ac a i ip ua f s = (Inl (not_found M_device_not_found), s)) \<and>
   set (list_for_user (usr_id a) s) = {d \<in> set (dict_values (devices s)). dev_user_id d = usr_id a}"
  by (auto simp: get_for_actor_def issue_result_def device_revoke_def list_for_user_def
    list_devices_for_user_def split: option.split)

theorem foreign_device_hidden_witness:
  "issue_result plaintext_box the_outsider ''d'' held_app
     = (Inl (not_found M_device_not_found), held_app)"
proof -
  obtain d where d: "get_device ''d'' held_app = Some d" "dev_user_id d = ''m''" by (rule held_device)
  moreover have "usr_role the_outsider \<noteq> Admin \<and> usr_id the_outsider \<noteq> ''m''" by code_simp
  ultimately show ?thesis
    using foreign_device_hidden [of the_outsider "''d''" held_app plaintext_box] by auto
qed

section \<open>Reading the configuration back\<close>

lemma device_create_Inr:
  assumes "device_create ac bx st u nm sid ip ua f s = (Inr (d, v), s')"
  obtains ir :: agent_issue_result and tm iss where "iss_device_id iss = dev_id d" "dev_last_config_issued_at d = Some tm" "dev_user_id d = usr_id u"
    "iv_expires_at v = tm + minutes (issue_result_ttl_minutes st)" "iv_device_id v = dev_id d"
    "iv_config v = ir_config ir" "iv_vpn_url v = Some (ir_vpn_url ir)"
    "get_device (dev_id d) s' = Some d" "get_issue (dev_id d) s' = Some iss"
    "iss_config_encrypted iss = Some (encrypt bx (ir_config ir))"
    "iss_vpn_url_encrypted iss = Some (encrypt bx (ir_vpn_url ir))"
    "iss_expires_at iss = iv_expires_at v" "dev_public_key d = Some (ir_public_key ir)"
proof -
  obtain b s1 where b: "device_begin u nm sid s = (b, s1)" by fastforce
  obtain d0 n where dn: "b = Inr (d0, n)"
    using assms b by (cases b) (auto simp: device_create_def)
  obtain q s2 where q: "issue_peer ac n (peer_name u d0) [] (Some (node_public_host n))
      [(''backend_device_id'', JStr (dev_id d0))] s1 = (q, s2)" by fastforce
  have fin: "device_finish bx st u n q ip ua d0 (f s2) = (Inr (d, v), s')"
    using assms b dn q by (simp add: device_create_def)
  then obtain ir where "q = Inr ir" "device_issued bx st u n ir ip ua d0 (f s2) = ((d, v), s')"
    by (cases q) (auto simp: device_finish_def split_beta prod_eq_iff split: exn.splits app_error.splits)
  moreover have "dev_user_id d0 = usr_id u"
    using b dn by (auto simp: device_begin_def Let_def new_device_def split: sum.splits)
  ultimately show ?thesis
    by (intro that [where tm = "now (f s2)" and ir = ir])
      (auto simp: device_issued_def Let_def add_is_save get_issue_def save_issue_def get_device_def
        save_device_def)
qed

text \<open>
  C17: READ BACK. What issuing returned can be read again by the member and the administrators, any
  number of times, as long as the stored result is not older than its time to live; from then on the
  answer is that it has expired, and the stored secrets are dropped.
\<close>

theorem issue_read_back:
  assumes "box bx" "device_create ac bx st u nm sid ip ua f s = (Inr (d, v), s')"
    and "get_device (dev_id d) t = get_device (dev_id d) s'"
    and "\<exists>c. get_issue (dev_id d) t = map_option (iss_consumed_at_update (\<lambda>_. c)) (get_issue (dev_id d) s')"
    and "usr_id a = usr_id u \<or> usr_role a = Admin"
  shows "\<exists>tm. dev_last_config_issued_at d = Some tm \<and>
    (let expiry = tm + minutes (issue_result_ttl_minutes st); (r, t') = issue_result bx a (dev_id d) t in
     if now t < expiry
     then r = Inr v \<and> get_device (dev_id d) t' = get_device (dev_id d) s' \<and>
       (\<exists>c. get_issue (dev_id d) t' = map_option (iss_consumed_at_update (\<lambda>_. c)) (get_issue (dev_id d) s'))
     else r = Inl (App (AppError Issue_result_expired M_issue_expired 404 [])) \<and>
       get_issue (dev_id d) t' = None)"
proof -
  obtain ir :: agent_issue_result and tm iss where j: "iss_device_id iss = dev_id d"
    and i: "dev_last_config_issued_at d = Some tm" "dev_user_id d = usr_id u"
    "iv_expires_at v = tm + minutes (issue_result_ttl_minutes st)" "iv_device_id v = dev_id d"
    "iv_config v = ir_config ir" "iv_vpn_url v = Some (ir_vpn_url ir)"
    "get_device (dev_id d) s' = Some d" "get_issue (dev_id d) s' = Some iss"
    "iss_config_encrypted iss = Some (encrypt bx (ir_config ir))"
    "iss_vpn_url_encrypted iss = Some (encrypt bx (ir_vpn_url ir))"
    "iss_expires_at iss = iv_expires_at v"
    by (rule device_create_Inr [OF assms(2)])
  obtain c where c: "get_issue (dev_id d) t = Some (iss\<lparr>iss_consumed_at := c\<rparr>)"
    using assms(4) i(8) by auto
  have actor: "get_for_actor a (dev_id d) t = Inr d"
    using assms(3,5) i(2,7) by (auto simp: get_for_actor_Inr)
  note box = box.decrypt_encrypt [OF assms(1)] box.encrypt_nonempty [OF assms(1)]
  have v: "\<lparr>iv_device_id = dev_id d, iv_config = ir_config ir, iv_vpn_url = Some (ir_vpn_url ir),
      iv_expires_at = iv_expires_at v\<rparr> = v"
    using i(4-6) by simp
  show ?thesis
    using i(1,3,7-11) j c actor v assms(3)
    by (cases c) (auto simp: issue_result_def or_none_def box Let_def iss.get_put get_issue_drop
        intro: exI [of _ c])
qed

lemma issued_demo_facts:
  obtains d v t where "issued_demo = (Inr (d, v), t)" "dev_id d = ''u0''"
    "dev_last_config_issued_at d = Some (demo_clock 2)"
    "map_option iss_consumed_at (get_issue ''u0'' t) = Some None"
    "now t < demo_clock 2 + minutes (issue_result_ttl_minutes default_settings)"
proof -
  have facts: "case issued_demo of
      (Inr (d, v), t) \<Rightarrow> dev_id d = ''u0'' \<and> dev_last_config_issued_at d = Some (demo_clock 2) \<and>
        map_option iss_consumed_at (get_issue ''u0'' t) = Some None \<and>
        now t < demo_clock 2 + minutes (issue_result_ttl_minutes default_settings)
    | (Inl e, t) \<Rightarrow> False" by code_simp
  obtain q t where q: "issued_demo = (q, t)" by fastforce
  note facts [unfolded q]
  moreover from this obtain d v where "q = Inr (d, v)" by (cases q) auto
  ultimately show ?thesis using q by (intro that [of d v t]) simp_all
qed

theorem issue_read_back_witness:
  "\<exists>d v t. issued_demo = (Inr (d, v), t) \<and>
     fst (issue_result plaintext_box the_admin (dev_id d) t) = Inr v"
proof -
  obtain d v t where d: "issued_demo = (Inr (d, v), t)" "dev_id d = ''u0''"
    "dev_last_config_issued_at d = Some (demo_clock 2)"
    "map_option iss_consumed_at (get_issue ''u0'' t) = Some None"
    "now t < demo_clock 2 + minutes (issue_result_ttl_minutes default_settings)"
    by (rule issued_demo_facts)
  have same: "\<exists>c. get_issue (dev_id d) t = map_option (iss_consumed_at_update (\<lambda>_. c)) (get_issue (dev_id d) t)"
    using d(4) unfolding d(2) by (intro exI [of _ None]) (cases "get_issue ''u0'' t"; auto)
  have "usr_role the_admin = Admin" by code_simp
  from issue_read_back [OF plain.box_axioms d(1) [unfolded issued_demo_def] refl same disjI2 [OF this]]
  have "fst (issue_result plaintext_box the_admin (dev_id d) t) = Inr v"
    using d by (auto simp: Let_def split_beta)
  then show ?thesis using d(1) by blast
qed

section \<open>Revoking\<close>

lemma device_revoke_by_cases:
  assumes "device_revoke ac a i ip ua f s = (r, s')"
  shows "get_for_actor a i s = Inl e \<Longrightarrow> r = Inl e \<and> s' = s"
    "get_for_actor a i s = Inr d \<Longrightarrow> dev_status d = Revoked \<Longrightarrow> r = Inr d \<and> s' = s"
    "get_for_actor a i s = Inr d \<Longrightarrow> dev_status d \<noteq> Revoked \<Longrightarrow> r = Inr d' \<Longrightarrow>
      \<exists>s2. device_revoked a ip ua d s2 = (d', s')"
  using assms
  by (auto simp: device_revoke_def Let_def split: option.splits prod.splits)

lemma device_revoked_logged:
  "device_revoked a ip ua d s = (d', s') \<Longrightarrow>
     \<exists>e. audit_log s' = audit_log s @ [e] \<and> aud_action e = ''device_revoked'' \<and>
       aud_actor_user_id e = Some (usr_id a) \<and> aud_target_id e = Some (dev_id d)"
  by (auto simp: device_revoked_def Let_def)

text \<open>
  C18: REVOKE. A device the caller may not see is an error, and a device already revoked is the answer;
  both leave everything as it is. Any other is either revoked: its status and the two times are all that
  changes of it, its stored configuration is gone and the revocation is the last entry of the log; or,
  where the agent's node is unavailable or something else than an \<open>AppError\<close> is raised, no device has
  changed, so that it can be tried again. No other device ever changes.
\<close>

theorem device_revoke_outcome:
  assumes "device_revoke ac a i ip ua f s = (r, s')" "quiet f" "devices_ok s"
  shows "(\<forall>j. j \<noteq> i \<longrightarrow> get_device j s' = get_device j s) \<and>
    (case get_for_actor a i s of
       Inl e \<Rightarrow> r = Inl e \<and> s' = s
     | Inr d \<Rightarrow>
         if dev_status d = Revoked then r = Inr d \<and> s' = s
         else
           (case r of
              Inr d' \<Rightarrow> (\<exists>t. d' = d\<lparr>dev_status := Revoked, dev_revoked_at := Some t, dev_updated_at := t\<rparr>) \<and>
                get_device i s' = Some d' \<and> get_issue i s' = None \<and>
                (\<exists>es e. audit_log s' = es @ [e] \<and> aud_action e = ''device_revoked'' \<and>
                   aud_actor_user_id e = Some (usr_id a) \<and> aud_target_id e = Some i)
            | Inl e \<Rightarrow> devices s' = devices s \<and> (\<forall>x. e = App x \<longrightarrow> err_code x = Agent_unavailable)))"
proof (cases "get_for_actor a i s")
  case (Inl e)
  then show ?thesis using device_revoke_by_cases(1) [OF assms(1)] by simp
next
  case (Inr d)
  note by_cases = device_revoke_by_cases(2,3) [OF assms(1) Inr]
  have d: "get_device i s = Some d" "dev_id d = i"
    using Inr assms(3) by (auto simp: get_for_actor_Inr devices_ok_def)
  show ?thesis
  proof (cases "dev_status d = Revoked")
    case True
    then show ?thesis using by_cases(1) Inr by simp
  next
    case False
    from assms show ?thesis
    proof (cases rule: device_revoke_effect)
      case (refused e)
      then show ?thesis using Inr by simp
    next
      case (already d1)
      then show ?thesis using d False by simp
    next
      case (stopped e)
      then show ?thesis using Inr False get_device_cong [OF stopped(2)] by simp
    next
      case (dropped d0 d')
      have "get_device j s' = get_device j (save_device d' s)" for j
        using dropped by (intro get_device_cong) (simp add: device_dropped_def)
      moreover obtain s2 where "device_revoked a ip ua d s2 = (d', s')"
        using by_cases(2) [OF False dropped(1)] by blast
      ultimately show ?thesis
        using dropped Inr False d device_revoked_logged [of a ip ua d s2 d' s']
        by (auto simp: device_dropped_def)
    qed
  qed
qed

theorem device_revoke_outcome_witness:
  "\<exists>d. get_device ''d'' (snd (device_revoke one_key_client the_member ''d'' None None (\<lambda>x. x) held_app))
     = Some d \<and> dev_status d = Revoked"
proof -
  let ?r = "device_revoke one_key_client the_member ''d'' None None (\<lambda>x. x) held_app"
  have "case fst ?r of Inr d \<Rightarrow> True | Inl e \<Rightarrow> False" by code_simp
  then obtain d where "fst ?r = Inr d" by (auto split: sum.splits)
  then have "?r = (Inr d, snd ?r)" by (simp add: prod_eq_iff)
  note out = device_revoke_outcome [OF this quiet_id held_app_ok]
  have "case get_for_actor the_member ''d'' held_app of Inr d \<Rightarrow> dev_status d \<noteq> Revoked | Inl e \<Rightarrow> False" by code_simp
  then obtain d0 where "get_for_actor the_member ''d'' held_app = Inr d0" "dev_status d0 \<noteq> Revoked"
    by (auto split: sum.splits)
  with out show ?thesis by fastforce
qed

text \<open>
  C37: REVOKED BUT STILL CONNECTED. Every refusal of the agent but an unavailable node counts as done. So
  does that the node has no key or no secret (any more): then the agent is not even asked, and its peer
  stays. The device is recorded as revoked, and that is not repaired later: after any sequence of device
  operations it is still the same, and revoking it again, by whomever, does nothing at all.
\<close>

theorem revoke_without_credentials:
  assumes "devices_ok s" "quiet f" "get_for_actor a i s = Inr d" "dev_status d \<noteq> Revoked"
    and "or_none (dev_public_key d) = Some pk" "get_server_node (dev_server_node_id d) s = Some n"
    and "(\<exists>x s1. revoke_peer ac n pk s = (Inl (App x), s1) \<and> err_code x \<noteq> Agent_unavailable) \<or>
      or_none (node_agent_key_id n) = None \<or> or_none (node_agent_secret_encrypted n) = None"
  shows "\<exists>d' s'. device_revoke ac a i ip ua f s = (Inr d', s') \<and> dev_status d' = Revoked \<and>
    (or_none (node_agent_key_id n) = None \<or> or_none (node_agent_secret_encrypted n) = None \<longrightarrow>
       agent_st s' = agent_st (f s)) \<and>
    (\<forall>ls t. run (device_step ac' bx st) s' ls t \<longrightarrow> get_device i t = Some d' \<and>
       (\<forall>ac2 a2 ip2 ua2 g. snd (device_revoke ac2 a2 i ip2 ua2 g t) = t))"
proof -
  have d: "get_device i s = Some d" "dev_id d = i"
    using assms(1,3) by (auto simp: get_for_actor_Inr devices_ok_def)
  have keyless: "revoke_peer ac n pk s = (Inl (secret_required n), s)"
    if "or_none (node_agent_key_id n) = None \<or> or_none (node_agent_secret_encrypted n) = None"
    using that
    by (auto simp: revoke_peer_def agent_call_def agent_request_def build_request_def split: option.split)
  then obtain x s1 where x: "revoke_peer ac n pk s = (Inl (App x), s1)" "err_code x \<noteq> Agent_unavailable"
    using assms(7) by (auto simp: secret_required_def)
  then have "revoke_stops (Inl (App x)) = None" by (cases x) (simp add: revoke_stops_def)
  with x(1) assms(3-6) have "device_revoke ac a i ip ua f s
      = (let (d1, s3) = device_revoked a ip ua d (f s1) in (Inr d1, s3))"
    by (simp add: device_revoke_def)
  then obtain d' s' where r: "device_revoke ac a i ip ua f s = (Inr d', s')"
    "device_revoked a ip ua d (f s1) = (d', s')" by (cases "device_revoked a ip ua d (f s1)") simp
  have s': "dev_status d' = Revoked" "get_device i s' = Some d'" "agent_st s' = agent_st (f s1)"
    using r(2) d(2) by (auto simp: device_revoked_def Let_def)
  have ok: "devices_ok s'"
    using devices_ok_step [OF assms(1) ds_revoke [OF assms(2)]] r(1) by (metis snd_conv)
  have "get_device i t = Some d' \<and> (\<forall>ac2 a2 ip2 ua2 g. snd (device_revoke ac2 a2 i ip2 ua2 g t) = t)"
    if run: "run (device_step ac' bx st) s' ls t" for ls t
  proof -
    have t: "get_device i t = Some d'"
      using device_life.run_stuck [OF run ok s'(2)] s'(1) by (simp add: device_edge_def)
    then show ?thesis
      using s'(1) by (auto simp: device_revoke_def get_for_actor_def split: option.split)
  qed
  moreover have "agent_st s' = agent_st (f s)"
    if "or_none (node_agent_key_id n) = None \<or> or_none (node_agent_secret_encrypted n) = None"
    using keyless [OF that] x(1) s'(3) by simp
  ultimately show ?thesis using r(1) s'(1) by (intro exI [of _ d'] exI [of _ s'] conjI impI allI) simp_all
qed

definition keyless_app :: "unit app" where
  "keyless_app = save_server_node ((demo_node ''n1'' Online)\<lparr>node_agent_key_id := None\<rparr>) held_app"

theorem revoke_without_credentials_witness:
  "\<exists>d s. device_revoke one_key_client the_member ''d'' None None (\<lambda>x. x) keyless_app = (Inr d, s) \<and>
     dev_status d = Revoked \<and> snd (device_revoke one_key_client the_admin ''d'' None None (\<lambda>x. x) s) = s"
proof -
  have "case get_for_actor the_member ''d'' keyless_app of
      Inr d \<Rightarrow> dev_status d \<noteq> Revoked \<and> or_none (dev_public_key d) = Some ''K'' \<and> dev_server_node_id d = ''n1''
    | Inl e \<Rightarrow> False" by code_simp
  then obtain d where d: "get_for_actor the_member ''d'' keyless_app = Inr d" "dev_status d \<noteq> Revoked"
    "or_none (dev_public_key d) = Some ''K''" "dev_server_node_id d = ''n1''"
    by (auto split: sum.splits)
  obtain n where n: "get_server_node (dev_server_node_id d) keyless_app = Some n" "or_none (node_agent_key_id n) = None"
    by (simp add: keyless_app_def demo_node_def new_server_node_def or_none_def d(4))
  have ok: "devices_ok keyless_app"
    using held_app_ok by (simp add: keyless_app_def devices_ok_def)
  from revoke_without_credentials [OF ok quiet_id d(1-3) n(1) disjI2 [OF disjI1 [OF n(2)]]]
  obtain d' s' where r: "device_revoke one_key_client the_member ''d'' None None (\<lambda>x. x) keyless_app = (Inr d', s')"
    "dev_status d' = Revoked"
    "\<forall>ls t. run (device_step one_key_client plaintext_box default_settings) s' ls t \<longrightarrow>
       (\<forall>ac2 a2 ip2 ua2 g. snd (device_revoke ac2 a2 ''d'' ip2 ua2 g t) = t)"
    by (metis (no_types, lifting))
  show ?thesis using r(1,2) r(3) [rule_format, of "[]" s'] by simp
qed

end
