(* ===== verification/Support.thy ===== *)
theory Support
  imports Users "HOL-Library.Multiset"
begin

text \<open>
  \<open>app/services/support_service.py\<close>: the voluntary support of the servers. The administrators note
  contributions and keep the page with the payment details; a member sees both only if the page is
  switched on, on for that member, and the member is not exempt.

  The page's texts are given in full by a PATCH; the two default texts of \<open>SupportSettings\<close> are the
  constants \<open>M_support_title\<close> and \<open>M_support_description\<close> and count as different from those.
\<close>

section \<open>Operations\<close>

definition support_patchable :: "string list" where
  "support_patchable =
     [''title'', ''description'', ''sbp_phone'', ''bank_name'', ''extra_contact'',
      ''monthly_cost_amount'', ''reserve_amount'', ''is_enabled'']"

definition visible_for :: "user \<Rightarrow> 'z storage_scheme \<Rightarrow> bool" where
  "visible_for u s \<longleftrightarrow>
     sup_is_enabled (get_support_settings s) \<and> usr_show_server_support u \<and> \<not> usr_free_access u"

definition view_for :: "user \<Rightarrow> 'z storage_scheme \<Rightarrow> jdict" where
  "view_for u s =
     (if \<not> visible_for u s then [(''visible'', JBool False)]
      else
        (let st = get_support_settings s in
         [(''visible'', JBool True),
          (''title'', json_message (sup_title st)),
          (''description'', json_message (sup_description st)),
          (''sbp_phone'', json_opt_str (sup_sbp_phone st)),
          (''bank_name'', json_opt_str (sup_bank_name st)),
          (''extra_contact'', json_opt_str (sup_extra_contact st)),
          (''monthly_cost_amount'', json_opt_float (sup_monthly_cost_amount st)),
          (''reserve_amount'', json_opt_float (sup_reserve_amount st))]))"

definition history_for :: "user \<Rightarrow> 'z storage_scheme \<Rightarrow> bool \<times> contribution list" where
  "history_for u s =
     (if \<not> visible_for u s then (False, []) else (True, list_contributions_for_user (usr_id u) s))"

definition list_for_user_admin :: "ident \<Rightarrow> 'z storage_scheme \<Rightarrow> contribution list res" where
  "list_for_user_admin i s = sum_bind (user_get i s) (\<lambda>_. Inr (list_contributions_for_user i s))"

definition record_contribution ::
  "user \<Rightarrow> ident \<Rightarrow> rat \<Rightarrow> string \<Rightarrow> string option \<Rightarrow> string option \<Rightarrow> 'z storage_scheme
    \<Rightarrow> contribution res \<times> 'z storage_scheme" where
  "record_contribution actor i amount currency period comment s =
     (case user_get i s of
        Inl e \<Rightarrow> (Inl e, s)
      | Inr u \<Rightarrow>
          let tm = now s; s1 = tick s;
              c = \<lparr>con_id = new_uuid s1, con_user_id = usr_id u, con_amount = amount,
                   con_currency = currency, con_recorded_by_user_id = usr_id actor,
                   con_recorded_at = tm, con_created_at = tm, con_period_label = period,
                   con_comment = comment\<rparr>
          in (Inr c,
              audit ''support_contribution_recorded''
                (no_args\<lparr>arg_actor := Some (usr_id actor), arg_target_type := Some ''user'',
                   arg_target_id := Some (usr_id u),
                   arg_metadata := [(''amount'', JFloat amount), (''currency'', JStr currency),
                                    (''period'', json_opt_str period)]\<rparr>)
                (add_contribution c (use_uuid s1))))"

definition support_getattr :: "string \<Rightarrow> support_settings \<Rightarrow> json" where
  "support_getattr f x =
     (if f = ''title'' then json_message (sup_title x)
      else if f = ''description'' then json_message (sup_description x)
      else if f = ''sbp_phone'' then json_opt_str (sup_sbp_phone x)
      else if f = ''bank_name'' then json_opt_str (sup_bank_name x)
      else if f = ''extra_contact'' then json_opt_str (sup_extra_contact x)
      else if f = ''monthly_cost_amount'' then json_opt_float (sup_monthly_cost_amount x)
      else if f = ''reserve_amount'' then json_opt_float (sup_reserve_amount x)
      else if f = ''is_enabled'' then JBool (sup_is_enabled x)
      else JNull)"

definition support_setattr :: "string \<Rightarrow> json \<Rightarrow> support_settings \<Rightarrow> support_settings option" where
  "support_setattr f v x =
     (if f = ''title'' then map_option (\<lambda>w. x\<lparr>sup_title := M_text w\<rparr>) (as_str v)
      else if f = ''description'' then map_option (\<lambda>w. x\<lparr>sup_description := M_text w\<rparr>) (as_str v)
      else if f = ''sbp_phone'' then map_option (\<lambda>w. x\<lparr>sup_sbp_phone := w\<rparr>) (as_opt_str v)
      else if f = ''bank_name'' then map_option (\<lambda>w. x\<lparr>sup_bank_name := w\<rparr>) (as_opt_str v)
      else if f = ''extra_contact'' then map_option (\<lambda>w. x\<lparr>sup_extra_contact := w\<rparr>) (as_opt_str v)
      else if f = ''monthly_cost_amount''
        then map_option (\<lambda>w. x\<lparr>sup_monthly_cost_amount := w\<rparr>) (as_opt_float v)
      else if f = ''reserve_amount''
        then map_option (\<lambda>w. x\<lparr>sup_reserve_amount := w\<rparr>) (as_opt_float v)
      else if f = ''is_enabled'' then map_option (\<lambda>w. x\<lparr>sup_is_enabled := w\<rparr>) (as_bool v)
      else None)"

definition update_settings ::
  "user \<Rightarrow> jdict \<Rightarrow> 'z storage_scheme \<Rightarrow> support_settings res \<times> 'z storage_scheme" where
  "update_settings actor patch s =
     (case patch_loop no_hook support_getattr support_setattr support_patchable patch
             (get_support_settings s) [] of
        Inl f \<Rightarrow> (Inl (Py (Ill_typed f)), s)
      | Inr (x1, changed) \<Rightarrow>
          if changed = [] then (Inr x1, s)
          else
            (let x2 = x1\<lparr>sup_updated_by_user_id := Some (usr_id actor), sup_updated_at := Some (now s)\<rparr>
             in (Inr x2,
                 audit ''support_settings_updated''
                   (no_args\<lparr>arg_actor := Some (usr_id actor),
                      arg_target_type := Some ''support_settings'',
                      arg_metadata := [(''changed'', JList (map JStr changed))]\<rparr>)
                   (save_support_settings x2 (tick s)))))"

section \<open>What a PATCH reaches\<close>

definition support_core :: "support_settings \<Rightarrow> ident option \<times> time option" where
  "support_core x = (sup_updated_by_user_id x, sup_updated_at x)"

lemma support_set_get:
  "f \<in> set support_patchable \<Longrightarrow> support_setattr f v x = Some y \<Longrightarrow> support_getattr f y = v"
  by (simp add: support_patchable_def, elim disjE; clarsimp simp: support_setattr_def;
      simp add: support_getattr_def)

lemma support_set_other:
  "f \<in> set support_patchable \<Longrightarrow> g \<noteq> f \<Longrightarrow> support_setattr f v x = Some y \<Longrightarrow>
     support_getattr g y = support_getattr g x"
  by (simp add: support_patchable_def, elim disjE; clarsimp simp: support_setattr_def;
      simp add: support_getattr_def)

lemma support_set_core:
  "f \<in> set support_patchable \<Longrightarrow> support_setattr f v x = Some y \<Longrightarrow> support_core y = support_core x"
  by (simp add: support_patchable_def, elim disjE; clarsimp simp: support_setattr_def support_core_def)

interpretation support_attrs: attributes support_getattr support_setattr support_patchable no_hook
    support_core
  by unfold_locales (simp_all add: support_set_get support_set_other support_set_core no_hook_def)

lemma support_getattr_upd [simp]:
  "support_getattr f (x\<lparr>sup_updated_by_user_id := a, sup_updated_at := t\<rparr>) = support_getattr f x"
  by (simp add: support_getattr_def)

text \<open>
  A PATCH of the page gives each field named in it the value given, leaves the
  others alone, notes who changed it and when, and is logged with the names of the fields that
  differed; a PATCH that changes nothing leaves no trace.
\<close>

theorem support_patch_exact:
  assumes "update_settings actor patch s = (Inr x, s')" "distinct (map fst patch)"
  shows "let old = get_support_settings s;
      changed = map fst (filter (\<lambda>(f, v). f \<in> set support_patchable \<and> support_getattr f old \<noteq> v) patch)
    in get_support_settings s' = x \<and>
      (\<forall>f \<in> set support_patchable.
         support_getattr f x = (case map_of patch f of None \<Rightarrow> support_getattr f old | Some v \<Rightarrow> v)) \<and>
      (if changed = [] then s' = s
       else sup_updated_by_user_id x = Some (usr_id actor) \<and> sup_updated_at x = Some (now s) \<and>
         (\<exists>e. audit_log s' = audit_log s @ [e] \<and>
            aud_metadata e = JObj [(''changed'', JList (map JStr changed))]))"
proof -
  obtain x1 ch where run: "support_attrs.loop patch (get_support_settings s) [] = Inr (x1, ch)"
    using assms(1) by (auto simp: update_settings_def split: sum.splits)
  have ch: "ch = map fst (filter (\<lambda>(f, v). f \<in> set support_patchable \<and>
      support_getattr f (get_support_settings s) \<noteq> v) patch)"
    using support_attrs.loop_changed [OF run assms(2), where special = "\<lambda>_. False"]
    by (simp add: no_hook_def)
  note get = support_attrs.loop_value [OF run assms(2)]
  show ?thesis
  proof (cases "ch = []")
    case True
    have "x1 = get_support_settings s" using run True by (auto intro: support_attrs.loop_same)
    then show ?thesis
      using assms(1) run True get unfolding Let_def ch [symmetric]
      by (auto simp: update_settings_def)
  next
    case False
    then show ?thesis
      using assms(1) run get redact_changed [of ch] unfolding Let_def ch [symmetric]
      by (auto simp: update_settings_def get_support_settings_def save_support_settings_def Let_def
        simp del: redact.simps)
  qed
qed

definition page_patch :: jdict where
  "page_patch = [(''is_enabled'', JBool True), (''bank_name'', JNull), (''sbp_phone'', JStr ''+7'')]"

theorem support_patch_exact_witness:
  "get_support_settings (snd (update_settings the_admin page_patch demo_storage))
     = default_support_settings\<lparr>sup_sbp_phone := Some ''+7'', sup_is_enabled := True,
         sup_updated_by_user_id := Some ''a'', sup_updated_at := Some 0\<rparr>"
proof -
  let ?x = "default_support_settings\<lparr>sup_sbp_phone := Some ''+7'', sup_is_enabled := True,
         sup_updated_by_user_id := Some ''a'', sup_updated_at := Some 0\<rparr>"
  have run: "update_settings the_admin page_patch demo_storage
      = (Inr ?x, snd (update_settings the_admin page_patch demo_storage))"
    by (rule prod_eqI, code_simp, simp)
  have dist: "distinct (map fst page_patch)" by code_simp
  show ?thesis using support_patch_exact [OF run dist] by (simp add: Let_def)
qed

section \<open>What members see\<close>

lemma set_contributions_of:
  "set (list_contributions_for_user i s) = {c \<in> set (contributions s). con_user_id c = i}"
  by (auto simp: list_contributions_for_user_def)

text \<open>
  A member who may not see the support page learns nothing from it: the answers
  are the same whatever the page and the contributions are. One who may sees exactly the own
  contributions, newest first.
\<close>

theorem support_privacy:
  "fst (history_for u s) = visible_for u s \<and>
   set (snd (history_for u s)) =
     (if visible_for u s then {c \<in> set (contributions s). con_user_id c = usr_id u} else {}) \<and>
   sorted_wrt (\<lambda>a b. con_recorded_at b \<le> con_recorded_at a) (snd (history_for u s)) \<and>
   (\<not> visible_for u s \<and> \<not> visible_for u t \<longrightarrow>
      view_for u s = view_for u t \<and> history_for u s = history_for u t)"
  by (auto simp: history_for_def view_for_def set_contributions_of list_contributions_for_user_def
    sorted_py_sorted_reverse)

theorem support_privacy_witness:
  "view_for the_member demo_storage
     = view_for the_member (save_support_settings
         (default_support_settings\<lparr>sup_sbp_phone := Some ''+7''\<rparr>) demo_storage)"
proof -
  let ?t = "save_support_settings (default_support_settings\<lparr>sup_sbp_phone := Some ''+7''\<rparr>) demo_storage"
  have "\<not> visible_for the_member demo_storage \<and> \<not> visible_for the_member ?t" by code_simp
  then show ?thesis using support_privacy [of the_member demo_storage ?t] by blast
qed

text \<open>
  Noting a contribution of a known member adds exactly that one to the
  contributions of the member, with the time, the amount and who noted it, and leaves the lists of
  all others alone; for an unknown member it is an error and nothing changes.
\<close>

theorem contribution_recorded:
  "case record_contribution actor i amount currency period comment s of
     (Inl e, s') \<Rightarrow> e = not_found M_user_not_found \<and> get_user i s = None \<and> s' = s
   | (Inr c, s') \<Rightarrow> (\<exists>u. get_user i s = Some u \<and> con_user_id c = usr_id u \<and> con_amount c = amount \<and>
       con_recorded_by_user_id c = usr_id actor \<and> con_recorded_at c = now s \<and>
       mset (list_contributions_for_user (usr_id u) s')
         = add_mset c (mset (list_contributions_for_user (usr_id u) s)) \<and>
       (\<forall>j. j = usr_id u \<or> list_contributions_for_user j s' = list_contributions_for_user j s))"
  by (auto simp: record_contribution_def user_get_def Let_def list_contributions_for_user_def
    add_contribution_def py_sorted_reverse_def split: option.splits)

end
