(* ===== verification/SetupJobs.thy ===== *)
theory SetupJobs
  imports Machine Demo
begin

text \<open>
  \<open>app/services/setup_job_service.py\<close>: the queue of installations. A job is created queued, claimed by
  the worker, taken from step to step and finished once; it may be cancelled until then. The SSH
  secret is kept beside the storage (\<open>ssh_secrets\<close>) and dropped when the job ends.
\<close>

section \<open>Operations\<close>

definition step_label :: "setup_status \<Rightarrow> message" where
  "step_label st = M_step st"

definition non_terminal_statuses :: "setup_status list" where
  "non_terminal_statuses =
     [Job_draft, Queued, Checking_ssh, Installing_agent, Installing_vpn, Verifying]"

record job_args =
  ja_server_name :: string
  ja_host :: string
  ja_ssh_port :: int
  ja_ssh_username :: string
  ja_auth_method :: auth_method
  ja_region_note :: "string option"
  ja_install_awg :: bool
  ja_available_for_new_devices :: bool
  ja_verify_before_install :: bool

definition remember_secret :: "ident \<Rightarrow> string \<Rightarrow> 't app \<Rightarrow> 't app" where
  "remember_secret i secret s = s\<lparr>ssh_secrets := dict_set i secret (ssh_secrets s)\<rparr>"

definition get_ephemeral_ssh_secret :: "ident \<Rightarrow> 't app \<Rightarrow> string option" where
  "get_ephemeral_ssh_secret i s = map_of (ssh_secrets s) i"

definition forget_ephemeral_ssh_secret :: "ident \<Rightarrow> 't app \<Rightarrow> 't app" where
  "forget_ephemeral_ssh_secret i s = s\<lparr>ssh_secrets := dict_pop i (ssh_secrets s)\<rparr>"

definition add_event ::
  "setup_job \<Rightarrow> event_level \<Rightarrow> string \<Rightarrow> message \<Rightarrow> 'z storage_scheme \<Rightarrow> 'z storage_scheme" where
  "add_event j level step m s =
     add_setup_event
       \<lparr>ev_id = new_uuid s, ev_setup_job_id = job_id j, ev_level = level, ev_step = step,
        ev_message = m, ev_created_at = now s, ev_metadata = []\<rparr>
       (tick (use_uuid s))"

definition job_error :: "error_code \<Rightarrow> message \<Rightarrow> int \<Rightarrow> exn" where
  "job_error c m st = App (AppError c m st [])"

definition new_job :: "user \<Rightarrow> job_args \<Rightarrow> ident \<Rightarrow> time \<Rightarrow> setup_job" where
  "new_job actor a i tm =
     \<lparr>job_id = i, job_created_by_user_id = usr_id actor, job_server_name = py_strip (ja_server_name a),
      job_host = py_strip (ja_host a), job_ssh_port = ja_ssh_port a,
      job_ssh_username = py_strip (ja_ssh_username a), job_auth_method = ja_auth_method a,
      job_created_at = tm, job_updated_at = tm, job_status = Queued, job_secret_encrypted = None,
      job_region_note = ja_region_note a, job_install_awg = ja_install_awg a,
      job_available_for_new_devices = ja_available_for_new_devices a,
      job_verify_before_install = ja_verify_before_install a, job_current_step = step_label Queued,
      job_error_message = None, job_result_payload = None, job_server_node_id = None,
      job_started_at = None, job_finished_at = None\<rparr>"

definition job_create ::
  "bool \<Rightarrow> user \<Rightarrow> job_args \<Rightarrow> string \<Rightarrow> 't app \<Rightarrow> setup_job res \<times> 't app" where
  "job_create worker_enabled actor a secret s =
     (if py_strip secret = [] then (Inl (job_error Secret_required M_ssh_secret_needed 400), s)
      else if \<not> worker_enabled then (Inl (job_error Validation_error M_worker_off_create 409), s)
      else
        (let tm = now s; s1 = tick s;
             j = new_job actor a (new_uuid s1) tm;
             s2 = add_setup_job j (remember_secret (job_id j) secret (use_uuid s1));
             s3 = add_event j Info (setup_status_value (job_status j)) M_ev_queued s2
         in (Inr j,
             audit ''setup_job_created''
               (no_args\<lparr>arg_actor := Some (usr_id actor), arg_target_type := Some ''setup_job'',
                  arg_target_id := Some (job_id j),
                  arg_metadata := [(''server_name'', JStr (job_server_name j)),
                                   (''host'', JStr (job_host j))]\<rparr>) s3)))"

definition job_get :: "ident \<Rightarrow> 'z storage_scheme \<Rightarrow> setup_job res" where
  "job_get i s =
     (case get_setup_job i s of None \<Rightarrow> Inl (not_found M_job_not_found) | Some j \<Rightarrow> Inr j)"

definition job_events :: "ident \<Rightarrow> 'z storage_scheme \<Rightarrow> setup_event list res" where
  "job_events i s = sum_bind (job_get i s) (\<lambda>_. Inr (list_setup_events i s))"

definition job_start :: "bool \<Rightarrow> ident \<Rightarrow> 'z storage_scheme \<Rightarrow> setup_job res" where
  "job_start worker_enabled i s =
     sum_bind (job_get i s) (\<lambda>j.
       if \<not> worker_enabled then Inl (job_error Validation_error M_worker_off_start 409)
       else if is_terminal (job_status j) then Inl (job_error Validation_error M_job_over_start 409)
       else if job_status j = Job_draft then Inl (job_error Secret_required M_ssh_not_stored 409)
       else Inr j)"

definition job_cancel :: "user \<Rightarrow> ident \<Rightarrow> 't app \<Rightarrow> setup_job res \<times> 't app" where
  "job_cancel actor i s =
     (case job_get i s of
        Inl e \<Rightarrow> (Inl e, s)
      | Inr _ \<Rightarrow>
          let tm = now s in
          (case transition_setup_job i non_terminal_statuses
                  (\<lambda>j. j\<lparr>job_status := Cancelled, job_current_step := step_label Cancelled,
                         job_finished_at := Some tm, job_updated_at := tm,
                         job_secret_encrypted := None\<rparr>) (tick s) of
             (None, s1) \<Rightarrow> (Inl (job_error Validation_error M_job_over 409), s1)
           | (Some j, s1) \<Rightarrow>
               let s2 = add_event j Warn ''cancelled'' M_ev_cancelled (forget_ephemeral_ssh_secret i s1)
               in (Inr j,
                   audit ''setup_job_cancelled''
                     (no_args\<lparr>arg_actor := Some (usr_id actor), arg_target_type := Some ''setup_job'',
                        arg_target_id := Some (job_id j)\<rparr>) s2)))"

subsection \<open>For the worker\<close>

definition job_claim_next :: "'t app \<Rightarrow> setup_job option \<times> 't app" where
  "job_claim_next s =
     (case claim_next_setup_job (now s) (step_label Checking_ssh) (tick s) of
        (None, s1) \<Rightarrow> (None, s1)
      | (Some j, s1) \<Rightarrow>
          (Some j, add_event j Info (setup_status_value Checking_ssh) M_ev_preflight s1))"

definition job_set_step ::
  "ident \<Rightarrow> setup_status list \<Rightarrow> setup_status \<Rightarrow> message \<Rightarrow> 't app \<Rightarrow> setup_job option \<times> 't app" where
  "job_set_step i expected st m s =
     (let tm = now s in
      case transition_setup_job i expected
             (\<lambda>j. j\<lparr>job_status := st, job_current_step := step_label st, job_updated_at := tm\<rparr>)
             (tick s) of
        (None, s1) \<Rightarrow> (None, s1)
      | (Some j, s1) \<Rightarrow> (Some j, add_event j Info (setup_status_value st) m s1))"

definition job_finish_success :: "ident \<Rightarrow> ident \<Rightarrow> 't app \<Rightarrow> setup_job option \<times> 't app" where
  "job_finish_success i node s =
     (let tm = now s;
          (r, s1) = transition_setup_job i [Verifying]
             (\<lambda>j. j\<lparr>job_status := Success, job_current_step := step_label Success,
                    job_server_node_id := Some node, job_finished_at := Some tm, job_updated_at := tm,
                    job_secret_encrypted := None,
                    job_result_payload := Some [(''server_node_id'', JStr node)]\<rparr>) (tick s);
          s2 = forget_ephemeral_ssh_secret i s1
      in case r of
           None \<Rightarrow> (None, s2)
         | Some j \<Rightarrow>
             (Some j,
              audit ''setup_job_succeeded''
                (no_args\<lparr>arg_target_type := Some ''setup_job'', arg_target_id := Some (job_id j),
                   arg_metadata := [(''server_node_id'', JStr node)]\<rparr>)
                (add_event j Info ''success'' M_ev_success s2)))"

definition job_finish_failed :: "ident \<Rightarrow> message \<Rightarrow> 't app \<Rightarrow> setup_job option \<times> 't app" where
  "job_finish_failed i m s =
     (let tm = now s;
          (r, s1) = transition_setup_job i non_terminal_statuses
             (\<lambda>j. j\<lparr>job_status := Failed, job_current_step := step_label Failed,
                    job_error_message := Some m, job_finished_at := Some tm, job_updated_at := tm,
                    job_secret_encrypted := None\<rparr>) (tick s);
          s2 = forget_ephemeral_ssh_secret i s1
      in case r of
           None \<Rightarrow> (None, s2)
         | Some j \<Rightarrow>
             (Some j,
              audit ''setup_job_failed''
                (no_args\<lparr>arg_target_type := Some ''setup_job'', arg_target_id := Some (job_id j),
                   arg_metadata := [(''error'', json_message m)]\<rparr>)
                (add_event j Error ''failed'' m s2)))"

section \<open>The life of a job\<close>

text \<open>The statuses in the order of the life of a job.\<close>

fun status_rank :: "setup_status \<Rightarrow> nat" where
  "status_rank Job_draft = 0"
| "status_rank Queued = 1"
| "status_rank Checking_ssh = 2"
| "status_rank Installing_agent = 3"
| "status_rank Installing_vpn = 4"
| "status_rank Verifying = 5"
| "status_rank Success = 6"
| "status_rank Failed = 7"
| "status_rank Cancelled = 8"

lemma status_rank_inj: "status_rank a = status_rank b \<Longrightarrow> a = b"
  by (cases a; cases b) simp_all

instantiation setup_status :: linorder
begin

definition less_eq_setup_status :: "setup_status \<Rightarrow> setup_status \<Rightarrow> bool" where
  "less_eq_setup_status a b \<longleftrightarrow> status_rank a \<le> status_rank b"

definition less_setup_status :: "setup_status \<Rightarrow> setup_status \<Rightarrow> bool" where
  "less_setup_status a b \<longleftrightarrow> status_rank a < status_rank b"

instance
  by standard (auto simp: less_eq_setup_status_def less_setup_status_def dest: status_rank_inj)

end

fun status_edge :: "setup_status \<Rightarrow> setup_status \<Rightarrow> bool" where
  "status_edge a b =
     (case b of
        Checking_ssh \<Rightarrow> a = Queued
      | Installing_agent \<Rightarrow> a = Checking_ssh
      | Installing_vpn \<Rightarrow> a = Installing_agent
      | Verifying \<Rightarrow> a \<in> {Installing_agent, Installing_vpn}
      | Success \<Rightarrow> a = Verifying
      | Failed \<Rightarrow> \<not> is_terminal a
      | Cancelled \<Rightarrow> \<not> is_terminal a
      | _ \<Rightarrow> False)"

lemma status_edge_less: "status_edge a b \<Longrightarrow> a < b"
  by (cases a; cases b) (simp_all add: less_setup_status_def)

lemma status_edge_live: "status_edge a b \<Longrightarrow> \<not> is_terminal a"
  by (cases a; cases b) simp_all

lemma in_non_terminal: "a \<in> set non_terminal_statuses \<longleftrightarrow> \<not> is_terminal a"
  by (cases a) (simp_all add: non_terminal_statuses_def)

text \<open>What the fields of a job say about its status, at any time.\<close>

definition job_ok :: "setup_job \<Rightarrow> bool" where
  "job_ok j \<longleftrightarrow> job_secret_encrypted j = None \<and> job_status j \<noteq> Job_draft \<and>
     (job_finished_at j \<noteq> None \<longleftrightarrow> is_terminal (job_status j)) \<and>
     (job_server_node_id j \<noteq> None \<longleftrightarrow> job_status j = Success) \<and>
     (job_result_payload j = map_option (\<lambda>n. [(''server_node_id'', JStr n)]) (job_server_node_id j)) \<and>
     (job_error_message j \<noteq> None \<longleftrightarrow> job_status j = Failed) \<and>
     (job_started_at j = None \<longrightarrow> job_status j \<in> {Queued, Failed, Cancelled}) \<and>
     job_current_step j = step_label (job_status j)"

definition jobs_ok :: "'t app \<Rightarrow> bool" where
  "jobs_ok s \<longleftrightarrow> jobs_keyed s \<and> inj (uuid_at s) \<and>
     (\<forall>n \<ge> uuid_n s. get_setup_job (uuid_at s n) s = None) \<and>
     (\<forall>i j. get_setup_job i s = Some j \<longrightarrow> job_ok j) \<and>
     (\<forall>i. get_ephemeral_ssh_secret i s \<noteq> None \<longrightarrow>
        (\<exists>j. get_setup_job i s = Some j \<and> \<not> is_terminal (job_status j)))"

text \<open>
  Everything that happens to the jobs. The administrators create and cancel; the worker claims,
  advances, finishes and forgets; the rest of the program leaves the jobs, their events and the
  secrets alone and may draw identifiers.
\<close>

datatype job_op =
  Op_create job_args string | Op_cancel ident | Op_claim
| Op_step ident setup_status setup_status message | Op_success ident ident | Op_fail ident message
| Op_forget ident | Op_event setup_job event_level string message | Op_else

definition worker_edge :: "setup_status \<Rightarrow> setup_status \<Rightarrow> bool" where
  "worker_edge a b \<longleftrightarrow> (a, b) \<in> {(Checking_ssh, Installing_agent), (Installing_agent, Installing_vpn),
     (Installing_vpn, Verifying), (Installing_agent, Verifying)}"

definition jobs_same :: "'t app \<Rightarrow> 't app \<Rightarrow> bool" where
  "jobs_same s s' \<longleftrightarrow> setup_jobs s' = setup_jobs s \<and> setup_events s' = setup_events s \<and>
     ssh_secrets s' = ssh_secrets s \<and> uuid_at s' = uuid_at s \<and> uuid_n s \<le> uuid_n s'"

inductive job_step :: "job_op \<Rightarrow> 't app \<Rightarrow> 't app \<Rightarrow> bool" where
  js_create: "job_step (Op_create a secret) s (snd (job_create w actor a secret s))"
| js_cancel: "job_step (Op_cancel i) s (snd (job_cancel actor i s))"
| js_claim: "job_step Op_claim s (snd (job_claim_next s))"
| js_step: "worker_edge a b \<Longrightarrow> job_step (Op_step i a b m) s (snd (job_set_step i [a] b m s))"
| js_success: "job_step (Op_success i n) s (snd (job_finish_success i n s))"
| js_fail: "job_step (Op_fail i m) s (snd (job_finish_failed i m s))"
| js_forget: "job_step (Op_forget i) s (forget_ephemeral_ssh_secret i s)"
| js_event: "job_step (Op_event j l st m) s (add_event j l st m s)"
| js_else: "jobs_same s s' \<Longrightarrow> job_step Op_else s s'"

inductive_cases job_stepE: "job_step l s s'"

text \<open>
  A step leaves the jobs as they are, moves one along an edge, or creates one; a secret is only kept
  for a job that goes on.
\<close>

definition job_fixed ::
  "setup_job \<Rightarrow> ident \<times> ident \<times> string \<times> string \<times> int \<times> string \<times> auth_method \<times> time
    \<times> string option \<times> bool \<times> bool \<times> bool" where
  "job_fixed j = (job_id j, job_created_by_user_id j, job_server_name j, job_host j, job_ssh_port j,
     job_ssh_username j, job_auth_method j, job_created_at j, job_region_note j, job_install_awg j,
     job_available_for_new_devices j, job_verify_before_install j)"

definition job_edge :: "setup_job \<Rightarrow> setup_job \<Rightarrow> bool" where
  "job_edge j0 j \<longleftrightarrow> status_edge (job_status j0) (job_status j) \<and> job_fixed j = job_fixed j0"

definition moves :: "setup_job \<Rightarrow> setup_job \<Rightarrow> 't app \<Rightarrow> 't app \<Rightarrow> bool" where
  "moves j0 j s s' \<longleftrightarrow> get_setup_job (job_id j) s = Some j0 \<and> job_id j = job_id j0 \<and>
     job_edge j0 j \<and> (job_ok j0 \<longrightarrow> job_ok j) \<and>
     setup_jobs s' = setup_jobs (save_setup_job j s) \<and>
     (\<forall>k. map_of (ssh_secrets s') k \<noteq> None \<longrightarrow> map_of (ssh_secrets s) k \<noteq> None \<and>
        (k = job_id j \<longrightarrow> \<not> is_terminal (job_status j))) \<and>
     uuid_at s' = uuid_at s \<and> uuid_n s \<le> uuid_n s'"

definition stays :: "'t app \<Rightarrow> 't app \<Rightarrow> bool" where
  "stays s s' \<longleftrightarrow> setup_jobs s' = setup_jobs s \<and>
     (\<forall>k. map_of (ssh_secrets s') k \<noteq> None \<longrightarrow> map_of (ssh_secrets s) k \<noteq> None) \<and>
     uuid_at s' = uuid_at s \<and> uuid_n s \<le> uuid_n s'"

definition creates :: "setup_job \<Rightarrow> 't app \<Rightarrow> 't app \<Rightarrow> bool" where
  "creates j s s' \<longleftrightarrow> job_id j = new_uuid s \<and> job_status j = Queued \<and> job_ok j \<and>
     setup_jobs s' = setup_jobs (save_setup_job j s) \<and>
     (\<forall>k. map_of (ssh_secrets s') k \<noteq> None \<longrightarrow> map_of (ssh_secrets s) k \<noteq> None \<or> k = job_id j) \<and>
     uuid_at s' = uuid_at s \<and> uuid_n s < uuid_n s'"

lemma forget_frame [simp]:
  "setup_jobs (forget_ephemeral_ssh_secret i s) = setup_jobs s"
  "setup_events (forget_ephemeral_ssh_secret i s) = setup_events s"
  "uuid_at (forget_ephemeral_ssh_secret i s) = uuid_at s"
  "uuid_n (forget_ephemeral_ssh_secret i s) = uuid_n s"
  "ssh_secrets (forget_ephemeral_ssh_secret i s) = dict_pop i (ssh_secrets s)"
  "audit_log (forget_ephemeral_ssh_secret i s) = audit_log s"
  "server_nodes (forget_ephemeral_ssh_secret i s) = server_nodes s"
  "random_at (forget_ephemeral_ssh_secret i s) = random_at s"
  "random_n (forget_ephemeral_ssh_secret i s) = random_n s"
  "agent_st (forget_ephemeral_ssh_secret i s) = agent_st s"
  by (simp_all add: forget_ephemeral_ssh_secret_def)

lemma add_event_frame [simp]:
  "setup_jobs (add_event j l st m s) = setup_jobs s"
  "uuid_at (add_event j l st m s) = uuid_at s"
  "uuid_n (add_event j l st m s) = Suc (uuid_n s)"
  "ssh_secrets (add_event j l st m (x :: 't app)) = ssh_secrets x"
  "audit_log (add_event j l st m s) = audit_log s"
  "server_nodes (add_event j l st m s) = server_nodes s"
  "random_at (add_event j l st m s) = random_at s"
  "random_n (add_event j l st m s) = random_n s"
  "agent_st (add_event j l st m (x :: 't app)) = agent_st x"
  by (simp_all add: add_event_def)

lemma get_job_cong: "setup_jobs s' = setup_jobs s \<Longrightarrow> get_setup_job i s' = get_setup_job i s"
  by (simp add: get_setup_job_def)

lemma stays_refl [simp]: "stays s s"
  by (simp add: stays_def)

lemma jobs_save_cong: "setup_jobs s' = setup_jobs s \<Longrightarrow> setup_jobs (save_setup_job j s') = setup_jobs (save_setup_job j s)"
  by (simp add: save_setup_job_def)

text \<open>A transition, with what the services do around it, moves the job it is about.\<close>

declare status_edge.simps [simp del]

lemma transition_moves:
  assumes "transition_setup_job i expected vals (tick s) = (Some j, s1)"
    and "jobs_keyed s" "\<And>j0. job_fixed (vals j0) = job_fixed j0"
    and "\<And>j0. job_status j0 \<in> set expected \<Longrightarrow> status_edge (job_status j0) (job_status (vals j0))"
    and "\<And>j0. job_status j0 \<in> set expected \<Longrightarrow> job_ok j0 \<Longrightarrow> job_ok (vals j0)"
    and "setup_jobs s' = setup_jobs s1" "uuid_at s' = uuid_at s1" "uuid_n s1 \<le> uuid_n s'"
    and "ssh_secrets s' = dict_pop i (ssh_secrets s1) \<or>
      ssh_secrets s' = ssh_secrets s1 \<and> \<not> is_terminal (job_status j)"
  shows "\<exists>j0. moves j0 j s s' \<and> job_id j = i"
proof -
  obtain j0 where j0: "get_setup_job i (tick s) = Some j0" "job_status j0 \<in> set expected" "j = vals j0"
    "s1 = save_setup_job j (tick s)"
    by (rule transition_Some [OF assms(1)])
  then have "job_id j = i" "get_setup_job i s = Some j0" and "job_id j = job_id j0"
    using jobs_keyed_get [OF assms(2)] assms(3) [of j0] by (simp_all add: job_fixed_def)
  then show ?thesis
    using j0 assms(3-9) jobs_save_cong [of "tick s" s j] unfolding moves_def
    by (intro exI [of _ j0]) (auto simp: map_of_dict_pop job_edge_def split: if_splits)
qed

lemma transition_stays:
  assumes "transition_setup_job i expected vals (tick s) = (None, s1)"
    and "setup_jobs s' = setup_jobs s1" "uuid_at s' = uuid_at s1" "uuid_n s1 \<le> uuid_n s'"
    and "ssh_secrets s' = dict_pop i (ssh_secrets s1) \<or> ssh_secrets s' = ssh_secrets s1"
  shows "stays s s'"
proof -
  have s1: "s1 = tick s" by (rule transition_None(1) [OF assms(1)])
  have "map_of (ssh_secrets s) k \<noteq> None" if "map_of (ssh_secrets s') k \<noteq> None" for k
    using assms(5) that by (auto simp: s1 map_of_dict_pop split: if_splits)
  then show ?thesis using assms(2-4) by (simp add: stays_def s1)
qed

lemma job_create_effect:
  "stays s (snd (job_create w actor a secret s)) \<or>
     (\<exists>j. creates j s (snd (job_create w actor a secret s)))"
proof (cases "py_strip secret = [] \<or> \<not> w")
  case True
  then show ?thesis by (auto simp: job_create_def)
next
  case False
  let ?j = "new_job actor a (new_uuid s) (now s)"
  have "creates ?j s (snd (job_create w actor a secret s))"
    using False by (simp add: job_create_def Let_def creates_def add_is_save remember_secret_def
        new_job_def job_ok_def step_label_def save_setup_job_def)
  then show ?thesis by blast
qed

lemma job_cancel_effect:
  assumes "jobs_keyed s"
  shows "stays s (snd (job_cancel actor i s)) \<or> (\<exists>j0 j. moves j0 j s (snd (job_cancel actor i s)))"
proof (cases "job_get i s")
  case (Inl e)
  then show ?thesis by (simp add: job_cancel_def)
next
  case (Inr x)
  let ?f = "\<lambda>j. j\<lparr>job_status := Cancelled, job_current_step := step_label Cancelled,
      job_finished_at := Some (now s), job_updated_at := now s, job_secret_encrypted := None\<rparr>"
  obtain r s1 where t: "transition_setup_job i non_terminal_statuses ?f (tick s) = (r, s1)"
    by (cases "transition_setup_job i non_terminal_statuses ?f (tick s)")
  show ?thesis
  proof (cases r)
    case None
    then show ?thesis
      using transition_stays [OF t [unfolded None], of "snd (job_cancel actor i s)"] t Inr
      by (simp add: job_cancel_def)
  next
    case (Some j)
    have "\<exists>j0. moves j0 j s (snd (job_cancel actor i s)) \<and> job_id j = i"
      by (rule transition_moves [OF t [unfolded Some] assms])
        (use t Inr Some in \<open>auto simp: status_edge.simps job_cancel_def Let_def in_non_terminal job_ok_def job_fixed_def\<close>)
    then show ?thesis by blast
  qed
qed

lemma job_claim_effect:
  assumes "jobs_keyed s"
  shows "stays s (snd (job_claim_next s)) \<or> (\<exists>j0 j. moves j0 j s (snd (job_claim_next s)))"
proof (cases "next_queued_setup_job (tick s)")
  case None
  then show ?thesis by (simp add: job_claim_next_def claim_next_setup_job_def stays_def)
next
  case (Some j0)
  have "get_setup_job (job_id j0) (tick s) = Some j0 \<and> job_status j0 = Queued"
    by (rule next_queued_get [OF _ Some]) (use assms in \<open>simp add: jobs_keyed_def\<close>)
  then have "moves j0 (j0\<lparr>job_status := Checking_ssh, job_current_step := step_label Checking_ssh,
      job_started_at := Some (now s), job_updated_at := now s\<rparr>) s (snd (job_claim_next s))"
    using Some by (simp add: job_claim_next_def claim_next_setup_job_def moves_def Let_def job_ok_def
        save_setup_job_def job_edge_def job_fixed_def status_edge.simps)
  then show ?thesis by blast
qed

lemma worker_edgeD:
  assumes "worker_edge a b"
  shows "status_edge a b" "\<not> is_terminal b" "a \<notin> {Queued, Success, Failed, Cancelled}"
    "b \<notin> {Job_draft, Queued}"
  using assms by (auto simp: worker_edge_def status_edge.simps)

lemma job_ok_step:
  "worker_edge a b \<Longrightarrow> job_ok j \<Longrightarrow> job_status j = a \<Longrightarrow>
     job_ok (j\<lparr>job_status := b, job_current_step := step_label b, job_updated_at := tm\<rparr>)"
  using worker_edgeD(2-4) [of a b] by (simp add: job_ok_def)

lemma job_set_step_effect:
  assumes "jobs_keyed s" "worker_edge a b"
  shows "stays s (snd (job_set_step i [a] b m s)) \<or>
    (\<exists>j0 j. moves j0 j s (snd (job_set_step i [a] b m s)))"
proof -
  let ?f = "\<lambda>j. j\<lparr>job_status := b, job_current_step := step_label b, job_updated_at := now s\<rparr>"
  obtain r s1 where t: "transition_setup_job i [a] ?f (tick s) = (r, s1)"
    by (cases "transition_setup_job i [a] ?f (tick s)")
  show ?thesis
  proof (cases r)
    case None
    then show ?thesis
      using transition_stays [OF t [unfolded None], of "snd (job_set_step i [a] b m s)"] t
      by (simp add: job_set_step_def)
  next
    case (Some j)
    have live: "job_status j = b"
      using transition_Some [OF t [unfolded Some]] by fastforce
    have "\<exists>j0. moves j0 j s (snd (job_set_step i [a] b m s)) \<and> job_id j = i"
      by (rule transition_moves [OF t [unfolded Some] assms(1)])
        (use t Some worker_edgeD [OF assms(2)] job_ok_step [OF assms(2)] live in \<open>simp_all add: job_set_step_def Let_def job_fixed_def\<close>)
    then show ?thesis by blast
  qed
qed

lemma job_finish_success_effect:
  assumes "jobs_keyed s"
  shows "stays s (snd (job_finish_success i n s)) \<or>
    (\<exists>j0 j. moves j0 j s (snd (job_finish_success i n s)))"
proof -
  let ?f = "\<lambda>j. j\<lparr>job_status := Success, job_current_step := step_label Success,
      job_server_node_id := Some n, job_finished_at := Some (now s), job_updated_at := now s,
      job_secret_encrypted := None, job_result_payload := Some [(''server_node_id'', JStr n)]\<rparr>"
  obtain r s1 where t: "transition_setup_job i [Verifying] ?f (tick s) = (r, s1)"
    by (cases "transition_setup_job i [Verifying] ?f (tick s)")
  show ?thesis
  proof (cases r)
    case None
    then show ?thesis
      using transition_stays [OF t [unfolded None], of "snd (job_finish_success i n s)"] t
      by (simp add: job_finish_success_def)
  next
    case (Some j)
    have "\<exists>j0. moves j0 j s (snd (job_finish_success i n s)) \<and> job_id j = i"
      by (rule transition_moves [OF t [unfolded Some] assms])
        (use t Some in \<open>auto simp: status_edge.simps job_finish_success_def Let_def job_ok_def job_fixed_def\<close>)
    then show ?thesis by blast
  qed
qed

lemma job_finish_failed_effect:
  assumes "jobs_keyed s"
  shows "stays s (snd (job_finish_failed i m s)) \<or>
    (\<exists>j0 j. moves j0 j s (snd (job_finish_failed i m s)))"
proof -
  let ?f = "\<lambda>j. j\<lparr>job_status := Failed, job_current_step := step_label Failed,
      job_error_message := Some m, job_finished_at := Some (now s), job_updated_at := now s,
      job_secret_encrypted := None\<rparr>"
  obtain r s1 where t: "transition_setup_job i non_terminal_statuses ?f (tick s) = (r, s1)"
    by (cases "transition_setup_job i non_terminal_statuses ?f (tick s)")
  show ?thesis
  proof (cases r)
    case None
    then show ?thesis
      using transition_stays [OF t [unfolded None], of "snd (job_finish_failed i m s)"] t
      by (simp add: job_finish_failed_def)
  next
    case (Some j)
    have "\<exists>j0. moves j0 j s (snd (job_finish_failed i m s)) \<and> job_id j = i"
      by (rule transition_moves [OF t [unfolded Some] assms])
        (use t Some in \<open>auto simp: status_edge.simps job_finish_failed_def Let_def job_ok_def in_non_terminal job_fixed_def\<close>)
    then show ?thesis by blast
  qed
qed

lemma forget_stays: "stays s (forget_ephemeral_ssh_secret i s)"
  by (simp add: stays_def)

lemma same_stays: "jobs_same s s' \<Longrightarrow> stays s s'"
  by (simp add: stays_def jobs_same_def)

lemma job_step_effect:
  assumes "job_step l s s'" "jobs_keyed s"
  shows "stays s s' \<or> (\<exists>j0 j. moves j0 j s s') \<or> (\<exists>j. creates j s s')"
  using assms
proof (induction rule: job_step.induct)
  case (js_create a secret s w actor)
  then show ?case using job_create_effect [of s w actor a secret] by blast
next
  case (js_cancel i s actor)
  then show ?case using job_cancel_effect [of s actor i] by blast
next
  case (js_claim s)
  then show ?case using job_claim_effect [of s] by blast
next
  case (js_step a b i m s)
  then show ?case using job_set_step_effect [of s a b i m] by blast
next
  case (js_success i n s)
  then show ?case using job_finish_success_effect [of s i n] by blast
next
  case (js_fail i m s)
  then show ?case using job_finish_failed_effect [of s i m] by blast
next
  case (js_forget i s)
  then show ?case by (simp add: forget_stays)
next
  case (js_event j l st m s)
  then show ?case by (simp add: stays_def)
next
  case (js_else s s')
  then show ?case by (simp add: same_stays)
qed

lemma jobs_ok_step:
  assumes "jobs_ok s" "job_step l s s'"
  shows "jobs_ok s'"
proof -
  have k: "jobs_keyed s" using assms(1) by (simp add: jobs_ok_def)
  from job_step_effect [OF assms(2) k] show ?thesis
  proof (elim disjE exE)
    assume "stays s s'"
    then show ?thesis
      using assms(1)
      by (auto simp: stays_def jobs_ok_def jobs_keyed_def get_setup_job_def get_ephemeral_ssh_secret_def)
  next
    fix j0 j assume m: "moves j0 j s s'"
    then have g: "get_setup_job i s' = (if i = job_id j then Some j else get_setup_job i s)" for i
      by (simp add: moves_def get_setup_job_def save_setup_job_def)
    have "uuid_at s n \<noteq> job_id j" if "uuid_n s \<le> n" for n
      using m assms(1) that by (force simp: moves_def jobs_ok_def)
    moreover have "job_ok j0" "job_ok j" "jobs_keyed s'"
      using m assms(1) jobs_keyed_save [OF k, of j] by (auto simp: moves_def jobs_ok_def jobs_keyed_def)
    ultimately show ?thesis
      using m assms(1) unfolding moves_def jobs_ok_def
      by (auto simp: g get_ephemeral_ssh_secret_def)
  next
    fix j assume m: "creates j s s'"
    then have g: "get_setup_job i s' = (if i = job_id j then Some j else get_setup_job i s)" for i
      by (simp add: creates_def get_setup_job_def save_setup_job_def)
    have "uuid_at s n \<noteq> job_id j" if "uuid_n s' \<le> n" for n
      using m assms(1) that by (auto simp: creates_def jobs_ok_def new_uuid_def dest: injD)
    moreover have "jobs_keyed s'"
      using m jobs_keyed_save [OF k, of j] by (simp add: creates_def jobs_keyed_def)
    ultimately show ?thesis
      using m assms(1) unfolding creates_def jobs_ok_def
      by (auto simp: g get_ephemeral_ssh_secret_def)
  qed
qed

lemma job_moves_step:
  assumes "jobs_ok s" "job_step l s s'" "get_setup_job i s = Some a"
  shows "\<exists>b. get_setup_job i s' = Some b \<and> (b = a \<or> job_edge a b)"
proof -
  have k: "jobs_keyed s" using assms(1) by (simp add: jobs_ok_def)
  from job_step_effect [OF assms(2) k] show ?thesis
  proof (elim disjE exE)
    assume "stays s s'"
    then show ?thesis using assms(3) by (simp add: stays_def get_setup_job_def)
  next
    fix j0 j assume "moves j0 j s s'"
    then show ?thesis
      using assms(3) by (auto simp: moves_def get_setup_job_def save_setup_job_def)
  next
    fix j assume m: "creates j s s'"
    then have "get_setup_job (job_id j) s = None"
      using assms(1) by (auto simp: creates_def jobs_ok_def new_uuid_def)
    then show ?thesis
      using assms(3) m by (auto simp: creates_def get_setup_job_def save_setup_job_def)
  qed
qed

lemma job_edge_less: "job_edge a b \<Longrightarrow> job_status a < job_status b"
  by (simp add: job_edge_def status_edge_less)

interpretation jobs: ranked job_step jobs_ok get_setup_job job_edge "\<lambda>j. status_rank (job_status j)"
  by unfold_locales
    (blast intro: jobs_ok_step job_moves_step | simp add: job_edge_less less_setup_status_def [symmetric])+

lemma job_path:
  "job_edge\<^sup>*\<^sup>* a b \<Longrightarrow> status_edge\<^sup>*\<^sup>* (job_status a) (job_status b) \<and> job_fixed b = job_fixed a"
  by (induction rule: rtranclp.induct) (auto simp: job_edge_def intro: rtranclp.rtrancl_into_rtrancl)

text \<open>
  C5: JOB LIFE. Whatever administrators and worker do, a job goes through its statuses in one direction
  only, keeps what it was created with, and once it is over is never changed again; at every time its
  fields agree with its status (a node exactly after success, an error exactly after a failure, an
  end exactly when it is over), and a secret is held only for a job that is not over.
\<close>

theorem job_life:
  assumes "run job_step s ls s'" "jobs_ok s" "get_setup_job i s = Some j"
  shows "\<exists>j'. get_setup_job i s' = Some j' \<and> status_edge\<^sup>*\<^sup>* (job_status j) (job_status j') \<and>
    job_status j \<le> job_status j' \<and> job_fixed j' = job_fixed j \<and> (is_terminal (job_status j) \<longrightarrow> j' = j) \<and>
    job_ok j' \<and> (get_ephemeral_ssh_secret i s' \<noteq> None \<longrightarrow> \<not> is_terminal (job_status j'))"
proof -
  obtain j' where j': "get_setup_job i s' = Some j'" "job_edge\<^sup>*\<^sup>* j j'"
    using jobs.run_path [OF assms] by blast
  have ok: "jobs_ok s'" by (rule jobs.run_keep [OF assms(1,2)])
  have "j' = j" if "is_terminal (job_status j)"
    using jobs.run_stuck [OF assms] that j'(1) status_edge_live by (auto simp: job_edge_def)
  moreover have "job_status j \<le> job_status j'"
    using jobs.path_climb [OF j'(2)] by (auto simp: less_eq_setup_status_def)
  moreover have "job_ok j'" "get_ephemeral_ssh_secret i s' \<noteq> None \<Longrightarrow> \<not> is_terminal (job_status j')"
    using ok j'(1) by (auto simp: jobs_ok_def)
  ultimately show ?thesis using j'(1) job_path [OF j'(2)] by blast
qed

definition demo_job_args :: job_args where
  "demo_job_args = \<lparr>ja_server_name = ''n3'', ja_host = '' h3 '', ja_ssh_port = 22,
     ja_ssh_username = ''root'', ja_auth_method = Password, ja_region_note = None,
     ja_install_awg = True, ja_available_for_new_devices = True, ja_verify_before_install = True\<rparr>"

definition queued_app :: "'t \<Rightarrow> 't app" where
  "queued_app x = snd (job_create True the_admin demo_job_args ''pw'' (demo_app x))"

lemma demo_app_jobs_ok: "jobs_ok (demo_app x)"
  by (simp add: jobs_ok_def demo_app_def demo_storage_def empty_storage_def jobs_keyed_def
      get_setup_job_def get_ephemeral_ssh_secret_def storage.defs add_is_save save_user_def
      save_server_node_def inj_demo_uuid)

lemma queued_app_ok: "jobs_ok (queued_app x)"
  unfolding queued_app_def by (rule jobs_ok_step [OF demo_app_jobs_ok js_create])

theorem job_life_witness:
  "get_setup_job ''u0'' (snd (job_cancel the_admin ''u0''
     (snd (job_finish_failed ''u0'' M_setup_crashed (queued_app ())))))
   = get_setup_job ''u0'' (snd (job_finish_failed ''u0'' M_setup_crashed (queued_app ())))"
proof -
  let ?s = "snd (job_finish_failed ''u0'' M_setup_crashed (queued_app ()))"
  have ok: "jobs_ok ?s" by (rule jobs_ok_step [OF queued_app_ok js_fail])
  have "map_option job_status (get_setup_job ''u0'' ?s) = Some Failed" by code_simp
  then obtain j where j: "get_setup_job ''u0'' ?s = Some j" "job_status j = Failed" by auto
  have "run job_step ?s [Op_cancel ''u0''] (snd (job_cancel the_admin ''u0'' ?s))"
    by (rule run_cons, rule js_cancel, rule run_nil)
  from job_life [OF this ok j(1)] j show ?thesis by auto
qed

section \<open>Claiming\<close>

lemma job_claim_Some:
  assumes "job_claim_next s = (Some j, s')" "jobs_keyed s"
  obtains j0 where "get_setup_job (job_id j) s = Some j0" "job_status j0 = Queued"
    "job_status j = Checking_ssh" "get_setup_job (job_id j) s' = Some j"
    "\<forall>i k. get_setup_job i s = Some k \<and> job_status k = Queued \<longrightarrow> job_created_at j0 \<le> job_created_at k"
proof -
  obtain j0 where q: "next_queued_setup_job (tick s) = Some j0"
    and j: "j = j0\<lparr>job_status := Checking_ssh, job_current_step := step_label Checking_ssh,
        job_started_at := Some (now s), job_updated_at := now s\<rparr>"
    and s': "setup_jobs s' = setup_jobs (save_setup_job j (tick s))"
    using assms(1) by (auto simp: job_claim_next_def claim_next_setup_job_def Let_def
        split: option.splits)
  have g: "get_setup_job (job_id j0) (tick s) = Some j0 \<and> job_status j0 = Queued"
    by (rule next_queued_get [OF _ q]) (use assms(2) in \<open>simp add: jobs_keyed_def\<close>)
  show ?thesis
  proof (rule that)
    show "\<forall>i k. get_setup_job i s = Some k \<and> job_status k = Queued \<longrightarrow>
        job_created_at j0 \<le> job_created_at k"
      using next_queued_SomeD(3) [OF q] by (force simp: get_setup_job_def dest: map_of_SomeD)
  qed (use g j s' in \<open>simp_all add: get_setup_job_def save_setup_job_def\<close>)
qed

text \<open>
  C23: CLAIM. The worker claims the queued job created first, and no job is ever claimed twice,
  whatever happens in between.
\<close>

theorem job_claimed_once:
  assumes "job_claim_next s = (Some j, s1)" "jobs_ok s"
    and "run job_step s1 ls s2" "job_claim_next s2 = (Some k, s3)"
  shows "job_id k \<noteq> job_id j \<and> (\<exists>j0. get_setup_job (job_id j) s = Some j0 \<and> job_status j0 = Queued \<and>
    (\<forall>i k. get_setup_job i s = Some k \<and> job_status k = Queued \<longrightarrow> job_created_at j0 \<le> job_created_at k))"
proof -
  have keyed: "jobs_keyed s" using assms(2) by (simp add: jobs_ok_def)
  obtain j0 where j0: "get_setup_job (job_id j) s = Some j0" "job_status j0 = Queued"
    "job_status j = Checking_ssh" "get_setup_job (job_id j) s1 = Some j"
    "\<forall>i k. get_setup_job i s = Some k \<and> job_status k = Queued \<longrightarrow> job_created_at j0 \<le> job_created_at k"
    by (rule job_claim_Some [OF assms(1) keyed])
  have ok1: "jobs_ok s1" using jobs_ok_step [OF assms(2) js_claim] assms(1) by simp
  have ok2: "jobs_ok s2" by (rule jobs.run_keep [OF assms(3) ok1])
  obtain k0 where k0: "get_setup_job (job_id k) s2 = Some k0" "job_status k0 = Queued"
    using job_claim_Some [OF assms(4)] ok2 by (metis jobs_ok_def)
  obtain j' where "get_setup_job (job_id j) s2 = Some j'" "job_edge\<^sup>*\<^sup>* j j'"
    using jobs.run_path [OF assms(3) ok1 j0(4)] by blast
  then have "job_id k \<noteq> job_id j"
    using jobs.path_climb [of j j'] k0 j0(3) by auto
  then show ?thesis using j0 by blast
qed

definition two_queued :: "unit app" where
  "two_queued = snd (job_create True the_admin demo_job_args ''pw2'' (queued_app ()))"

lemma two_queued_ok: "jobs_ok two_queued"
  unfolding two_queued_def by (rule jobs_ok_step [OF queued_app_ok js_create])

theorem job_claimed_once_witness:
  "\<exists>j k. fst (job_claim_next two_queued) = Some j \<and>
     fst (job_claim_next (snd (job_claim_next two_queued))) = Some k \<and> job_id k \<noteq> job_id j"
proof -
  let ?c = "job_claim_next two_queued"
  let ?d = "job_claim_next (snd ?c)"
  have "map_option job_id (fst ?c) = Some ''u0''" by code_simp
  then obtain j where j: "fst ?c = Some j" by auto
  have "map_option job_id (fst ?d) = Some ''u3''" by code_simp
  then obtain k where k: "fst ?d = Some k" by auto
  have "?c = (Some j, snd ?c)" "?d = (Some k, snd ?d)" using j k by (simp_all add: prod_eq_iff)
  from job_claimed_once [OF this(1) two_queued_ok run_nil this(2)] j k show ?thesis by blast
qed

text \<open>
  C24: CANCEL. Cancelling an unknown job is an error without effect, cancelling one that is over an
  error too; any other job is then cancelled for good: its secret is gone, and nothing the worker or
  anybody does later changes it.
\<close>

theorem job_cancel_exact:
  assumes "jobs_ok s"
  shows "case get_setup_job i s of
      None \<Rightarrow> job_cancel actor i s = (Inl (not_found M_job_not_found), s)
    | Some j \<Rightarrow>
        if is_terminal (job_status j)
        then job_cancel actor i s = (Inl (job_error Validation_error M_job_over 409), tick s)
        else \<exists>j' s'. job_cancel actor i s = (Inr j', s') \<and> job_status j' = Cancelled \<and>
            job_fixed j' = job_fixed j \<and> get_ephemeral_ssh_secret i s' = None \<and>
            (\<forall>ls t. run job_step s' ls t \<longrightarrow> get_setup_job i t = Some j')"
proof (cases "get_setup_job i s")
  case None
  then show ?thesis by (simp add: job_cancel_def job_get_def)
next
  case (Some j)
  then have i: "job_id j = i" using assms jobs_keyed_get by (auto simp: jobs_ok_def)
  show ?thesis
  proof (cases "is_terminal (job_status j)")
    case True
    then show ?thesis
      using Some by (simp add: job_cancel_def job_get_def transition_setup_job_def get_setup_job_def
          in_non_terminal)
  next
    case False
    let ?j = "j\<lparr>job_status := Cancelled, job_current_step := step_label Cancelled,
      job_finished_at := Some (now s), job_updated_at := now s, job_secret_encrypted := None\<rparr>"
    obtain s' where run: "job_cancel actor i s = (Inr ?j, s')"
      and s': "setup_jobs s' = setup_jobs (save_setup_job ?j s)" "ssh_secrets s' = dict_pop i (ssh_secrets s)"
      using Some False
      by (simp add: job_cancel_def job_get_def transition_setup_job_def get_setup_job_def Let_def
          in_non_terminal save_setup_job_def)
    have "jobs_ok s'" using jobs_ok_step [OF assms js_cancel [of i s actor]] run by simp
    moreover have "get_setup_job i s' = Some ?j"
      using s'(1) i by (simp add: get_setup_job_def save_setup_job_def)
    moreover have "\<not> job_edge ?j x" for x
      using status_edge_live [of Cancelled] by (auto simp: job_edge_def)
    ultimately have "\<forall>ls t. run job_step s' ls t \<longrightarrow> get_setup_job i t = Some ?j"
      using jobs.run_stuck by blast
    then show ?thesis
      using run s'(2) Some False
      by (auto simp: get_ephemeral_ssh_secret_def map_of_dict_pop job_fixed_def)
  qed
qed

theorem job_cancel_exact_witness:
  "\<exists>j s. job_cancel the_admin ''u0'' (queued_app ()) = (Inr j, s) \<and>
     get_setup_job ''u0'' (snd (job_finish_failed ''u0'' M_setup_crashed s)) = Some j"
proof -
  have "map_option job_status (get_setup_job ''u0'' (queued_app ())) = Some Queued" by code_simp
  then obtain j where j: "get_setup_job ''u0'' (queued_app ()) = Some j" "job_status j = Queued" by auto
  obtain j' s' where c: "job_cancel the_admin ''u0'' (queued_app ()) = (Inr j', s')"
    "\<forall>ls t. run job_step s' ls t \<longrightarrow> get_setup_job ''u0'' t = Some j'"
    using job_cancel_exact [OF queued_app_ok [of "()"], where i = "''u0''" and actor = the_admin] j by auto
  have "run job_step s' [Op_fail ''u0'' M_setup_crashed] (snd (job_finish_failed ''u0'' M_setup_crashed s'))"
    by (rule run_cons, rule js_fail, rule run_nil)
  then show ?thesis using c by blast
qed

section \<open>Events\<close>

lemma list_events_cong: "setup_events s' = setup_events s \<Longrightarrow> list_setup_events i s' = list_setup_events i s"
  by (simp add: list_setup_events_def)

lemma list_events_simps [simp]:
  "list_setup_events i (tick s) = list_setup_events i s"
  "list_setup_events i (use_uuid s) = list_setup_events i s"
  "list_setup_events i (audit a x s) = list_setup_events i s"
  "list_setup_events i (forget_ephemeral_ssh_secret k y) = list_setup_events i y"
  "list_setup_events i (remember_secret k p y) = list_setup_events i y"
  by (rule list_events_cong; simp add: audit_def remember_secret_def)+

lemma list_events_save [simp]: "list_setup_events i (save_setup_job j s) = list_setup_events i s"
  by (auto simp: list_setup_events_def save_setup_job_def dict_get_def dict_setdefault_def map_add_def
      split: option.splits if_splits)

lemma list_events_add:
  "list_setup_events i (add_event j l st m s) = list_setup_events i s @
     (if i = job_id j then [\<lparr>ev_id = new_uuid s, ev_setup_job_id = job_id j, ev_level = l, ev_step = st,
        ev_message = m, ev_created_at = now s, ev_metadata = []\<rparr>] else [])"
  by (simp add: list_setup_events_def add_event_def add_setup_event_def dict_get_set)

text \<open>What is added to the events of job \<open>i\<close> is about job \<open>i\<close>.\<close>

definition events_edge :: "ident \<times> setup_event list \<Rightarrow> ident \<times> setup_event list \<Rightarrow> bool" where
  "events_edge p q \<longleftrightarrow> fst q = fst p \<and>
     (\<exists>es. snd q = snd p @ es \<and> (\<forall>e \<in> set es. ev_setup_job_id e = fst p))"

definition events_of :: "ident \<Rightarrow> 't app \<Rightarrow> (ident \<times> setup_event list) option" where
  "events_of i s = Some (i, list_setup_events i s)"

lemma events_edge_refl: "events_edge p p"
  by (simp add: events_edge_def)

lemma events_edge_trans: "events_edge p q \<Longrightarrow> events_edge q r \<Longrightarrow> events_edge p r"
  by (auto simp: events_edge_def)

lemma events_step:
  assumes "job_step l s s'"
  shows "events_edge (i, list_setup_events i s) (i, list_setup_events i s')"
  using assms
proof (induction rule: job_step.induct)
  case (js_create a secret s w actor)
  then show ?case
    by (auto simp: events_edge_def job_create_def Let_def add_is_save list_events_add)
next
  case (js_cancel k s actor)
  then show ?case
    by (auto simp: events_edge_def job_cancel_def Let_def transition_setup_job_def list_events_add
        split: sum.splits option.splits)
next
  case (js_claim s)
  then show ?case
    by (auto simp: events_edge_def job_claim_next_def claim_next_setup_job_def Let_def list_events_add
        split: option.splits)
next
  case (js_step a b k m s)
  then show ?case
    by (auto simp: events_edge_def job_set_step_def transition_setup_job_def Let_def list_events_add
        split: option.splits)
next
  case (js_success k n s)
  then show ?case
    by (auto simp: events_edge_def job_finish_success_def transition_setup_job_def Let_def
        list_events_add split: option.splits)
next
  case (js_fail k m s)
  then show ?case
    by (auto simp: events_edge_def job_finish_failed_def transition_setup_job_def Let_def
        list_events_add split: option.splits)
next
  case (js_forget k s)
  then show ?case by (simp add: events_edge_refl)
next
  case (js_event j l st m s)
  then show ?case by (auto simp: events_edge_def list_events_add)
next
  case (js_else s s')
  then show ?case using list_events_cong [of s' s i] by (simp add: jobs_same_def events_edge_refl)
qed

interpretation events: tracked job_step "\<lambda>_. True" events_of events_edge
  by unfold_locales (auto simp: events_of_def events_step)

text \<open>
  The events of a job are only ever added to, at the end, and what is added is about
  that job.
\<close>

theorem setup_events_append:
  assumes "run job_step s ls s'"
  shows "\<exists>es. list_setup_events i s' = list_setup_events i s @ es \<and>
    (\<forall>e \<in> set es. ev_setup_job_id e = i)"
proof -
  have "events_edge\<^sup>*\<^sup>* (i, list_setup_events i s) (i, list_setup_events i s')"
    using events.run_path [OF assms, of i] by (auto simp: events_of_def)
  then have "events_edge (i, list_setup_events i s) (i, list_setup_events i s')"
    by (induction rule: rtranclp.induct) (blast intro: events_edge_refl events_edge_trans)+
  then show ?thesis by (simp add: events_edge_def)
qed

theorem setup_events_append_witness:
  "\<exists>es. list_setup_events ''u0'' (snd (job_claim_next (queued_app ())))
     = list_setup_events ''u0'' (queued_app ()) @ es"
proof -
  have "run job_step (queued_app ()) [Op_claim] (snd (job_claim_next (queued_app ())))"
    by (rule run_cons, rule js_claim, rule run_nil)
  from setup_events_append [OF this, of "''u0''"] show ?thesis by blast
qed

section \<open>The secret is never stored\<close>

text \<open>
  Two states of the process that differ in the secrets alone are \<open>alike\<close>; so are two operations
  that differ in the secret handed in, blank or not.
\<close>

definition hide_secrets :: "'t app \<Rightarrow> 't app" where
  "hide_secrets s = s\<lparr>ssh_secrets := []\<rparr>"

fun hide_op :: "job_op \<Rightarrow> job_op" where
  "hide_op (Op_create a p) = Op_create a (if py_strip p = [] then [] else ''*'')"
| "hide_op l = l"

lemma hide_world [simp]:
  "now (hide_secrets s) = now s" "new_uuid (hide_secrets s) = new_uuid s"
  "setup_jobs (hide_secrets s) = setup_jobs s"
  by (simp_all add: hide_secrets_def now_def new_uuid_def)

lemma hide_storage:
  "tick (hide_secrets s) = hide_secrets (tick s)"
  "use_uuid (hide_secrets s) = hide_secrets (use_uuid s)"
  "save_setup_job j (hide_secrets s) = hide_secrets (save_setup_job j s)"
  "audit a x (hide_secrets s) = hide_secrets (audit a x s)"
  "add_event j l st m (hide_secrets s) = hide_secrets (add_event j l st m s)"
  "hide_secrets (forget_ephemeral_ssh_secret i s) = hide_secrets s"
  "hide_secrets (remember_secret i p s) = hide_secrets s"
  by (simp_all add: hide_secrets_def tick_def use_uuid_def save_setup_job_def audit_def add_event_def
      add_setup_event_def add_audit_entry_def forget_ephemeral_ssh_secret_def remember_secret_def
      now_def new_uuid_def)

lemma hide_idem [simp]: "hide_secrets (hide_secrets s) = hide_secrets s"
  by (simp add: hide_secrets_def)

lemma hide_transition:
  "transition_setup_job i ex vals (hide_secrets s) =
     (let (r, t) = transition_setup_job i ex vals s in (r, hide_secrets t))"
  by (simp add: transition_setup_job_def hide_storage split: option.split)

lemma hide_claim:
  "claim_next_setup_job tm st (hide_secrets s) =
     (let (r, t) = claim_next_setup_job tm st s in (r, hide_secrets t))"
  by (simp add: claim_next_setup_job_def next_queued_setup_job_def hide_storage Let_def
      split: option.split list.split)

text \<open>The results of the operations, the secrets apart, do not depend on the secrets.\<close>

lemma hide_create:
  assumes "py_strip p = [] \<longleftrightarrow> py_strip q = []"
  shows "hide_secrets (snd (job_create w actor a p s))
    = hide_secrets (snd (job_create w actor a q (hide_secrets s)))"
  using assms by (simp add: job_create_def Let_def add_is_save hide_storage
      hide_storage(1-5) [symmetric] del: hide_storage(1-5))

lemma hide_forget:
  "forget_ephemeral_ssh_secret i (hide_secrets s) = hide_secrets s"
  by (simp add: hide_secrets_def forget_ephemeral_ssh_secret_def)

lemma hide_cancel:
  "hide_secrets (snd (job_cancel a i s)) = hide_secrets (snd (job_cancel a i (hide_secrets s)))"
  by (simp add: job_cancel_def job_get_def get_setup_job_def Let_def hide_storage(1) hide_transition
      hide_forget hide_storage(4-6) hide_storage(4,5) [symmetric] split_beta
      del: hide_storage(4,5) split: option.split)

lemma hide_claim_next:
  "hide_secrets (snd (job_claim_next s)) = hide_secrets (snd (job_claim_next (hide_secrets s)))"
  by (simp add: job_claim_next_def hide_storage(1,5) hide_claim split_beta Let_def
      split: option.split prod.split)

lemma hide_set_step:
  "hide_secrets (snd (job_set_step i ex st m s))
    = hide_secrets (snd (job_set_step i ex st m (hide_secrets s)))"
  by (simp add: job_set_step_def hide_storage(1,5) hide_transition split_beta Let_def
      split: option.split prod.split)

lemma hide_success:
  "hide_secrets (snd (job_finish_success i n s))
    = hide_secrets (snd (job_finish_success i n (hide_secrets s)))"
  by (simp add: job_finish_success_def hide_storage(1) hide_transition split_beta Let_def
      hide_forget hide_storage(6) hide_storage(4,5) [symmetric]
      split: option.split prod.split)

lemma hide_failed:
  "hide_secrets (snd (job_finish_failed i m s))
    = hide_secrets (snd (job_finish_failed i m (hide_secrets s)))"
  by (simp add: job_finish_failed_def hide_storage(1) hide_transition split_beta Let_def
      hide_forget hide_storage(6) hide_storage(4,5) [symmetric]
      split: option.split prod.split)

text \<open>So a step can be repeated with other secrets, with the same effect but for them.\<close>

lemma hide_step_aux:
  assumes "job_step l s t"
  shows "\<And>s0 l0. hide_secrets s = hide_secrets s0 \<Longrightarrow> hide_op l = hide_op l0 \<Longrightarrow>
    \<exists>t0. job_step l0 s0 t0 \<and> hide_secrets t0 = hide_secrets t"
  using assms
proof (induction rule: job_step.induct)
  case (js_create a p s w actor)
  then obtain q where q: "l0 = Op_create a q" "py_strip p = [] \<longleftrightarrow> py_strip q = []"
    by (cases l0) (auto split: if_splits)
  then show ?case
    using hide_create [OF q(2), where w = w and actor = actor and a = a and s = s]
      hide_create [OF refl, where p = q and w = w and actor = actor and a = a and s = s0] js_create(1)
    by (intro exI [of _ "snd (job_create w actor a q s0)"]) (simp add: job_step.js_create)
next
  case (js_cancel i s actor)
  then have "l0 = Op_cancel i" by (cases l0) (auto split: if_splits)
  then show ?case
    using hide_cancel [of actor i s] hide_cancel [of actor i s0] js_cancel(1)
    by (intro exI [of _ "snd (job_cancel actor i s0)"]) (simp add: job_step.js_cancel)
next
  case (js_claim s)
  then have "l0 = Op_claim" by (cases l0) (auto split: if_splits)
  then show ?case
    using hide_claim_next [of s] hide_claim_next [of s0] js_claim(1)
    by (intro exI [of _ "snd (job_claim_next s0)"]) (simp add: job_step.js_claim)
next
  case (js_step a b i m s)
  then have "l0 = Op_step i a b m" by (cases l0) (auto split: if_splits)
  then show ?case
    using hide_set_step [of i "[a]" b m s] hide_set_step [of i "[a]" b m s0] js_step
    by (intro exI [of _ "snd (job_set_step i [a] b m s0)"]) (simp add: job_step.js_step)
next
  case (js_success i n s)
  then have "l0 = Op_success i n" by (cases l0) (auto split: if_splits)
  then show ?case
    using hide_success [of i n s] hide_success [of i n s0] js_success(1)
    by (intro exI [of _ "snd (job_finish_success i n s0)"]) (simp add: job_step.js_success)
next
  case (js_fail i m s)
  then have "l0 = Op_fail i m" by (cases l0) (auto split: if_splits)
  then show ?case
    using hide_failed [of i m s] hide_failed [of i m s0] js_fail(1)
    by (intro exI [of _ "snd (job_finish_failed i m s0)"]) (simp add: job_step.js_fail)
next
  case (js_forget i s)
  then have "l0 = Op_forget i" by (cases l0) (auto split: if_splits)
  then show ?case
    using js_forget(1) by (intro exI [of _ "forget_ephemeral_ssh_secret i s0"])
      (simp add: job_step.js_forget hide_storage(6))
next
  case (js_event j l st m s)
  then have "l0 = Op_event j l st m" by (cases l0) (auto split: if_splits)
  then show ?case
    using js_event(1) by (intro exI [of _ "add_event j l st m s0"])
      (simp add: job_step.js_event hide_storage(5) [symmetric])
next
  case (js_else s t)
  then have l0: "l0 = Op_else" by (cases l0) (auto split: if_splits)
  let ?t = "t\<lparr>ssh_secrets := ssh_secrets s0\<rparr>"
  have "setup_jobs s0 = setup_jobs (hide_secrets s0)" "setup_events s0 = setup_events (hide_secrets s0)"
    "uuid_at s0 = uuid_at (hide_secrets s0)" "uuid_n s0 = uuid_n (hide_secrets s0)"
    by (simp_all add: hide_secrets_def)
  then have "jobs_same s0 ?t"
    using js_else(1) unfolding js_else(2) [symmetric] by (simp add: jobs_same_def hide_secrets_def)
  then show ?case
    unfolding l0 by (intro exI [of _ ?t] conjI job_step.js_else) (simp_all add: hide_secrets_def)
qed

text \<open>
  C22: SECRETS NOT STORED. The SSH passwords and keys handed in are kept beside the storage only: two
  histories that differ in nothing but the secrets (blank where the other is blank) leave the same
  users, jobs, events and audit log, so that nothing stored or logged depends on a secret.
\<close>

theorem secrets_not_stored:
  assumes "run job_step s ls t" "hide_secrets s = hide_secrets s0" "map hide_op ls = map hide_op ls0"
  shows "\<exists>t0. run job_step s0 ls0 t0 \<and> hide_secrets t0 = hide_secrets t"
  using assms
proof (induction arbitrary: s0 ls0 rule: run.induct)
  case (run_nil s)
  then show ?case by (intro exI [of _ s0]) simp
next
  case (run_cons l s s1 ls t)
  then obtain l0 ls1 where ls0: "ls0 = l0 # ls1" "hide_op l = hide_op l0" "map hide_op ls = map hide_op ls1"
    by (cases ls0) auto
  obtain s2 where s2: "job_step l0 s0 s2" "hide_secrets s2 = hide_secrets s1"
    using hide_step_aux [OF run_cons.hyps(1) run_cons.prems(1) ls0(2)] by blast
  obtain t0 where t0: "run job_step s2 ls1 t0" "hide_secrets t0 = hide_secrets t"
    using run_cons.IH [OF s2(2) [symmetric] ls0(3)] by (elim exE conjE)
  have "run job_step s0 ls0 t0" unfolding ls0(1) by (rule run.run_cons [OF s2(1) t0(1)])
  then show ?case using t0(2) by (intro exI [of _ t0] conjI)
qed

theorem secrets_not_stored_witness:
  "\<exists>t. run job_step (demo_app ()) [Op_create demo_job_args ''other''] t \<and>
     hide_secrets t = hide_secrets (queued_app ())"
proof -
  have r: "run job_step (demo_app ()) [Op_create demo_job_args ''pw''] (queued_app ())"
    unfolding queued_app_def by (rule run_cons, rule js_create, rule run_nil)
  have "map hide_op [Op_create demo_job_args ''pw''] = map hide_op [Op_create demo_job_args ''other'']"
    by code_simp
  from secrets_not_stored [OF r refl this] show ?thesis by blast
qed

end
