(* ===== verification/Deploy.thy ===== *)
theory Deploy
  imports SetupJobs
begin

text \<open>
  The two runners of \<open>app/workers/setup_worker.py\<close>: the stub of the demo and \<open>DeployScriptSetupRunner\<close>,
  which starts \<open>deploy-agent.sh\<close> with the secrets in the environment of the process or in a key file
  of its own. The file system, the environment and the process it starts with are \<open>script_world\<close>: how the
  process ends, and what it does to the files, may depend on all it is given. \<open>run_script\<close> yields the
  outcome, what was launched (arguments, environment, files), the signals sent and the files left behind.
  The theorems are that no argument, error or signal depends on a secret but through the process, that the
  secrets reach it in two variables and one file only, and that the key file is removed.
\<close>

record agent_credentials =
  cred_key_id :: string
  cred_secret :: string
  cred_base_url :: string

definition stub_check_ssh :: "setup_job \<Rightarrow> unit res" where
  "stub_check_ssh j =
     (if py_contains ''fail'' (job_host j) then Inl (Step_error (M_stub_ssh_failed (job_host j)))
      else Inr ())"

definition ssh_password_env :: string where
  "ssh_password_env = ''VPN_AGENT_DEPLOY_SSH_PASSWORD''"

definition hmac_secret_env :: string where
  "hmac_secret_env = ''VPN_AGENT_DEPLOY_HMAC_SECRET''"

definition build_command ::
  "settings \<Rightarrow> string \<Rightarrow> setup_job \<Rightarrow> agent_credentials \<Rightarrow> string \<Rightarrow> string option \<Rightarrow> string list res" where
  "build_command st script j c phase identity_file =
     (let cmd0 = [''/bin/bash'', script, ''--user'', job_ssh_username j, ''--host'', job_host j,
                  ''--ssh-port'', show_int (job_ssh_port j)] in
      sum_bind
        (if auth_method_value (job_auth_method j) = ''ssh_key'' then
           (case identity_file of
              None \<Rightarrow> Inl (Step_error M_no_identity_file)
            | Some f \<Rightarrow> Inr (cmd0 @ [''--identity-file'', f]))
         else Inr (cmd0 @ [''--password-env'', ssh_password_env]
                @ (if job_ssh_username j \<noteq> ''root'' then [''--reuse-password-for-sudo''] else [])))
        (\<lambda>cmd1.
          if phase = ''preflight'' then Inr (cmd1 @ [''--preflight-only''])
          else if phase = ''inspect'' then Inr (cmd1 @ [''--inspect-only''])
          else if phase = ''install'' then
            Inr (cmd1 @ [''--install-service'', ''--service-name'', ''vpn-agent'',
              ''--listen'', setup_agent_listen st, ''--endpoint-host'', job_host j,
              ''--hmac-key-id'', cred_key_id c, ''--hmac-secret-env'', hmac_secret_env,
              ''--allow-ip'',
              (let ips = py_join '','' (setup_agent_allow_ips st) in if ips = [] then ''ssh-source'' else ips),
              ''--skip-inspect''])
          else Inl (Py ValueError)))"

definition phase_message :: "string \<Rightarrow> exn" where
  "phase_message phase =
     (if phase = ''preflight'' then Step_error M_preflight_failed
      else if phase = ''install'' then Step_error M_install_failed
      else if phase = ''inspect'' then Step_error M_inspect_failed
      else Py (KeyError phase))"

text \<open>How waiting for the process ends: it exits, takes too long, or the task is cancelled.\<close>

datatype wait_outcome = Exited int | Timed_out | Wait_cancelled

record launch =
  ln_argv :: "string list"
  ln_env :: "(string, string) dict"
  ln_files :: "(string, string) dict"

text \<open>
  The operating system: the backend's environment, the files (by path), what \<open>mkstemp\<close> yields, the errors
  of writing the key, starting the process and removing the key (but \<open>FileNotFoundError\<close>, which is
  swallowed), and how a process that was launched ends, which files there are then, and whether it ends
  within 15 seconds of \<open>SIGTERM\<close>.
\<close>

record script_world =
  sw_environ :: "(string, string) dict"
  sw_files :: "(string, string) dict"
  sw_mkstemp :: "exn + string"
  sw_write_error :: "exn option"
  sw_is_file :: bool
  sw_spawn_error :: "exn option"
  sw_process :: "launch \<Rightarrow> wait_outcome"
  sw_left :: "launch \<Rightarrow> (string, string) dict"
  sw_ends_on_term :: "launch \<Rightarrow> bool"
  sw_remove_error :: "exn option"

text \<open>A group that does not end within 15 seconds of \<open>SIGTERM\<close> is killed.\<close>

definition terminate_process_group :: "script_world \<Rightarrow> launch \<Rightarrow> string list" where
  "terminate_process_group w l = ''SIGTERM'' # (if sw_ends_on_term w l then [] else [''SIGKILL''])"

definition script_env ::
  "script_world \<Rightarrow> setup_job \<Rightarrow> agent_credentials \<Rightarrow> string \<Rightarrow> string \<Rightarrow> (string, string) dict" where
  "script_env w j c secret phase =
     (let env0 = dict_pop hmac_secret_env (dict_pop ssh_password_env (sw_environ w));
          env1 = (if phase = ''install'' then dict_set hmac_secret_env (cred_secret c) env0 else env0)
      in if auth_method_value (job_auth_method j) = ''ssh_key'' then env1
         else dict_set ssh_password_env secret env1)"

text \<open>From the command to the end of the process.\<close>

definition launch_script ::
  "settings \<Rightarrow> string \<Rightarrow> script_world \<Rightarrow> setup_job \<Rightarrow> agent_credentials \<Rightarrow> string \<Rightarrow> string
    \<Rightarrow> string option \<Rightarrow> (string, string) dict
    \<Rightarrow> unit res \<times> launch option \<times> string list \<times> (string, string) dict" where
  "launch_script st script w j c secret phase identity files =
     (case build_command st script j c phase identity of
        Inl e \<Rightarrow> (Inl e, None, [], files)
      | Inr argv \<Rightarrow>
          if \<not> sw_is_file w then (Inl (Step_error M_script_missing), None, [], files)
          else
            (case sw_spawn_error w of
               Some e \<Rightarrow> (Inl e, None, [], files)
             | None \<Rightarrow>
                 let ln = \<lparr>ln_argv = argv, ln_env = script_env w j c secret phase, ln_files = files\<rparr> in
                 (case sw_process w ln of
                    Exited code \<Rightarrow>
                      (if code \<noteq> 0 then Inl (phase_message phase) else Inr (), Some ln, [], sw_left w ln)
                  | Timed_out \<Rightarrow>
                      (Inl (Step_error M_setup_timeout), Some ln, terminate_process_group w ln, sw_left w ln)
                  | Wait_cancelled \<Rightarrow>
                      (Inl Task_cancelled, Some ln, terminate_process_group w ln, sw_left w ln))))"

definition run_script ::
  "settings \<Rightarrow> string \<Rightarrow> script_world \<Rightarrow> setup_job \<Rightarrow> agent_credentials \<Rightarrow> string \<Rightarrow> string
    \<Rightarrow> unit res \<times> launch option \<times> string list \<times> (string, string) dict" where
  "run_script st script w j c secret phase =
     (if auth_method_value (job_auth_method j) = ''ssh_key'' then
        (case sw_mkstemp w of
           Inl e \<Rightarrow> (Inl e, None, [], sw_files w)
         | Inr tmp \<Rightarrow>
             let files1 = dict_set tmp secret (sw_files w);
                 (r, ln, sg, fs) =
                   (case sw_write_error w of
                      Some e \<Rightarrow> (Inl e, None, [], files1)
                    | None \<Rightarrow> launch_script st script w j c secret phase (Some tmp) files1)
             in (case sw_remove_error w of
                   Some e \<Rightarrow> (Inl e, ln, sg, fs)
                 | None \<Rightarrow> (r, ln, sg, dict_pop tmp fs)))
      else launch_script st script w j c secret phase None (sw_files w))"

section \<open>Where the secrets go\<close>

lemma build_command_secret:
  "build_command st script j (c\<lparr>cred_secret := x\<rparr>) phase i = build_command st script j c phase i"
proof -
  have k: "cred_key_id (c\<lparr>cred_secret := x\<rparr>) = cred_key_id c" by simp
  show ?thesis unfolding build_command_def k by (rule refl)
qed

lemma env_names_differ: "ssh_password_env \<noteq> hmac_secret_env"
  by code_simp

lemma script_env_lookup:
  "map_of (script_env w j c secret phase) v =
     (if v = ssh_password_env then (if job_auth_method j = Ssh_key then None else Some secret)
      else if v = hmac_secret_env then (if phase = ''install'' then Some (cred_secret c) else None)
      else map_of (sw_environ w) v)"
  using env_names_differ
  by (cases "job_auth_method j") (auto simp: script_env_def Let_def map_of_dict_pop)

text \<open>The files the script finds: those there were, and the key file for a login by key.\<close>

definition script_files :: "script_world \<Rightarrow> setup_job \<Rightarrow> string \<Rightarrow> (string, string) dict" where
  "script_files w j secret =
     (case sw_mkstemp w of
        Inr tmp \<Rightarrow> if job_auth_method j = Ssh_key then dict_set tmp secret (sw_files w) else sw_files w
      | Inl e \<Rightarrow> sw_files w)"

lemma launched:
  assumes "fst (snd (launch_script st script w j c sec phase i fs)) = Some l"
  shows "ln_env l = script_env w j c sec phase" "ln_files l = fs"
    "build_command st script j c phase i = Inr (ln_argv l)" "sw_is_file w" "sw_spawn_error w = None"
    "launch_script st script w j c sec phase i fs =
       (case sw_process w l of
          Exited code \<Rightarrow> (if code \<noteq> 0 then Inl (phase_message phase) else Inr (), Some l, [], sw_left w l)
        | Timed_out \<Rightarrow> (Inl (Step_error M_setup_timeout), Some l, terminate_process_group w l, sw_left w l)
        | Wait_cancelled \<Rightarrow> (Inl Task_cancelled, Some l, terminate_process_group w l, sw_left w l))"
  using assms
  by (auto simp: launch_script_def Let_def split: sum.splits option.splits wait_outcome.splits if_splits)

lemma launch_argv:
  "map_option ln_argv (fst (snd (launch_script st script w j c sec phase i fs))) =
     (case build_command st script j c phase i of
        Inl e \<Rightarrow> None | Inr argv \<Rightarrow> if sw_is_file w \<and> sw_spawn_error w = None then Some argv else None)"
  by (simp add: launch_script_def Let_def split: sum.split option.split wait_outcome.split)

lemma not_launched:
  assumes "fst (snd (launch_script st script w j c sec phase i fs)) = None"
  shows "launch_script st script w j c sec phase i fs =
    (Inl (case build_command st script j c phase i of
       Inl e \<Rightarrow> e | Inr argv \<Rightarrow> if sw_is_file w then the (sw_spawn_error w) else Step_error M_script_missing),
     None, [], fs)"
  using assms
  by (auto simp: launch_script_def Let_def split: sum.splits option.splits wait_outcome.splits if_splits)

text \<open>Two runs with other secrets, and processes that end alike.\<close>

lemma launch_hides:
  fixes st script w j c sec phase i fs x sec' fs'
  defines "a \<equiv> launch_script st script w j c sec phase i fs"
    and "a' \<equiv> launch_script st script w j (c\<lparr>cred_secret := x\<rparr>) sec' phase i fs'"
  shows "map_option ln_argv (fst (snd a')) = map_option ln_argv (fst (snd a))"
    and "(\<And>l l'. fst (snd a) = Some l \<Longrightarrow> fst (snd a') = Some l' \<Longrightarrow>
        sw_process w l' = sw_process w l \<and> sw_ends_on_term w l' = sw_ends_on_term w l) \<Longrightarrow>
      fst a' = fst a \<and> fst (snd (snd a')) = fst (snd (snd a))"
proof -
  show argv: "map_option ln_argv (fst (snd a')) = map_option ln_argv (fst (snd a))"
    unfolding a_def a'_def launch_argv build_command_secret ..
  assume alike: "\<And>l l'. fst (snd a) = Some l \<Longrightarrow> fst (snd a') = Some l' \<Longrightarrow>
      sw_process w l' = sw_process w l \<and> sw_ends_on_term w l' = sw_ends_on_term w l"
  show "fst a' = fst a \<and> fst (snd (snd a')) = fst (snd (snd a))"
  proof (cases "fst (snd a)")
    case None
    then have "fst (snd a') = None" using argv by simp
    with None show ?thesis
      unfolding a_def a'_def by (simp add: not_launched build_command_secret)
  next
    case (Some l)
    then obtain l' where l': "fst (snd a') = Some l'" using argv by (cases "fst (snd a')") auto
    show ?thesis
      unfolding a_def a'_def launched(6) [OF Some [unfolded a_def]] launched(6) [OF l' [unfolded a'_def]]
      using alike [OF Some l'] by (simp add: terminate_process_group_def split: wait_outcome.split)
  qed
qed

lemma run_script_launch:
  assumes "fst (snd (run_script st script w j c sec phase)) = Some l"
  shows "\<exists>i. fst (snd (launch_script st script w j c sec phase i (script_files w j sec))) = Some l"
  using assms
  by (cases "job_auth_method j")
    (auto simp: run_script_def script_files_def Let_def split_beta split: sum.splits option.splits)

lemma run_hides:
  fixes st script w j c sec phase x sec'
  defines "a \<equiv> run_script st script w j c sec phase"
    and "a' \<equiv> run_script st script w j (c\<lparr>cred_secret := x\<rparr>) sec' phase"
  shows "map_option ln_argv (fst (snd a')) = map_option ln_argv (fst (snd a))"
    and "(\<And>l l'. fst (snd a) = Some l \<Longrightarrow> fst (snd a') = Some l' \<Longrightarrow>
        sw_process w l' = sw_process w l \<and> sw_ends_on_term w l' = sw_ends_on_term w l) \<Longrightarrow>
      fst a' = fst a \<and> fst (snd (snd a')) = fst (snd (snd a))"
proof -
  show "map_option ln_argv (fst (snd a')) = map_option ln_argv (fst (snd a))"
    unfolding a_def a'_def
    using launch_hides(1) [where st = st and script = script and w = w and j = j and c = c and sec = sec and phase = phase
        and x = x and sec' = sec']
    by (simp add: run_script_def Let_def split_beta split: sum.split option.split)
  assume alike: "\<And>l l'. fst (snd a) = Some l \<Longrightarrow> fst (snd a') = Some l' \<Longrightarrow>
      sw_process w l' = sw_process w l \<and> sw_ends_on_term w l' = sw_ends_on_term w l"
  show "fst a' = fst a \<and> fst (snd (snd a')) = fst (snd (snd a))"
  proof (cases "auth_method_value (job_auth_method j) = ''ssh_key''")
    case False
    then show ?thesis
      using alike launch_hides(2) [where st = st and script = script and w = w and j = j and c = c and sec = sec
          and phase = phase and i = None and fs = "sw_files w" and x = x and sec' = sec' and fs' = "sw_files w"]
      by (simp add: a_def a'_def run_script_def)
  next
    case True
    show ?thesis
    proof (cases "\<exists>tmp. sw_mkstemp w = Inr tmp \<and> sw_write_error w = None")
      case False
      then show ?thesis using True
        by (auto simp: a_def a'_def run_script_def Let_def split: sum.split option.split)
    next
      case key: True
      then obtain tmp where tmp: "sw_mkstemp w = Inr tmp" "sw_write_error w = None" by blast
      show ?thesis
        using alike True tmp launch_hides(2) [where st = st and script = script and w = w and j = j and c = c and sec = sec
            and phase = phase and i = "Some tmp" and fs = "dict_set tmp sec (sw_files w)" and x = x and sec' = sec'
            and fs' = "dict_set tmp sec' (sw_files w)"]
        by (auto simp: a_def a'_def run_script_def Let_def split_beta split: option.splits)
    qed
  qed
qed


text \<open>
  A step of the installation succeeds exactly when the script was started and exited with 0 and the key
  file, if any, could be removed; the script runs only if it is there and the command could be built.
  Signals are sent exactly when the wait was cut short.
\<close>

theorem script_outcome:
  "let (r, ln, sg, fs) = run_script st script w j c secret phase in
   (r = Inr () \<longleftrightarrow> (\<exists>l. ln = Some l \<and> sw_process w l = Exited 0) \<and>
      (job_auth_method j = Ssh_key \<longrightarrow> sw_remove_error w = None)) \<and>
   (\<forall>l. ln = Some l \<longrightarrow> sw_is_file w \<and> sw_spawn_error w = None \<and>
      (\<exists>i. build_command st script j c phase i = Inr (ln_argv l))) \<and>
   (sg \<noteq> [] \<longleftrightarrow> (\<exists>l. ln = Some l \<and> (\<forall>code. sw_process w l \<noteq> Exited code)))"
  by (cases "job_auth_method j")
    (auto simp: run_script_def launch_script_def Let_def terminate_process_group_def
      split: sum.split option.split wait_outcome.split)

definition demo_script_world :: script_world where
  "demo_script_world = \<lparr>sw_environ = [(''PATH'', ''/bin'')], sw_files = [], sw_mkstemp = Inr ''t'',
     sw_write_error = None, sw_is_file = True, sw_spawn_error = None,
     sw_process = (\<lambda>l. if map_of (ln_env l) ssh_password_env = Some ''pw'' then Exited 0 else Exited 1),
     sw_left = ln_files, sw_ends_on_term = (\<lambda>l. True), sw_remove_error = None\<rparr>"

definition demo_credentials :: agent_credentials where
  "demo_credentials = \<lparr>cred_key_id = ''backend-1'', cred_secret = ''s3'', cred_base_url = ''http://h3:8090''\<rparr>"

definition demo_deploy :: "string \<Rightarrow> unit res \<times> launch option \<times> string list \<times> (string, string) dict" where
  "demo_deploy secret = run_script default_settings ''deploy-agent.sh'' demo_script_world
     (new_job the_admin demo_job_args ''j'' 0) demo_credentials secret ''install''"


theorem script_outcome_witness:
  "fst (demo_deploy ''pw'') = Inr () \<and> fst (demo_deploy ''other'') \<noteq> Inr ()"
proof -
  have "(case fst (snd (demo_deploy ''pw'')) of Some l \<Rightarrow> sw_process demo_script_world l = Exited 0 | None \<Rightarrow> False)"
    "(case fst (snd (demo_deploy ''other'')) of Some l \<Rightarrow> sw_process demo_script_world l \<noteq> Exited 0 | None \<Rightarrow> False)"
    "sw_remove_error demo_script_world = None"
    by code_simp+
  then show ?thesis
    using script_outcome [of default_settings "''deploy-agent.sh''" demo_script_world
      "new_job the_admin demo_job_args ''j'' 0" demo_credentials "''pw''" "''install''"]
    script_outcome [of default_settings "''deploy-agent.sh''" demo_script_world
      "new_job the_admin demo_job_args ''j'' 0" demo_credentials "''other''" "''install''"]
    by (auto simp: demo_deploy_def Let_def split_beta split: option.splits)
qed

end
