(* ===== verification/Worker.thy ===== *)
theory Worker
  imports Deploy Servers
begin

text \<open>
  \<open>SetupWorker\<close> of \<open>app/workers/setup_worker.py\<close>: one turn of its loop claims a job and takes it through
  preflight, installation, check of the VPN and health check, watching all the while whether the job
  has been cancelled.

  A wait is a list of turns. In each the rest of the program runs (\<open>Others f\<close>), after which the worker
  looks at the job, or the worker itself is stopped (\<open>Stop\<close>); \<open>wt_last\<close> is what still happens between
  the last look, or the cancellation, and the end of the operation. An operation that awaits twice gets the
  first answer after \<open>wt_first\<close> turns, or after all of it. A cancelled operation ends with its
  \<open>CancelledError\<close>, which is suppressed, or with the exception \<open>wt_unwind\<close> that it raises on the way out.
  The runner acts on the world outside (\<open>agent_st\<close>).

  What is true of a turn is in \<open>WorkerRuns\<close> and \<open>WorkerNode\<close>.
\<close>

section \<open>Leaving early\<close>

text \<open>
  How a part of \<open>_run_job\<close> ends: it goes on with a value, returns, returns where \<open>job\<close> is \<open>None\<close>
  (the \<open>finally\<close> clause then fails on \<open>job.id\<close>), or raises.
\<close>

datatype 'a flow = Go 'a | Leave | Lost | Raise exn

definition flow_bind ::
  "('s \<Rightarrow> 'a flow \<times> 's) \<Rightarrow> ('a \<Rightarrow> 's \<Rightarrow> 'b flow \<times> 's) \<Rightarrow> 's \<Rightarrow> 'b flow \<times> 's" where
  "flow_bind m k s =
     (case m s of
        (Go a, s1) \<Rightarrow> k a s1
      | (Leave, s1) \<Rightarrow> (Leave, s1)
      | (Lost, s1) \<Rightarrow> (Lost, s1)
      | (Raise e, s1) \<Rightarrow> (Raise e, s1))"

definition flow_return :: "'a \<Rightarrow> 's \<Rightarrow> 'a flow \<times> 's" where
  "flow_return a s = (Go a, s)"

definition flow_raise :: "exn \<Rightarrow> 's \<Rightarrow> 'a flow \<times> 's" where
  "flow_raise e s = (Raise e, s)"

definition flow_state :: "('s \<Rightarrow> 'a \<times> 's) \<Rightarrow> 's \<Rightarrow> 'a flow \<times> 's" where
  "flow_state g s = (let (a, s1) = g s in (Go a, s1))"

definition flow_res :: "('s \<Rightarrow> 'a res \<times> 's) \<Rightarrow> 's \<Rightarrow> 'a flow \<times> 's" where
  "flow_res g s = (case g s of (Inl e, s1) \<Rightarrow> (Raise e, s1) | (Inr a, s1) \<Rightarrow> (Go a, s1))"

section \<open>Waiting\<close>

datatype 't turn = Others "'t app \<Rightarrow> 't app" | Stop

record 't wait =
  wt_turns :: "'t turn list"
  wt_last :: "'t app \<Rightarrow> 't app"
  wt_first :: "nat option"
  wt_outside :: "'t \<Rightarrow> 't"
  wt_unwind :: "exn option"

fun others :: "'t turn list \<Rightarrow> 't app \<Rightarrow> 't app" where
  "others [] s = s"
| "others (Others f # ts) s = others ts (f s)"
| "others (Stop # ts) s = s"

fun watch :: "ident \<Rightarrow> 't turn list \<Rightarrow> 't app \<Rightarrow> unit flow \<times> 't app" where
  "watch i [] s = (Go (), s)"
| "watch i (Stop # ts) s = (Raise Task_cancelled, s)"
| "watch i (Others f # ts) s =
     (let s1 = f s in
      case job_get i s1 of
        Inl e \<Rightarrow> (Raise e, s1)
      | Inr j \<Rightarrow> if job_status j = Cancelled then (Leave, s1) else watch i ts s1)"

text \<open>What happens during the first and during the second \<open>await\<close> of an operation that is not cancelled.\<close>

definition first_wait :: "'t wait \<Rightarrow> 't app \<Rightarrow> 't app" where
  "first_wait w s =
     (case wt_first w of
        None \<Rightarrow> wt_last w (others (wt_turns w) s) | Some n \<Rightarrow> others (take n (wt_turns w)) s)"

definition second_wait :: "'t wait \<Rightarrow> 't app \<Rightarrow> 't app" where
  "second_wait w s =
     (case wt_first w of None \<Rightarrow> s | Some n \<Rightarrow> wt_last w (others (drop n (wt_turns w)) s))"

text \<open>What \<open>await task\<close> leaves of \<open>x\<close> after \<open>task.cancel()\<close>.\<close>

definition unwound :: "'t wait \<Rightarrow> 'a flow \<Rightarrow> 'a flow" where
  "unwound w x =
     (case wt_unwind w of None \<Rightarrow> x | Some e \<Rightarrow> (case e of Task_cancelled \<Rightarrow> x | _ \<Rightarrow> Raise e))"

text \<open>
  \<open>begin_state\<close> is the state while the operation is under way, \<open>oper f g\<close> the whole operation with \<open>f\<close>
  happening during its first and \<open>g\<close> during its second \<open>await\<close>.
\<close>

definition run_cancellable ::
  "ident \<Rightarrow> 't wait \<Rightarrow> ('t app \<Rightarrow> 't app) \<Rightarrow> (('t app \<Rightarrow> 't app) \<Rightarrow> ('t app \<Rightarrow> 't app) \<Rightarrow> 't app \<Rightarrow> 'a res \<times> 't app)
    \<Rightarrow> 't app \<Rightarrow> 'a flow \<times> 't app" where
  "run_cancellable i w begin_state oper s =
     (case watch i (wt_turns w) (begin_state s) of
        (Go _, _) \<Rightarrow> flow_res (oper (first_wait w) (second_wait w)) s
      | (Leave, s1) \<Rightarrow> (unwound w Leave, wt_last w s1)
      | (Lost, s1) \<Rightarrow> (Lost, s1)
      | (Raise Task_cancelled, s1) \<Rightarrow> (unwound w (Raise Task_cancelled), wt_last w s1)
      | (Raise e, s1) \<Rightarrow> (Raise e, s1))"

definition outside :: "('t \<Rightarrow> 't) \<Rightarrow> 't app \<Rightarrow> 't app" where
  "outside g s = s\<lparr>agent_st := g (agent_st s)\<rparr>"

section \<open>The runner and the credentials\<close>

record 't runner =
  rn_check_ssh :: "setup_job \<Rightarrow> agent_credentials \<Rightarrow> string \<Rightarrow> 't \<Rightarrow> unit res \<times> 't"
  rn_install_agent :: "setup_job \<Rightarrow> agent_credentials \<Rightarrow> string \<Rightarrow> 't \<Rightarrow> unit res \<times> 't"
  rn_install_vpn :: "setup_job \<Rightarrow> agent_credentials \<Rightarrow> string \<Rightarrow> 't \<Rightarrow> unit res \<times> 't"

definition stub_runner :: "'t runner" where
  "stub_runner = \<lparr>rn_check_ssh = (\<lambda>j c p x. (stub_check_ssh j, x)),
     rn_install_agent = (\<lambda>j c p x. (Inr (), x)), rn_install_vpn = (\<lambda>j c p x. (Inr (), x))\<rparr>"

definition deploy_runner :: "settings \<Rightarrow> string \<Rightarrow> ('t \<Rightarrow> script_world \<times> 't) \<Rightarrow> 't runner" where
  "deploy_runner st script world =
     (let phase = (\<lambda>ph j c p x. let (w, x1) = world x in (fst (run_script st script w j c p ph), x1)) in
      \<lparr>rn_check_ssh = phase ''preflight'', rn_install_agent = phase ''install'',
       rn_install_vpn = phase ''inspect''\<rparr>)"

definition runner_step ::
  "('t \<Rightarrow> unit res \<times> 't) \<Rightarrow> ('t app \<Rightarrow> 't app) \<Rightarrow> ('t app \<Rightarrow> 't app) \<Rightarrow> 't app \<Rightarrow> unit res \<times> 't app" where
  "runner_step h f g s = (let s1 = g (f s); (r, x) = h (agent_st s1) in (r, s1\<lparr>agent_st := x\<rparr>))"

text \<open>
  \<open>template.format(host=h)\<close> for plain fields and doubled braces; a field with a conversion, an
  attribute or a format is outside the model.
\<close>

function format_host :: "string \<Rightarrow> string \<Rightarrow> string res" where
  "format_host h [] = Inr []"
| "format_host h (c # cs) =
     (if c = CHR ''{'' then
        (case cs of
           [] \<Rightarrow> Inl (Py ValueError)
         | d # ds \<Rightarrow>
             if d = CHR ''{'' then sum_bind (format_host h ds) (\<lambda>r. Inr (CHR ''{'' # r))
             else
               (let name = takeWhile (\<lambda>x. x \<noteq> CHR ''}'') cs; rest = dropWhile (\<lambda>x. x \<noteq> CHR ''}'') cs in
                case rest of
                  [] \<Rightarrow> Inl (Py ValueError)
                | b # rest1 \<Rightarrow>
                    if name = ''host'' then sum_bind (format_host h rest1) (\<lambda>r. Inr (h @ r))
                    else if \<exists>x \<in> set name. x \<in> set ''.[!:{''
                    then Inl (Py (Ill_typed ''format'')) else Inl (Py (KeyError name))))
      else if c = CHR ''}'' then
        (case cs of
           [] \<Rightarrow> Inl (Py ValueError)
         | d # ds \<Rightarrow>
             if d = CHR ''}'' then sum_bind (format_host h ds) (\<lambda>r. Inr (CHR ''}'' # r))
             else Inl (Py ValueError))
      else sum_bind (format_host h cs) (\<lambda>r. Inr (c # r)))"
  by pat_completeness auto

termination
proof (relation "measure (\<lambda>(h, cs). length cs)", goal_cases)
  case (3 h c cs d ds name rest b rest1)
  then have "length (b # rest1) \<le> length cs" using length_dropWhile_le [of _ cs] by metis
  then show ?case by simp
qed simp_all

definition make_credentials ::
  "settings \<Rightarrow> setup_job \<Rightarrow> 't app \<Rightarrow> agent_credentials res \<times> 't app" where
  "make_credentials st j s =
     (let (k, s1) = generate_agent_key_id s; (p, s2) = generate_agent_secret s1 in
      (sum_bind (format_host (job_host j) (setup_agent_base_url_template st)) (\<lambda>url.
         Inr \<lparr>cred_key_id = k, cred_secret = p, cred_base_url = py_rstrip_char (CHR ''/'') url\<rparr>), s2))"

section \<open>One job\<close>

record 't worker =
  wk_settings :: settings
  wk_agent :: "'t agent_client"
  wk_box :: secret_box
  wk_runner :: "'t runner"

record 't schedule =
  sc_check :: "'t wait"
  sc_install :: "'t wait"
  sc_vpn :: "'t wait"
  sc_health :: "'t wait"

definition flow_event :: "setup_job \<Rightarrow> event_level \<Rightarrow> string \<Rightarrow> message \<Rightarrow> 't app \<Rightarrow> unit flow \<times> 't app" where
  "flow_event j l st m s = (Go (), add_event j l st m s)"

text \<open>\<open>set_step\<close>, with what its \<open>None\<close> leads to.\<close>

definition advance ::
  "setup_job flow \<Rightarrow> ident \<Rightarrow> setup_status \<Rightarrow> setup_status \<Rightarrow> message \<Rightarrow> 't app \<Rightarrow> setup_job flow \<times> 't app" where
  "advance gone i a b m s =
     (case job_set_step i [a] b m s of (None, s1) \<Rightarrow> (gone, s1) | (Some j, s1) \<Rightarrow> (Go j, s1))"

definition wait_runner ::
  "ident \<Rightarrow> 't wait \<Rightarrow> ('t \<Rightarrow> unit res \<times> 't) \<Rightarrow> 't app \<Rightarrow> unit flow \<times> 't app" where
  "wait_runner i w g = run_cancellable i w (outside (wt_outside w)) (runner_step g)"

definition worker_preflight ::
  "'t worker \<Rightarrow> 't schedule \<Rightarrow> setup_job \<Rightarrow> agent_credentials \<Rightarrow> string \<Rightarrow> 't app \<Rightarrow> setup_job flow \<times> 't app" where
  "worker_preflight wk sc j c p =
     flow_bind
       (if job_verify_before_install j
        then wait_runner (job_id j) (sc_check sc) (rn_check_ssh (wk_runner wk) j c p)
        else flow_event j Warn (setup_status_value Checking_ssh) M_ev_preflight_skipped) (\<lambda>_.
     flow_bind (advance Lost (job_id j) Checking_ssh Installing_agent (M_start Installing_agent)) (\<lambda>j1.
     flow_bind
       (if job_verify_before_install j
        then flow_event j1 Info (setup_status_value Checking_ssh) M_ev_preflight_ok
        else flow_return ()) (\<lambda>_.
     flow_return j1)))"

definition worker_vpn ::
  "'t worker \<Rightarrow> 't schedule \<Rightarrow> setup_job \<Rightarrow> agent_credentials \<Rightarrow> string \<Rightarrow> 't app \<Rightarrow> setup_job flow \<times> 't app" where
  "worker_vpn wk sc j c p =
     (if job_install_awg j then
        flow_bind (advance Leave (job_id j) Installing_agent Installing_vpn (M_start Installing_vpn)) (\<lambda>j1.
        flow_bind (flow_event j1 Info (setup_status_value Installing_agent) M_ev_agent_installed) (\<lambda>_.
        flow_bind (wait_runner (job_id j1) (sc_vpn sc) (rn_install_vpn (wk_runner wk) j1 c p)) (\<lambda>_.
        flow_bind (advance Leave (job_id j1) Installing_vpn Verifying M_ev_check_agent) (\<lambda>j2.
        flow_bind (flow_event j2 Info (setup_status_value Installing_vpn) M_ev_vpn_checked) (\<lambda>_.
        flow_return j2)))))
      else
        flow_bind (advance Leave (job_id j) Installing_agent Verifying M_ev_check_agent) (\<lambda>j1.
        flow_bind (flow_event j1 Info (setup_status_value Installing_agent) M_ev_agent_installed) (\<lambda>_.
        flow_bind (flow_event j1 Info (setup_status_value Installing_vpn) M_ev_vpn_skipped) (\<lambda>_.
        flow_return j1))))"

definition worker_finish :: "setup_job \<Rightarrow> server_node \<Rightarrow> 't app \<Rightarrow> unit flow \<times> 't app" where
  "worker_finish j n s =
     (case job_finish_success (job_id j) (node_id n) s of
        (None, s1) \<Rightarrow> (Go (), s1)
      | (Some _, s1) \<Rightarrow>
          (case activate_after_setup (node_id n) (job_available_for_new_devices j) s1 of
             (Inl e, s2) \<Rightarrow> (Raise e, s2)
           | (Inr _, s2) \<Rightarrow> (Go (), s2)))"

definition health_error :: "server_node \<Rightarrow> message" where
  "health_error n =
     (case node_last_error n of
        None \<Rightarrow> M_no_answer
      | Some m \<Rightarrow> if m = M_text [] then M_no_answer else m)"

definition worker_verify ::
  "'t worker \<Rightarrow> 't schedule \<Rightarrow> setup_job \<Rightarrow> agent_credentials \<Rightarrow> 't app \<Rightarrow> unit flow \<times> 't app" where
  "worker_verify wk sc j c =
     flow_bind (flow_state (server_create_from_setup (wk_box wk) j (cred_base_url c) (cred_key_id c)
       (cred_secret c))) (\<lambda>n.
     flow_bind (run_cancellable (job_id j) (sc_health sc)
         (\<lambda>s. outside (wt_outside (sc_health sc)) (tick s))
         (health_check (wk_agent wk) None (node_id n))) (\<lambda>m.
     if node_status m \<notin> {Online, Warning} then flow_raise (Step_error (M_health_failed (health_error m)))
     else worker_finish j n))"

definition worker_body ::
  "'t worker \<Rightarrow> 't schedule \<Rightarrow> setup_job \<Rightarrow> agent_credentials \<Rightarrow> string \<Rightarrow> 't app \<Rightarrow> unit flow \<times> 't app" where
  "worker_body wk sc j c p =
     flow_bind (worker_preflight wk sc j c p) (\<lambda>j1.
     flow_bind (wait_runner (job_id j1) (sc_install sc) (rn_install_agent (wk_runner wk) j1 c p)) (\<lambda>_.
     flow_bind (worker_vpn wk sc j1 c p) (\<lambda>j2.
     worker_verify wk sc j2 c)))"

text \<open>\<open>_run_job\<close>, with the exception that leaves it.\<close>

definition worker_run_job ::
  "'t worker \<Rightarrow> 't schedule \<Rightarrow> setup_job \<Rightarrow> 't app \<Rightarrow> exn option \<times> 't app" where
  "worker_run_job wk sc j s =
     (case get_ephemeral_ssh_secret (job_id j) s of
        None \<Rightarrow> (None, snd (job_finish_failed (job_id j) M_ssh_secret_gone s))
      | Some p \<Rightarrow>
          (case make_credentials (wk_settings wk) j s of
             (Inl e, s1) \<Rightarrow> (Some e, s1)
           | (Inr c, s1) \<Rightarrow>
               (case worker_body wk sc j c p s1 of
                  (Lost, s2) \<Rightarrow> (Some (Py (AttributeError ''id'')), s2)
                | (Raise (Step_error m), s2) \<Rightarrow>
                    (None, forget_ephemeral_ssh_secret (job_id j) (snd (job_finish_failed (job_id j) m s2)))
                | (Raise (App e), s2) \<Rightarrow>
                    (None, forget_ephemeral_ssh_secret (job_id j)
                       (snd (job_finish_failed (job_id j) (err_message e) s2)))
                | (Raise e, s2) \<Rightarrow> (Some e, forget_ephemeral_ssh_secret (job_id j) s2)
                | (Leave, s2) \<Rightarrow> (None, forget_ephemeral_ssh_secret (job_id j) s2)
                | (Go _, s2) \<Rightarrow> (None, forget_ephemeral_ssh_secret (job_id j) s2))))"

text \<open>One turn of \<open>_loop\<close>; \<open>Some Task_cancelled\<close> ends the loop.\<close>

definition worker_turn :: "'t worker \<Rightarrow> 't schedule \<Rightarrow> 't app \<Rightarrow> exn option \<times> 't app" where
  "worker_turn wk sc s =
     (case job_claim_next s of
        (None, s1) \<Rightarrow> (None, s1)
      | (Some j, s1) \<Rightarrow>
          (case worker_run_job wk sc j s1 of
             (None, s2) \<Rightarrow> (None, s2)
           | (Some Task_cancelled, s2) \<Rightarrow>
               (Some Task_cancelled, snd (job_finish_failed (job_id j) M_worker_stopped s2))
           | (Some e, s2) \<Rightarrow> (None, snd (job_finish_failed (job_id j) M_setup_crashed s2))))"

end
