(* ===== verification/WorkerRuns.thy ===== *)
theory WorkerRuns
  imports Worker
begin

text \<open>
  A turn of the worker, with whatever administrators do meanwhile, is a run of the steps of \<open>SetupJobs\<close>,
  and it always brings the claimed job to an end. The parts of \<open>_run_job\<close> are described by triples of
  what holds when they go on, leave early or raise; what is known of the nodes is a parameter of
  these (\<open>node_view\<close>).
\<close>

section \<open>Reasoning about flows\<close>

text \<open>
  \<open>triple P m Q L R\<close>: from a state with \<open>P\<close>, \<open>m\<close> goes on with \<open>Q\<close>, leaves early with \<open>L\<close> or raises
  with \<open>R\<close>.
\<close>

definition triple ::
  "('s \<Rightarrow> bool) \<Rightarrow> ('s \<Rightarrow> 'a flow \<times> 's) \<Rightarrow> ('a \<Rightarrow> 's \<Rightarrow> bool) \<Rightarrow> ('s \<Rightarrow> bool) \<Rightarrow> ('s \<Rightarrow> bool) \<Rightarrow> bool" where
  "triple P m Q L R \<longleftrightarrow> (\<forall>s. P s \<longrightarrow>
     (case m s of
        (Go a, s1) \<Rightarrow> Q a s1
      | (Leave, s1) \<Rightarrow> L s1
      | (Lost, s1) \<Rightarrow> L s1
      | (Raise e, s1) \<Rightarrow> R s1))"

lemma triple_bind:
  assumes "triple P m Q L R" "\<And>a. triple (Q a) (k a) Q' L R"
  shows "triple P (flow_bind m k) Q' L R"
  unfolding triple_def
proof (intro allI impI)
  fix s assume p: "P s"
  obtain q s1 where q: "m s = (q, s1)" by fastforce
  show "case flow_bind m k s of (Go a, s1) \<Rightarrow> Q' a s1 | (Leave, s1) \<Rightarrow> L s1 | (Lost, s1) \<Rightarrow> L s1
      | (Raise e, s1) \<Rightarrow> R s1"
  proof (cases q)
    case (Go a)
    then have "Q a s1" using assms(1) p q by (auto simp: triple_def)
    then show ?thesis using assms(2) [of a] q Go by (simp add: flow_bind_def triple_def)
  qed (use assms(1) p q in \<open>auto simp: triple_def flow_bind_def\<close>)
qed

lemma triple_pre: "triple P m Q L R \<Longrightarrow> (\<And>s. P' s \<Longrightarrow> P s) \<Longrightarrow> triple P' m Q L R"
  by (simp add: triple_def)

lemma triple_post: "triple P m Q L R \<Longrightarrow> (\<And>a s. Q a s \<Longrightarrow> Q' a s) \<Longrightarrow> triple P m Q' L R"
  by (fastforce simp: triple_def split: prod.splits flow.splits)

lemma triple_weaken:
  "triple P m Q L R \<Longrightarrow> (\<And>s. L s \<Longrightarrow> L' s) \<Longrightarrow> (\<And>s. R s \<Longrightarrow> R' s) \<Longrightarrow> triple P m Q L' R'"
  by (fastforce simp: triple_def split: prod.splits flow.splits)

lemma triple_when: "(p \<Longrightarrow> triple P m Q L R) \<Longrightarrow> triple (\<lambda>s. P s \<and> p) m Q L R"
  by (auto simp: triple_def)

lemma triple_return [intro]: "(\<And>s. P s \<Longrightarrow> Q a s) \<Longrightarrow> triple P (flow_return a) Q L R"
  by (simp add: triple_def flow_return_def)

lemma triple_raise [intro]: "(\<And>s. P s \<Longrightarrow> R s) \<Longrightarrow> triple P (flow_raise e) Q L R"
  by (simp add: triple_def flow_raise_def)

lemma triple_state: "(\<And>s. P s \<Longrightarrow> Q (fst (g s)) (snd (g s))) \<Longrightarrow> triple P (flow_state g) Q L R"
  by (simp add: triple_def flow_state_def split_beta)

lemma triple_event: "(\<And>s. P s \<Longrightarrow> Q () (add_event j l st m s)) \<Longrightarrow> triple P (flow_event j l st m) Q L R"
  by (simp add: triple_def flow_event_def)

text \<open>The two rules about waiting: what is true during the wait, and at its end.\<close>

lemma watch_triple:
  assumes "\<And>f s. Others f \<in> set ts \<Longrightarrow> I s \<Longrightarrow> I (f s)"
    and "\<And>s j. I s \<Longrightarrow> get_setup_job i s = Some j \<Longrightarrow> job_status j = Cancelled \<Longrightarrow> L s"
    and "\<And>s. I s \<Longrightarrow> R s"
  shows "triple I (watch i ts) (\<lambda>_ _. True) L R"
  unfolding triple_def
proof (intro allI impI)
  fix s assume "I s"
  with assms(1) show "case watch i ts s of (Go a, s1) \<Rightarrow> True | (Leave, s1) \<Rightarrow> L s1 | (Lost, s1) \<Rightarrow> L s1
      | (Raise e, s1) \<Rightarrow> R s1"
  proof (induction ts arbitrary: s)
    case Nil
    then show ?case by simp
  next
    case (Cons t ts)
    show ?case
    proof (cases t)
      case Stop
      then show ?thesis using assms(3) [OF Cons.prems(2)] by simp
    next
      case (Others f)
      then have now: "I (f s)" using Cons.prems by simp
      show ?thesis
      proof (cases "get_setup_job i (f s)")
        case None
        then show ?thesis using Others assms(3) [OF now] by (simp add: job_get_def)
      next
        case (Some j)
        then show ?thesis
          using Others Cons.IH [OF _ now] Cons.prems(1) assms(2) [OF now Some]
          by (auto simp: job_get_def Let_def)
      qed
    qed
  qed
qed

lemma others_keep:
  "(\<And>f s. Others f \<in> set ts \<Longrightarrow> I s \<Longrightarrow> I (f s)) \<Longrightarrow> I s \<Longrightarrow> I (others ts s)"
  by (induction ts s rule: others.induct) auto

lemma run_cancellable_triple:
  assumes "\<And>f s. Others f \<in> set (wt_turns w) \<Longrightarrow> I s \<Longrightarrow> I (f s)" "\<And>s. I s \<Longrightarrow> I (wt_last w s)"
    and "\<And>s. P s \<Longrightarrow> I (begin_state s)"
    and "\<And>s j. I s \<Longrightarrow> get_setup_job i s = Some j \<Longrightarrow> job_status j = Cancelled \<Longrightarrow> L s"
    and "\<And>s. I s \<Longrightarrow> R s" "\<And>s. L s \<Longrightarrow> L (wt_last w s)" "\<And>s. R s \<Longrightarrow> R (wt_last w s)"
    and "\<And>f g s r s'. (\<And>x. I x \<Longrightarrow> I (f x)) \<Longrightarrow> (\<And>x. I x \<Longrightarrow> I (g x)) \<Longrightarrow> P s \<Longrightarrow> oper f g s = (r, s') \<Longrightarrow>
      (case r of Inr a \<Rightarrow> Q a s' | Inl e \<Rightarrow> R s')"
    and "\<And>s. L s \<Longrightarrow> R s"
  shows "triple P (run_cancellable i w begin_state oper) Q L R"
  unfolding triple_def
proof (intro allI impI)
  fix s assume p: "P s"
  obtain q s1 where q: "watch i (wt_turns w) (begin_state s) = (q, s1)" by fastforce
  have "triple I (watch i (wt_turns w)) (\<lambda>_ _. True) L R"
    by (rule watch_triple [where I = I and i = i]) (use assms(1,4,5) in blast)+
  then have seen: "case q of Go a \<Rightarrow> True | Leave \<Rightarrow> L s1 | Lost \<Rightarrow> L s1 | Raise e \<Rightarrow> R s1"
    using assms(3) [OF p] q by (auto simp: triple_def split: flow.splits)
  obtain r s2 where r: "oper (first_wait w) (second_wait w) s = (r, s2)" by fastforce
  have "I (others ts x)" if "I x" "set ts \<subseteq> set (wt_turns w)" for ts x
    by (rule others_keep [where I = I]) (use assms(1) that in blast)+
  then have "I (first_wait w x)" "I (second_wait w x)" if "I x" for x
    using that assms(2) set_take_subset [of _ "wt_turns w"] set_drop_subset [of _ "wt_turns w"]
    by (auto simp: first_wait_def second_wait_def split: option.split)
  from assms(8) [OF this p r] have "case r of Inr a \<Rightarrow> Q a s2 | Inl e \<Rightarrow> R s2" by blast
  then show "case run_cancellable i w begin_state oper s of (Go a, s1) \<Rightarrow> Q a s1 | (Leave, s1) \<Rightarrow> L s1
      | (Lost, s1) \<Rightarrow> L s1 | (Raise e, s1) \<Rightarrow> R s1"
    using q seen r assms(6,7) by (cases q; cases r) (auto simp: run_cancellable_def flow_res_def unwound_def assms(9) split: exn.split option.split)
qed

section \<open>What happens to the jobs\<close>

lemma jobs_same_refl [simp]: "jobs_same s s"
  by (simp add: jobs_same_def)

lemma jobs_same_trans: "jobs_same s t \<Longrightarrow> jobs_same t u \<Longrightarrow> jobs_same s u"
  by (simp add: jobs_same_def)

lemma jobs_same_simps [simp]:
  "jobs_same s (tick t) = jobs_same s t" "jobs_same s (use_random t) = jobs_same s t"
  "jobs_same s (outside g t) = jobs_same s t" "jobs_same s (t\<lparr>agent_st := x\<rparr>) = jobs_same s t"
  "jobs_same s (save_server_node n t) = jobs_same s t"
  unfolding jobs_same_def outside_def by simp_all

lemma jobs_same_uuid [simp]: "jobs_same s t \<Longrightarrow> jobs_same s (use_uuid t)"
  unfolding jobs_same_def by simp

lemma jobs_same_audit [simp]: "jobs_same s t \<Longrightarrow> jobs_same s (audit a x t)"
  unfolding jobs_same_def audit_def by simp

lemma agent_call_same:
  assumes "agent_call ac n meth path b sg ex s = (r, s')"
  shows "jobs_same s s'"
  using agent_call_state [OF assms] by auto

text \<open>What the probe keeps: what its calls keep and what happens during them keeps.\<close>

lemma health_probe_keeps:
  assumes "health_probe ac live f g s = (r, s')" "I s"
    and "\<And>x. I x \<Longrightarrow> I (f x)" "\<And>x. I x \<Longrightarrow> I (g x)"
    and "\<And>x y. I x \<Longrightarrow> jobs_same x y \<Longrightarrow> server_nodes y = server_nodes x \<Longrightarrow> I y"
  shows "I s'"
proof -
  have call: "I y" if "agent_call ac n meth path b sg ex x = (q, y)" "I x" for n meth path b sg ex x q y
    using assms(5) [OF that(2) agent_call_same [OF that(1)]] agent_call_state [OF that(1)] by auto
  obtain q s1 where q: "agent_health ac (live s) s = (q, s1)" by fastforce
  then have 1: "I (f s1)" using call assms(2,3) unfolding agent_health_def by blast
  obtain p s2 where p: "agent_status ac (live (f s1)) (f s1) = (p, s2)" by fastforce
  then have "I s2" using call 1 unfolding agent_status_def by blast
  then show ?thesis using assms(1,4) q p 1 by (auto simp: health_probe_def Let_def split: sum.splits)
qed

lemma health_finish_same: "jobs_same s (snd (health_finish sh a pr tm r n s))"
  by (simp add: health_finish_def health_failed_def Let_def split: sum.split exn.split app_error.split json.split)

lemma from_setup_same: "jobs_same s (snd (server_create_from_setup bx j u k p s))"
  by (simp add: server_create_from_setup_def Let_def add_is_save)

lemma activate_same: "jobs_same s (snd (activate_after_setup i b s))"
  by (simp add: activate_after_setup_def Let_def split: sum.split)

lemma credentials_same: "jobs_same s (snd (make_credentials st j s))"
  by (simp add: make_credentials_def generate_agent_key_id_def generate_agent_secret_def Let_def)

text \<open>Administrators create and cancel jobs; nothing else moves one while the worker waits.\<close>

fun by_admin :: "job_op \<Rightarrow> bool" where
  "by_admin (job_op.Op_create a p) = True"
| "by_admin (Op_cancel i) = True"
| "by_admin Op_else = True"
| "by_admin l = False"

definition admin_turn :: "('t app \<Rightarrow> 't app) \<Rightarrow> bool" where
  "admin_turn f \<longleftrightarrow> (\<forall>s. \<exists>ls. run job_step s ls (f s) \<and> (\<forall>l \<in> set ls. by_admin l))"

definition calm_wait :: "('t app \<Rightarrow> bool) \<Rightarrow> 't wait \<Rightarrow> bool" where
  "calm_wait N w \<longleftrightarrow> (\<forall>f. f = wt_last w \<or> Others f \<in> set (wt_turns w) \<longrightarrow>
     admin_turn f \<and> (\<forall>s. N s \<longrightarrow> N (f s)))"

definition calm :: "('t app \<Rightarrow> bool) \<Rightarrow> 't schedule \<Rightarrow> bool" where
  "calm N sc \<longleftrightarrow> calm_wait N (sc_check sc) \<and> calm_wait N (sc_install sc) \<and>
     calm_wait N (sc_vpn sc) \<and> calm_wait N (sc_health sc)"

text \<open>What the administrators' turns must be like: without more, and leaving the nodes alone.\<close>

definition admin_schedule :: "'t schedule \<Rightarrow> bool" where
  "admin_schedule sc \<longleftrightarrow> calm (\<lambda>_. True) sc"

definition quiet_wait :: "'t wait \<Rightarrow> bool" where
  "quiet_wait w \<longleftrightarrow> (\<forall>f s. f = wt_last w \<or> Others f \<in> set (wt_turns w) \<longrightarrow> server_nodes (f s) = server_nodes s)"

definition quiet_schedule :: "'t schedule \<Rightarrow> bool" where
  "quiet_schedule sc \<longleftrightarrow> quiet_wait (sc_check sc) \<and> quiet_wait (sc_install sc) \<and>
     quiet_wait (sc_vpn sc) \<and> quiet_wait (sc_health sc)"

lemma cancel_status:
  assumes "jobs_ok s" "get_setup_job i s = Some j"
  shows "\<exists>j'. get_setup_job i (snd (job_cancel actor k s)) = Some j' \<and> (j' = j \<or> job_status j' = Cancelled)"
proof -
  have k: "job_id x = i'" if "get_setup_job i' s = Some x" for i' x
    using that assms(1) by (auto simp: jobs_ok_def dest: jobs_keyed_get)
  show ?thesis
    using assms(2) k [of k]
    by (auto simp: job_cancel_def job_get_def transition_setup_job_def Let_def get_setup_job_def
        save_setup_job_def split: option.split)
qed

lemma create_status:
  assumes "jobs_ok s" "get_setup_job i s = Some j"
  shows "get_setup_job i (snd (job_create w actor a p s)) = Some j"
  using job_create_effect [of s w actor a p]
proof (elim disjE exE)
  assume "stays s (snd (job_create w actor a p s))"
  then show ?thesis using assms(2) by (simp add: stays_def get_setup_job_def)
next
  fix x assume c: "creates x s (snd (job_create w actor a p s))"
  then have "job_id x \<noteq> i" using assms by (auto simp: creates_def jobs_ok_def new_uuid_def)
  then show ?thesis using c assms(2) by (simp add: creates_def get_setup_job_def save_setup_job_def)
qed

lemma admin_run_status:
  assumes "run job_step s ls s'" "\<forall>l \<in> set ls. by_admin l" "jobs_ok s" "get_setup_job i s = Some j"
  shows "\<exists>j'. get_setup_job i s' = Some j' \<and> (j' = j \<or> job_status j' = Cancelled)"
  using assms
proof (induction arbitrary: j rule: run.induct)
  case (run_nil s)
  then show ?case by simp
next
  case (run_cons l s s1 ls s')
  have "\<exists>j1. get_setup_job i s1 = Some j1 \<and> (j1 = j \<or> job_status j1 = Cancelled)"
    using run_cons.hyps(1) run_cons.prems
  proof (induction rule: job_step.induct)
    case (js_create a secret s w actor)
    then show ?case using create_status by blast
  next
    case (js_cancel k s actor)
    then show ?case using cancel_status by blast
  next
    case (js_else s s')
    then show ?case by (simp add: jobs_same_def get_setup_job_def)
  qed simp_all
  then obtain j1 where j1: "get_setup_job i s1 = Some j1" "j1 = j \<or> job_status j1 = Cancelled" by blast
  have "jobs_ok s1" by (rule jobs_ok_step [OF run_cons.prems(2) run_cons.hyps(1)])
  moreover have "\<forall>l \<in> set ls. by_admin l" using run_cons.prems(1) by simp
  ultimately obtain j' where "get_setup_job i s' = Some j'" "j' = j1 \<or> job_status j' = Cancelled"
    using run_cons.IH [OF _ _ j1(1)] by blast
  then show ?case using j1(2) by auto
qed

text \<open>What may happen to the jobs while the worker has the job \<open>i\<close>: it moves no other, and claims none.\<close>

fun for_job :: "ident \<Rightarrow> job_op \<Rightarrow> bool" where
  "for_job i Op_claim = False"
| "for_job i (Op_step k a b m) = (k = i)"
| "for_job i (Op_success k n) = (k = i)"
| "for_job i (Op_fail k m) = (k = i)"
| "for_job i l = True"

lemma by_admin_for: "by_admin l \<Longrightarrow> for_job i l"
  by (cases l) simp_all

text \<open>
  The job \<open>j0\<close> is where the worker took it, or cancelled, and all that happened since \<open>s0\<close> was steps
  of jobs, the worker's own steps being those of \<open>j0\<close>.
\<close>

definition on_way :: "'t app \<Rightarrow> setup_job \<Rightarrow> setup_status set \<Rightarrow> 't app \<Rightarrow> bool" where
  "on_way s0 j0 A s \<longleftrightarrow> jobs_ok s \<and> (\<exists>ls. run job_step s0 ls s \<and> (\<forall>l \<in> set ls. for_job (job_id j0) l)) \<and>
     (\<exists>j. get_setup_job (job_id j0) s = Some j \<and> job_fixed j = job_fixed j0 \<and>
        job_status j \<in> A \<union> {Cancelled})"

lemma on_way_mono: "on_way s0 j0 A s \<Longrightarrow> A \<subseteq> B \<Longrightarrow> on_way s0 j0 B s"
  by (auto simp: on_way_def)

lemma on_way_live: "on_way s0 j0 A s \<Longrightarrow> on_way s0 j0 UNIV s"
  by (erule on_way_mono) simp

lemma on_way_cancelled:
  "on_way s0 j0 A s \<Longrightarrow> get_setup_job (job_id j0) s = Some j \<Longrightarrow> job_status j = Cancelled \<Longrightarrow> on_way s0 j0 {} s"
  by (auto simp: on_way_def)

lemma on_way_run:
  assumes "on_way s0 j0 A s" "run job_step s ls s'" "\<forall>l \<in> set ls. for_job (job_id j0) l"
    and "\<And>j. get_setup_job (job_id j0) s = Some j \<Longrightarrow> job_status j \<in> A \<union> {Cancelled} \<Longrightarrow>
      \<exists>j'. get_setup_job (job_id j0) s' = Some j' \<and> job_status j' \<in> B \<union> {Cancelled}"
  shows "on_way s0 j0 B s'"
proof -
  obtain ks j where w: "jobs_ok s" "run job_step s0 ks s" "get_setup_job (job_id j0) s = Some j"
    "job_fixed j = job_fixed j0" "job_status j \<in> A \<union> {Cancelled}" "\<forall>l \<in> set ks. for_job (job_id j0) l"
    using assms(1) by (auto simp: on_way_def)
  have "run job_step s0 (ks @ ls) s'" using w(2) assms(2) by (auto simp: run_append)
  moreover have "\<forall>l \<in> set (ks @ ls). for_job (job_id j0) l" using w(6) assms(3) by auto
  moreover have "jobs_ok s'" by (rule jobs.run_keep [OF assms(2) w(1)])
  moreover obtain j' where "get_setup_job (job_id j0) s' = Some j'" "job_fixed j' = job_fixed j"
    using jobs.run_path [OF assms(2) w(1,3)] job_path by blast
  ultimately show ?thesis using assms(4) [OF w(3,5)] w(4) unfolding on_way_def by force
qed

lemma on_way_step:
  assumes "on_way s0 j0 A s" "job_step l s s'" "for_job (job_id j0) l"
    and "\<And>j. get_setup_job (job_id j0) s = Some j \<Longrightarrow> job_status j \<in> A \<union> {Cancelled} \<Longrightarrow>
      \<exists>j'. get_setup_job (job_id j0) s' = Some j' \<and> job_status j' \<in> B \<union> {Cancelled}"
  shows "on_way s0 j0 B s'"
proof (rule on_way_run [OF assms(1)])
  show "run job_step s [l] s'" by (rule run_cons, rule assms(2), rule run_nil)
  show "\<forall>l \<in> set [l]. for_job (job_id j0) l" using assms(3) by simp
qed (rule assms(4))

lemma on_way_same: "on_way s0 j0 A s \<Longrightarrow> jobs_same s s' \<Longrightarrow> on_way s0 j0 A s'"
  by (erule on_way_step, rule js_else) (auto simp: jobs_same_def get_setup_job_def)

lemma on_way_admin:
  assumes "on_way s0 j0 A s" "admin_turn f"
  shows "on_way s0 j0 A (f s)"
proof -
  obtain ls where ls: "run job_step s ls (f s)" "\<forall>l \<in> set ls. by_admin l"
    using assms(2) by (auto simp: admin_turn_def)
  have ok: "jobs_ok s" using assms(1) by (simp add: on_way_def)
  show ?thesis
    by (rule on_way_run [OF assms(1) ls(1)]) (use ls(2) by_admin_for admin_run_status [OF ls ok] in fastforce)+
qed

text \<open>The worker's own steps.\<close>

lemma on_way_event: "on_way s0 j0 A s \<Longrightarrow> on_way s0 j0 A (add_event j l st m s)"
  by (erule on_way_step, rule js_event) (simp_all add: get_setup_job_def)

lemma on_way_forget: "on_way s0 j0 A s \<Longrightarrow> on_way s0 j0 A (forget_ephemeral_ssh_secret i s)"
  by (erule on_way_step, rule js_forget) (simp_all add: get_setup_job_def)

lemma on_way_job:
  assumes "on_way s0 j0 A s"
  obtains j where "get_setup_job (job_id j0) s = Some j" "job_fixed j = job_fixed j0" "job_id j = job_id j0"
    "job_status j \<in> A \<union> {Cancelled}"
  using assms by (auto simp: on_way_def job_fixed_def)

lemma advance_on_way:
  assumes "on_way s0 j0 {a} s" "worker_edge a b"
  shows "case job_set_step (job_id j0) [a] b m s of
      (None, s1) \<Rightarrow> on_way s0 j0 {} s1
    | (Some j, s1) \<Rightarrow> on_way s0 j0 {b} s1 \<and> job_fixed j = job_fixed j0"
proof -
  obtain q s1 where q: "job_set_step (job_id j0) [a] b m s = (q, s1)" by fastforce
  have step: "job_step (Op_step (job_id j0) a b m) s s1" using js_step [OF assms(2), of "job_id j0" m s] q by simp
  obtain j1 where j1: "get_setup_job (job_id j0) s = Some j1" "job_fixed j1 = job_fixed j0"
    "job_id j1 = job_id j0" "job_status j1 \<in> {a} \<union> {Cancelled}" by (rule on_way_job [OF assms(1)])
  have ne: "a \<noteq> Cancelled" using worker_edgeD(3) [OF assms(2)] by simp
  show ?thesis
  proof (cases "job_status j1 = a")
    case True
    then have "q = Some (j1\<lparr>job_status := b, job_current_step := step_label b, job_updated_at := now s\<rparr>)"
      and "get_setup_job (job_id j0) s1 = q"
      using q j1 by (auto simp: job_set_step_def transition_setup_job_def Let_def get_setup_job_def
          save_setup_job_def)
    then show ?thesis
      using on_way_step [OF assms(1) step _, of "{b}"] j1 q by (auto simp: job_fixed_def)
  next
    case False
    then have "q = None" "get_setup_job (job_id j0) s1 = Some j1"
      using q j1 by (auto simp: job_set_step_def transition_setup_job_def Let_def get_setup_job_def)
    then show ?thesis
      using on_way_step [OF assms(1) step _, of "{}"] j1 False q ne by auto
  qed
qed

lemma fixed_id: "job_fixed j = job_fixed j0 \<Longrightarrow> job_id j = job_id j0"
  by (simp add: job_fixed_def)

lemma advance_nodes: "server_nodes (snd (job_set_step i ex b m s)) = server_nodes s"
  by (auto simp: job_set_step_def transition_setup_job_def Let_def split: option.split)

text \<open>
  The parts of \<open>_run_job\<close> before there is a node, for whatever is to be known of the nodes: \<open>view\<close>
  is what holds of them.
\<close>

definition at_step ::
  "('t app \<Rightarrow> bool) \<Rightarrow> 't app \<Rightarrow> setup_job \<Rightarrow> setup_status set \<Rightarrow> 't app \<Rightarrow> bool" where
  "at_step view s0 j0 A s \<longleftrightarrow> on_way s0 j0 A s \<and> view s"

locale node_view =
  fixes view :: "'t app \<Rightarrow> bool"
  assumes nodes_only: "view s \<Longrightarrow> server_nodes s' = server_nodes s \<Longrightarrow> view s'"
begin

lemma wait_triple:
  assumes "calm_wait view w" "Success \<notin> A"
    and "\<And>f g s r s'. (\<And>x. at_step view s0 j0 A x \<Longrightarrow> at_step view s0 j0 A (f x)) \<Longrightarrow>
      (\<And>x. at_step view s0 j0 A x \<Longrightarrow> at_step view s0 j0 A (g x)) \<Longrightarrow>
      at_step view s0 j0 A s \<Longrightarrow> oper f g s = (r, s') \<Longrightarrow>
      (case r of Inr a \<Rightarrow> Q a s' | Inl e \<Rightarrow> at_step view s0 j0 A s')"
    and "\<And>s. jobs_same s (start s)" "\<And>s. server_nodes (start s) = server_nodes s"
  shows "triple (at_step view s0 j0 A) (run_cancellable (job_id j0) w start oper)
     Q (at_step view s0 j0 {}) (at_step view s0 j0 (- {Success}))"
proof (rule run_cancellable_triple [where I = "at_step view s0 j0 A"])
  have calm: "at_step view s0 j0 B (f s)"
    if "at_step view s0 j0 B s" "f = wt_last w \<or> Others f \<in> set (wt_turns w)" for B f s
    using that assms(1) by (auto simp: at_step_def calm_wait_def intro: on_way_admin)
  then show "\<And>f s. Others f \<in> set (wt_turns w) \<Longrightarrow> at_step view s0 j0 A s \<Longrightarrow> at_step view s0 j0 A (f s)"
    and "\<And>s. at_step view s0 j0 A s \<Longrightarrow> at_step view s0 j0 A (wt_last w s)"
    and "\<And>s. at_step view s0 j0 {} s \<Longrightarrow> at_step view s0 j0 {} (wt_last w s)"
    and "\<And>s. at_step view s0 j0 (- {Success}) s \<Longrightarrow> at_step view s0 j0 (- {Success}) (wt_last w s)"
    by blast+
  show "at_step view s0 j0 A s \<Longrightarrow> at_step view s0 j0 A (start s)" for s
    using assms(4,5) by (auto simp: at_step_def intro: on_way_same nodes_only)
  show live: "at_step view s0 j0 A s \<Longrightarrow> at_step view s0 j0 (- {Success}) s" for s
    using assms(2) by (auto simp: at_step_def elim: on_way_mono)
  show "at_step view s0 j0 A s \<Longrightarrow> get_setup_job (job_id j0) s = Some j \<Longrightarrow> job_status j = Cancelled \<Longrightarrow>
      at_step view s0 j0 {} s" for s j
    by (auto simp: at_step_def intro: on_way_cancelled)
  show "at_step view s0 j0 {} s \<Longrightarrow> at_step view s0 j0 (- {Success}) s" for s
    by (auto simp: at_step_def elim: on_way_mono)
  fix f g s r s'
  assume f: "\<And>x. at_step view s0 j0 A x \<Longrightarrow> at_step view s0 j0 A (f x)"
    and g: "\<And>x. at_step view s0 j0 A x \<Longrightarrow> at_step view s0 j0 A (g x)"
    and s: "at_step view s0 j0 A s" and r: "oper f g s = (r, s')"
  from assms(3) [OF f g s r] live
  show "case r of Inr a \<Rightarrow> Q a s' | Inl e \<Rightarrow> at_step view s0 j0 (- {Success}) s'"
    by (auto split: sum.splits)
qed

lemma runner_triple:
  assumes "calm_wait view w" "Success \<notin> A"
  shows "triple (at_step view s0 j0 A) (wait_runner (job_id j0) w g)
     (\<lambda>_. at_step view s0 j0 A) (at_step view s0 j0 {}) (at_step view s0 j0 (- {Success}))"
  unfolding wait_runner_def
proof (rule wait_triple [OF assms])
  fix f h s r s'
  assume f: "\<And>x. at_step view s0 j0 A x \<Longrightarrow> at_step view s0 j0 A (f x)" and s: "at_step view s0 j0 A s"
    and h: "\<And>x. at_step view s0 j0 A x \<Longrightarrow> at_step view s0 j0 A (h x)"
    and r: "runner_step g f h s = (r, s')"
  have "jobs_same (h (f s)) s'" "server_nodes s' = server_nodes (h (f s))"
    using r by (auto simp: runner_step_def Let_def split_beta)
  then show "case r of Inr a \<Rightarrow> at_step view s0 j0 A s' | Inl e \<Rightarrow> at_step view s0 j0 A s'"
    using h [OF f [OF s]] by (auto simp: at_step_def split: sum.split intro: on_way_same nodes_only)
qed (simp_all add: outside_def jobs_same_def)

lemma advance_triple:
  assumes "worker_edge a b" "gone \<in> {Leave, Lost}"
  shows "triple (at_step view s0 j0 {a}) (advance gone (job_id j0) a b m)
     (\<lambda>j s. at_step view s0 j0 {b} s \<and> job_fixed j = job_fixed j0) (at_step view s0 j0 {}) R"
  unfolding triple_def
proof (intro allI impI)
  fix s assume s: "at_step view s0 j0 {a} s"
  obtain q s1 where q: "job_set_step (job_id j0) [a] b m s = (q, s1)" by fastforce
  have "view s1"
    using s nodes_only [of s s1] advance_nodes [of "job_id j0" "[a]" b m s] q by (simp add: at_step_def)
  then show "case advance gone (job_id j0) a b m s of
        (Go j, s1) \<Rightarrow> at_step view s0 j0 {b} s1 \<and> job_fixed j = job_fixed j0
      | (Leave, s1) \<Rightarrow> at_step view s0 j0 {} s1 | (Lost, s1) \<Rightarrow> at_step view s0 j0 {} s1
      | (Raise e, s1) \<Rightarrow> R s1"
    using advance_on_way [OF _ assms(1), of s0 j0 s m] s q assms(2)
    by (auto simp: advance_def at_step_def split: option.splits)
qed

lemma event_triple: "triple (at_step view s0 j0 A) (flow_event j l st m) (\<lambda>_. at_step view s0 j0 A) L R"
  by (rule triple_event) (auto simp: at_step_def intro: on_way_event nodes_only)

lemma preflight_triple:
  assumes "job_fixed j = job_fixed j0" "calm view sc"
  shows "triple (at_step view s0 j0 {Checking_ssh}) (worker_preflight wk sc j c p)
     (\<lambda>j1 s. at_step view s0 j0 {Installing_agent} s \<and> job_fixed j1 = job_fixed j0)
     (at_step view s0 j0 {}) (at_step view s0 j0 (- {Success}))"
proof -
  have w: "calm_wait view (sc_check sc)" using assms(2) by (simp add: calm_def)
  have e: "worker_edge Checking_ssh Installing_agent" by (simp add: worker_edge_def)
  show ?thesis
    unfolding worker_preflight_def fixed_id [OF assms(1)]
    by (rule triple_bind [where Q = "\<lambda>_. at_step view s0 j0 {Checking_ssh}"],
        simp add: runner_triple [OF w] event_triple,
        rule triple_bind, rule advance_triple [OF e], simp, rule triple_when,
        rule triple_bind [where Q = "\<lambda>_. at_step view s0 j0 {Installing_agent}"],
        auto intro: event_triple)
qed

lemma vpn_triple:
  assumes "job_fixed j = job_fixed j0" "calm view sc"
  shows "triple (at_step view s0 j0 {Installing_agent}) (worker_vpn wk sc j c p)
     (\<lambda>j1 s. at_step view s0 j0 {Verifying} s \<and> job_fixed j1 = job_fixed j0)
     (at_step view s0 j0 {}) (at_step view s0 j0 (- {Success}))"
proof -
  have w: "calm_wait view (sc_vpn sc)" using assms(2) by (simp add: calm_def)
  have e: "worker_edge Installing_agent Installing_vpn" "worker_edge Installing_vpn Verifying"
    "worker_edge Installing_agent Verifying" by (simp_all add: worker_edge_def)
  have last: "triple (at_step view s0 j0 {Verifying}) (flow_return x)
      (\<lambda>j1 s. at_step view s0 j0 {Verifying} s \<and> job_fixed j1 = job_fixed j0) L R"
    if "job_fixed x = job_fixed j0" for x L R
    using that by blast
  show ?thesis
  proof (cases "job_install_awg j")
    case True
    have rest: "triple (at_step view s0 j0 {Installing_vpn})
        (flow_bind (flow_event j1 Info (setup_status_value Installing_agent) M_ev_agent_installed) (\<lambda>_.
         flow_bind (wait_runner (job_id j1) (sc_vpn sc) (rn_install_vpn (wk_runner wk) j1 c p)) (\<lambda>_.
         flow_bind (advance Leave (job_id j1) Installing_vpn Verifying M_ev_check_agent) (\<lambda>j2.
         flow_bind (flow_event j2 Info (setup_status_value Installing_vpn) M_ev_vpn_checked) (\<lambda>_.
         flow_return j2)))))
        (\<lambda>j1 s. at_step view s0 j0 {Verifying} s \<and> job_fixed j1 = job_fixed j0)
        (at_step view s0 j0 {}) (at_step view s0 j0 (- {Success}))" if "job_fixed j1 = job_fixed j0" for j1
      unfolding fixed_id [OF that]
      by (rule triple_bind, rule event_triple, rule triple_bind, rule runner_triple [OF w], simp,
          rule triple_bind, rule advance_triple [OF e(2)], simp, rule triple_when,
          rule triple_bind, rule event_triple, erule last)
    show ?thesis
      unfolding worker_vpn_def if_P [OF True] fixed_id [OF assms(1)]
      by (rule triple_bind, rule advance_triple [OF e(1)], simp, rule triple_when, erule rest)
  next
    case False
    show ?thesis
      unfolding worker_vpn_def if_not_P [OF False] fixed_id [OF assms(1)]
      by (rule triple_bind, rule advance_triple [OF e(3)], simp, rule triple_when,
          rule triple_bind, rule event_triple, rule triple_bind, rule event_triple, erule last)
  qed
qed

lemma body_triple:
  assumes "job_fixed j = job_fixed j0" "calm view sc"
    and "\<And>s. at_step view s0 j0 {} s \<Longrightarrow> L s" "\<And>s. at_step view s0 j0 (- {Success}) s \<Longrightarrow> R s"
    and "\<And>j2. job_fixed j2 = job_fixed j0 \<Longrightarrow>
      triple (at_step view s0 j0 {Verifying}) (worker_verify wk sc j2 c) Q L R"
  shows "triple (at_step view s0 j0 {Checking_ssh}) (worker_body wk sc j c p) Q L R"
proof -
  have w: "calm_wait view (sc_install sc)" using assms(2) by (simp add: calm_def)
  note weaken = triple_weaken [where L' = L and R' = R, OF _ assms(3,4)]
  have rest: "triple (at_step view s0 j0 {Installing_agent})
      (flow_bind (wait_runner (job_id j1) (sc_install sc) (rn_install_agent (wk_runner wk) j1 c p)) (\<lambda>_.
       flow_bind (worker_vpn wk sc j1 c p) (\<lambda>j2. worker_verify wk sc j2 c)))
      Q L R"
    if j1: "job_fixed j1 = job_fixed j0" for j1
    unfolding fixed_id [OF j1]
    by (rule triple_bind, rule weaken, rule runner_triple [OF w], simp, assumption+,
        rule triple_bind, rule weaken, rule vpn_triple [OF j1 assms(2)], assumption+,
        rule triple_when, erule assms(5))
  show ?thesis
    unfolding worker_body_def
    by (rule triple_bind, rule weaken, rule preflight_triple [OF assms(1,2)], assumption+,
        rule triple_when, erule rest)
qed

end

interpretation any_nodes: node_view "\<lambda>_. True"
  by unfold_locales simp

interpretation old_nodes: node_view "\<lambda>s. server_nodes s = server_nodes s0" for s0
  by unfold_locales simp

section \<open>The end of the job\<close>

lemma finish_success_on_way:
  assumes "on_way s0 j0 {Verifying} s"
  shows "on_way s0 j0 {Success} (snd (job_finish_success (job_id j0) n s))"
proof (rule on_way_step [OF assms js_success])
  show "for_job (job_id j0) (Op_success (job_id j0) n)" by simp
next
  fix j assume "get_setup_job (job_id j0) s = Some j" "job_status j \<in> {Verifying} \<union> {Cancelled}"
  moreover have "job_id j = job_id j0"
    using assms calculation(1) by (auto simp: on_way_def job_fixed_def)
  ultimately show "\<exists>j'. get_setup_job (job_id j0) (snd (job_finish_success (job_id j0) n s)) = Some j' \<and>
      job_status j' \<in> {Success} \<union> {Cancelled}"
    by (auto simp: job_finish_success_def transition_setup_job_def Let_def get_setup_job_def
        save_setup_job_def)
qed

lemma finish_failed_on_way:
  assumes "on_way s0 j0 A s"
  shows "on_way s0 j0 {Success, Failed} (snd (job_finish_failed (job_id j0) m s))"
proof (rule on_way_step [OF assms js_fail])
  show "for_job (job_id j0) (Op_fail (job_id j0) m)" by simp
next
  fix j assume j: "get_setup_job (job_id j0) s = Some j"
  moreover have "job_id j = job_id j0"
    using assms j by (auto simp: on_way_def job_fixed_def)
  moreover have "job_status j \<in> {Success, Failed, Cancelled}" if "is_terminal (job_status j)"
    using that by (cases "job_status j") simp_all
  ultimately show "\<exists>j'. get_setup_job (job_id j0) (snd (job_finish_failed (job_id j0) m s)) = Some j' \<and>
      job_status j' \<in> {Success, Failed} \<union> {Cancelled}"
    by (auto simp: job_finish_failed_def transition_setup_job_def Let_def get_setup_job_def
        save_setup_job_def in_non_terminal)
qed

lemma finish_triple:
  assumes "job_fixed j = job_fixed j0"
  shows "triple (on_way s0 j0 {Verifying}) (worker_finish j n) (\<lambda>_. on_way s0 j0 {Success})
     (on_way s0 j0 {}) (on_way s0 j0 UNIV)"
  unfolding triple_def
proof (intro allI impI)
  fix s assume s: "on_way s0 j0 {Verifying} s"
  obtain q s1 where q: "job_finish_success (job_id j0) (node_id n) s = (q, s1)" by fastforce
  have 1: "on_way s0 j0 {Success} s1" using finish_success_on_way [OF s, of "node_id n"] q by simp
  have 2: "on_way s0 j0 {Success} s2" if "activate_after_setup (node_id n) b s1 = (r, s2)" for b r s2
    using on_way_same [OF 1 activate_same [of s1 "node_id n" b]] that by simp
  show "case worker_finish j n s of (Go a, s1) \<Rightarrow> on_way s0 j0 {Success} s1
      | (Leave, s1) \<Rightarrow> on_way s0 j0 {} s1 | (Lost, s1) \<Rightarrow> on_way s0 j0 {} s1
      | (Raise e, s1) \<Rightarrow> on_way s0 j0 UNIV s1"
    using q 1 2 fixed_id [OF assms]
    by (auto simp: worker_finish_def split: option.split prod.split sum.split dest: on_way_live)
qed

lemma health_same:
  assumes "health_check ac act n f g s = (r, s')" "\<And>x. on_way s0 j0 A x \<Longrightarrow> on_way s0 j0 A (f x)"
    "\<And>x. on_way s0 j0 A x \<Longrightarrow> on_way s0 j0 A (g x)" "on_way s0 j0 A s"
  shows "on_way s0 j0 A s'"
proof (cases "server_get n s")
  case (Inl e)
  then show ?thesis using assms(1,4) by (simp add: health_check_def)
next
  case (Inr m)
  obtain q s1 where q: "health_probe ac (stored_node n m) f g (tick s) = (q, s1)" by fastforce
  have "on_way s0 j0 A (tick s)" by (rule on_way_same [OF assms(4)]) (simp add: jobs_same_def)
  then have "on_way s0 j0 A s1"
    by (rule health_probe_keeps [OF q]) (use assms(2,3) in \<open>auto intro: on_way_same\<close>)
  from on_way_same [OF this health_finish_same] show ?thesis
    using assms(1) Inr q by (simp add: health_check_def) (metis snd_conv)
qed

lemma outside_tick [simp]:
  "jobs_same s (outside g (tick s))" "server_nodes (outside g (tick s)) = server_nodes s"
  by (simp_all add: jobs_same_def outside_def)

lemma verify_triple:
  assumes "job_fixed j = job_fixed j0" "admin_schedule sc"
  shows "triple (at_step (\<lambda>_. True) s0 j0 {Verifying}) (worker_verify wk sc j c) (\<lambda>_. on_way s0 j0 {Success})
     (on_way s0 j0 {}) (on_way s0 j0 UNIV)"
proof -
  have w: "calm_wait (\<lambda>_. True) (sc_health sc)" using assms(2) by (simp add: admin_schedule_def calm_def)
  have made: "triple (at_step (\<lambda>_. True) s0 j0 {Verifying})
      (flow_state (server_create_from_setup (wk_box wk) j (cred_base_url c) (cred_key_id c) (cred_secret c)))
      (\<lambda>_. at_step (\<lambda>_. True) s0 j0 {Verifying}) L R" for L R
    by (rule triple_state) (auto simp: at_step_def intro: on_way_same from_setup_same)
  have wait: "triple (at_step (\<lambda>_. True) s0 j0 {Verifying})
      (run_cancellable (job_id j0) (sc_health sc) (\<lambda>s. outside (wt_outside (sc_health sc)) (tick s))
        (health_check (wk_agent wk) None (node_id n)))
      (\<lambda>_. at_step (\<lambda>_. True) s0 j0 {Verifying}) (on_way s0 j0 {}) (on_way s0 j0 UNIV)" for n
    by (rule triple_weaken, rule any_nodes.wait_triple [OF w])
      (auto simp: at_step_def split: sum.split dest: on_way_live elim: health_same)
  have finish: "triple (at_step (\<lambda>_. True) s0 j0 {Verifying}) (worker_finish j n) (\<lambda>_. on_way s0 j0 {Success})
     (on_way s0 j0 {}) (on_way s0 j0 UNIV)" for n
    by (rule triple_pre [OF finish_triple [OF assms(1)]]) (simp add: at_step_def)
  show ?thesis
    unfolding worker_verify_def fixed_id [OF assms(1)]
    by (rule triple_bind, rule made, rule triple_bind, rule wait)
      (auto intro!: finish triple_raise simp: at_step_def dest: on_way_live)
qed

lemma body_on_way:
  assumes "admin_schedule sc"
  shows "triple (at_step (\<lambda>_. True) s0 j {Checking_ssh}) (worker_body wk sc j c p) (\<lambda>_. on_way s0 j {Success})
     (on_way s0 j {}) (on_way s0 j UNIV)"
  by (rule any_nodes.body_triple [OF refl])
    (use assms in \<open>auto simp: admin_schedule_def at_step_def dest: on_way_live intro: verify_triple\<close>)

lemma run_job_on_way:
  assumes "on_way s0 j {Checking_ssh} s" "admin_schedule sc" "worker_run_job wk sc j s = (r, s')"
  shows "case r of None \<Rightarrow> on_way s0 j {Success, Failed} s' | Some e \<Rightarrow> on_way s0 j UNIV s'"
proof (cases "get_ephemeral_ssh_secret (job_id j) s")
  case None
  then show ?thesis
    using assms(3) finish_failed_on_way [OF assms(1)] by (auto simp: worker_run_job_def)
next
  case (Some p)
  obtain q s1 where q: "make_credentials (wk_settings wk) j s = (q, s1)" by fastforce
  have s1: "on_way s0 j {Checking_ssh} s1" using on_way_same [OF assms(1) credentials_same] q by (metis snd_conv)
  show ?thesis
  proof (cases q)
    case (Inl e)
    then show ?thesis using assms(3) Some q s1 by (auto simp: worker_run_job_def dest: on_way_live)
  next
    case (Inr c)
    obtain x s2 where x: "worker_body wk sc j c p s1 = (x, s2)" by fastforce
    have "case x of Go a \<Rightarrow> on_way s0 j {Success} s2 | Leave \<Rightarrow> on_way s0 j {} s2
        | Lost \<Rightarrow> on_way s0 j {} s2 | Raise e \<Rightarrow> on_way s0 j UNIV s2"
      using body_on_way [OF assms(2), of s0 j wk c p] s1 x by (auto simp: triple_def at_step_def split: flow.splits)
    then have "(case x of Go a \<Rightarrow> on_way s0 j {Success, Failed} s2 | Leave \<Rightarrow> on_way s0 j {Success, Failed} s2
        | Lost \<Rightarrow> on_way s0 j {Success, Failed} s2 | Raise e \<Rightarrow> on_way s0 j UNIV s2)"
      by (auto split: flow.splits intro: on_way_mono)
    then show ?thesis
      using assms(3) Some q Inr x
      by (auto simp: worker_run_job_def split: flow.splits exn.splits
          intro: on_way_forget finish_failed_on_way dest: on_way_live)
  qed
qed

lemma claimed_on_way:
  assumes "jobs_ok s" "job_claim_next s = (Some j, s1)"
  shows "on_way s1 j {Checking_ssh} s1"
proof -
  have c: "job_step Op_claim s s1" using js_claim [of s] assms(2) by simp
  have "jobs_ok s1" by (rule jobs_ok_step [OF assms(1) c])
  moreover have "get_setup_job (job_id j) s1 = Some j \<and> job_status j = Checking_ssh"
    using assms(2)
    by (auto simp: job_claim_next_def claim_next_setup_job_def Let_def get_setup_job_def save_setup_job_def
        split: option.splits)
  ultimately show ?thesis by (auto simp: on_way_def intro!: exI [of _ "[]"] run_nil)
qed

lemma turn_on_way:
  assumes "jobs_ok s" "admin_schedule sc" "job_claim_next s = (Some j, s1)" "worker_turn wk sc s = (r, s')"
  shows "on_way s1 j {Success, Failed} s'"
proof -
  have start: "on_way s1 j {Checking_ssh} s1" by (rule claimed_on_way [OF assms(1,3)])
  obtain q s2 where q: "worker_run_job wk sc j s1 = (q, s2)" by fastforce
  have "case q of None \<Rightarrow> on_way s1 j {Success, Failed} s2 | Some e \<Rightarrow> on_way s1 j UNIV s2"
    by (rule run_job_on_way [OF start assms(2) q])
  then show ?thesis
    using assms(3,4) q
    by (auto simp: worker_turn_def split: option.splits exn.splits intro: finish_failed_on_way)
qed

text \<open>A worker of the demo, undisturbed or with an administrator who cancels during the installation.\<close>

definition idle :: "'t wait" where
  "idle = \<lparr>wt_turns = [], wt_last = id, wt_first = None, wt_outside = id, wt_unwind = None\<rparr>"

definition idle_schedule :: "'t schedule" where
  "idle_schedule = \<lparr>sc_check = idle, sc_install = idle, sc_vpn = idle, sc_health = idle\<rparr>"

definition cancel_schedule :: "'t schedule" where
  "cancel_schedule = idle_schedule
     \<lparr>sc_install := idle\<lparr>wt_turns := [Others (\<lambda>s. snd (job_cancel the_admin ''u0'' s))]\<rparr>\<rparr>"

definition demo_worker :: "fake_state worker" where
  "demo_worker = \<lparr>wk_settings = default_settings, wk_agent = fake_client demo_crypto plaintext_box,
     wk_box = plaintext_box, wk_runner = stub_runner\<rparr>"

lemma admin_turn_id: "admin_turn id"
  by (auto simp: admin_turn_def intro: exI [of _ "[]"])

lemma admin_turn_cancel: "admin_turn (\<lambda>s. snd (job_cancel actor i s))"
  unfolding admin_turn_def
proof (intro allI exI conjI)
  fix s :: "'t app"
  show "run job_step s [Op_cancel i] (snd (job_cancel actor i s))"
    by (rule run_cons, rule js_cancel, rule run_nil)
qed simp

lemma demo_schedules:
  "admin_schedule idle_schedule" "quiet_schedule idle_schedule" "admin_schedule cancel_schedule"
  by (simp_all add: admin_schedule_def calm_def calm_wait_def quiet_schedule_def quiet_wait_def
      idle_schedule_def cancel_schedule_def idle_def admin_turn_id admin_turn_cancel)

lemma demo_claim:
  obtains j s1 where "job_claim_next (queued_app demo_fake) = (Some j, s1)" "job_id j = ''u0''"
    "job_available_for_new_devices j"
proof -
  have "map_option (\<lambda>j. (job_id j, job_available_for_new_devices j)) (fst (job_claim_next (queued_app demo_fake)))
    = Some (''u0'', True)" by code_simp
  then show thesis using that by (cases "job_claim_next (queued_app demo_fake)") auto
qed

text \<open>
  C6: THE WORKER ENDS ITS JOB. Whatever the runner and the agent answer, whenever administrators
  cancel, and also when the worker is stopped or an installation crashes: after its turn the job the
  worker claimed is over, it still is the job that was created, its secret is gone, and everything
  that happened to the jobs meanwhile was a legal step, of that job if it was not an administrator's.
\<close>

theorem worker_turn_ends:
  assumes "jobs_ok s" "admin_schedule sc" "job_claim_next s = (Some j, s1)" "worker_turn wk sc s = (r, s')"
  shows "(\<exists>ls. run job_step s1 ls s' \<and> (\<forall>l \<in> set ls. for_job (job_id j) l)) \<and> get_ephemeral_ssh_secret (job_id j) s' = None \<and>
    (\<exists>j'. get_setup_job (job_id j) s' = Some j' \<and> job_fixed j' = job_fixed j \<and> is_terminal (job_status j'))"
proof -
  have w: "on_way s1 j {Success, Failed} s'" by (rule turn_on_way [OF assms])
  then obtain j' where j': "get_setup_job (job_id j) s' = Some j'" "job_fixed j' = job_fixed j"
    "is_terminal (job_status j')" by (auto simp: on_way_def)
  then have "get_ephemeral_ssh_secret (job_id j) s' = None"
    using w by (auto simp: on_way_def jobs_ok_def)
  then show ?thesis using w j' by (auto simp: on_way_def)
qed

theorem worker_turn_ends_witness:
  "\<exists>j. get_setup_job ''u0'' (snd (worker_turn demo_worker cancel_schedule (queued_app demo_fake))) = Some j \<and>
     is_terminal (job_status j)"
proof -
  obtain j s1 where c: "job_claim_next (queued_app demo_fake) = (Some j, s1)" "job_id j = ''u0''"
    by (rule demo_claim)
  obtain r s' where t: "worker_turn demo_worker cancel_schedule (queued_app demo_fake) = (r, s')" by fastforce
  show ?thesis
    using worker_turn_ends [OF queued_app_ok demo_schedules(3) c(1) t] c(2) t by auto
qed

end
