(* ===== verification/WorkerNode.thy ===== *)
theory WorkerNode
  imports WorkerRuns
begin

text \<open>
  The node a turn of the worker makes: it is new, it is the only one, and it is open for new devices
  only if the job succeeded with it.
\<close>

section \<open>The new node\<close>

text \<open>
  The nodes are those of \<open>s0\<close> and one new one; it is closed; or the job has succeeded with it.
\<close>

definition new_node :: "'t app \<Rightarrow> (server_node \<Rightarrow> bool) \<Rightarrow> 't app \<Rightarrow> bool" where
  "new_node s0 p s \<longleftrightarrow> (\<exists>n. p n \<and> get_server_node (node_id n) s0 = None \<and>
     (\<forall>k. get_server_node k s = (if k = node_id n then Some n else get_server_node k s0)))"

definition nodes_closed :: "'t app \<Rightarrow> 't app \<Rightarrow> bool" where
  "nodes_closed s0 s \<longleftrightarrow> server_nodes s = server_nodes s0 \<or>
     new_node s0 (\<lambda>n. \<not> node_is_available_for_new_devices n) s"

definition settled :: "'t app \<Rightarrow> setup_job \<Rightarrow> 't app \<Rightarrow> bool" where
  "settled s0 j0 s \<longleftrightarrow> (\<exists>j. get_setup_job (job_id j0) s = Some j \<and>
     (if job_status j = Success
      then new_node s0 (\<lambda>n. job_server_node_id j = Some (node_id n) \<and> node_status n \<in> {Online, Warning} \<and>
          node_is_available_for_new_devices n = job_available_for_new_devices j0) s
      else nodes_closed s0 s))"

lemma new_node_cong: "new_node s0 p s \<Longrightarrow> server_nodes s' = server_nodes s \<Longrightarrow> new_node s0 p s'"
  by (simp add: new_node_def get_server_node_def)

lemma new_node_mono: "new_node s0 p s \<Longrightarrow> (\<And>n. p n \<Longrightarrow> q n) \<Longrightarrow> new_node s0 q s"
  unfolding new_node_def by blast

interpretation one_node: node_view "new_node s0 p" for s0 p
  by unfold_locales (rule new_node_cong)

lemma new_node_save:
  assumes "new_node s0 p s" "get_server_node i s = Some n" "get_server_node i s0 = None"
    and "node_id m = i" "q m" "server_nodes s' = server_nodes (save_server_node m s)"
  shows "new_node s0 q s'"
proof -
  obtain x where x: "get_server_node k s = (if k = node_id x then Some x else get_server_node k s0)" for k
    using assms(1) by (auto simp: new_node_def)
  have "i = node_id x" using x [of i] assms(2,3) by (auto split: if_splits)
  then have "get_server_node k s' = (if k = node_id m then Some m else get_server_node k s0)" for k
    using x [of k] assms(4,6) by (simp add: get_server_node_def save_server_node_def)
  then show ?thesis using assms(3-5) by (auto simp: new_node_def)
qed

lemma health_finish_saves:
  assumes "health_finish sh a pr tm r n s = (q, s')"
  shows "case q of
      Inr m \<Rightarrow> node_id m = node_id n \<and> server_nodes s' = server_nodes (save_server_node m s) \<and>
        node_is_available_for_new_devices m = node_is_available_for_new_devices n
    | Inl e \<Rightarrow> server_nodes s' = server_nodes s \<or>
        (\<exists>m. node_id m = node_id n \<and> server_nodes s' = server_nodes (save_server_node m s) \<and>
          node_is_available_for_new_devices m = node_is_available_for_new_devices n)"
proof (cases r)
  case (Inl e)
  then show ?thesis
    using assms by (cases e) (auto simp: health_finish_def health_failed_def Let_def save_server_node_def
      split: app_error.splits if_splits)
next
  case (Inr payload)
  let ?n = "n\<lparr>node_last_seen_at := Some tm, node_last_status_payload := Some payload,
      node_last_error := None\<rparr>"
  show ?thesis
  proof (cases "node_status n = Disabled \<or> (\<exists>kvs. payload = JObj kvs)")
    case True
    then show ?thesis
      using assms Inr by (cases payload; auto simp: health_finish_def Let_def save_server_node_def split: if_splits)
  next
    case False
    then have "health_finish sh a pr tm r n s =
        (Inl (Py (AttributeError ''get'')), if sh then save_server_node ?n s else s)"
      unfolding Inr by (cases payload) (simp_all add: health_finish_def Let_def)
    then have "q = Inl (Py (AttributeError ''get''))" "s' = (if sh then save_server_node ?n s else s)"
      using assms by simp_all
    then show ?thesis by (cases sh) (auto intro: exI [of _ ?n])
  qed
qed

lemma run_uuid:
  "run job_step s ls s' \<Longrightarrow> jobs_ok s \<Longrightarrow> uuid_at s' = uuid_at s \<and> uuid_n s \<le> uuid_n s'"
proof (induction rule: run.induct)
  case (run_cons l s s1 ls s')
  have "uuid_at s1 = uuid_at s \<and> uuid_n s \<le> uuid_n s1"
    using job_step_effect [OF run_cons.hyps(1)] run_cons.prems
    by (auto simp: jobs_ok_def stays_def moves_def creates_def)
  with run_cons.IH jobs_ok_step [OF run_cons.prems run_cons.hyps(1)] show ?case by auto
qed simp

text \<open>The node as the worker has it: stored, closed, and the one it got back from the health check.\<close>

definition node_at :: "'t app \<Rightarrow> ident \<Rightarrow> 't app \<Rightarrow> bool" where
  "node_at s0 i = new_node s0 (\<lambda>n. node_id n = i \<and> \<not> node_is_available_for_new_devices n)"

definition node_is :: "'t app \<Rightarrow> server_node \<Rightarrow> 't app \<Rightarrow> bool" where
  "node_is s0 m = new_node s0 (\<lambda>n. n = m \<and> \<not> node_is_available_for_new_devices n)"

lemma node_at_closed: "node_at s0 i s \<Longrightarrow> nodes_closed s0 s"
  unfolding node_at_def nodes_closed_def by (blast intro: new_node_mono)

lemma node_is_at: "node_is s0 m s \<Longrightarrow> node_at s0 (node_id m) s"
  unfolding node_at_def node_is_def by (erule new_node_mono) auto

lemma node_at_get:
  assumes "node_at s0 i s"
  obtains n where "get_server_node i s = Some n" "node_id n = i" "get_server_node i s0 = None"
    "\<not> node_is_available_for_new_devices n"
  using assms by (auto simp: node_at_def new_node_def)

lemma node_at_save:
  assumes "node_at s0 i s" "node_id m = i" "\<not> node_is_available_for_new_devices m"
    "server_nodes s' = server_nodes (save_server_node m s)"
  shows "node_is s0 m s'"
proof -
  obtain n where n: "get_server_node i s = Some n" "get_server_node i s0 = None"
    by (rule node_at_get [OF assms(1)])
  show ?thesis
    unfolding node_is_def
    by (rule new_node_save [OF assms(1) [unfolded node_at_def] n(1,2) assms(2) _ assms(4)])
      (simp add: assms(3))
qed

lemma node_at_same: "node_at s0 i s \<Longrightarrow> server_nodes s' = server_nodes s \<Longrightarrow> node_at s0 i s'"
  unfolding node_at_def by (rule new_node_cong)

lemma health_node:
  assumes "health_check ac None i f g s = (r, s')" "at_step (node_at s0 i) s0 j0 A s"
    and f: "\<And>x. at_step (node_at s0 i) s0 j0 A x \<Longrightarrow> at_step (node_at s0 i) s0 j0 A (f x)"
    and g: "\<And>x. at_step (node_at s0 i) s0 j0 A x \<Longrightarrow> at_step (node_at s0 i) s0 j0 A (g x)"
  shows "case r of
      Inr m \<Rightarrow> on_way s0 j0 A s' \<and> node_id m = i \<and> node_is s0 m s'
    | Inl e \<Rightarrow> at_step (node_at s0 i) s0 j0 A s'"
proof -
  have at: "node_at s0 i s" and way: "on_way s0 j0 A s" using assms(2) by (simp_all add: at_step_def)
  obtain n where n: "get_server_node i s = Some n" by (rule node_at_get [OF at])
  obtain q s1 where q: "health_probe ac (stored_node i n) f g (tick s) = (q, s1)" by fastforce
  have "on_way s0 j0 A (tick s)" by (rule on_way_same [OF way]) (simp add: jobs_same_def)
  then have "at_step (node_at s0 i) s0 j0 A (tick s)"
    using node_at_same [OF at, of "tick s"] by (simp add: at_step_def)
  then have 2: "at_step (node_at s0 i) s0 j0 A s1"
    by (rule health_probe_keeps [OF q _ f g]) (auto simp: at_step_def intro: on_way_same node_at_same)
  then obtain n2 where n2: "get_server_node i s1 = Some n2" "node_id n2 = i"
    "\<not> node_is_available_for_new_devices n2" by (auto simp: at_step_def elim: node_at_get)
  have fin: "health_finish True None (node_status n) (now s) q n2 s1 = (r, s')"
    using assms(1) n n2(1) q by (simp add: health_check_def server_get_def stored_node_def)
  have "on_way s0 j0 A s'"
    using 2 on_way_same health_finish_same [of s1] fin unfolding at_step_def by (metis snd_conv)
  moreover have "node_at s0 i s1" using 2 by (simp add: at_step_def)
  ultimately show ?thesis
    using health_finish_saves [OF fin] n2 node_at_save [of s0 i s1] node_at_same [of s0 i s1 s']
    by (auto simp: at_step_def split: sum.splits) (metis node_is_at)+
qed

lemma from_setup_node:
  assumes "server_create_from_setup bx j u k p s = (n, s')" "server_nodes s = server_nodes s0"
    and "\<forall>k \<ge> uuid_n s0. get_server_node (uuid_at s0 k) s0 = None" "uuid_at s = uuid_at s0" "uuid_n s0 \<le> uuid_n s"
  shows "node_is s0 n s'"
proof -
  have n: "node_id n = uuid_at s0 (uuid_n s)" "\<not> node_is_available_for_new_devices n"
    "server_nodes s' = server_nodes (save_server_node n s)"
    using assms(1,4)
    by (auto simp: server_create_from_setup_def Let_def new_uuid_def new_server_node_def add_is_save
        save_server_node_def)
  have "get_server_node (node_id n) s0 = None" using assms(3,5) n(1) by simp
  moreover have "get_server_node k s' = (if k = node_id n then Some n else get_server_node k s0)" for k
    using n(3) assms(2) by (simp add: get_server_node_def save_server_node_def)
  ultimately show ?thesis using n(2) by (auto simp: node_is_def new_node_def)
qed

text \<open>What holds at the end, however the job ended.\<close>

definition job_over :: "'t app \<Rightarrow> setup_job \<Rightarrow> 't app \<Rightarrow> bool" where
  "job_over s0 j0 s \<longleftrightarrow> on_way s0 j0 UNIV s \<and> settled s0 j0 s"

lemma closed_over:
  assumes "on_way s0 j0 A s" "Success \<notin> A" "nodes_closed s0 s"
  shows "job_over s0 j0 s"
  unfolding job_over_def
proof
  show "on_way s0 j0 UNIV s" by (rule on_way_live [OF assms(1)])
  show "settled s0 j0 s" using assms by (auto simp: settled_def elim!: on_way_job)
qed

lemma finish_success_effect:
  assumes "get_setup_job i s = Some j" "job_id j = i" "job_finish_success i n s = (q, s')"
  shows "server_nodes s' = server_nodes s"
    and "job_status j \<noteq> Verifying \<Longrightarrow> q = None \<and> get_setup_job i s' = Some j"
    and "job_status j = Verifying \<Longrightarrow> \<exists>j'. q = Some j' \<and> get_setup_job i s' = Some j' \<and>
      job_status j' = Success \<and> job_server_node_id j' = Some n"
  using assms
  by (auto simp: job_finish_success_def transition_setup_job_def Let_def get_setup_job_def
      save_setup_job_def split: if_splits)

lemma finish_over:
  assumes "job_fixed j = job_fixed j0" "on_way s0 j0 {Verifying} s" "node_is s0 m s"
    "node_status m \<in> {Online, Warning}" "node_id n = node_id m"
  shows "\<exists>s'. worker_finish j n s = (Go (), s') \<and> job_over s0 j0 s'"
proof -
  obtain j1 where j1: "get_setup_job (job_id j0) s = Some j1" "job_id j1 = job_id j0"
    "job_status j1 \<in> {Verifying, Cancelled}" using assms(2) by (auto elim!: on_way_job)
  obtain q s1 where q: "job_finish_success (job_id j0) (node_id m) s = (q, s1)" by fastforce
  have way: "on_way s0 j0 {Success} s1" using finish_success_on_way [OF assms(2), of "node_id m"] q by simp
  note eff = finish_success_effect [OF j1(1,2) q]
  have node: "node_is s0 m s1" using new_node_cong [OF assms(3) [unfolded node_is_def] eff(1)] by (simp add: node_is_def)
  show ?thesis
  proof (cases "job_status j1 = Verifying")
    case False
    then have "q = None" "on_way s0 j0 {} s1"
      using eff(2) j1(3) way by (auto simp: on_way_def)
    moreover from this(2) have "job_over s0 j0 s1"
      by (rule closed_over) (auto intro: node_at_closed node_is_at node)
    ultimately show ?thesis using q fixed_id [OF assms(1)] assms(5) by (simp add: worker_finish_def)
  next
    case True
    then obtain j2 where j2: "q = Some j2" "get_setup_job (job_id j0) s1 = Some j2" "job_status j2 = Success"
      "job_server_node_id j2 = Some (node_id m)" using eff(3) by blast
    let ?b = "job_available_for_new_devices j0"
    let ?m = "m\<lparr>node_is_available_for_new_devices := ?b, node_updated_at := now s1\<rparr>"
    have get: "get_server_node (node_id m) s1 = Some m" "get_server_node (node_id m) s0 = None"
      using node by (auto simp: node_is_def new_node_def)
    then have act: "activate_after_setup (node_id m) ?b s1 = (Inr ?m, save_server_node ?m (tick s1))"
      by (simp add: activate_after_setup_def server_get_def Let_def)
    have "new_node s0 (\<lambda>n. job_server_node_id j2 = Some (node_id n) \<and> node_status n \<in> {Online, Warning} \<and>
          node_is_available_for_new_devices n = ?b) (save_server_node ?m (tick s1))"
      by (rule new_node_save [OF node [unfolded node_is_def] get, where m = ?m])
        (use j2(4) assms(4) in \<open>simp_all add: save_server_node_def\<close>)
    moreover have "get_setup_job (job_id j0) (save_server_node ?m (tick s1)) = Some j2"
      using j2(2) by (simp add: get_setup_job_def)
    moreover have "on_way s0 j0 UNIV (save_server_node ?m (tick s1))"
      using on_way_live [OF on_way_same [OF way activate_same [of s1 "node_id m" ?b]]] act by simp
    ultimately have "job_over s0 j0 (save_server_node ?m (tick s1))"
      using j2(3) by (auto simp: job_over_def settled_def)
    then show ?thesis
      using q j2(1) act fixed_id [OF assms(1)] assms(1,5) by (simp add: worker_finish_def job_fixed_def)
  qed
qed

lemma quiet_calm: "admin_schedule sc \<Longrightarrow> quiet_schedule sc \<Longrightarrow>
    (\<And>s s'. view s \<Longrightarrow> server_nodes s' = server_nodes s \<Longrightarrow> view s') \<Longrightarrow> calm view sc"
  by (simp add: admin_schedule_def quiet_schedule_def calm_def calm_wait_def quiet_wait_def)

lemma verify_over:
  fixes s0 :: "'t app"
  defines "view \<equiv> \<lambda>s :: 't app. server_nodes s = server_nodes s0"
  assumes "job_fixed j = job_fixed j0" "admin_schedule sc" "quiet_schedule sc"
    and "\<forall>k \<ge> uuid_n s0. get_server_node (uuid_at s0 k) s0 = None" "jobs_ok s0"
  shows "triple (at_step view s0 j0 {Verifying}) (worker_verify wk sc j c) (\<lambda>_. job_over s0 j0)
     (job_over s0 j0) (job_over s0 j0)"
proof -
  have made: "triple (at_step view s0 j0 {Verifying})
      (flow_state (server_create_from_setup (wk_box wk) j (cred_base_url c) (cred_key_id c) (cred_secret c)))
      (\<lambda>n. at_step (node_at s0 (node_id n)) s0 j0 {Verifying}) L R" for L R
  proof (rule triple_state)
    fix s :: "'t app" assume s: "at_step view s0 j0 {Verifying} s"
    obtain n s' where n: "server_create_from_setup (wk_box wk) j (cred_base_url c) (cred_key_id c)
        (cred_secret c) s = (n, s')" by fastforce
    have "uuid_at s = uuid_at s0" "uuid_n s0 \<le> uuid_n s"
      using s run_uuid [OF _ assms(6)] by (auto simp: at_step_def on_way_def)
    then have "node_is s0 n s'"
      using from_setup_node [OF n _ assms(5)] s by (simp add: at_step_def view_def)
    moreover have "on_way s0 j0 {Verifying} s'"
      using s on_way_same from_setup_same n unfolding at_step_def by (metis snd_conv)
    ultimately show "at_step (node_at s0 (node_id (fst (server_create_from_setup (wk_box wk) j
        (cred_base_url c) (cred_key_id c) (cred_secret c) s)))) s0 j0 {Verifying}
        (snd (server_create_from_setup (wk_box wk) j (cred_base_url c) (cred_key_id c) (cred_secret c) s))"
      using n by (simp add: at_step_def node_is_at)
  qed
  have over: "at_step (node_at s0 i) s0 j0 A s \<Longrightarrow> Success \<notin> A \<Longrightarrow> job_over s0 j0 s" for i A s
    unfolding at_step_def by (blast intro: closed_over node_at_closed)
  have w: "calm_wait (node_at s0 i) (sc_health sc)" for i
    using quiet_calm [OF assms(3,4), of "node_at s0 i"] node_at_same unfolding calm_def by blast
  have wait: "triple (at_step (node_at s0 i) s0 j0 {Verifying})
      (run_cancellable (job_id j0) (sc_health sc) (\<lambda>s. outside (wt_outside (sc_health sc)) (tick s))
        (health_check (wk_agent wk) None i))
      (\<lambda>m s. on_way s0 j0 {Verifying} s \<and> node_id m = i \<and> node_is s0 m s) (job_over s0 j0) (job_over s0 j0)" for i
  proof (rule triple_weaken)
    show "triple (at_step (node_at s0 i) s0 j0 {Verifying})
      (run_cancellable (job_id j0) (sc_health sc) (\<lambda>s. outside (wt_outside (sc_health sc)) (tick s))
        (health_check (wk_agent wk) None i))
      (\<lambda>m s. on_way s0 j0 {Verifying} s \<and> node_id m = i \<and> node_is s0 m s)
      (at_step (node_at s0 i) s0 j0 {}) (at_step (node_at s0 i) s0 j0 (- {Success}))"
      by (rule one_node.wait_triple [OF w [unfolded node_at_def], folded node_at_def])
        (simp_all add: health_node)
  qed (simp_all add: over)
  have finish: "triple (\<lambda>s. on_way s0 j0 {Verifying} s \<and> node_id m = node_id n \<and> node_is s0 m s)
      (if node_status m \<notin> {Online, Warning} then flow_raise (Step_error (M_health_failed (health_error m)))
       else worker_finish j n) (\<lambda>_. job_over s0 j0) (job_over s0 j0) (job_over s0 j0)" for m n
  proof (cases "node_status m \<in> {Online, Warning}")
    case True
    then show ?thesis
      using finish_over [OF assms(2), of s0 _ m n] by (fastforce simp: triple_def)
  next
    case False
    have "job_over s0 j0 s" if "on_way s0 j0 {Verifying} s" "node_is s0 m s" for s
      by (rule closed_over [OF that(1)]) (simp_all add: node_at_closed [OF node_is_at [OF that(2)]])
    with False show ?thesis by (simp add: triple_def flow_raise_def)
  qed
  show ?thesis
    unfolding worker_verify_def fixed_id [OF assms(2)]
    by (rule triple_bind, rule made, rule triple_bind, rule wait, rule finish)
qed

lemma body_over:
  fixes s0 :: "'t app"
  assumes "admin_schedule sc" "quiet_schedule sc" "jobs_ok s0"
    and "\<forall>k \<ge> uuid_n s0. get_server_node (uuid_at s0 k) s0 = None"
  shows "triple (at_step (\<lambda>s. server_nodes s = server_nodes s0) s0 j {Checking_ssh}) (worker_body wk sc j c p)
     (\<lambda>_. job_over s0 j) (job_over s0 j) (job_over s0 j)"
proof (rule old_nodes.body_triple [OF refl])
  show "calm (\<lambda>s. server_nodes s = server_nodes s0) sc"
    using quiet_calm [OF assms(1,2), of "\<lambda>s. server_nodes s = server_nodes s0"] by simp
  have over: "at_step (\<lambda>s. server_nodes s = server_nodes s0) s0 j A s \<Longrightarrow> Success \<notin> A \<Longrightarrow> job_over s0 j s" for A s
    unfolding at_step_def nodes_closed_def by (blast intro: closed_over [unfolded nodes_closed_def])
  show "at_step (\<lambda>s. server_nodes s = server_nodes s0) s0 j {} s \<Longrightarrow> job_over s0 j s"
    and "at_step (\<lambda>s. server_nodes s = server_nodes s0) s0 j (- {Success}) s \<Longrightarrow> job_over s0 j s" for s
    by (erule over; simp)+
qed (rule verify_over [OF _ assms(1,2,4,3)])

lemma over_same:
  assumes "job_over s0 j s" "on_way s0 j UNIV s'" "setup_jobs s' = setup_jobs s" "server_nodes s' = server_nodes s"
  shows "job_over s0 j s'"
proof -
  have "new_node s0 p s' = new_node s0 p s" for p
    using assms(4) by (simp add: new_node_def get_server_node_def)
  then have "settled s0 j s' = settled s0 j s"
    by (simp only: settled_def nodes_closed_def get_setup_job_def assms(3,4))
  then show ?thesis using assms(1,2) by (simp add: job_over_def)
qed

lemma over_forget:
  assumes "job_over s0 j s"
  shows "job_over s0 j (forget_ephemeral_ssh_secret i s)"
  by (rule over_same [OF assms]) (use assms in \<open>auto simp: job_over_def intro: on_way_forget\<close>)

lemma finish_failed_effect:
  assumes "get_setup_job i s = Some j" "job_id j = i" "job_finish_failed i m s = (q, s')"
  shows "server_nodes s' = server_nodes s"
    and "is_terminal (job_status j) \<Longrightarrow> setup_jobs s' = setup_jobs s"
    and "\<not> is_terminal (job_status j) \<Longrightarrow> \<exists>j'. get_setup_job i s' = Some j' \<and> job_status j' = Failed"
  using assms
  by (auto simp: job_finish_failed_def transition_setup_job_def Let_def get_setup_job_def
      save_setup_job_def in_non_terminal split: if_splits)

lemma over_failed:
  assumes "job_over s0 j s"
  shows "job_over s0 j (snd (job_finish_failed (job_id j) m s))"
proof -
  obtain q s' where q: "job_finish_failed (job_id j) m s = (q, s')" by fastforce
  have way: "on_way s0 j UNIV s'"
    using on_way_live [OF finish_failed_on_way [of s0 j UNIV s m]] assms q by (simp add: job_over_def)
  obtain j1 where j1: "get_setup_job (job_id j) s = Some j1" "job_id j1 = job_id j"
    using assms by (auto simp: job_over_def elim!: on_way_job)
  note eff = finish_failed_effect [OF j1 q]
  show ?thesis
  proof (cases "is_terminal (job_status j1)")
    case True
    then show ?thesis using over_same [OF assms way eff(2,1)] q by simp
  next
    case False
    then have "nodes_closed s0 s" using assms j1 by (auto simp: job_over_def settled_def split: if_splits)
    then have "nodes_closed s0 s'" using eff(1) by (auto simp: nodes_closed_def intro: new_node_cong)
    then show ?thesis
      using eff(3) [OF False] way q by (auto simp: job_over_def settled_def)
  qed
qed

lemma run_job_over:
  assumes "on_way s0 j {Checking_ssh} s0" "admin_schedule sc" "quiet_schedule sc"
    and "\<forall>k \<ge> uuid_n s0. get_server_node (uuid_at s0 k) s0 = None"
    and "worker_run_job wk sc j s0 = (r, s')"
  shows "job_over s0 j s'"
proof -
  have ok: "jobs_ok s0" using assms(1) by (simp add: on_way_def)
  have start: "job_over s0 j s0" using assms(1) by (rule closed_over) (simp_all add: nodes_closed_def)
  show ?thesis
  proof (cases "get_ephemeral_ssh_secret (job_id j) s0")
    case None
    then show ?thesis using assms(5) over_failed [OF start] by (auto simp: worker_run_job_def)
  next
    case (Some p)
    obtain q s1 where q: "make_credentials (wk_settings wk) j s0 = (q, s1)" by fastforce
    then have nodes: "server_nodes s1 = server_nodes s0" "setup_jobs s1 = setup_jobs s0"
      by (auto simp: make_credentials_def generate_agent_key_id_def generate_agent_secret_def Let_def)
    have s1: "on_way s0 j {Checking_ssh} s1" using on_way_same [OF assms(1) credentials_same] q by (metis snd_conv)
    show ?thesis
    proof (cases q)
      case (Inl e)
      then show ?thesis
        using assms(5) Some q over_same [OF start on_way_live [OF s1] nodes(2,1)] by (simp add: worker_run_job_def)
    next
      case (Inr c)
      obtain x s2 where x: "worker_body wk sc j c p s1 = (x, s2)" by fastforce
      have "job_over s0 j s2"
        using body_over [OF assms(2,3) ok assms(4), of j wk c p] s1 nodes x
        unfolding triple_def at_step_def by (cases x) fastforce+
      then show ?thesis
        using assms(5) Some q Inr x
        by (auto simp: worker_run_job_def split: flow.splits exn.splits intro: over_forget over_failed)
    qed
  qed
qed

text \<open>
  C8: THE NEW NODE. As long as nobody else touches the nodes, a turn of the worker changes none that
  was there and adds one at most. If the job succeeded, there is exactly one new node: the one the
  job names, found healthy and open for new devices as the job asked. If it ended otherwise, failed,
  cancelled or stopped at whatever point, a new node is closed.
\<close>

theorem worker_turn_node:
  assumes "jobs_ok s" "admin_schedule sc" "quiet_schedule sc"
    and "\<forall>k \<ge> uuid_n s. get_server_node (uuid_at s k) s = None"
    and "job_claim_next s = (Some j, s1)" "worker_turn wk sc s = (r, s')"
  shows "\<exists>j'. get_setup_job (job_id j) s' = Some j' \<and>
     (if job_status j' = Success
      then new_node s (\<lambda>n. job_server_node_id j' = Some (node_id n) \<and> node_status n \<in> {Online, Warning} \<and>
          node_is_available_for_new_devices n = job_available_for_new_devices j) s'
      else server_nodes s' = server_nodes s \<or>
        new_node s (\<lambda>n. \<not> node_is_available_for_new_devices n) s')"
proof -
  have start: "on_way s1 j {Checking_ssh} s1" by (rule claimed_on_way [OF assms(1,5)])
  have nodes: "server_nodes s1 = server_nodes s" "uuid_at s1 = uuid_at s" "uuid_n s \<le> uuid_n s1"
    using assms(5)
    by (auto simp: job_claim_next_def claim_next_setup_job_def Let_def split: option.splits)
  have fresh: "\<forall>k \<ge> uuid_n s1. get_server_node (uuid_at s1 k) s1 = None"
    using assms(4) nodes by (auto simp: get_server_node_def)
  obtain q s2 where q: "worker_run_job wk sc j s1 = (q, s2)" by fastforce
  have "job_over s1 j s2" by (rule run_job_over [OF start assms(2,3) fresh q])
  then have "job_over s1 j s'"
    using assms(5,6) q
    by (auto simp: worker_turn_def split: option.splits exn.splits intro: over_failed)
  moreover have "new_node s1 p s' = new_node s p s'" for p
    using nodes(1) by (simp add: new_node_def get_server_node_def)
  ultimately show ?thesis
    using nodes(1) by (auto simp: job_over_def settled_def nodes_closed_def)
qed

lemma queued_app_nodes:
  "server_nodes (queued_app demo_fake) = [(''n1'', demo_node ''n1'' Online), (''n2'', demo_node ''n2'' Disabled)]"
  by code_simp

lemma queued_app_ids: "uuid_at (queued_app x) = demo_uuid"
  by (simp add: queued_app_def job_create_def Let_def add_is_save remember_secret_def demo_app_def
      demo_storage_def empty_storage_def storage.defs save_user_def save_server_node_def)

theorem worker_turn_node_witness:
  "new_node (queued_app demo_fake) (\<lambda>n. node_id n = ''u10'' \<and> node_is_available_for_new_devices n)
     (snd (worker_turn demo_worker idle_schedule (queued_app demo_fake)))"
proof -
  obtain j s1 where c: "job_claim_next (queued_app demo_fake) = (Some j, s1)" "job_id j = ''u0''"
    "job_available_for_new_devices j" by (rule demo_claim)
  obtain r s' where t: "worker_turn demo_worker idle_schedule (queued_app demo_fake) = (r, s')" by fastforce
  have "map_option (\<lambda>j. (job_status j, job_server_node_id j))
      (get_setup_job ''u0'' (snd (worker_turn demo_worker idle_schedule (queued_app demo_fake))))
    = Some (Success, Some ''u10'')" by code_simp
  then obtain j2 where j2: "get_setup_job ''u0'' s' = Some j2" "job_status j2 = Success"
    "job_server_node_id j2 = Some ''u10''" using t by auto
  have "\<forall>k \<ge> uuid_n (queued_app demo_fake).
      get_server_node (uuid_at (queued_app demo_fake) k) (queued_app demo_fake) = None"
    by (simp add: queued_app_nodes queued_app_ids get_server_node_def demo_uuid_def)
  from worker_turn_node [OF queued_app_ok demo_schedules(1,2) this c(1) t] j2 c(2,3)
  have "new_node (queued_app demo_fake) (\<lambda>n. job_server_node_id j2 = Some (node_id n) \<and>
      node_status n \<in> {Online, Warning} \<and> node_is_available_for_new_devices n) s'" by simp
  then show ?thesis using j2(3) t by (auto elim: new_node_mono)
qed

text \<open>
  A cancellation in the time between the last look and the end of the check of the SSH login is met by
  \<open>set_step\<close>, whose \<open>None\<close> overwrites \<open>job\<close>; the \<open>finally\<close> clause then fails on \<open>job.id\<close>. The loop takes
  it for a crash; the job stays cancelled.
\<close>

theorem late_cancel_crashes:
  assumes "get_ephemeral_ssh_secret (job_id j) s = Some p" "make_credentials (wk_settings wk) j s = (Inr c, s1)"
    and "job_verify_before_install j"
    and "wait_runner (job_id j) (sc_check sc) (rn_check_ssh (wk_runner wk) j c p) s1 = (Go (), s2)"
    and "get_setup_job (job_id j) s2 = Some j2" "job_status j2 = Cancelled"
  shows "fst (worker_run_job wk sc j s) = Some (Py (AttributeError ''id''))"
proof -
  have "fst (job_set_step (job_id j) [Checking_ssh] Installing_agent m s2) = None" for m
    using assms(5,6) by (simp add: job_set_step_def transition_setup_job_def Let_def get_setup_job_def)
  then have "fst (advance Lost (job_id j) Checking_ssh Installing_agent m s2) = Lost" for m
    by (simp add: advance_def split_beta)
  then have "fst (worker_body wk sc j c p s1) = Lost"
    using assms(3,4)
    by (simp add: worker_body_def worker_preflight_def flow_bind_def split_beta split: flow.split)
  then show ?thesis
    using assms(1,2) by (simp add: worker_run_job_def split_beta)
qed

end
