(* ===== verification/Schema.thy ===== *)
theory Schema
  imports Domain
begin

text \<open>
  The database: the classes of \<open>app/db/models.py\<close> as the tables they declare, and the migration of
  \<open>app/db/migrations\<close> as the list of its operations, with what they do to a schema. The migration
  creates the tables the classes declare, but for the means by which three columns are kept unique, and
  its downgrade removes them all.
\<close>

section \<open>The mapped classes\<close>

text \<open>
  The characters of a text, which both the columns and the declared bodies count: a text is kept as
  its bytes in UTF-8, so the continuation bytes do not count.
\<close>

definition text_length :: "string \<Rightarrow> nat" where
  "text_length s = length (filter (\<lambda>c. \<not> (128 \<le> (of_char c :: nat) \<and> (of_char c :: nat) < 192)) s)"

datatype col_type = Varchar nat | Text | Integer | Boolean | Float | Timestamptz | Json

datatype col_flag = Primary_key | Autoincrement | Unique | Indexed | Nullable

type_synonym column = "string \<times> col_type \<times> col_flag list"

type_synonym model = "string \<times> column list"

definition user_row :: model where
  "user_row = (''users'',
     [(''id'', Varchar 36, [Primary_key]), (''login'', Varchar 64, [Unique, Indexed]),
      (''display_name'', Varchar 100, []), (''role'', Varchar 20, [Indexed]),
      (''password_hash'', Text, []), (''created_at'', Timestamptz, []),
      (''updated_at'', Timestamptz, []), (''is_active'', Boolean, []),
      (''telegram_username'', Varchar 64, [Nullable]), (''device_limit'', Integer, [Nullable]),
      (''device_limit_unlimited'', Boolean, []), (''show_server_support'', Boolean, []),
      (''free_access'', Boolean, []), (''note'', Text, [Nullable]),
      (''created_by_user_id'', Varchar 36, [Nullable])])"

definition session_row :: model where
  "session_row = (''sessions'',
     [(''id'', Varchar 36, [Primary_key]), (''user_id'', Varchar 36, [Indexed]),
      (''token_hash'', Varchar 64, [Unique, Indexed]), (''created_at'', Timestamptz, []),
      (''expires_at'', Timestamptz, [Indexed]), (''last_seen_at'', Timestamptz, []),
      (''user_agent'', Text, [Nullable]), (''ip_address'', Varchar 80, [Nullable]),
      (''revoked_at'', Timestamptz, [Nullable])])"

definition server_node_row :: model where
  "server_node_row = (''server_nodes'',
     [(''id'', Varchar 36, [Primary_key]), (''name'', Varchar 100, []),
      (''public_host'', Varchar 255, []), (''agent_base_url'', Varchar 255, []),
      (''created_at'', Timestamptz, []), (''updated_at'', Timestamptz, []),
      (''public_port'', Integer, [Nullable]), (''region_note'', Varchar 200, [Nullable]),
      (''provider'', Varchar 100, [Nullable]), (''agent_key_id'', Varchar 100, [Nullable]),
      (''agent_secret_encrypted'', Text, [Nullable]),
      (''agent_allowed_ip_note'', Varchar 200, [Nullable]),
      (''status'', Varchar 30, [Indexed]), (''last_seen_at'', Timestamptz, [Nullable]),
      (''last_error'', Text, [Nullable]), (''last_status_payload'', Json, [Nullable]),
      (''awg_container_name'', Varchar 100, []), (''awg_interface'', Varchar 50, []),
      (''awg_config_path'', Varchar 255, []), (''clients_table_path'', Varchar 255, []),
      (''is_available_for_new_devices'', Boolean, []),
      (''created_by_user_id'', Varchar 36, [Nullable])])"

definition device_row :: model where
  "device_row = (''devices'',
     [(''id'', Varchar 36, [Primary_key]), (''user_id'', Varchar 36, [Indexed]),
      (''server_node_id'', Varchar 36, [Indexed]), (''name'', Varchar 64, []),
      (''created_at'', Timestamptz, []), (''updated_at'', Timestamptz, []),
      (''status'', Varchar 30, [Indexed]), (''public_key'', Text, [Nullable]),
      (''client_ip'', Varchar 80, [Nullable]),
      (''last_config_issued_at'', Timestamptz, [Nullable]),
      (''last_handshake_at'', Timestamptz, [Nullable]),
      (''transfer_received_label'', Varchar 100, [Nullable]),
      (''transfer_sent_label'', Varchar 100, [Nullable]),
      (''last_agent_sync_at'', Timestamptz, [Nullable]),
      (''revoked_at'', Timestamptz, [Nullable]), (''failure_message'', Text, [Nullable])])"

definition device_config_issue_row :: model where
  "device_config_issue_row = (''device_config_issues'',
     [(''id'', Varchar 36, [Primary_key]), (''device_id'', Varchar 36, [Unique, Indexed]),
      (''issued_to_user_id'', Varchar 36, [Indexed]), (''created_at'', Timestamptz, []),
      (''expires_at'', Timestamptz, [Indexed]), (''config_encrypted'', Text, [Nullable]),
      (''vpn_url_encrypted'', Text, [Nullable]), (''consumed_at'', Timestamptz, [Nullable])])"

definition support_contribution_row :: model where
  "support_contribution_row = (''support_contributions'',
     [(''id'', Varchar 36, [Primary_key]), (''user_id'', Varchar 36, [Indexed]),
      (''amount'', Float, []), (''currency'', Varchar 3, []),
      (''recorded_by_user_id'', Varchar 36, []), (''recorded_at'', Timestamptz, [Indexed]),
      (''created_at'', Timestamptz, []), (''period_label'', Varchar 64, [Nullable]),
      (''comment'', Text, [Nullable])])"

definition support_settings_row :: model where
  "support_settings_row = (''support_settings'',
     [(''id'', Integer, [Primary_key]), (''title'', Varchar 100, []),
      (''description'', Text, []), (''sbp_phone'', Varchar 100, [Nullable]),
      (''bank_name'', Varchar 100, [Nullable]), (''extra_contact'', Text, [Nullable]),
      (''monthly_cost_amount'', Float, [Nullable]), (''reserve_amount'', Float, [Nullable]),
      (''is_enabled'', Boolean, []), (''updated_by_user_id'', Varchar 36, [Nullable]),
      (''updated_at'', Timestamptz, [Nullable])])"

definition setup_job_row :: model where
  "setup_job_row = (''setup_jobs'',
     [(''id'', Varchar 36, [Primary_key]), (''created_by_user_id'', Varchar 36, [Indexed]),
      (''server_name'', Varchar 100, []), (''host'', Varchar 255, []),
      (''ssh_port'', Integer, []), (''ssh_username'', Varchar 64, []),
      (''auth_method'', Varchar 30, []), (''created_at'', Timestamptz, []),
      (''updated_at'', Timestamptz, []), (''status'', Varchar 30, [Indexed]),
      (''secret_encrypted'', Text, [Nullable]), (''region_note'', Varchar 200, [Nullable]),
      (''install_awg'', Boolean, []), (''available_for_new_devices'', Boolean, []),
      (''verify_before_install'', Boolean, []), (''current_step'', Varchar 100, []),
      (''error_message'', Text, [Nullable]), (''result_payload'', Json, [Nullable]),
      (''server_node_id'', Varchar 36, [Nullable]), (''started_at'', Timestamptz, [Nullable]),
      (''finished_at'', Timestamptz, [Nullable])])"

definition setup_job_event_row :: model where
  "setup_job_event_row = (''setup_job_events'',
     [(''id'', Varchar 36, [Primary_key]), (''setup_job_id'', Varchar 36, [Indexed]),
      (''level'', Varchar 20, []), (''step'', Varchar 50, []), (''message'', Text, []),
      (''created_at'', Timestamptz, [Indexed]), (''metadata'', Json, [])])"

definition audit_log_entry_row :: model where
  "audit_log_entry_row = (''audit_log_entries'',
     [(''id'', Varchar 36, [Primary_key]), (''action'', Varchar 100, [Indexed]),
      (''created_at'', Timestamptz, [Indexed]), (''actor_user_id'', Varchar 36, [Nullable]),
      (''target_type'', Varchar 60, [Nullable]), (''target_id'', Varchar 36, [Nullable]),
      (''metadata'', Json, []), (''ip_address'', Varchar 80, [Nullable]),
      (''user_agent'', Text, [Nullable])])"

definition login_failure_row :: model where
  "login_failure_row = (''login_failures'',
     [(''id'', Integer, [Primary_key, Autoincrement]), (''key'', Varchar 160, [Indexed]),
      (''attempted_at'', Timestamptz, [Indexed])])"

definition mapped_classes :: "model list" where
  "mapped_classes = [user_row, session_row, server_node_row, device_row, device_config_issue_row,
     support_contribution_row, support_settings_row, setup_job_row, setup_job_event_row,
     audit_log_entry_row, login_failure_row]"

lemmas row_class_defs =
  user_row_def session_row_def server_node_row_def device_row_def device_config_issue_row_def
  support_contribution_row_def support_settings_row_def setup_job_row_def setup_job_event_row_def
  audit_log_entry_row_def login_failure_row_def mapped_classes_def

section \<open>The migration\<close>

datatype migration_op =
  Create_table string "column list" "string list list"
| Create_index string string "string list"
| Drop_table string

definition upgrade :: "migration_op list" where
  "upgrade = [
     Create_table ''users''
       [(''id'', Varchar 36, [Primary_key]), (''login'', Varchar 64, []),
        (''display_name'', Varchar 100, []), (''role'', Varchar 20, []),
        (''password_hash'', Text, []), (''created_at'', Timestamptz, []),
        (''updated_at'', Timestamptz, []), (''is_active'', Boolean, []),
        (''telegram_username'', Varchar 64, [Nullable]),
        (''device_limit'', Integer, [Nullable]), (''device_limit_unlimited'', Boolean, []),
        (''show_server_support'', Boolean, []), (''free_access'', Boolean, []),
        (''note'', Text, [Nullable]), (''created_by_user_id'', Varchar 36, [Nullable])] [[''login'']],
     Create_index ''ix_users_login'' ''users'' [''login''],
     Create_index ''ix_users_role'' ''users'' [''role''],
     Create_table ''sessions''
       [(''id'', Varchar 36, [Primary_key]), (''user_id'', Varchar 36, []),
        (''token_hash'', Varchar 64, []), (''created_at'', Timestamptz, []),
        (''expires_at'', Timestamptz, []), (''last_seen_at'', Timestamptz, []),
        (''user_agent'', Text, [Nullable]), (''ip_address'', Varchar 80, [Nullable]),
        (''revoked_at'', Timestamptz, [Nullable])] [[''token_hash'']],
     Create_index ''ix_sessions_user_id'' ''sessions'' [''user_id''],
     Create_index ''ix_sessions_token_hash'' ''sessions'' [''token_hash''],
     Create_index ''ix_sessions_expires_at'' ''sessions'' [''expires_at''],
     Create_table ''server_nodes''
       [(''id'', Varchar 36, [Primary_key]), (''name'', Varchar 100, []),
        (''public_host'', Varchar 255, []), (''agent_base_url'', Varchar 255, []),
        (''created_at'', Timestamptz, []), (''updated_at'', Timestamptz, []),
        (''public_port'', Integer, [Nullable]), (''region_note'', Varchar 200, [Nullable]),
        (''provider'', Varchar 100, [Nullable]), (''agent_key_id'', Varchar 100, [Nullable]),
        (''agent_secret_encrypted'', Text, [Nullable]),
        (''agent_allowed_ip_note'', Varchar 200, [Nullable]), (''status'', Varchar 30, []),
        (''last_seen_at'', Timestamptz, [Nullable]), (''last_error'', Text, [Nullable]),
        (''last_status_payload'', Json, [Nullable]), (''awg_container_name'', Varchar 100, []),
        (''awg_interface'', Varchar 50, []), (''awg_config_path'', Varchar 255, []),
        (''clients_table_path'', Varchar 255, []),
        (''is_available_for_new_devices'', Boolean, []),
        (''created_by_user_id'', Varchar 36, [Nullable])] [],
     Create_index ''ix_server_nodes_status'' ''server_nodes'' [''status''],
     Create_table ''devices''
       [(''id'', Varchar 36, [Primary_key]), (''user_id'', Varchar 36, []),
        (''server_node_id'', Varchar 36, []), (''name'', Varchar 64, []),
        (''created_at'', Timestamptz, []), (''updated_at'', Timestamptz, []),
        (''status'', Varchar 30, []), (''public_key'', Text, [Nullable]),
        (''client_ip'', Varchar 80, [Nullable]),
        (''last_config_issued_at'', Timestamptz, [Nullable]),
        (''last_handshake_at'', Timestamptz, [Nullable]),
        (''transfer_received_label'', Varchar 100, [Nullable]),
        (''transfer_sent_label'', Varchar 100, [Nullable]),
        (''last_agent_sync_at'', Timestamptz, [Nullable]),
        (''revoked_at'', Timestamptz, [Nullable]), (''failure_message'', Text, [Nullable])] [],
     Create_index ''ix_devices_user_id'' ''devices'' [''user_id''],
     Create_index ''ix_devices_server_node_id'' ''devices'' [''server_node_id''],
     Create_index ''ix_devices_status'' ''devices'' [''status''],
     Create_table ''device_config_issues''
       [(''id'', Varchar 36, [Primary_key]), (''device_id'', Varchar 36, []),
        (''issued_to_user_id'', Varchar 36, []), (''created_at'', Timestamptz, []),
        (''expires_at'', Timestamptz, []), (''config_encrypted'', Text, [Nullable]),
        (''vpn_url_encrypted'', Text, [Nullable]), (''consumed_at'', Timestamptz, [Nullable])] [[''device_id'']],
     Create_index ''ix_device_config_issues_device_id'' ''device_config_issues'' [''device_id''],
     Create_index ''ix_device_config_issues_issued_to_user_id'' ''device_config_issues'' [''issued_to_user_id''],
     Create_index ''ix_device_config_issues_expires_at'' ''device_config_issues'' [''expires_at''],
     Create_table ''support_contributions''
       [(''id'', Varchar 36, [Primary_key]), (''user_id'', Varchar 36, []),
        (''amount'', Float, []), (''currency'', Varchar 3, []),
        (''recorded_by_user_id'', Varchar 36, []), (''recorded_at'', Timestamptz, []),
        (''created_at'', Timestamptz, []), (''period_label'', Varchar 64, [Nullable]),
        (''comment'', Text, [Nullable])] [],
     Create_index ''ix_support_contributions_user_id'' ''support_contributions'' [''user_id''],
     Create_index ''ix_support_contributions_recorded_at'' ''support_contributions'' [''recorded_at''],
     Create_table ''support_settings''
       [(''id'', Integer, [Primary_key]), (''title'', Varchar 100, []),
        (''description'', Text, []), (''sbp_phone'', Varchar 100, [Nullable]),
        (''bank_name'', Varchar 100, [Nullable]), (''extra_contact'', Text, [Nullable]),
        (''monthly_cost_amount'', Float, [Nullable]), (''reserve_amount'', Float, [Nullable]),
        (''is_enabled'', Boolean, []), (''updated_by_user_id'', Varchar 36, [Nullable]),
        (''updated_at'', Timestamptz, [Nullable])] [],
     Create_table ''setup_jobs''
       [(''id'', Varchar 36, [Primary_key]), (''created_by_user_id'', Varchar 36, []),
        (''server_name'', Varchar 100, []), (''host'', Varchar 255, []),
        (''ssh_port'', Integer, []), (''ssh_username'', Varchar 64, []),
        (''auth_method'', Varchar 30, []), (''created_at'', Timestamptz, []),
        (''updated_at'', Timestamptz, []), (''status'', Varchar 30, []),
        (''secret_encrypted'', Text, [Nullable]), (''region_note'', Varchar 200, [Nullable]),
        (''install_awg'', Boolean, []), (''available_for_new_devices'', Boolean, []),
        (''verify_before_install'', Boolean, []), (''current_step'', Varchar 100, []),
        (''error_message'', Text, [Nullable]), (''result_payload'', Json, [Nullable]),
        (''server_node_id'', Varchar 36, [Nullable]), (''started_at'', Timestamptz, [Nullable]),
        (''finished_at'', Timestamptz, [Nullable])] [],
     Create_index ''ix_setup_jobs_created_by_user_id'' ''setup_jobs'' [''created_by_user_id''],
     Create_index ''ix_setup_jobs_status'' ''setup_jobs'' [''status''],
     Create_table ''setup_job_events''
       [(''id'', Varchar 36, [Primary_key]), (''setup_job_id'', Varchar 36, []),
        (''level'', Varchar 20, []), (''step'', Varchar 50, []), (''message'', Text, []),
        (''created_at'', Timestamptz, []), (''metadata'', Json, [])] [],
     Create_index ''ix_setup_job_events_setup_job_id'' ''setup_job_events'' [''setup_job_id''],
     Create_index ''ix_setup_job_events_created_at'' ''setup_job_events'' [''created_at''],
     Create_table ''audit_log_entries''
       [(''id'', Varchar 36, [Primary_key]), (''action'', Varchar 100, []),
        (''created_at'', Timestamptz, []), (''actor_user_id'', Varchar 36, [Nullable]),
        (''target_type'', Varchar 60, [Nullable]), (''target_id'', Varchar 36, [Nullable]),
        (''metadata'', Json, []), (''ip_address'', Varchar 80, [Nullable]),
        (''user_agent'', Text, [Nullable])] [],
     Create_index ''ix_audit_log_entries_action'' ''audit_log_entries'' [''action''],
     Create_index ''ix_audit_log_entries_created_at'' ''audit_log_entries'' [''created_at''],
     Create_table ''login_failures''
       [(''id'', Integer, [Primary_key, Autoincrement]), (''key'', Varchar 160, []),
        (''attempted_at'', Timestamptz, [])] [],
     Create_index ''ix_login_failures_key'' ''login_failures'' [''key''],
     Create_index ''ix_login_failures_attempted_at'' ''login_failures'' [''attempted_at'']]"

definition downgrade :: "migration_op list" where
  "downgrade = map Drop_table
     [''login_failures'', ''audit_log_entries'', ''setup_job_events'', ''setup_jobs'',
      ''support_settings'', ''support_contributions'', ''device_config_issues'', ''devices'',
      ''server_nodes'', ''sessions'', ''users'']"

text \<open>
  A schema is the list of its tables with their columns, unique constraints and indexes; an index says
  whether it is unique, and those of the migration are not. An operation fails where the database refuses it: a table that exists, an index whose name is taken
  anywhere or whose columns are not there, a table to drop that is missing.
\<close>

record table_schema =
  tab_columns :: "column list"
  tab_unique :: "string list list"
  tab_indexes :: "(string \<times> string list \<times> bool) list"

type_synonym schema = "(string, table_schema) dict"

definition index_names :: "schema \<Rightarrow> string list" where
  "index_names sch = concat (map (\<lambda>(t, d). map fst (tab_indexes d)) sch)"

fun apply_migration :: "migration_op \<Rightarrow> schema \<Rightarrow> schema option" where
  "apply_migration (Create_table t cols uq) sch =
     (if map_of sch t \<noteq> None \<or> \<not> distinct (map fst cols) then None
      else Some (sch @ [(t, \<lparr>tab_columns = cols, tab_unique = uq, tab_indexes = []\<rparr>)]))"
| "apply_migration (Create_index n t cols) sch =
     (case map_of sch t of
        None \<Rightarrow> None
      | Some d \<Rightarrow>
          if n \<in> set (index_names sch) \<or> \<not> set cols \<subseteq> fst ` set (tab_columns d) then None
          else Some (dict_set t (d\<lparr>tab_indexes := tab_indexes d @ [(n, cols, False)]\<rparr>) sch))"
| "apply_migration (Drop_table t) sch =
     (if map_of sch t = None then None else Some (dict_pop t sch))"

fun run_migration :: "migration_op list \<Rightarrow> schema \<Rightarrow> schema option" where
  "run_migration [] sch = Some sch"
| "run_migration (x # xs) sch = Option.bind (apply_migration x sch) (run_migration xs)"

text \<open>
  The table a mapped class stands for, as SQLAlchemy reads \<open>mapped_column\<close>: \<open>index=True\<close> is an index
  named after its table and column, \<open>unique=True\<close> alone a unique constraint, and both together one unique
  index without a constraint.
\<close>

definition class_table :: "model \<Rightarrow> string \<times> table_schema" where
  "class_table m =
     (fst m,
      \<lparr>tab_columns = map (\<lambda>(c, ty, fl). (c, ty, filter (\<lambda>f. f \<notin> {Unique, Indexed}) fl)) (snd m),
       tab_unique = map (\<lambda>(c, ty, fl). [c])
         (filter (\<lambda>(c, ty, fl). Unique \<in> set fl \<and> Indexed \<notin> set fl) (snd m)),
       tab_indexes = map (\<lambda>(c, ty, fl). (''ix_'' @ fst m @ ''_'' @ c, [c], Unique \<in> set fl))
         (filter (\<lambda>(c, ty, fl). Indexed \<in> set fl) (snd m))\<rparr>)"

text \<open>
  The columns of a table a database keeps unique, by a constraint or by an index; what programs can rely
  on of a table; and the table with each unique index made a constraint and a plain index.
\<close>

definition unique_sets :: "table_schema \<Rightarrow> string list list" where
  "unique_sets d = tab_unique d @ map (\<lambda>(n, cols, u). cols) (filter (\<lambda>(n, cols, u). u) (tab_indexes d))"

definition table_shape :: "table_schema \<Rightarrow> column list \<times> string list list \<times> (string \<times> string list) list" where
  "table_shape d = (tab_columns d, unique_sets d, map (\<lambda>(n, cols, u). (n, cols)) (tab_indexes d))"

definition constraints_for_indexes :: "table_schema \<Rightarrow> table_schema" where
  "constraints_for_indexes d =
     d\<lparr>tab_unique := unique_sets d, tab_indexes := map (\<lambda>(n, cols, u). (n, cols, False)) (tab_indexes d)\<rparr>"

lemma same_shape: "table_shape (constraints_for_indexes d) = table_shape d"
  by (simp add: table_shape_def constraints_for_indexes_def unique_sets_def comp_def split_beta)

definition declared_tables :: schema where
  "declared_tables = map class_table mapped_classes"

definition created_tables :: schema where
  "created_tables = map (apsnd constraints_for_indexes) declared_tables"

text \<open>
  C40: MIGRATION. The migration runs on an empty database and leaves the tables the mapped classes
  declare: the same names, columns, types, nullability, keys, columns kept unique, and indexes of the same
  names on the same columns. It is not the declared schema, though: \<open>users\<close>, \<open>sessions\<close> and
  \<open>device_config_issues\<close>, and no other table, declare a unique index where the migration makes a unique
  constraint beside a plain index. A second run is refused, and the downgrade leaves nothing behind.
\<close>

theorem migration_matches_models:
  "run_migration upgrade [] = Some created_tables \<and>
   map (apsnd table_shape) created_tables = map (apsnd table_shape) (map class_table mapped_classes) \<and>
   map (\<lambda>m. (fst m, tab_unique (snd (class_table m)), constraints_for_indexes (snd (class_table m)) = snd (class_table m)))
     mapped_classes =
     [(''users'', [], False), (''sessions'', [], False), (''server_nodes'', [], True), (''devices'', [], True),
      (''device_config_issues'', [], False), (''support_contributions'', [], True),
      (''support_settings'', [], True), (''setup_jobs'', [], True), (''setup_job_events'', [], True),
      (''audit_log_entries'', [], True), (''login_failures'', [], True)] \<and>
   run_migration upgrade created_tables = None \<and>
   Option.bind (run_migration upgrade []) (run_migration downgrade) = Some []"
proof -
  have up: "run_migration upgrade [] = Some created_tables" by code_simp
  moreover have "run_migration upgrade created_tables = None" by code_simp
  moreover have "run_migration downgrade created_tables = Some []" by code_simp
  moreover have "map (apsnd table_shape) created_tables = map (apsnd table_shape) (map class_table mapped_classes)"
    by (simp add: created_tables_def declared_tables_def apsnd_compose same_shape comp_def)
  moreover have "map (\<lambda>m. (fst m, tab_unique (snd (class_table m)),
      constraints_for_indexes (snd (class_table m)) = snd (class_table m))) mapped_classes =
     [(''users'', [], False), (''sessions'', [], False), (''server_nodes'', [], True), (''devices'', [], True),
      (''device_config_issues'', [], False), (''support_contributions'', [], True),
      (''support_settings'', [], True), (''setup_jobs'', [], True), (''setup_job_events'', [], True),
      (''audit_log_entries'', [], True), (''login_failures'', [], True)]"
    by code_simp
  ultimately show ?thesis by simp
qed

end
