(* ===== verification/Rows.thy ===== *)
theory Rows
  imports Schema Json
begin

text \<open>
  The rows of \<open>app/storage/db.py\<close>: what is written for each dataclass (\<open>_user_row\<close> and the others) and
  how it is read back (\<open>_user\<close> and the others). A row is the dictionary of its columns; the column
  types exclude every other shape of a value, so that reading fails for an unknown enumeration
  value only. Reading what was written gives the object back.
\<close>

section \<open>Values of columns\<close>

text \<open>\<open>V_status\<close> is the enumeration member that \<open>transition_setup_job\<close> replaces by its value.\<close>

datatype dbval =
  V_null | V_str string | V_msg message | V_int int | V_bool bool | V_float rat | V_time time
| V_json json | V_status setup_status

type_synonym row = "(string, dbval) dict"

definition v_opt :: "('a \<Rightarrow> dbval) \<Rightarrow> 'a option \<Rightarrow> dbval" where
  "v_opt f x = (case x of None \<Rightarrow> V_null | Some y \<Rightarrow> f y)"

definition v_jdict :: "jdict \<Rightarrow> dbval" where
  "v_jdict kvs = V_json (JObj kvs)"

definition v_json :: "json option \<Rightarrow> dbval" where
  "v_json x = (case x of None \<Rightarrow> V_null | Some v \<Rightarrow> if v = JNull then V_null else V_json v)"

definition col :: "row \<Rightarrow> string \<Rightarrow> dbval" where
  "col r c = dict_get V_null r c"

definition g_str :: "row \<Rightarrow> string \<Rightarrow> string" where
  "g_str r c = (case col r c of V_str s \<Rightarrow> s | _ \<Rightarrow> [])"

definition g_msg :: "row \<Rightarrow> string \<Rightarrow> message" where
  "g_msg r c = (case col r c of V_msg m \<Rightarrow> m | _ \<Rightarrow> M_text [])"

definition g_int :: "row \<Rightarrow> string \<Rightarrow> int" where
  "g_int r c = (case col r c of V_int i \<Rightarrow> i | _ \<Rightarrow> 0)"

definition g_bool :: "row \<Rightarrow> string \<Rightarrow> bool" where
  "g_bool r c = (case col r c of V_bool b \<Rightarrow> b | _ \<Rightarrow> False)"

definition g_float :: "row \<Rightarrow> string \<Rightarrow> rat" where
  "g_float r c = (case col r c of V_float x \<Rightarrow> x | _ \<Rightarrow> 0)"

definition g_time :: "row \<Rightarrow> string \<Rightarrow> time" where
  "g_time r c = (case col r c of V_time t \<Rightarrow> t | _ \<Rightarrow> 0)"

definition g_json :: "row \<Rightarrow> string \<Rightarrow> json" where
  "g_json r c = (case col r c of V_json v \<Rightarrow> v | _ \<Rightarrow> JNull)"

definition g_jdict :: "row \<Rightarrow> string \<Rightarrow> jdict" where
  "g_jdict r c = (case col r c of V_json (JObj kvs) \<Rightarrow> kvs | _ \<Rightarrow> [])"

definition g_opt :: "(row \<Rightarrow> string \<Rightarrow> 'a) \<Rightarrow> row \<Rightarrow> string \<Rightarrow> 'a option" where
  "g_opt g r c = (if col r c = V_null then None else Some (g r c))"

text \<open>\<open>Enum(value)\<close>: the member with the value, or \<open>ValueError\<close>.\<close>

definition enum_of :: "('a \<Rightarrow> string) \<Rightarrow> 'a list \<Rightarrow> string \<Rightarrow> 'a res" where
  "enum_of val members s =
     (case find (\<lambda>m. val m = s) members of None \<Rightarrow> Inl (Py ValueError) | Some m \<Rightarrow> Inr m)"

definition all_user_role :: "user_role list" where
  "all_user_role = [Admin, Plain_user]"

definition all_device_status :: "device_status list" where
  "all_device_status = [Provisioning, Active, Revoked, Device_failed]"

definition all_server_status :: "server_status list" where
  "all_server_status =
     [Draft, Setup_pending, Setup_running, Online, Warning, Offline, Disabled, Setup_failed]"

definition all_setup_status :: "setup_status list" where
  "all_setup_status = [Job_draft, Queued, Checking_ssh, Installing_agent, Installing_vpn, Verifying,
     Success, Failed, Cancelled]"

definition all_auth_method :: "auth_method list" where
  "all_auth_method = [Ssh_key, Password]"

definition all_event_level :: "event_level list" where
  "all_event_level = [Info, Warn, Error]"

section \<open>Writing and reading\<close>

definition user_to_row :: "user \<Rightarrow> row" where
  "user_to_row u =
     [(''id'', V_str (usr_id u)), (''login'', V_str (usr_login u)),
      (''display_name'', V_str (usr_display_name u)), (''role'', V_str (role_value (usr_role u))),
      (''password_hash'', V_str (usr_password_hash u)),
      (''created_at'', V_time (usr_created_at u)), (''updated_at'', V_time (usr_updated_at u)),
      (''is_active'', V_bool (usr_is_active u)),
      (''telegram_username'', v_opt V_str (usr_telegram_username u)),
      (''device_limit'', v_opt V_int (usr_device_limit u)),
      (''device_limit_unlimited'', V_bool (usr_device_limit_unlimited u)),
      (''show_server_support'', V_bool (usr_show_server_support u)),
      (''free_access'', V_bool (usr_free_access u)), (''note'', v_opt V_str (usr_note u)),
      (''created_by_user_id'', v_opt V_str (usr_created_by_user_id u))]"

definition user_of_row :: "row \<Rightarrow> user res" where
  "user_of_row r =
     sum_bind (enum_of role_value all_user_role (g_str r ''role'')) (\<lambda>role.
      Inr \<lparr>usr_id = g_str r ''id'', usr_login = g_str r ''login'',
       usr_display_name = g_str r ''display_name'', usr_role = role,
       usr_password_hash = g_str r ''password_hash'', usr_created_at = g_time r ''created_at'',
       usr_updated_at = g_time r ''updated_at'', usr_is_active = g_bool r ''is_active'',
       usr_telegram_username = g_opt g_str r ''telegram_username'',
       usr_device_limit = g_opt g_int r ''device_limit'',
       usr_device_limit_unlimited = g_bool r ''device_limit_unlimited'',
       usr_show_server_support = g_bool r ''show_server_support'',
       usr_free_access = g_bool r ''free_access'', usr_note = g_opt g_str r ''note'',
       usr_created_by_user_id = g_opt g_str r ''created_by_user_id''\<rparr>)"

definition session_to_row :: "session \<Rightarrow> row" where
  "session_to_row x =
     [(''id'', V_str (ses_id x)), (''user_id'', V_str (ses_user_id x)),
      (''token_hash'', V_str (ses_token_hash x)), (''created_at'', V_time (ses_created_at x)),
      (''expires_at'', V_time (ses_expires_at x)),
      (''last_seen_at'', V_time (ses_last_seen_at x)),
      (''user_agent'', v_opt V_str (ses_user_agent x)),
      (''ip_address'', v_opt V_str (ses_ip_address x)),
      (''revoked_at'', v_opt V_time (ses_revoked_at x))]"

definition session_of_row :: "row \<Rightarrow> session res" where
  "session_of_row r = Inr
     \<lparr>ses_id = g_str r ''id'', ses_user_id = g_str r ''user_id'',
       ses_token_hash = g_str r ''token_hash'', ses_created_at = g_time r ''created_at'',
       ses_expires_at = g_time r ''expires_at'', ses_last_seen_at = g_time r ''last_seen_at'',
       ses_user_agent = g_opt g_str r ''user_agent'',
       ses_ip_address = g_opt g_str r ''ip_address'',
       ses_revoked_at = g_opt g_time r ''revoked_at''\<rparr>"

definition server_node_to_row :: "server_node \<Rightarrow> row" where
  "server_node_to_row n =
     [(''id'', V_str (node_id n)), (''name'', V_str (node_name n)),
      (''public_host'', V_str (node_public_host n)),
      (''agent_base_url'', V_str (node_agent_base_url n)),
      (''created_at'', V_time (node_created_at n)), (''updated_at'', V_time (node_updated_at n)),
      (''public_port'', v_opt V_int (node_public_port n)),
      (''region_note'', v_opt V_str (node_region_note n)),
      (''provider'', v_opt V_str (node_provider n)),
      (''agent_key_id'', v_opt V_str (node_agent_key_id n)),
      (''agent_secret_encrypted'', v_opt V_str (node_agent_secret_encrypted n)),
      (''agent_allowed_ip_note'', v_opt V_str (node_agent_allowed_ip_note n)),
      (''status'', V_str (server_status_value (node_status n))),
      (''last_seen_at'', v_opt V_time (node_last_seen_at n)),
      (''last_error'', v_opt V_msg (node_last_error n)),
      (''last_status_payload'', v_json (node_last_status_payload n)),
      (''awg_container_name'', V_str (node_awg_container_name n)),
      (''awg_interface'', V_str (node_awg_interface n)),
      (''awg_config_path'', V_str (node_awg_config_path n)),
      (''clients_table_path'', V_str (node_clients_table_path n)),
      (''is_available_for_new_devices'', V_bool (node_is_available_for_new_devices n)),
      (''created_by_user_id'', v_opt V_str (node_created_by_user_id n))]"

definition server_node_of_row :: "row \<Rightarrow> server_node res" where
  "server_node_of_row r =
     sum_bind (enum_of server_status_value all_server_status (g_str r ''status'')) (\<lambda>status.
      Inr \<lparr>node_id = g_str r ''id'', node_name = g_str r ''name'',
       node_public_host = g_str r ''public_host'',
       node_agent_base_url = g_str r ''agent_base_url'',
       node_created_at = g_time r ''created_at'', node_updated_at = g_time r ''updated_at'',
       node_public_port = g_opt g_int r ''public_port'',
       node_region_note = g_opt g_str r ''region_note'',
       node_provider = g_opt g_str r ''provider'',
       node_agent_key_id = g_opt g_str r ''agent_key_id'',
       node_agent_secret_encrypted = g_opt g_str r ''agent_secret_encrypted'',
       node_agent_allowed_ip_note = g_opt g_str r ''agent_allowed_ip_note'', node_status = status,
       node_last_seen_at = g_opt g_time r ''last_seen_at'',
       node_last_error = g_opt g_msg r ''last_error'',
       node_last_status_payload = g_opt g_json r ''last_status_payload'',
       node_awg_container_name = g_str r ''awg_container_name'',
       node_awg_interface = g_str r ''awg_interface'',
       node_awg_config_path = g_str r ''awg_config_path'',
       node_clients_table_path = g_str r ''clients_table_path'',
       node_is_available_for_new_devices = g_bool r ''is_available_for_new_devices'',
       node_created_by_user_id = g_opt g_str r ''created_by_user_id''\<rparr>)"

definition device_to_row :: "device \<Rightarrow> row" where
  "device_to_row d =
     [(''id'', V_str (dev_id d)), (''user_id'', V_str (dev_user_id d)),
      (''server_node_id'', V_str (dev_server_node_id d)), (''name'', V_str (dev_name d)),
      (''created_at'', V_time (dev_created_at d)), (''updated_at'', V_time (dev_updated_at d)),
      (''status'', V_str (device_status_value (dev_status d))),
      (''public_key'', v_opt V_str (dev_public_key d)),
      (''client_ip'', v_opt V_str (dev_client_ip d)),
      (''last_config_issued_at'', v_opt V_time (dev_last_config_issued_at d)),
      (''last_handshake_at'', v_opt V_time (dev_last_handshake_at d)),
      (''transfer_received_label'', v_opt V_str (dev_transfer_received_label d)),
      (''transfer_sent_label'', v_opt V_str (dev_transfer_sent_label d)),
      (''last_agent_sync_at'', v_opt V_time (dev_last_agent_sync_at d)),
      (''revoked_at'', v_opt V_time (dev_revoked_at d)),
      (''failure_message'', v_opt V_msg (dev_failure_message d))]"

definition device_of_row :: "row \<Rightarrow> device res" where
  "device_of_row r =
     sum_bind (enum_of device_status_value all_device_status (g_str r ''status'')) (\<lambda>status.
      Inr \<lparr>dev_id = g_str r ''id'', dev_user_id = g_str r ''user_id'',
       dev_server_node_id = g_str r ''server_node_id'', dev_name = g_str r ''name'',
       dev_created_at = g_time r ''created_at'', dev_updated_at = g_time r ''updated_at'',
       dev_status = status, dev_public_key = g_opt g_str r ''public_key'',
       dev_client_ip = g_opt g_str r ''client_ip'',
       dev_last_config_issued_at = g_opt g_time r ''last_config_issued_at'',
       dev_last_handshake_at = g_opt g_time r ''last_handshake_at'',
       dev_transfer_received_label = g_opt g_str r ''transfer_received_label'',
       dev_transfer_sent_label = g_opt g_str r ''transfer_sent_label'',
       dev_last_agent_sync_at = g_opt g_time r ''last_agent_sync_at'',
       dev_revoked_at = g_opt g_time r ''revoked_at'',
       dev_failure_message = g_opt g_msg r ''failure_message''\<rparr>)"

definition issue_to_row :: "config_issue \<Rightarrow> row" where
  "issue_to_row i =
     [(''id'', V_str (iss_id i)), (''device_id'', V_str (iss_device_id i)),
      (''issued_to_user_id'', V_str (iss_issued_to_user_id i)),
      (''created_at'', V_time (iss_created_at i)), (''expires_at'', V_time (iss_expires_at i)),
      (''config_encrypted'', v_opt V_str (iss_config_encrypted i)),
      (''vpn_url_encrypted'', v_opt V_str (iss_vpn_url_encrypted i)),
      (''consumed_at'', v_opt V_time (iss_consumed_at i))]"

definition issue_of_row :: "row \<Rightarrow> config_issue res" where
  "issue_of_row r = Inr
     \<lparr>iss_id = g_str r ''id'', iss_device_id = g_str r ''device_id'',
       iss_issued_to_user_id = g_str r ''issued_to_user_id'',
       iss_created_at = g_time r ''created_at'', iss_expires_at = g_time r ''expires_at'',
       iss_config_encrypted = g_opt g_str r ''config_encrypted'',
       iss_vpn_url_encrypted = g_opt g_str r ''vpn_url_encrypted'',
       iss_consumed_at = g_opt g_time r ''consumed_at''\<rparr>"

definition contribution_to_row :: "contribution \<Rightarrow> row" where
  "contribution_to_row c =
     [(''id'', V_str (con_id c)), (''user_id'', V_str (con_user_id c)),
      (''amount'', V_float (con_amount c)), (''currency'', V_str (con_currency c)),
      (''recorded_by_user_id'', V_str (con_recorded_by_user_id c)),
      (''recorded_at'', V_time (con_recorded_at c)), (''created_at'', V_time (con_created_at c)),
      (''period_label'', v_opt V_str (con_period_label c)),
      (''comment'', v_opt V_str (con_comment c))]"

definition contribution_of_row :: "row \<Rightarrow> contribution res" where
  "contribution_of_row r = Inr
     \<lparr>con_id = g_str r ''id'', con_user_id = g_str r ''user_id'',
       con_amount = g_float r ''amount'', con_currency = g_str r ''currency'',
       con_recorded_by_user_id = g_str r ''recorded_by_user_id'',
       con_recorded_at = g_time r ''recorded_at'', con_created_at = g_time r ''created_at'',
       con_period_label = g_opt g_str r ''period_label'', con_comment = g_opt g_str r ''comment''\<rparr>"

definition support_settings_to_row :: "support_settings \<Rightarrow> row" where
  "support_settings_to_row st =
     [(''id'', V_int 1), (''title'', V_msg (sup_title st)), (''description'', V_msg (sup_description st)),
      (''sbp_phone'', v_opt V_str (sup_sbp_phone st)),
      (''bank_name'', v_opt V_str (sup_bank_name st)),
      (''extra_contact'', v_opt V_str (sup_extra_contact st)),
      (''monthly_cost_amount'', v_opt V_float (sup_monthly_cost_amount st)),
      (''reserve_amount'', v_opt V_float (sup_reserve_amount st)),
      (''is_enabled'', V_bool (sup_is_enabled st)),
      (''updated_by_user_id'', v_opt V_str (sup_updated_by_user_id st)),
      (''updated_at'', v_opt V_time (sup_updated_at st))]"

definition support_settings_of_row :: "row \<Rightarrow> support_settings res" where
  "support_settings_of_row r = Inr
     \<lparr>sup_title = g_msg r ''title'', sup_description = g_msg r ''description'',
       sup_sbp_phone = g_opt g_str r ''sbp_phone'', sup_bank_name = g_opt g_str r ''bank_name'',
       sup_extra_contact = g_opt g_str r ''extra_contact'',
       sup_monthly_cost_amount = g_opt g_float r ''monthly_cost_amount'',
       sup_reserve_amount = g_opt g_float r ''reserve_amount'',
       sup_is_enabled = g_bool r ''is_enabled'',
       sup_updated_by_user_id = g_opt g_str r ''updated_by_user_id'',
       sup_updated_at = g_opt g_time r ''updated_at''\<rparr>"

definition setup_job_to_row :: "setup_job \<Rightarrow> row" where
  "setup_job_to_row j =
     [(''id'', V_str (job_id j)), (''created_by_user_id'', V_str (job_created_by_user_id j)),
      (''server_name'', V_str (job_server_name j)), (''host'', V_str (job_host j)),
      (''ssh_port'', V_int (job_ssh_port j)), (''ssh_username'', V_str (job_ssh_username j)),
      (''auth_method'', V_str (auth_method_value (job_auth_method j))),
      (''created_at'', V_time (job_created_at j)), (''updated_at'', V_time (job_updated_at j)),
      (''status'', V_str (setup_status_value (job_status j))),
      (''secret_encrypted'', v_opt V_str (job_secret_encrypted j)),
      (''region_note'', v_opt V_str (job_region_note j)),
      (''install_awg'', V_bool (job_install_awg j)),
      (''available_for_new_devices'', V_bool (job_available_for_new_devices j)),
      (''verify_before_install'', V_bool (job_verify_before_install j)),
      (''current_step'', V_msg (job_current_step j)),
      (''error_message'', v_opt V_msg (job_error_message j)),
      (''result_payload'', v_opt v_jdict (job_result_payload j)),
      (''server_node_id'', v_opt V_str (job_server_node_id j)),
      (''started_at'', v_opt V_time (job_started_at j)),
      (''finished_at'', v_opt V_time (job_finished_at j))]"

definition setup_job_of_row :: "row \<Rightarrow> setup_job res" where
  "setup_job_of_row r =
     sum_bind (enum_of auth_method_value all_auth_method (g_str r ''auth_method'')) (\<lambda>auth_method.
      sum_bind (enum_of setup_status_value all_setup_status (g_str r ''status'')) (\<lambda>status.
      Inr \<lparr>job_id = g_str r ''id'', job_created_by_user_id = g_str r ''created_by_user_id'',
       job_server_name = g_str r ''server_name'', job_host = g_str r ''host'',
       job_ssh_port = g_int r ''ssh_port'', job_ssh_username = g_str r ''ssh_username'',
       job_auth_method = auth_method, job_created_at = g_time r ''created_at'',
       job_updated_at = g_time r ''updated_at'', job_status = status,
       job_secret_encrypted = g_opt g_str r ''secret_encrypted'',
       job_region_note = g_opt g_str r ''region_note'',
       job_install_awg = g_bool r ''install_awg'',
       job_available_for_new_devices = g_bool r ''available_for_new_devices'',
       job_verify_before_install = g_bool r ''verify_before_install'',
       job_current_step = g_msg r ''current_step'',
       job_error_message = g_opt g_msg r ''error_message'',
       job_result_payload = g_opt g_jdict r ''result_payload'',
       job_server_node_id = g_opt g_str r ''server_node_id'',
       job_started_at = g_opt g_time r ''started_at'',
       job_finished_at = g_opt g_time r ''finished_at''\<rparr>))"

definition setup_event_to_row :: "setup_event \<Rightarrow> row" where
  "setup_event_to_row e =
     [(''id'', V_str (ev_id e)), (''setup_job_id'', V_str (ev_setup_job_id e)),
      (''level'', V_str (event_level_value (ev_level e))), (''step'', V_str (ev_step e)),
      (''message'', V_msg (ev_message e)), (''created_at'', V_time (ev_created_at e)),
      (''metadata'', v_jdict (ev_metadata e))]"

definition setup_event_of_row :: "row \<Rightarrow> setup_event res" where
  "setup_event_of_row r =
     sum_bind (enum_of event_level_value all_event_level (g_str r ''level'')) (\<lambda>level.
      Inr \<lparr>ev_id = g_str r ''id'', ev_setup_job_id = g_str r ''setup_job_id'', ev_level = level,
       ev_step = g_str r ''step'', ev_message = g_msg r ''message'',
       ev_created_at = g_time r ''created_at'', ev_metadata = g_jdict r ''metadata''\<rparr>)"

definition audit_to_row :: "audit_entry \<Rightarrow> row" where
  "audit_to_row a =
     [(''id'', V_str (aud_id a)), (''action'', V_str (aud_action a)),
      (''created_at'', V_time (aud_created_at a)),
      (''actor_user_id'', v_opt V_str (aud_actor_user_id a)),
      (''target_type'', v_opt V_str (aud_target_type a)),
      (''target_id'', v_opt V_str (aud_target_id a)), (''metadata'', V_json (aud_metadata a)),
      (''ip_address'', v_opt V_str (aud_ip_address a)),
      (''user_agent'', v_opt V_str (aud_user_agent a))]"

definition audit_of_row :: "row \<Rightarrow> audit_entry res" where
  "audit_of_row r = Inr
     \<lparr>aud_id = g_str r ''id'', aud_action = g_str r ''action'',
       aud_created_at = g_time r ''created_at'',
       aud_actor_user_id = g_opt g_str r ''actor_user_id'',
       aud_target_type = g_opt g_str r ''target_type'',
       aud_target_id = g_opt g_str r ''target_id'', aud_metadata = (if py_truthy (g_json r ''metadata'') then g_json r ''metadata'' else JObj []),
       aud_ip_address = g_opt g_str r ''ip_address'',
       aud_user_agent = g_opt g_str r ''user_agent''\<rparr>"

section \<open>Reading back\<close>

lemma col_Cons [simp]: "col ((k, v) # r) c = (if k = c then v else col r c)"
  by (simp add: col_def dict_get_def)

lemma getters_of_col [simp]:
  "col r c = V_str s \<Longrightarrow> g_str r c = s" "col r c = V_msg m \<Longrightarrow> g_msg r c = m"
  "col r c = V_int i \<Longrightarrow> g_int r c = i" "col r c = V_bool b \<Longrightarrow> g_bool r c = b"
  "col r c = V_float x \<Longrightarrow> g_float r c = x" "col r c = V_time t \<Longrightarrow> g_time r c = t"
  "col r c = V_json v \<Longrightarrow> g_json r c = v" "col r c = v_jdict kvs \<Longrightarrow> g_jdict r c = kvs"
  by (simp_all add: g_str_def g_msg_def g_int_def g_bool_def g_float_def g_time_def g_json_def
      g_jdict_def v_jdict_def)

lemma g_opt_of_col [simp]:
  "col r c = v_opt V_str so \<Longrightarrow> g_opt g_str r c = so" "col r c = v_opt V_msg mo \<Longrightarrow> g_opt g_msg r c = mo"
  "col r c = v_opt V_int io \<Longrightarrow> g_opt g_int r c = io" "col r c = v_opt V_float xo \<Longrightarrow> g_opt g_float r c = xo"
  "col r c = v_opt V_time to \<Longrightarrow> g_opt g_time r c = to"
  "col r c = v_opt v_jdict ko \<Longrightarrow> g_opt g_jdict r c = ko"
  by (auto simp: g_opt_def v_opt_def v_jdict_def split: option.splits)

lemma g_opt_json [simp]: "col r c = v_json jo \<Longrightarrow> jo \<noteq> Some JNull \<Longrightarrow> g_opt g_json r c = jo"
  by (auto simp: g_opt_def v_json_def split: option.splits if_splits)

lemma enum_role [simp]: "enum_of role_value all_user_role (role_value x) = Inr x"
  by (cases x) (simp_all add: enum_of_def all_user_role_def)

lemma enum_device [simp]: "enum_of device_status_value all_device_status (device_status_value x) = Inr x"
  by (cases x) (simp_all add: enum_of_def all_device_status_def)

lemma enum_server [simp]: "enum_of server_status_value all_server_status (server_status_value x) = Inr x"
  by (cases x) (simp_all add: enum_of_def all_server_status_def)

lemma enum_setup [simp]: "enum_of setup_status_value all_setup_status (setup_status_value x) = Inr x"
  by (cases x) (simp_all add: enum_of_def all_setup_status_def)

lemma enum_auth [simp]: "enum_of auth_method_value all_auth_method (auth_method_value x) = Inr x"
  by (cases x) (simp_all add: enum_of_def all_auth_method_def)

lemma enum_level [simp]: "enum_of event_level_value all_event_level (event_level_value x) = Inr x"
  by (cases x) (simp_all add: enum_of_def all_event_level_def)

lemma user_row [simp]: "user_of_row (user_to_row u) = Inr u"
  by (simp add: user_to_row_def user_of_row_def)

lemma session_row [simp]: "session_of_row (session_to_row x) = Inr x"
  by (simp add: session_to_row_def session_of_row_def)

lemma server_node_row [simp]: "node_last_status_payload n \<noteq> Some JNull \<Longrightarrow> server_node_of_row (server_node_to_row n) = Inr n"
  by (simp add: server_node_to_row_def server_node_of_row_def)

lemma device_row [simp]: "device_of_row (device_to_row d) = Inr d"
  by (simp add: device_to_row_def device_of_row_def)

lemma issue_row [simp]: "issue_of_row (issue_to_row i) = Inr i"
  by (simp add: issue_to_row_def issue_of_row_def)

lemma contribution_row [simp]: "contribution_of_row (contribution_to_row c) = Inr c"
  by (simp add: contribution_to_row_def contribution_of_row_def)

lemma support_settings_row [simp]: "support_settings_of_row (support_settings_to_row st) = Inr st"
  by (simp add: support_settings_to_row_def support_settings_of_row_def)

lemma setup_job_row [simp]: "setup_job_of_row (setup_job_to_row j) = Inr j"
  by (simp add: setup_job_to_row_def setup_job_of_row_def)

lemma setup_event_row [simp]: "setup_event_of_row (setup_event_to_row e) = Inr e"
  by (simp add: setup_event_to_row_def setup_event_of_row_def)

lemma audit_row [simp]: "py_truthy (aud_metadata a) \<or> aud_metadata a = JObj [] \<Longrightarrow> audit_of_row (audit_to_row a) = Inr a"
  by (cases "py_truthy (aud_metadata a)")
    (auto simp: audit_to_row_def audit_of_row_def intro!: audit_entry.equality)

end
