(* ===== verification/Database.thy ===== *)
theory Database
  imports Rows Storage
begin

text \<open>
  \<open>DatabaseStorage\<close> of \<open>app/storage/db.py\<close>: one function for each method, over a database that is known
  by what its statements do. SQLAlchemy and the database behind it are the parameter \<open>E\<close>; each
  method is one transaction, so that an error leaves the database as it was. The concrete engine at
  the end keeps its rows in lists.
\<close>

section \<open>The statements\<close>

text \<open>
  \<open>sql_select t p o\<close> is \<open>SELECT \<dots> WHERE p ORDER BY o\<close>, \<open>sql_merge\<close> is \<open>Session.merge\<close> of one object,
  \<open>sql_insert\<close> is \<open>Session.add\<close> of an object without a key, \<open>sql_update t p vals\<close> is
  \<open>UPDATE \<dots> SET vals WHERE p RETURNING\<close>, and \<open>sql_delete t p\<close> is \<open>DELETE \<dots> WHERE p\<close>.
\<close>

datatype row_order = Any | Asc string | Desc string

record 'd engine =
  sql_select :: "string \<Rightarrow> (row \<Rightarrow> bool) \<Rightarrow> row_order \<Rightarrow> 'd \<Rightarrow> row list"
  sql_merge :: "string \<Rightarrow> row \<Rightarrow> 'd \<Rightarrow> 'd res"
  sql_insert :: "string \<Rightarrow> row \<Rightarrow> 'd \<Rightarrow> 'd res"
  sql_update :: "string \<Rightarrow> (row \<Rightarrow> bool) \<Rightarrow> row \<Rightarrow> 'd \<Rightarrow> (row list \<times> 'd) res"
  sql_delete :: "string \<Rightarrow> (row \<Rightarrow> bool) \<Rightarrow> 'd \<Rightarrow> 'd"

text \<open>\<open>session.get(Row, id)\<close>, \<open>session.scalar(...)\<close>, \<open>session.scalars(...).all()\<close>.\<close>

definition by_id :: "ident \<Rightarrow> row \<Rightarrow> bool" where
  "by_id i r \<longleftrightarrow> col r ''id'' = V_str i"

definition has_str :: "string \<Rightarrow> string \<Rightarrow> row \<Rightarrow> bool" where
  "has_str c s r \<longleftrightarrow> col r c = V_str s"

definition str_in :: "string \<Rightarrow> string list \<Rightarrow> row \<Rightarrow> bool" where
  "str_in c ss r \<longleftrightarrow> col r c \<in> V_str ` set ss"

definition first_row :: "(row \<Rightarrow> 'a res) \<Rightarrow> row list \<Rightarrow> 'a option res" where
  "first_row conv rows =
     (case rows of [] \<Rightarrow> Inr None | r # rs \<Rightarrow> sum_bind (conv r) (\<lambda>x. Inr (Some x)))"

fun all_rows :: "(row \<Rightarrow> 'a res) \<Rightarrow> row list \<Rightarrow> 'a list res" where
  "all_rows conv [] = Inr []"
| "all_rows conv (r # rs) = sum_bind (conv r) (\<lambda>x. sum_bind (all_rows conv rs) (\<lambda>xs. Inr (x # xs)))"

section \<open>Users and sessions\<close>

definition db_save_user :: "'d engine \<Rightarrow> user \<Rightarrow> 'd \<Rightarrow> 'd res" where
  "db_save_user E u d = sql_merge E (fst user_row) (user_to_row u) d"

definition db_add_user :: "'d engine \<Rightarrow> user \<Rightarrow> 'd \<Rightarrow> 'd res" where
  "db_add_user E u d = db_save_user E u d"

definition db_get_user :: "'d engine \<Rightarrow> ident \<Rightarrow> 'd \<Rightarrow> user option res" where
  "db_get_user E i d = first_row user_of_row (sql_select E (fst user_row) (by_id i) Any d)"

definition db_get_user_by_login :: "'d engine \<Rightarrow> string \<Rightarrow> 'd \<Rightarrow> user option res" where
  "db_get_user_by_login E login d =
     (let normalized = normalize_login login in
      first_row user_of_row (sql_select E (fst user_row) (has_str ''login'' normalized) Any d))"

definition db_list_users :: "'d engine \<Rightarrow> 'd \<Rightarrow> user list res" where
  "db_list_users E d = all_rows user_of_row (sql_select E (fst user_row) (\<lambda>r. True) (Asc ''created_at'') d)"

definition db_has_admin :: "'d engine \<Rightarrow> 'd \<Rightarrow> bool" where
  "db_has_admin E d \<longleftrightarrow> length (sql_select E (fst user_row) (has_str ''role'' ''admin'') Any d) \<noteq> 0"

definition db_save_session :: "'d engine \<Rightarrow> session \<Rightarrow> 'd \<Rightarrow> 'd res" where
  "db_save_session E x d = sql_merge E (fst session_row) (session_to_row x) d"

definition db_add_session :: "'d engine \<Rightarrow> session \<Rightarrow> 'd \<Rightarrow> 'd res" where
  "db_add_session E x d = db_save_session E x d"

definition db_get_session_by_token_hash :: "'d engine \<Rightarrow> string \<Rightarrow> 'd \<Rightarrow> session option res" where
  "db_get_session_by_token_hash E h d =
     first_row session_of_row (sql_select E (fst session_row) (has_str ''token_hash'' h) Any d)"

definition db_revoke_sessions_for_user :: "'d engine \<Rightarrow> ident \<Rightarrow> time \<Rightarrow> 'd \<Rightarrow> 'd res" where
  "db_revoke_sessions_for_user E uid tm d =
     sum_bind (sql_update E (fst session_row)
         (\<lambda>r. has_str ''user_id'' uid r \<and> col r ''revoked_at'' = V_null) [(''revoked_at'', V_time tm)] d)
       (\<lambda>(rows, d1). Inr d1)"

section \<open>Server nodes and devices\<close>

definition db_save_server_node :: "'d engine \<Rightarrow> server_node \<Rightarrow> 'd \<Rightarrow> 'd res" where
  "db_save_server_node E n d = sql_merge E (fst server_node_row) (server_node_to_row n) d"

definition db_add_server_node :: "'d engine \<Rightarrow> server_node \<Rightarrow> 'd \<Rightarrow> 'd res" where
  "db_add_server_node E n d = db_save_server_node E n d"

definition db_get_server_node :: "'d engine \<Rightarrow> ident \<Rightarrow> 'd \<Rightarrow> server_node option res" where
  "db_get_server_node E i d =
     first_row server_node_of_row (sql_select E (fst server_node_row) (by_id i) Any d)"

definition db_list_server_nodes :: "'d engine \<Rightarrow> 'd \<Rightarrow> server_node list res" where
  "db_list_server_nodes E d =
     all_rows server_node_of_row (sql_select E (fst server_node_row) (\<lambda>r. True) (Asc ''created_at'') d)"

definition db_save_device :: "'d engine \<Rightarrow> device \<Rightarrow> 'd \<Rightarrow> 'd res" where
  "db_save_device E x d = sql_merge E (fst device_row) (device_to_row x) d"

definition db_add_device :: "'d engine \<Rightarrow> device \<Rightarrow> 'd \<Rightarrow> 'd res" where
  "db_add_device E x d = db_save_device E x d"

definition db_get_device :: "'d engine \<Rightarrow> ident \<Rightarrow> 'd \<Rightarrow> device option res" where
  "db_get_device E i d = first_row device_of_row (sql_select E (fst device_row) (by_id i) Any d)"

definition db_list_devices_for_user :: "'d engine \<Rightarrow> ident \<Rightarrow> 'd \<Rightarrow> device list res" where
  "db_list_devices_for_user E uid d =
     all_rows device_of_row
       (sql_select E (fst device_row) (has_str ''user_id'' uid) (Desc ''created_at'') d)"

definition db_counted :: "string list" where
  "db_counted = [device_status_value Provisioning, device_status_value Active]"

definition db_count_devices_toward_limit :: "'d engine \<Rightarrow> ident \<Rightarrow> 'd \<Rightarrow> nat" where
  "db_count_devices_toward_limit E uid d =
     length (sql_select E (fst device_row)
       (\<lambda>r. has_str ''user_id'' uid r \<and> str_in ''status'' db_counted r) Any d)"

definition db_count_active_devices_for_server :: "'d engine \<Rightarrow> ident \<Rightarrow> 'd \<Rightarrow> nat" where
  "db_count_active_devices_for_server E nid d =
     length (sql_select E (fst device_row)
       (\<lambda>r. has_str ''server_node_id'' nid r \<and> str_in ''status'' db_counted r) Any d)"

section \<open>Issued configurations\<close>

definition db_save_issue :: "'d engine \<Rightarrow> config_issue \<Rightarrow> 'd \<Rightarrow> 'd res" where
  "db_save_issue E i d =
     (let t = fst device_config_issue_row; r = issue_to_row i;
          d1 = (case sql_select E t (has_str ''device_id'' (iss_device_id i)) Any d of
                  [] \<Rightarrow> d
                | old # rs \<Rightarrow>
                    if col old ''id'' \<noteq> V_str (iss_id i)
                    then sql_delete E t (\<lambda>x. col x ''id'' = col old ''id'') d else d)
      in sql_merge E t r d1)"

definition db_set_issue :: "'d engine \<Rightarrow> config_issue \<Rightarrow> 'd \<Rightarrow> 'd res" where
  "db_set_issue E i d = db_save_issue E i d"

definition db_get_issue :: "'d engine \<Rightarrow> ident \<Rightarrow> 'd \<Rightarrow> config_issue option res" where
  "db_get_issue E dev d =
     first_row issue_of_row (sql_select E (fst device_config_issue_row) (has_str ''device_id'' dev) Any d)"

definition db_drop_issue :: "'d engine \<Rightarrow> ident \<Rightarrow> 'd \<Rightarrow> 'd res" where
  "db_drop_issue E dev d = Inr (sql_delete E (fst device_config_issue_row) (has_str ''device_id'' dev) d)"

section \<open>Support\<close>

definition ensure_support_settings_row :: "'d engine \<Rightarrow> 'd \<Rightarrow> (row \<times> 'd) res" where
  "ensure_support_settings_row E d =
     (case sql_select E (fst support_settings_row) (\<lambda>r. col r ''id'' = V_int 1) Any d of
        r # rs \<Rightarrow> Inr (r, d)
      | [] \<Rightarrow>
          let r = support_settings_to_row default_support_settings in
          sum_bind (sql_merge E (fst support_settings_row) r d) (\<lambda>d1. Inr (r, d1)))"

definition db_get_support_settings :: "'d engine \<Rightarrow> 'd \<Rightarrow> (support_settings \<times> 'd) res" where
  "db_get_support_settings E d =
     sum_bind (ensure_support_settings_row E d) (\<lambda>(r, d1).
     sum_bind (support_settings_of_row r) (\<lambda>st. Inr (st, d1)))"

definition db_support_settings :: "'d engine \<Rightarrow> 'd \<Rightarrow> (support_settings \<times> 'd) res" where
  "db_support_settings E d = db_get_support_settings E d"

definition db_save_support_settings :: "'d engine \<Rightarrow> support_settings \<Rightarrow> 'd \<Rightarrow> 'd res" where
  "db_save_support_settings E st d = sql_merge E (fst support_settings_row) (support_settings_to_row st) d"

definition db_add_contribution :: "'d engine \<Rightarrow> contribution \<Rightarrow> 'd \<Rightarrow> 'd res" where
  "db_add_contribution E c d = sql_merge E (fst support_contribution_row) (contribution_to_row c) d"

definition db_list_contributions_for_user :: "'d engine \<Rightarrow> ident \<Rightarrow> 'd \<Rightarrow> contribution list res" where
  "db_list_contributions_for_user E uid d =
     all_rows contribution_of_row
       (sql_select E (fst support_contribution_row) (has_str ''user_id'' uid) (Desc ''recorded_at'') d)"

section \<open>Setup jobs\<close>

definition db_save_setup_job :: "'d engine \<Rightarrow> setup_job \<Rightarrow> 'd \<Rightarrow> 'd res" where
  "db_save_setup_job E j d = sql_merge E (fst setup_job_row) (setup_job_to_row j) d"

definition db_add_setup_job :: "'d engine \<Rightarrow> setup_job \<Rightarrow> 'd \<Rightarrow> 'd res" where
  "db_add_setup_job E j d = db_save_setup_job E j d"

definition db_get_setup_job :: "'d engine \<Rightarrow> ident \<Rightarrow> 'd \<Rightarrow> setup_job option res" where
  "db_get_setup_job E i d = first_row setup_job_of_row (sql_select E (fst setup_job_row) (by_id i) Any d)"

definition db_list_setup_jobs :: "'d engine \<Rightarrow> 'd \<Rightarrow> setup_job list res" where
  "db_list_setup_jobs E d =
     all_rows setup_job_of_row (sql_select E (fst setup_job_row) (\<lambda>r. True) (Desc ''created_at'') d)"

text \<open>The candidate is a subquery of the one \<open>UPDATE\<close>; no row is updated when there is none.\<close>

definition db_claim_next_setup_job ::
  "'d engine \<Rightarrow> time \<Rightarrow> message \<Rightarrow> 'd \<Rightarrow> (setup_job option \<times> 'd) res" where
  "db_claim_next_setup_job E tm step d =
     (let queued = has_str ''status'' (setup_status_value Queued);
          candidate = take 1 (sql_select E (fst setup_job_row) queued (Asc ''created_at'') d) in
      sum_bind (sql_update E (fst setup_job_row)
          (\<lambda>r. col r ''id'' \<in> set (map (\<lambda>c. col c ''id'') candidate) \<and> queued r)
          [(''status'', V_str (setup_status_value Checking_ssh)), (''current_step'', V_msg step),
           (''started_at'', V_time tm), (''updated_at'', V_time tm)] d) (\<lambda>(rows, d1).
      sum_bind (first_row setup_job_of_row rows) (\<lambda>j. Inr (j, d1))))"

definition stored_values :: "row \<Rightarrow> row" where
  "stored_values vals =
     (case col vals ''status'' of
        V_status st \<Rightarrow> dict_set ''status'' (V_str (setup_status_value st)) vals
      | _ \<Rightarrow> vals)"

definition db_transition_setup_job ::
  "'d engine \<Rightarrow> ident \<Rightarrow> setup_status list \<Rightarrow> row \<Rightarrow> 'd \<Rightarrow> (setup_job option \<times> 'd) res" where
  "db_transition_setup_job E i expected vals d =
     sum_bind (sql_update E (fst setup_job_row)
         (\<lambda>r. by_id i r \<and> str_in ''status'' (map setup_status_value expected) r) (stored_values vals) d)
       (\<lambda>(rows, d1). sum_bind (first_row setup_job_of_row rows) (\<lambda>j. Inr (j, d1)))"

definition db_add_setup_event :: "'d engine \<Rightarrow> setup_event \<Rightarrow> 'd \<Rightarrow> 'd res" where
  "db_add_setup_event E e d = sql_merge E (fst setup_job_event_row) (setup_event_to_row e) d"

definition db_list_setup_events :: "'d engine \<Rightarrow> ident \<Rightarrow> 'd \<Rightarrow> setup_event list res" where
  "db_list_setup_events E i d =
     all_rows setup_event_of_row
       (sql_select E (fst setup_job_event_row) (has_str ''setup_job_id'' i) (Asc ''created_at'') d)"

section \<open>Audit log and login failures\<close>

definition db_add_audit_entry :: "'d engine \<Rightarrow> audit_entry \<Rightarrow> 'd \<Rightarrow> 'd res" where
  "db_add_audit_entry E a d = sql_merge E (fst audit_log_entry_row) (audit_to_row a) d"

definition db_list_audit_entries :: "'d engine \<Rightarrow> nat \<Rightarrow> 'd \<Rightarrow> audit_entry list res" where
  "db_list_audit_entries E limit d =
     all_rows audit_of_row
       (take limit (sql_select E (fst audit_log_entry_row) (\<lambda>r. True) (Desc ''created_at'') d))"

definition db_record_login_failure :: "'d engine \<Rightarrow> string \<Rightarrow> time \<Rightarrow> 'd \<Rightarrow> 'd res" where
  "db_record_login_failure E k tm d =
     sql_insert E (fst login_failure_row) [(''key'', V_str k), (''attempted_at'', V_time tm)] d"

definition db_count_login_failures :: "'d engine \<Rightarrow> string \<Rightarrow> time \<Rightarrow> 'd \<Rightarrow> nat \<times> 'd" where
  "db_count_login_failures E k since d =
     (let d1 = sql_delete E (fst login_failure_row) (\<lambda>r. g_time r ''attempted_at'' < since) d
      in (length (sql_select E (fst login_failure_row) (has_str ''key'' k) Any d1), d1))"

definition db_clear_login_failures :: "'d engine \<Rightarrow> string \<Rightarrow> 'd \<Rightarrow> 'd" where
  "db_clear_login_failures E k d = sql_delete E (fst login_failure_row) (has_str ''key'' k) d"

end
