(* ===== verification/DbEngine.thy ===== *)
theory DbEngine
  imports Database "HOL-Library.Multiset"
begin

text \<open>
  What is relied on of the database: \<open>engine_ok\<close> names the documented behaviour of the statements over
  the contents of the tables \<open>C d t\<close>. A statement that a table accepts succeeds and changes that
  table alone; a query delivers the rows asked for, ordered as asked, rows with equal keys in any
  order. \<open>list_engine\<close> is a concrete engine with this behaviour.
\<close>

section \<open>What a table accepts\<close>

text \<open>
  PostgreSQL keeps no text with the character 0. \<open>render\<close> yields the text of a message, whose length
  counts for a \<open>String(n)\<close>. The values a condition compares with are taken to be without that character,
  which the driver refuses there as well.
\<close>

definition nul_free :: "string \<Rightarrow> bool" where
  "nul_free s \<longleftrightarrow> CHR 0x00 \<notin> set s"

definition text_fits :: "col_type \<Rightarrow> string \<Rightarrow> bool" where
  "text_fits ty s \<longleftrightarrow> nul_free s \<and>
     (case ty of Varchar n \<Rightarrow> text_length s \<le> n | Text \<Rightarrow> True | _ \<Rightarrow> False)"

definition value_fits :: "(message \<Rightarrow> string) \<Rightarrow> col_type \<Rightarrow> col_flag list \<Rightarrow> dbval \<Rightarrow> bool" where
  "value_fits render ty fl v =
     (case v of
        V_null \<Rightarrow> Nullable \<in> set fl
      | V_str s \<Rightarrow> text_fits ty s
      | V_msg m \<Rightarrow> text_fits ty (render m)
      | V_int i \<Rightarrow> ty = Integer \<and> - (2 ^ 31) \<le> i \<and> i < 2 ^ 31
      | V_bool b \<Rightarrow> ty = Boolean
      | V_float x \<Rightarrow> ty = Float
      | V_time t \<Rightarrow> ty = Timestamptz
      | V_json j \<Rightarrow> ty = Json
      | V_status st \<Rightarrow> False)"

definition row_fits :: "(message \<Rightarrow> string) \<Rightarrow> model \<Rightarrow> row \<Rightarrow> bool" where
  "row_fits render m r \<longleftrightarrow> (\<forall>(c, ty, fl) \<in> set (snd m). value_fits render ty fl (col r c))"

definition unique_cols :: "model \<Rightarrow> string list" where
  "unique_cols m = map fst (filter (\<lambda>(c, ty, fl). Unique \<in> set fl) (snd m))"

definition accepts :: "(message \<Rightarrow> string) \<Rightarrow> model \<Rightarrow> row \<Rightarrow> row list \<Rightarrow> bool" where
  "accepts render m r rows \<longleftrightarrow> row_fits render m r \<and>
     (\<forall>c \<in> set (unique_cols m). \<forall>x \<in> set rows. col x ''id'' \<noteq> col r ''id'' \<longrightarrow> col x c \<noteq> col r c)"

fun upsert :: "row \<Rightarrow> row list \<Rightarrow> row list" where
  "upsert r [] = [r]"
| "upsert r (x # xs) = (if col x ''id'' = col r ''id'' then r # xs else x # upsert r xs)"

definition set_cols :: "row \<Rightarrow> row \<Rightarrow> row" where
  "set_cols vals r = foldl (\<lambda>r (c, v). dict_set c v r) r vals"

definition in_order :: "row_order \<Rightarrow> row list \<Rightarrow> bool" where
  "in_order ord rows =
     (case ord of
        Any \<Rightarrow> True
      | Asc c \<Rightarrow> sorted (map (\<lambda>r. g_time r c) rows)
      | Desc c \<Rightarrow> sorted (map (\<lambda>r. g_time r c) (rev rows)))"

section \<open>The hypothesis\<close>

definition select_ok :: "'d engine \<Rightarrow> ('d \<Rightarrow> string \<Rightarrow> row list) \<Rightarrow> bool" where
  "select_ok E C \<longleftrightarrow> (\<forall>t p ord d. mset (sql_select E t p ord d) = mset (filter p (C d t)) \<and>
     in_order ord (sql_select E t p ord d))"

definition merge_ok :: "(message \<Rightarrow> string) \<Rightarrow> 'd engine \<Rightarrow> ('d \<Rightarrow> string \<Rightarrow> row list) \<Rightarrow> bool" where
  "merge_ok render E C \<longleftrightarrow> (\<forall>m \<in> set mapped_classes. \<forall>r d. accepts render m r (C d (fst m)) \<longrightarrow>
     (\<exists>d'. sql_merge E (fst m) r d = Inr d' \<and> C d' = (C d)(fst m := upsert r (C d (fst m)))))"

definition insert_ok :: "(message \<Rightarrow> string) \<Rightarrow> 'd engine \<Rightarrow> ('d \<Rightarrow> string \<Rightarrow> row list) \<Rightarrow> bool" where
  "insert_ok render E C \<longleftrightarrow> (\<forall>m \<in> set mapped_classes. \<forall>r d. row_fits render m ((''id'', V_int 0) # r) \<longrightarrow>
     (\<exists>d' n. sql_insert E (fst m) r d = Inr d' \<and>
        C d' = (C d)(fst m := C d (fst m) @ [(''id'', V_int n) # r])))"

definition update_ok :: "(message \<Rightarrow> string) \<Rightarrow> 'd engine \<Rightarrow> ('d \<Rightarrow> string \<Rightarrow> row list) \<Rightarrow> bool" where
  "update_ok render E C \<longleftrightarrow> (\<forall>m \<in> set mapped_classes. \<forall>p vals d.
     fst ` set vals \<inter> insert ''id'' (set (unique_cols m)) = {} \<longrightarrow>
     (\<forall>x \<in> set (C d (fst m)). p x \<longrightarrow> row_fits render m (set_cols vals x)) \<longrightarrow>
     (\<exists>rows d'. sql_update E (fst m) p vals d = Inr (rows, d') \<and>
        mset rows = mset (map (set_cols vals) (filter p (C d (fst m)))) \<and>
        C d' = (C d)(fst m := map (\<lambda>x. if p x then set_cols vals x else x) (C d (fst m)))))"

definition delete_ok :: "'d engine \<Rightarrow> ('d \<Rightarrow> string \<Rightarrow> row list) \<Rightarrow> bool" where
  "delete_ok E C \<longleftrightarrow> (\<forall>t p d. C (sql_delete E t p d) = (C d)(t := filter (\<lambda>x. \<not> p x) (C d t)))"

definition engine_ok :: "(message \<Rightarrow> string) \<Rightarrow> 'd engine \<Rightarrow> ('d \<Rightarrow> string \<Rightarrow> row list) \<Rightarrow> bool" where
  "engine_ok render E C \<longleftrightarrow> select_ok E C \<and> merge_ok render E C \<and> insert_ok render E C \<and>
     update_ok render E C \<and> delete_ok E C"

lemma update_okE:
  assumes "update_ok render E C" "m \<in> set mapped_classes"
    and "fst ` set vals \<inter> insert ''id'' (set (unique_cols m)) = {}"
    and "\<forall>x \<in> set (C d (fst m)). p x \<longrightarrow> row_fits render m (set_cols vals x)"
  obtains rows d1 where "sql_update E (fst m) p vals d = Inr (rows, d1)"
    "mset rows = mset (map (set_cols vals) (filter p (C d (fst m))))"
    "C d1 = (C d)(fst m := map (\<lambda>x. if p x then set_cols vals x else x) (C d (fst m)))"
  using assms(1) [unfolded update_ok_def, THEN bspec, OF assms(2), THEN spec [where x = p],
      THEN spec [where x = vals], THEN spec [where x = d], THEN mp, OF assms(3), THEN mp, OF assms(4)] that
  by (elim exE conjE)

section \<open>An engine over lists\<close>

definition class_of :: "string \<Rightarrow> model option" where
  "class_of t = find (\<lambda>m. fst m = t) mapped_classes"

definition order_rows :: "row_order \<Rightarrow> row list \<Rightarrow> row list" where
  "order_rows ord rows =
     (case ord of
        Any \<Rightarrow> rows
      | Asc c \<Rightarrow> sort_key (\<lambda>r. g_time r c) rows
      | Desc c \<Rightarrow> rev (sort_key (\<lambda>r. g_time r c) rows))"

definition list_engine :: "(message \<Rightarrow> string) \<Rightarrow> (string \<Rightarrow> row list) engine" where
  "list_engine render =
     \<lparr>sql_select = (\<lambda>t p ord d. order_rows ord (filter p (d t))),
      sql_merge = (\<lambda>t r d.
        case class_of t of
          None \<Rightarrow> Inl (Py (KeyError t))
        | Some m \<Rightarrow> if accepts render m r (d t) then Inr (d(t := upsert r (d t))) else Inl (Py ValueError)),
      sql_insert = (\<lambda>t r d.
        case class_of t of
          None \<Rightarrow> Inl (Py (KeyError t))
        | Some m \<Rightarrow>
            if row_fits render m ((''id'', V_int 0) # r)
            then Inr (d(t := d t @ [(''id'', V_int (int (length (d t)))) # r])) else Inl (Py ValueError)),
      sql_update = (\<lambda>t p vals d.
        case class_of t of
          None \<Rightarrow> Inl (Py (KeyError t))
        | Some m \<Rightarrow>
            if list_all (\<lambda>x. p x \<longrightarrow> row_fits render m (set_cols vals x)) (d t)
            then Inr (map (set_cols vals) (filter p (d t)),
                      d(t := map (\<lambda>x. if p x then set_cols vals x else x) (d t)))
            else Inl (Py ValueError)),
      sql_delete = (\<lambda>t p d. d(t := filter (\<lambda>x. \<not> p x) (d t)))\<rparr>"

lemma find_fst: "distinct (map fst ms) \<Longrightarrow> m \<in> set ms \<Longrightarrow> find (\<lambda>x. fst x = fst m) ms = Some m"
  by (induction ms) (auto simp: image_iff dest: sym)

lemma distinct_tables: "distinct (map fst mapped_classes)"
  by code_simp

lemma class_of_mapped: "m \<in> set mapped_classes \<Longrightarrow> class_of (fst m) = Some m"
  by (simp add: class_of_def find_fst [OF distinct_tables])

lemma list_engine_ok: "engine_ok render (list_engine render) (\<lambda>d. d)"
proof -
  have "select_ok (list_engine render) (\<lambda>d. d)"
    by (simp add: select_ok_def list_engine_def order_rows_def in_order_def split: row_order.split)
  moreover have "merge_ok render (list_engine render) (\<lambda>d. d)"
    by (simp add: merge_ok_def list_engine_def class_of_mapped)
  moreover have "insert_ok render (list_engine render) (\<lambda>d. d)"
    by (auto simp: insert_ok_def list_engine_def class_of_mapped)
  moreover have "update_ok render (list_engine render) (\<lambda>d. d)"
    by (auto simp: update_ok_def list_engine_def class_of_mapped list_all_iff)
  moreover have "delete_ok (list_engine render) (\<lambda>d. d)"
    by (simp add: delete_ok_def list_engine_def)
  ultimately show ?thesis by (simp add: engine_ok_def)
qed

end
