(* ===== verification/DbStore.thy ===== *)
theory DbStore
  imports DbEngine SetupJobs
begin

text \<open>
  The methods the two storages have in common, as one datatype of operations with one function that
  performs them in memory (\<open>mem_step\<close>) and one that performs them on the database (\<open>db_step\<close>);
  and the relation between the two states (\<open>db_sim\<close>) with what it needs of dictionaries.
\<close>

section \<open>Operations\<close>

datatype store_op =
  Save_user user | Get_user ident | Get_user_by_login string | List_users | Has_admin
| Save_session session | Get_session string | Revoke_sessions ident time
| Save_node server_node | Get_node ident | List_nodes
| Save_device device | Get_device ident | List_devices ident | Count_limit ident | Count_node ident
| Save_issue config_issue | Get_issue ident | Drop_issue ident
| Get_support | Save_support support_settings
| Add_contribution contribution | List_contributions ident
| Save_job setup_job | Get_job ident | List_jobs | Claim_job time message
| Transition_job ident "setup_status list" row
| Add_event setup_event | List_events ident
| Add_audit audit_entry | List_audit nat
| Record_failure string time | Count_failures string time | Clear_failures string

datatype answer =
  A_done | A_bool bool | A_count nat
| A_user "user option" | A_users "user list" | A_session "session option"
| A_node "server_node option" | A_nodes "server_node list"
| A_device "device option" | A_devices "device list"
| A_issue "config_issue option" | A_support support_settings | A_contributions "contribution list"
| A_job "setup_job option" | A_jobs "setup_job list" | A_events "setup_event list"
| A_audit "audit_entry list"

text \<open>The loop of \<open>setattr\<close> with which the in-memory storage applies the values of a transition.\<close>

definition job_setattr :: "string \<Rightarrow> dbval \<Rightarrow> setup_job \<Rightarrow> setup_job" where
  "job_setattr f v j =
     (if f = ''status'' then (case v of V_status x \<Rightarrow> j\<lparr>job_status := x\<rparr> | _ \<Rightarrow> j)
      else if f = ''current_step'' then (case v of V_msg x \<Rightarrow> j\<lparr>job_current_step := x\<rparr> | _ \<Rightarrow> j)
      else if f = ''error_message'' then (case v of V_msg x \<Rightarrow> j\<lparr>job_error_message := Some x\<rparr> | _ \<Rightarrow> j)
      else if f = ''finished_at'' then (case v of V_time x \<Rightarrow> j\<lparr>job_finished_at := Some x\<rparr> | _ \<Rightarrow> j)
      else if f = ''updated_at'' then (case v of V_time x \<Rightarrow> j\<lparr>job_updated_at := x\<rparr> | _ \<Rightarrow> j)
      else if f = ''secret_encrypted'' then (case v of V_null \<Rightarrow> j\<lparr>job_secret_encrypted := None\<rparr> | _ \<Rightarrow> j)
      else if f = ''server_node_id'' then (case v of V_str x \<Rightarrow> j\<lparr>job_server_node_id := Some x\<rparr> | _ \<Rightarrow> j)
      else if f = ''result_payload'' then
        (case v of V_json (JObj kvs) \<Rightarrow> j\<lparr>job_result_payload := Some kvs\<rparr> | _ \<Rightarrow> j)
      else j)"

definition job_setattrs :: "row \<Rightarrow> setup_job \<Rightarrow> setup_job" where
  "job_setattrs vals j = foldl (\<lambda>j (f, v). job_setattr f v j) j vals"

fun mem_step :: "store_op \<Rightarrow> storage \<Rightarrow> answer \<times> storage" where
  "mem_step (Save_user u) s = (A_done, save_user u s)"
| "mem_step (Get_user i) s = (A_user (get_user i s), s)"
| "mem_step (Get_user_by_login l) s = (A_user (get_user_by_login l s), s)"
| "mem_step List_users s = (A_users (list_users s), s)"
| "mem_step Has_admin s = (A_bool (has_admin s), s)"
| "mem_step (Save_session x) s = (A_done, save_session x s)"
| "mem_step (Get_session h) s = (A_session (get_session_by_token_hash h s), s)"
| "mem_step (Revoke_sessions uid tm) s = (A_done, revoke_sessions_for_user uid tm s)"
| "mem_step (Save_node n) s = (A_done, save_server_node n s)"
| "mem_step (Get_node i) s = (A_node (get_server_node i s), s)"
| "mem_step List_nodes s = (A_nodes (list_server_nodes s), s)"
| "mem_step (Save_device x) s = (A_done, save_device x s)"
| "mem_step (Get_device i) s = (A_device (get_device i s), s)"
| "mem_step (List_devices uid) s = (A_devices (list_devices_for_user uid s), s)"
| "mem_step (Count_limit uid) s = (A_count (count_devices_toward_limit uid s), s)"
| "mem_step (Count_node nid) s = (A_count (count_active_devices_for_server nid s), s)"
| "mem_step (Save_issue i) s = (A_done, save_issue i s)"
| "mem_step (Get_issue i) s = (A_issue (get_issue i s), s)"
| "mem_step (Drop_issue i) s = (A_done, drop_issue i s)"
| "mem_step Get_support s = (A_support (get_support_settings s), s)"
| "mem_step (Save_support x) s = (A_done, save_support_settings x s)"
| "mem_step (Add_contribution c) s = (A_done, add_contribution c s)"
| "mem_step (List_contributions uid) s = (A_contributions (list_contributions_for_user uid s), s)"
| "mem_step (Save_job j) s = (A_done, save_setup_job j s)"
| "mem_step (Get_job i) s = (A_job (get_setup_job i s), s)"
| "mem_step List_jobs s = (A_jobs (list_setup_jobs s), s)"
| "mem_step (Claim_job tm m) s = (let (r, s1) = claim_next_setup_job tm m s in (A_job r, s1))"
| "mem_step (Transition_job i ex vals) s =
     (let (r, s1) = transition_setup_job i ex (job_setattrs vals) s in (A_job r, s1))"
| "mem_step (Add_event e) s = (A_done, add_setup_event e s)"
| "mem_step (List_events i) s = (A_events (list_setup_events i s), s)"
| "mem_step (Add_audit a) s = (A_done, add_audit_entry a s)"
| "mem_step (List_audit n) s = (A_audit (list_audit_entries n s), s)"
| "mem_step (Record_failure k tm) s = (A_done, record_login_failure k tm s)"
| "mem_step (Count_failures k tm) s = (let (n, s1) = count_login_failures k tm s in (A_count n, s1))"
| "mem_step (Clear_failures k) s = (A_done, clear_login_failures k s)"

definition done_in :: "'d res \<Rightarrow> (answer \<times> 'd) res" where
  "done_in r = sum_bind r (\<lambda>d1. Inr (A_done, d1))"

definition read_in :: "('a \<Rightarrow> answer) \<Rightarrow> 'a res \<Rightarrow> 'd \<Rightarrow> (answer \<times> 'd) res" where
  "read_in f r d = sum_bind r (\<lambda>x. Inr (f x, d))"

definition both_in :: "('a \<Rightarrow> answer) \<Rightarrow> ('a \<times> 'd) res \<Rightarrow> (answer \<times> 'd) res" where
  "both_in f r = sum_bind r (\<lambda>(x, d1). Inr (f x, d1))"

lemmas ins_def = done_in_def read_in_def both_in_def

fun db_step :: "'d engine \<Rightarrow> store_op \<Rightarrow> 'd \<Rightarrow> (answer \<times> 'd) res" where
  "db_step E (Save_user u) d = done_in (db_save_user E u d)"
| "db_step E (Get_user i) d = read_in A_user (db_get_user E i d) d"
| "db_step E (Get_user_by_login l) d = read_in A_user (db_get_user_by_login E l d) d"
| "db_step E List_users d = read_in A_users (db_list_users E d) d"
| "db_step E Has_admin d = Inr (A_bool (db_has_admin E d), d)"
| "db_step E (Save_session x) d = done_in (db_save_session E x d)"
| "db_step E (Get_session h) d = read_in A_session (db_get_session_by_token_hash E h d) d"
| "db_step E (Revoke_sessions uid tm) d = done_in (db_revoke_sessions_for_user E uid tm d)"
| "db_step E (Save_node n) d = done_in (db_save_server_node E n d)"
| "db_step E (Get_node i) d = read_in A_node (db_get_server_node E i d) d"
| "db_step E List_nodes d = read_in A_nodes (db_list_server_nodes E d) d"
| "db_step E (Save_device x) d = done_in (db_save_device E x d)"
| "db_step E (Get_device i) d = read_in A_device (db_get_device E i d) d"
| "db_step E (List_devices uid) d = read_in A_devices (db_list_devices_for_user E uid d) d"
| "db_step E (Count_limit uid) d = Inr (A_count (db_count_devices_toward_limit E uid d), d)"
| "db_step E (Count_node nid) d = Inr (A_count (db_count_active_devices_for_server E nid d), d)"
| "db_step E (Save_issue i) d = done_in (db_save_issue E i d)"
| "db_step E (Get_issue i) d = read_in A_issue (db_get_issue E i d) d"
| "db_step E (Drop_issue i) d = done_in (db_drop_issue E i d)"
| "db_step E Get_support d = both_in A_support (db_get_support_settings E d)"
| "db_step E (Save_support x) d = done_in (db_save_support_settings E x d)"
| "db_step E (Add_contribution c) d = done_in (db_add_contribution E c d)"
| "db_step E (List_contributions uid) d = read_in A_contributions (db_list_contributions_for_user E uid d) d"
| "db_step E (Save_job j) d = done_in (db_save_setup_job E j d)"
| "db_step E (Get_job i) d = read_in A_job (db_get_setup_job E i d) d"
| "db_step E List_jobs d = read_in A_jobs (db_list_setup_jobs E d) d"
| "db_step E (Claim_job tm m) d = both_in A_job (db_claim_next_setup_job E tm m d)"
| "db_step E (Transition_job i ex vals) d = both_in A_job (db_transition_setup_job E i ex vals d)"
| "db_step E (Add_event e) d = done_in (db_add_setup_event E e d)"
| "db_step E (List_events i) d = read_in A_events (db_list_setup_events E i d) d"
| "db_step E (Add_audit a) d = done_in (db_add_audit_entry E a d)"
| "db_step E (List_audit n) d = read_in A_audit (db_list_audit_entries E n d) d"
| "db_step E (Record_failure k tm) d = done_in (db_record_login_failure E k tm d)"
| "db_step E (Count_failures k tm) d = both_in A_count (Inr (db_count_login_failures E k tm d))"
| "db_step E (Clear_failures k) d = Inr (A_done, db_clear_login_failures E k d)"

text \<open>
  Two answers agree when they are equal, lists up to the order of entries of the same time.
\<close>

definition lists_agree :: "('a \<Rightarrow> time) \<Rightarrow> 'a list \<Rightarrow> 'a list \<Rightarrow> bool" where
  "lists_agree f xs ys \<longleftrightarrow> mset xs = mset ys \<and> map f xs = map f ys"

inductive agrees :: "answer \<Rightarrow> answer \<Rightarrow> bool" where
  agree_same: "agrees a a"
| agree_users: "lists_agree usr_created_at xs ys \<Longrightarrow> agrees (A_users xs) (A_users ys)"
| agree_nodes: "lists_agree node_created_at xs ys \<Longrightarrow> agrees (A_nodes xs) (A_nodes ys)"
| agree_devices: "lists_agree dev_created_at xs ys \<Longrightarrow> agrees (A_devices xs) (A_devices ys)"
| agree_contributions:
    "lists_agree con_recorded_at xs ys \<Longrightarrow> agrees (A_contributions xs) (A_contributions ys)"
| agree_jobs: "lists_agree job_created_at xs ys \<Longrightarrow> agrees (A_jobs xs) (A_jobs ys)"
| agree_events: "lists_agree ev_created_at xs ys \<Longrightarrow> agrees (A_events xs) (A_events ys)"

inductive_simps agrees_scalar [simp]:
  "agrees (A_user x) b" "agrees (A_job y) b" "agrees (A_count n) b" "agrees (A_support st) b"

section \<open>The relation of the two states\<close>

definition keyed :: "('v \<Rightarrow> 'k) \<Rightarrow> ('k, 'v) dict \<Rightarrow> bool" where
  "keyed key D \<longleftrightarrow> (\<forall>(k, v) \<in> set D. k = key v) \<and> distinct (map fst D)"

definition same_users :: "row list \<Rightarrow> (ident, user) dict \<Rightarrow> bool" where
  "same_users rows D \<longleftrightarrow> rows = map user_to_row (dict_values D) \<and> keyed usr_id D \<and>
     distinct (map usr_login (dict_values D))"

definition same_sessions :: "row list \<Rightarrow> (string, session) dict \<Rightarrow> bool" where
  "same_sessions rows D \<longleftrightarrow> rows = map session_to_row (dict_values D) \<and>
     keyed ses_token_hash D"

definition same_nodes :: "row list \<Rightarrow> (ident, server_node) dict \<Rightarrow> bool" where
  "same_nodes rows D \<longleftrightarrow> rows = map server_node_to_row (dict_values D) \<and>
     keyed node_id D \<and>
     (\<forall>n \<in> set (dict_values D). node_last_status_payload n \<noteq> Some JNull)"

definition same_devices :: "row list \<Rightarrow> (ident, device) dict \<Rightarrow> bool" where
  "same_devices rows D \<longleftrightarrow> rows = map device_to_row (dict_values D) \<and> keyed dev_id D"

definition same_issues :: "row list \<Rightarrow> (ident, config_issue) dict \<Rightarrow> bool" where
  "same_issues rows D \<longleftrightarrow> mset rows = mset (map issue_to_row (dict_values D)) \<and>
     keyed iss_device_id D \<and> distinct (map iss_id (dict_values D))"

definition same_support :: "row list \<Rightarrow> support_settings \<Rightarrow> bool" where
  "same_support rows st \<longleftrightarrow> rows = [support_settings_to_row st] \<or>
     rows = [] \<and> st = default_support_settings"

definition same_jobs :: "row list \<Rightarrow> (ident, setup_job) dict \<Rightarrow> bool" where
  "same_jobs rows D \<longleftrightarrow> rows = map setup_job_to_row (dict_values D) \<and>
     keyed job_id D"

definition same_events :: "row list \<Rightarrow> (ident, setup_event list) dict \<Rightarrow> bool" where
  "same_events rows D \<longleftrightarrow>
     (\<forall>i. filter (has_str ''setup_job_id'' i) rows = map setup_event_to_row (dict_get [] D i) \<and>
        sorted (map ev_created_at (dict_get [] D i))) \<and>
     (\<forall>r \<in> set rows. \<exists>i. has_str ''setup_job_id'' i r)"

definition same_audit :: "row list \<Rightarrow> audit_entry list \<Rightarrow> bool" where
  "same_audit rows es \<longleftrightarrow> rows = map audit_to_row es \<and>
     sorted_wrt (\<lambda>a b. aud_created_at a < aud_created_at b) es \<and>
     (\<forall>a \<in> set es. py_truthy (aud_metadata a) \<or> aud_metadata a = JObj [])"

text \<open>
  The database drops all failures older than the time of the last count (\<open>w\<close>), the in-memory storage
  only those of the key counted; they agree on the later ones.
\<close>

definition same_failures :: "time \<Rightarrow> row list \<Rightarrow> (string, time list) dict \<Rightarrow> bool" where
  "same_failures w rows D \<longleftrightarrow> (\<forall>k.
     filter (\<lambda>t. w \<le> t) (map (\<lambda>r. g_time r ''attempted_at'') (filter (has_str ''key'' k) rows))
     = filter (\<lambda>t. w \<le> t) (dict_get [] D k))"

definition db_sim :: "('d \<Rightarrow> string \<Rightarrow> row list) \<Rightarrow> time \<times> storage \<Rightarrow> 'd \<Rightarrow> bool" where
  "db_sim C ws d \<longleftrightarrow> (case ws of (w, s) \<Rightarrow>
     same_users (C d (fst user_row)) (users s) \<and> same_sessions (C d (fst session_row)) (sessions s) \<and>
     same_nodes (C d (fst server_node_row)) (server_nodes s) \<and> same_devices (C d (fst device_row)) (devices s) \<and>
     same_issues (C d (fst device_config_issue_row)) (issues s) \<and>
     C d (fst support_contribution_row) = map contribution_to_row (contributions s) \<and>
     same_support (C d (fst support_settings_row)) (support_settings_of s) \<and> same_jobs (C d (fst setup_job_row)) (setup_jobs s) \<and>
     same_events (C d (fst setup_job_event_row)) (setup_events s) \<and> same_audit (C d (fst audit_log_entry_row)) (audit_log s) \<and>
     same_failures w (C d (fst login_failure_row)) (login_failures s))"

section \<open>When the two storages are expected to agree\<close>

text \<open>
  The values of a transition as the services hand them over.
\<close>

definition value_ok :: "string \<times> dbval \<Rightarrow> bool" where
  "value_ok p \<longleftrightarrow>
     (case snd p of
        V_status x \<Rightarrow> fst p = ''status''
      | V_msg m \<Rightarrow> fst p = ''current_step'' \<or> fst p = ''error_message''
      | V_time tm \<Rightarrow> fst p = ''finished_at'' \<or> fst p = ''updated_at''
      | V_null \<Rightarrow> fst p = ''secret_encrypted''
      | V_str i \<Rightarrow> fst p = ''server_node_id''
      | V_json (JObj kvs) \<Rightarrow> fst p = ''result_payload''
      | _ \<Rightarrow> False)"

lemma value_ok_cases [consumes 1]:
  assumes "value_ok (f, v)"
  obtains x where "f = ''status''" "v = V_status x" | x where "f = ''current_step''" "v = V_msg x"
    | x where "f = ''error_message''" "v = V_msg x" | x where "f = ''finished_at''" "v = V_time x"
    | x where "f = ''updated_at''" "v = V_time x" | "f = ''secret_encrypted''" "v = V_null"
    | x where "f = ''server_node_id''" "v = V_str x" | kvs where "f = ''result_payload''" "v = v_jdict kvs"
proof (cases v)
  case (V_json j)
  then show ?thesis using assms that by (cases j) (simp_all add: value_ok_def v_jdict_def)
qed (use assms that in \<open>auto simp: value_ok_def\<close>)

text \<open>
  \<open>op_ok render w op s\<close>: the row fits its columns and violates no constraint, identifiers are fresh
  where they have to be, and the clock has moved on where the order of entries is concerned.
\<close>

fun op_ok :: "(message \<Rightarrow> string) \<Rightarrow> store_op \<Rightarrow> time \<times> storage \<Rightarrow> bool" where
  "op_ok render (Save_user u) (w, s) =
     (row_fits render user_row (user_to_row u) \<and>
      (\<forall>v \<in> set (dict_values (users s)). usr_id v \<noteq> usr_id u \<longrightarrow> usr_login v \<noteq> usr_login u))"
| "op_ok render (Save_session x) (w, s) =
     (row_fits render session_row (session_to_row x) \<and>
      (\<forall>y \<in> set (dict_values (sessions s)). ses_id y = ses_id x \<longleftrightarrow> ses_token_hash y = ses_token_hash x))"
| "op_ok render (Revoke_sessions uid tm) (w, s) =
     (\<forall>y \<in> set (dict_values (sessions s)).
        row_fits render session_row (session_to_row (revoke_session_of uid tm y)))"
| "op_ok render (Save_node n) (w, s) =
     (row_fits render server_node_row (server_node_to_row n) \<and> node_last_status_payload n \<noteq> Some JNull)"
| "op_ok render (Save_device x) (w, s) = row_fits render device_row (device_to_row x)"
| "op_ok render (Save_issue i) (w, s) =
     (row_fits render device_config_issue_row (issue_to_row i) \<and>
      (\<forall>y \<in> set (dict_values (issues s)). iss_id y = iss_id i \<longrightarrow> iss_device_id y = iss_device_id i))"
| "op_ok render Get_support (w, s) =
     row_fits render support_settings_row (support_settings_to_row default_support_settings)"
| "op_ok render (Save_support x) (w, s) = row_fits render support_settings_row (support_settings_to_row x)"
| "op_ok render (Add_contribution c) (w, s) =
     (row_fits render support_contribution_row (contribution_to_row c) \<and>
      (\<forall>y \<in> set (contributions s). con_id y \<noteq> con_id c))"
| "op_ok render (Save_job j) (w, s) = row_fits render setup_job_row (setup_job_to_row j)"
| "op_ok render (Claim_job tm m) (w, s) =
     ((\<forall>j \<in> set (dict_values (setup_jobs s)).
         row_fits render setup_job_row (setup_job_to_row
           (j\<lparr>job_status := Checking_ssh, job_current_step := m, job_started_at := Some tm,
              job_updated_at := tm\<rparr>))) \<and>
      distinct (map job_created_at (filter (\<lambda>j. job_status j = Queued) (dict_values (setup_jobs s)))))"
| "op_ok render (Transition_job i ex vals) (w, s) =
     (list_all value_ok vals \<and> distinct (map fst vals) \<and>
      (case get_setup_job i s of
         None \<Rightarrow> True
       | Some j \<Rightarrow> row_fits render setup_job_row (setup_job_to_row (job_setattrs vals j))))"
| "op_ok render (Add_event e) (w, s) =
     (row_fits render setup_job_event_row (setup_event_to_row e) \<and>
      (\<forall>es \<in> set (dict_values (setup_events s)). \<forall>y \<in> set es. ev_id y \<noteq> ev_id e) \<and>
      (\<forall>y \<in> set (list_setup_events (ev_setup_job_id e) s). ev_created_at y \<le> ev_created_at e))"
| "op_ok render (Add_audit a) (w, s) =
     (row_fits render audit_log_entry_row (audit_to_row a) \<and>
      (\<forall>y \<in> set (audit_log s). aud_id y \<noteq> aud_id a \<and> aud_created_at y < aud_created_at a) \<and>
      (py_truthy (aud_metadata a) \<or> aud_metadata a = JObj []))"
| "op_ok render (List_audit n) (w, s) = (0 < n)"
| "op_ok render (Record_failure k tm) (w, s) = (text_length k \<le> 160 \<and> nul_free k)"
| "op_ok render (Count_failures k tm) (w, s) = (w \<le> tm)"
| "op_ok render _ (w, s) = True"

text \<open>The in-memory storage with the time of the last count beside it.\<close>

definition mem_step_at :: "store_op \<Rightarrow> time \<times> storage \<Rightarrow> answer \<times> time \<times> storage" where
  "mem_step_at op ws =
     (case ws of (w, s) \<Rightarrow>
        let (a, s1) = mem_step op s in
        (a, (case op of Count_failures k tm \<Rightarrow> tm | _ \<Rightarrow> w), s1))"

end
