(* ===== verification/DbReads.thy ===== *)
theory DbReads
  imports DbStore
begin

text \<open>
  The queries of the database storage: what a table delivers when it holds the rows of the in-memory
  objects, and that every reading method then gives the in-memory answer, lists up to the order of
  entries of the same time. The first part relates rows and dictionaries.
\<close>

section \<open>Rows and dictionaries\<close>

lemma table_names [simp]:
  "fst user_row = ''users''" "fst session_row = ''sessions''" "fst server_node_row = ''server_nodes''"
  "fst device_row = ''devices''" "fst device_config_issue_row = ''device_config_issues''"
  "fst support_contribution_row = ''support_contributions''"
  "fst support_settings_row = ''support_settings''" "fst setup_job_row = ''setup_jobs''"
  "fst setup_job_event_row = ''setup_job_events''" "fst audit_log_entry_row = ''audit_log_entries''"
  "fst login_failure_row = ''login_failures''"
  by (simp_all add: row_class_defs)

lemma classes_mapped [simp]:
  "user_row \<in> set mapped_classes" "session_row \<in> set mapped_classes" "server_node_row \<in> set mapped_classes"
  "device_row \<in> set mapped_classes" "device_config_issue_row \<in> set mapped_classes"
  "support_contribution_row \<in> set mapped_classes" "support_settings_row \<in> set mapped_classes"
  "setup_job_row \<in> set mapped_classes" "setup_job_event_row \<in> set mapped_classes"
  "audit_log_entry_row \<in> set mapped_classes" "login_failure_row \<in> set mapped_classes"
  by (simp_all add: mapped_classes_def)

lemma unique_columns [simp]:
  "unique_cols user_row = [''login'']" "unique_cols session_row = [''token_hash'']"
  "unique_cols server_node_row = []" "unique_cols device_row = []"
  "unique_cols device_config_issue_row = [''device_id'']" "unique_cols support_contribution_row = []"
  "unique_cols support_settings_row = []" "unique_cols setup_job_row = []"
  "unique_cols setup_job_event_row = []" "unique_cols audit_log_entry_row = []"
  "unique_cols login_failure_row = []"
  by (simp_all add: unique_cols_def row_class_defs)

lemma keyed_Cons: "keyed key ((k, v) # D) \<longleftrightarrow> k = key v \<and> keyed key D \<and> k \<notin> fst ` set D"
  by (auto simp: keyed_def)

lemma keyed_Nil [simp]: "keyed key []"
  by (simp add: keyed_def)

lemma keyed_set: "keyed key D \<Longrightarrow> keyed key (dict_set (key v) v D)"
  by (auto simp: keyed_def set_dict_set)

lemma upsert_keyed:
  assumes "\<forall>(k, x) \<in> set D. k = key v \<longleftrightarrow> col (f x) ''id'' = col (f v) ''id''"
  shows "upsert (f v) (map f (dict_values D)) = map f (dict_values (dict_set (key v) v D))"
  using assms by (induction D) auto

lemma distinct_keyed_set:
  assumes "keyed key D" "distinct (map g (dict_values D))"
    and "\<forall>x \<in> set (dict_values D). key x \<noteq> key v \<longrightarrow> g x \<noteq> g v"
  shows "distinct (map g (dict_values (dict_set (key v) v D)))"
  using assms
proof (induction D)
  case (Cons p D)
  obtain k x where p: "p = (k, x)" by fastforce
  have kx: "k = key x" "keyed key D" "k \<notin> fst ` set D" using Cons.prems(1) by (auto simp: p keyed_Cons)
  show ?case
  proof (cases "k = key v")
    case True
    have "key y \<noteq> key v" if "y \<in> set (dict_values D)" for y
      using that kx True by (force simp: keyed_def)
    then have "g v \<notin> g ` set (dict_values D)" using Cons.prems(3) by (force simp: p)
    then show ?thesis using True Cons.prems(2) by (simp add: p image_image)
  next
    case False
    have "distinct (map g (dict_values (dict_set (key v) v D)))"
      using Cons.IH [OF kx(2)] Cons.prems(2,3) by (simp add: p)
    moreover have "g x \<notin> g ` set (dict_values (dict_set (key v) v D))"
      using Cons.prems(2,3) False kx(1) by (auto simp: p dest!: in_dict_set)
    ultimately show ?thesis using False by (simp add: p image_image)
  qed
qed simp

lemma keyed_in: "keyed key D \<Longrightarrow> v \<in> set (dict_values D) \<longleftrightarrow> map_of D (key v) = Some v"
  by (auto simp: keyed_def dest: map_of_SomeD intro: image_eqI [where x = "(key v, v)"])

lemma keyed_lookup: "keyed key D \<Longrightarrow> map_of D k = Some v \<Longrightarrow> key v = k \<and> v \<in> set (dict_values D)"
  by (force simp: keyed_def dest: map_of_SomeD)

lemma keyed_eq:
  "keyed key D \<Longrightarrow> v \<in> set (dict_values D) \<Longrightarrow> x \<in> set (dict_values D) \<Longrightarrow> key v = key x \<longleftrightarrow> v = x"
  using keyed_in [of key D v] keyed_in [of key D x] by (metis option.inject)

lemma mset_keyed_set:
  "keyed key D \<Longrightarrow>
    mset (dict_values (dict_set (key v) v D)) = add_mset v (mset (filter (\<lambda>x. key x \<noteq> key v) (dict_values D)))"
proof (induction D)
  case (Cons p D)
  obtain k x where p: "p = (k, x)" by fastforce
  have kx: "k = key x" "keyed key D" "k \<notin> fst ` set D" using Cons.prems by (auto simp: p keyed_Cons)
  show ?case
  proof (cases "k = key v")
    case True
    have "filter (\<lambda>x. key x \<noteq> key v) (dict_values D) = dict_values D"
      using kx True by (force simp: keyed_def filter_id_conv)
    then show ?thesis using True kx(1) by (simp add: p)
  next
    case False
    then show ?thesis using Cons.IH [OF kx(2)] kx(1) by (simp add: p)
  qed
qed simp

lemma mset_upsert:
  assumes "distinct (map (\<lambda>x. col x ''id'') rows)"
  shows "mset (upsert r rows) = add_mset r (mset (filter (\<lambda>x. col x ''id'' \<noteq> col r ''id'') rows))"
  using assms
proof (induction rows)
  case (Cons x rows)
  show ?case
  proof (cases "col x ''id'' = col r ''id''")
    case True
    have "filter (\<lambda>y. col y ''id'' \<noteq> col r ''id'') rows = rows"
      by (rule filter_True) (use Cons.prems True in \<open>auto simp: image_iff\<close>)
    then show ?thesis using True by simp
  next
    case False
    then show ?thesis using Cons by simp
  qed
qed simp

lemma keyed_pop: "keyed key D \<Longrightarrow> keyed key (dict_pop k D)"
  by (auto simp: keyed_def AList.delete_eq distinct_map_filter)

lemma values_pop: "keyed key D \<Longrightarrow> dict_values (dict_pop k D) = filter (\<lambda>v. key v \<noteq> k) (dict_values D)"
  by (induction D) (auto simp: keyed_Cons)

lemma in_dict_get: "y \<in> set (dict_get [] D k) \<Longrightarrow> \<exists>es \<in> set (dict_values D). y \<in> set es"
proof (cases "map_of D k")
  case (Some es)
  assume "y \<in> set (dict_get [] D k)"
  then have "(k, es) \<in> set D" "y \<in> set es" using Some by (simp_all add: dict_get_def map_of_SomeD)
  then show ?thesis by force
qed (simp add: dict_get_def)

lemma same_events_default [simp]: "same_events rows (dict_setdefault i [] D) = same_events rows D"
proof -
  have "dict_get [] (dict_setdefault i [] D) j = dict_get [] D j" for j
    by (auto simp: dict_get_def split: option.split)
  then show ?thesis by (simp add: same_events_def)
qed

lemma upsert_new:
  "\<forall>x \<in> set rows. col x ''id'' \<noteq> col r ''id'' \<Longrightarrow> upsert r rows = rows @ [r]"
  by (induction rows) auto

lemma filter_keyed:
  "keyed key D \<Longrightarrow> filter (\<lambda>v. key v = i) (dict_values D) = (case map_of D i of None \<Rightarrow> [] | Some v \<Rightarrow> [v])"
proof (induction D)
  case (Cons p D)
  obtain k v where p: "p = (k, v)" by fastforce
  have kv: "k = key v" "keyed key D" "k \<notin> fst ` set D" using Cons.prems by (auto simp: p keyed_Cons)
  show ?case
  proof (cases "k = i")
    case True
    then have "map_of D i = None" using kv(3) by (simp add: map_of_eq_None_iff)
    then show ?thesis using Cons.IH [OF kv(2)] True kv(1) by (simp add: p)
  next
    case False
    then show ?thesis using Cons.IH [OF kv(2)] kv(1) by (simp add: p)
  qed
qed simp

lemma map_keyed_update:
  assumes "keyed key D" "map_of D i = Some v" "key w = i"
  shows "map (\<lambda>x. if key x = i then w else x) (dict_values D) = dict_values (dict_set i w D)"
  using assms
proof (induction D)
  case (Cons p D)
  obtain k x where p: "p = (k, x)" by fastforce
  have kx: "k = key x" "keyed key D" "k \<notin> fst ` set D" using Cons.prems by (auto simp: p keyed_Cons)
  show ?case
  proof (cases "k = i")
    case True
    have "map (\<lambda>x. if key x = i then w else x) (dict_values D) = dict_values D"
      by (rule map_idI) (use kx True in \<open>force simp: keyed_def\<close>)
    then show ?thesis using True kx by (simp add: p)
  next
    case False
    then show ?thesis using Cons.IH [OF kx(2)] Cons.prems(2,3) kx(1) by (simp add: p)
  qed
qed simp

lemma length_filter_mset: "mset xs = mset ys \<Longrightarrow> length xs = length ys"
  by (rule mset_eq_length)

section \<open>Queries\<close>

lemma all_rows_map: "\<forall>r \<in> set rows. conv r = Inr (g r) \<Longrightarrow> all_rows conv rows = Inr (map g rows)"
  by (induction rows) auto

lemma all_rows_stored: "\<forall>v \<in> set vs. conv (f v) = Inr v \<Longrightarrow> all_rows conv (map f vs) = Inr vs"
  by (induction vs) auto

text \<open>
  A table holds the objects \<open>vs\<close> when its rows are theirs, in any order, and each can be read back.
  A query then delivers the rows of the objects with the property.
\<close>

definition delivers :: "'d engine \<Rightarrow> string \<Rightarrow> 'd \<Rightarrow> (row \<Rightarrow> 'v res) \<Rightarrow> ('v \<Rightarrow> row) \<Rightarrow> 'v list \<Rightarrow> bool" where
  "delivers E t d conv f vs \<longleftrightarrow> (\<forall>v \<in> set vs. conv (f v) = Inr v) \<and>
     (\<forall>p ord. mset (sql_select E t p ord d) = mset (filter p (map f vs)) \<and>
        in_order ord (sql_select E t p ord d))"

lemma delivers_objects:
  assumes "select_ok E C" "mset (C d t) = mset (map f vs)" "\<forall>v \<in> set vs. conv (f v) = Inr v"
  shows "delivers E t d conv f vs"
  unfolding delivers_def
proof (intro conjI allI assms(3))
  fix p ord
  have "mset (sql_select E t p ord d) = filter_mset p (mset (C d t))"
    using assms(1) by (simp add: select_ok_def)
  then show "mset (sql_select E t p ord d) = mset (filter p (map f vs))" using assms(2) by simp
  show "in_order ord (sql_select E t p ord d)" using assms(1) by (simp add: select_ok_def)
qed

lemma delivers_ordered: "delivers E t d conv f vs \<Longrightarrow> in_order ord (sql_select E t p ord d)"
  by (simp add: delivers_def)

lemma select_objects:
  assumes "delivers E t d conv f vs"
  obtains ys where "sql_select E t p ord d = map f ys" "mset ys = mset (filter (\<lambda>v. p (f v)) vs)"
    "all_rows conv (sql_select E t p ord d) = Inr ys"
proof -
  let ?rows = "sql_select E t p ord d" and ?g = "\<lambda>r. projr (conv r)" and ?vs = "filter (\<lambda>v. p (f v)) vs"
  have ret: "\<forall>v \<in> set vs. conv (f v) = Inr v" using assms by (simp add: delivers_def)
  have "mset ?rows = mset (filter p (map f vs))" using assms by (simp add: delivers_def)
  then have rows: "mset ?rows = mset (map f ?vs)" by (simp only: filter_map comp_def)
  then have "\<forall>r \<in> set ?rows. \<exists>v \<in> set vs. r = f v" using mset_eq_setD [OF rows] by auto
  then have conv: "\<forall>r \<in> set ?rows. conv r = Inr (?g r)" and inv: "\<forall>r \<in> set ?rows. f (?g r) = r"
    using ret by force+
  have "mset (map ?g ?rows) = image_mset ?g (mset (map f ?vs))" by (simp only: mset_map rows)
  also have "\<dots> = mset (map (\<lambda>v. ?g (f v)) ?vs)" by (simp only: mset_map [symmetric] map_map comp_def)
  also have "map (\<lambda>v. ?g (f v)) ?vs = ?vs" by (rule map_idI) (use ret in simp)
  finally have "mset (map ?g ?rows) = mset ?vs" .
  moreover have "?rows = map f (map ?g ?rows)" using inv by (simp add: map_idI)
  ultimately show thesis using that [of "map ?g ?rows"] all_rows_map [OF conv] by blast
qed

lemma select_unique:
  assumes "delivers E t d conv f vs"
    and "filter (\<lambda>v. p (f v)) vs = (case x of None \<Rightarrow> [] | Some v \<Rightarrow> [v])"
  shows "sql_select E t p ord d = (case x of None \<Rightarrow> [] | Some v \<Rightarrow> [f v])"
proof -
  obtain ys where ys: "sql_select E t p ord d = map f ys" "mset ys = mset (filter (\<lambda>v. p (f v)) vs)"
    by (rule select_objects [OF assms(1)])
  then show ?thesis using assms(2) by (cases x) simp_all
qed

lemma select_first:
  assumes "delivers E t d conv f vs"
    and "filter (\<lambda>v. p (f v)) vs = (case x of None \<Rightarrow> [] | Some v \<Rightarrow> [v])"
  shows "first_row conv (sql_select E t p ord d) = Inr x"
proof (cases x)
  case None
  then show ?thesis using select_unique [OF assms] by (simp add: first_row_def)
next
  case (Some v)
  then have "filter (\<lambda>v. p (f v)) vs = [v]" using assms(2) by simp
  then have "v \<in> set vs" by (auto simp: filter_eq_Cons_iff)
  then show ?thesis using select_unique [OF assms] assms(1) Some by (simp add: first_row_def delivers_def)
qed

lemma select_count:
  assumes "delivers E t d conv f vs"
  shows "length (sql_select E t p ord d) = length (filter (\<lambda>v. p (f v)) vs)"
proof -
  obtain ys where "sql_select E t p ord d = map f ys" "mset ys = mset (filter (\<lambda>v. p (f v)) vs)"
    by (rule select_objects [OF assms])
  then show ?thesis by (simp add: mset_eq_length)
qed

lemma sorted_unique: "sorted xs \<Longrightarrow> sorted ys \<Longrightarrow> mset xs = mset ys \<Longrightarrow> xs = (ys :: int list)"
  by (metis properties_for_sort)

lemma py_sorted_id: "sorted (map f xs) \<Longrightarrow> py_sorted f xs = xs"
  by (simp add: py_sorted_def sort_key_id_if_sorted)

lemma rev_py_last: "0 < n \<Longrightarrow> rev (py_last n xs) = take n (rev xs)"
  by (cases "n \<le> length xs") (simp_all add: py_last_def rev_drop)

lemma ascending_agree:
  assumes "in_order (Asc c) (map f ys)" "mset ys = mset vs" "\<forall>v \<in> set vs. g_time (f v) c = key v"
  shows "lists_agree key ys (py_sorted key vs)"
proof -
  have eq: "map (\<lambda>y. g_time (f y) c) ys = map key ys" using assms(3) mset_eq_setD [OF assms(2)] by simp
  have "sorted (map (\<lambda>y. g_time (f y) c) ys)" using assms(1) by (simp add: in_order_def comp_def)
  then have "sorted (map key ys)" unfolding eq .
  moreover have "mset ys = mset (py_sorted key vs)" using assms(2) by (simp add: py_sorted_def)
  moreover from this have "mset (map key ys) = mset (map key (py_sorted key vs))" by simp
  ultimately show ?thesis
    unfolding lists_agree_def by (blast intro: sorted_unique sorted_py_sorted)
qed

lemma descending_agree:
  assumes "in_order (Desc c) (map f ys)" "mset ys = mset vs" "\<forall>v \<in> set vs. g_time (f v) c = key v"
  shows "lists_agree key ys (py_sorted_reverse key vs)"
proof -
  have eq: "map (\<lambda>y. g_time (f y) c) ys = map key ys" using assms(3) mset_eq_setD [OF assms(2)] by simp
  have "sorted (rev (map (\<lambda>y. g_time (f y) c) ys))"
    using assms(1) by (simp add: in_order_def comp_def rev_map [symmetric])
  then have "sorted (rev (map key ys))" unfolding eq .
  moreover have "sorted (rev (map key (py_sorted_reverse key vs)))"
    by (simp add: py_sorted_reverse_def rev_map [symmetric])
  moreover have same: "mset ys = mset (py_sorted_reverse key vs)" using assms(2) by (simp add: py_sorted_reverse_def)
  then have "mset (rev (map key ys)) = mset (rev (map key (py_sorted_reverse key vs)))" by simp
  ultimately have "rev (map key ys) = rev (map key (py_sorted_reverse key vs))" by (rule sorted_unique)
  then show ?thesis using same by (simp add: lists_agree_def)
qed

section \<open>Reading\<close>

lemma db_simD:
  assumes "db_sim C (w, s) d"
  shows "same_users (C d ''users'') (users s)" "same_sessions (C d ''sessions'') (sessions s)"
    "same_nodes (C d ''server_nodes'') (server_nodes s)" "same_devices (C d ''devices'') (devices s)"
    "same_issues (C d ''device_config_issues'') (issues s)"
    "C d ''support_contributions'' = map contribution_to_row (contributions s)"
    "same_support (C d ''support_settings'') (support_settings_of s)" "same_jobs (C d ''setup_jobs'') (setup_jobs s)"
    "same_events (C d ''setup_job_events'') (setup_events s)" "same_audit (C d ''audit_log_entries'') (audit_log s)"
    "same_failures w (C d ''login_failures'') (login_failures s)"
  using assms by (simp_all add: db_sim_def)

text \<open>The columns that queries look at.\<close>

lemma user_cols [simp]:
  "col (user_to_row u) ''id'' = V_str (usr_id u)" "col (user_to_row u) ''login'' = V_str (usr_login u)"
  "col (user_to_row u) ''role'' = V_str (role_value (usr_role u))"
  "g_time (user_to_row u) ''created_at'' = usr_created_at u"
  by (simp_all add: user_to_row_def)

lemma session_cols [simp]:
  "col (session_to_row x) ''id'' = V_str (ses_id x)"
  "col (session_to_row x) ''token_hash'' = V_str (ses_token_hash x)"
  "col (session_to_row x) ''user_id'' = V_str (ses_user_id x)"
  "col (session_to_row x) ''revoked_at'' = v_opt V_time (ses_revoked_at x)"
  by (simp_all add: session_to_row_def)

lemma node_cols [simp]:
  "col (server_node_to_row n) ''id'' = V_str (node_id n)"
  "g_time (server_node_to_row n) ''created_at'' = node_created_at n"
  by (simp_all add: server_node_to_row_def)

lemma device_cols [simp]:
  "col (device_to_row x) ''id'' = V_str (dev_id x)" "col (device_to_row x) ''user_id'' = V_str (dev_user_id x)"
  "col (device_to_row x) ''server_node_id'' = V_str (dev_server_node_id x)"
  "col (device_to_row x) ''status'' = V_str (device_status_value (dev_status x))"
  "g_time (device_to_row x) ''created_at'' = dev_created_at x"
  by (simp_all add: device_to_row_def)

lemma issue_cols [simp]:
  "col (issue_to_row i) ''id'' = V_str (iss_id i)" "col (issue_to_row i) ''device_id'' = V_str (iss_device_id i)"
  by (simp_all add: issue_to_row_def)

lemma contribution_cols [simp]:
  "col (contribution_to_row c) ''id'' = V_str (con_id c)"
  "col (contribution_to_row c) ''user_id'' = V_str (con_user_id c)"
  "g_time (contribution_to_row c) ''recorded_at'' = con_recorded_at c"
  by (simp_all add: contribution_to_row_def)

lemma support_cols [simp]: "col (support_settings_to_row st) ''id'' = V_int 1"
  by (simp add: support_settings_to_row_def)

lemma job_cols [simp]:
  "col (setup_job_to_row j) ''id'' = V_str (job_id j)"
  "col (setup_job_to_row j) ''status'' = V_str (setup_status_value (job_status j))"
  "g_time (setup_job_to_row j) ''created_at'' = job_created_at j"
  by (simp_all add: setup_job_to_row_def)

lemma event_cols [simp]:
  "col (setup_event_to_row e) ''id'' = V_str (ev_id e)"
  "col (setup_event_to_row e) ''setup_job_id'' = V_str (ev_setup_job_id e)"
  "g_time (setup_event_to_row e) ''created_at'' = ev_created_at e"
  by (simp_all add: setup_event_to_row_def)

lemma audit_cols [simp]:
  "col (audit_to_row a) ''id'' = V_str (aud_id a)"
  "g_time (audit_to_row a) ''created_at'' = aud_created_at a"
  by (simp_all add: audit_to_row_def)

lemma role_admin: "role_value r = ''admin'' \<longleftrightarrow> r = Admin"
  by (cases r) simp_all

lemma status_counted: "str_in ''status'' db_counted r \<longleftrightarrow> col r ''status'' \<in> {V_str ''provisioning'', V_str ''active''}"
  by (simp add: str_in_def db_counted_def)

lemma device_counted: "str_in ''status'' db_counted (device_to_row x) \<longleftrightarrow> counted (dev_status x)"
  by (cases "dev_status x") (simp_all add: status_counted counted_def)

lemma setup_status_inj [simp]: "setup_status_value a = setup_status_value b \<longleftrightarrow> a = b"
  by (cases a; cases b) simp_all

lemma find_none_unique: "find (\<lambda>v. g v = l) vs = None \<longleftrightarrow> l \<notin> g ` set vs"
  by (auto simp: find_None_iff)

lemma filter_find_unique:
  "distinct (map g vs) \<Longrightarrow> filter (\<lambda>v. g v = l) vs = (case find (\<lambda>v. g v = l) vs of None \<Rightarrow> [] | Some v \<Rightarrow> [v])"
proof (induction vs)
  case (Cons v vs)
  then have "find (\<lambda>x. g x = l) vs = None" if "g v = l"
    using that by (auto simp: find_none_unique)
  then show ?case using Cons by simp
qed simp

text \<open>Lists in the order of time.\<close>

lemma select_ascending:
  assumes "delivers E t d conv f vs" "\<forall>v \<in> set vs. g_time (f v) c = key v"
  shows "\<exists>ys. all_rows conv (sql_select E t p (Asc c) d) = Inr ys \<and>
    lists_agree key ys (py_sorted key (filter (\<lambda>v. p (f v)) vs))"
proof -
  obtain ys where ys: "sql_select E t p (Asc c) d = map f ys" "mset ys = mset (filter (\<lambda>v. p (f v)) vs)"
    "all_rows conv (sql_select E t p (Asc c) d) = Inr ys"
    by (rule select_objects [OF assms(1)])
  have "in_order (Asc c) (map f ys)" using assms(1) ys(1) by (metis delivers_def)
  from ascending_agree [where key = key, OF this ys(2)] assms(2) ys(3) show ?thesis by auto
qed

lemma select_descending:
  assumes "delivers E t d conv f vs" "\<forall>v \<in> set vs. g_time (f v) c = key v"
  shows "\<exists>ys. all_rows conv (sql_select E t p (Desc c) d) = Inr ys \<and>
    lists_agree key ys (py_sorted_reverse key (filter (\<lambda>v. p (f v)) vs))"
proof -
  obtain ys where ys: "sql_select E t p (Desc c) d = map f ys" "mset ys = mset (filter (\<lambda>v. p (f v)) vs)"
    "all_rows conv (sql_select E t p (Desc c) d) = Inr ys"
    by (rule select_objects [OF assms(1)])
  have "in_order (Desc c) (map f ys)" using assms(1) ys(1) by (metis delivers_def)
  from descending_agree [where key = key, OF this ys(2)] assms(2) ys(3) show ?thesis by auto
qed

text \<open>What the tables hold.\<close>

lemma held_objects:
  assumes "select_ok E C"
  shows held_users: "same_users (C d ''users'') D2 \<Longrightarrow>
      delivers E ''users'' d user_of_row user_to_row (dict_values D2)"
    and held_sessions: "same_sessions (C d ''sessions'') D3 \<Longrightarrow>
      delivers E ''sessions'' d session_of_row session_to_row (dict_values D3)"
    and held_nodes: "same_nodes (C d ''server_nodes'') D4 \<Longrightarrow>
      delivers E ''server_nodes'' d server_node_of_row server_node_to_row (dict_values D4)"
    and held_devices: "same_devices (C d ''devices'') D5 \<Longrightarrow>
      delivers E ''devices'' d device_of_row device_to_row (dict_values D5)"
    and held_issues: "same_issues (C d ''device_config_issues'') D6 \<Longrightarrow>
      delivers E ''device_config_issues'' d issue_of_row issue_to_row (dict_values D6)"
    and held_jobs: "same_jobs (C d ''setup_jobs'') D7 \<Longrightarrow>
      delivers E ''setup_jobs'' d setup_job_of_row setup_job_to_row (dict_values D7)"
    and held_audit: "same_audit (C d ''audit_log_entries'') as \<Longrightarrow>
      delivers E ''audit_log_entries'' d audit_of_row audit_to_row as"
    and held_contributions: "C d ''support_contributions'' = map contribution_to_row cs \<Longrightarrow>
      delivers E ''support_contributions'' d contribution_of_row contribution_to_row cs"
  by (rule delivers_objects [OF assms];
      simp add: same_users_def same_sessions_def same_nodes_def same_devices_def same_issues_def
        same_jobs_def same_audit_def)+

lemma read_user:
  assumes "select_ok E C" "same_users (C d ''users'') (users s)"
  shows "db_get_user E i d = Inr (get_user i s)"
    and "db_get_user_by_login E l d = Inr (get_user_by_login l s)"
    and "db_has_admin E d = has_admin s"
    and "\<exists>ys. db_list_users E d = Inr ys \<and> lists_agree usr_created_at ys (list_users s)"
proof -
  note held = held_users [OF assms(1), OF assms(2)]
  have k: "keyed usr_id (users s)" and u: "distinct (map usr_login (dict_values (users s)))"
    using assms(2) by (simp_all add: same_users_def)
  show "db_get_user E i d = Inr (get_user i s)"
    unfolding db_get_user_def get_user_def table_names
    by (rule select_first [OF held]) (simp add: by_id_def filter_keyed [OF k])
  show "db_get_user_by_login E l d = Inr (get_user_by_login l s)"
    unfolding db_get_user_by_login_def get_user_by_login_def Let_def table_names
    by (rule select_first [OF held]) (simp add: has_str_def filter_find_unique [OF u])
  show "db_has_admin E d = has_admin s"
    unfolding db_has_admin_def has_admin_def table_names select_count [OF held]
    by (simp add: has_str_def filter_empty_conv list_ex_iff role_admin)
  show "\<exists>ys. db_list_users E d = Inr ys \<and> lists_agree usr_created_at ys (list_users s)"
    using select_ascending [OF held, of "''created_at''" usr_created_at "\<lambda>r. True"]
    by (simp add: db_list_users_def list_users_def)
qed

lemma read_session:
  assumes "select_ok E C" "same_sessions (C d ''sessions'') (sessions s)"
  shows "db_get_session_by_token_hash E h d = Inr (get_session_by_token_hash h s)"
proof -
  have k: "keyed ses_token_hash (sessions s)" using assms(2) by (simp add: same_sessions_def)
  show ?thesis
    unfolding db_get_session_by_token_hash_def get_session_by_token_hash_def table_names
    by (rule select_first [OF held_sessions [OF assms(1), OF assms(2)]])
      (simp add: has_str_def filter_keyed [OF k])
qed

lemma read_node:
  assumes "select_ok E C" "same_nodes (C d ''server_nodes'') (server_nodes s)"
  shows "db_get_server_node E i d = Inr (get_server_node i s)"
    and "\<exists>ys. db_list_server_nodes E d = Inr ys \<and> lists_agree node_created_at ys (list_server_nodes s)"
proof -
  note held = held_nodes [OF assms(1), OF assms(2)]
  have k: "keyed node_id (server_nodes s)" using assms(2) by (simp add: same_nodes_def)
  show "db_get_server_node E i d = Inr (get_server_node i s)"
    unfolding db_get_server_node_def get_server_node_def table_names
    by (rule select_first [OF held]) (simp add: by_id_def filter_keyed [OF k])
  show "\<exists>ys. db_list_server_nodes E d = Inr ys \<and> lists_agree node_created_at ys (list_server_nodes s)"
    using select_ascending [OF held, of "''created_at''" node_created_at "\<lambda>r. True"]
    by (simp add: db_list_server_nodes_def list_server_nodes_def)
qed

lemma read_device:
  assumes "select_ok E C" "same_devices (C d ''devices'') (devices s)"
  shows "db_get_device E i d = Inr (get_device i s)"
    and "\<exists>ys. db_list_devices_for_user E uid d = Inr ys \<and>
      lists_agree dev_created_at ys (list_devices_for_user uid s)"
    and "db_count_devices_toward_limit E uid d = count_devices_toward_limit uid s"
    and "db_count_active_devices_for_server E uid d = count_active_devices_for_server uid s"
proof -
  note held = held_devices [OF assms(1), OF assms(2)]
  have k: "keyed dev_id (devices s)" using assms(2) by (simp add: same_devices_def)
  show "db_get_device E i d = Inr (get_device i s)"
    unfolding db_get_device_def get_device_def table_names
    by (rule select_first [OF held]) (simp add: by_id_def filter_keyed [OF k])
  show "\<exists>ys. db_list_devices_for_user E uid d = Inr ys \<and>
      lists_agree dev_created_at ys (list_devices_for_user uid s)"
    using select_descending [OF held, of "''created_at''" dev_created_at "has_str ''user_id'' uid"]
    by (simp add: db_list_devices_for_user_def list_devices_for_user_def has_str_def)
  show "db_count_devices_toward_limit E uid d = count_devices_toward_limit uid s"
    unfolding db_count_devices_toward_limit_def table_names select_count [OF held]
    by (simp add: has_str_def device_counted count_devices_toward_limit_def count_values_def filter_map comp_def)
  show "db_count_active_devices_for_server E uid d = count_active_devices_for_server uid s"
    unfolding db_count_active_devices_for_server_def table_names select_count [OF held]
    by (simp add: has_str_def device_counted count_active_devices_for_server_def count_values_def filter_map comp_def)
qed

lemma read_issue:
  assumes "select_ok E C" "same_issues (C d ''device_config_issues'') (issues s)"
  shows "db_get_issue E i d = Inr (get_issue i s)"
proof -
  have k: "keyed iss_device_id (issues s)" using assms(2) by (simp add: same_issues_def)
  show ?thesis
    unfolding db_get_issue_def get_issue_def table_names
    by (rule select_first [OF held_issues [OF assms(1), OF assms(2)]])
      (simp add: has_str_def filter_keyed [OF k])
qed

lemma read_contributions:
  assumes "select_ok E C" "C d ''support_contributions'' = map contribution_to_row (contributions s)"
  shows "\<exists>ys. db_list_contributions_for_user E uid d = Inr ys \<and>
    lists_agree con_recorded_at ys (list_contributions_for_user uid s)"
  using select_descending [OF held_contributions [OF assms(1), OF assms(2)], of "''recorded_at''" con_recorded_at
      "has_str ''user_id'' uid"]
  by (simp add: db_list_contributions_for_user_def list_contributions_for_user_def has_str_def)

lemma read_job:
  assumes "select_ok E C" "same_jobs (C d ''setup_jobs'') (setup_jobs s)"
  shows "db_get_setup_job E i d = Inr (get_setup_job i s)"
    and "\<exists>ys. db_list_setup_jobs E d = Inr ys \<and> lists_agree job_created_at ys (list_setup_jobs s)"
proof -
  note held = held_jobs [OF assms(1), OF assms(2)]
  have k: "keyed job_id (setup_jobs s)" using assms(2) by (simp add: same_jobs_def)
  show "db_get_setup_job E i d = Inr (get_setup_job i s)"
    unfolding db_get_setup_job_def get_setup_job_def table_names
    by (rule select_first [OF held]) (simp add: by_id_def filter_keyed [OF k])
  show "\<exists>ys. db_list_setup_jobs E d = Inr ys \<and> lists_agree job_created_at ys (list_setup_jobs s)"
    using select_descending [OF held, of "''created_at''" job_created_at "\<lambda>r. True"]
    by (simp add: db_list_setup_jobs_def list_setup_jobs_def)
qed

end
