(* ===== verification/DbRefines.thy ===== *)
theory DbRefines
  imports DbReads Demo
begin

text \<open>
  The database storage implements the in-memory one: from related states every operation succeeds on
  the database, gives an answer that agrees, and leaves related states, so that no sequence of
  operations of the services tells the two apart. The locale \<open>simulation\<close> carries the argument from
  steps to sequences.
\<close>

section \<open>Simulation\<close>

fun run_ops :: "('o \<Rightarrow> 's \<Rightarrow> 'a \<times> 's) \<Rightarrow> 'o list \<Rightarrow> 's \<Rightarrow> 'a list \<times> 's" where
  "run_ops f [] s = ([], s)"
| "run_ops f (x # xs) s = (let (a, s1) = f x s; (as, s2) = run_ops f xs s1 in (a # as, s2))"

fun run_fallible :: "('o \<Rightarrow> 's \<Rightarrow> ('a \<times> 's) res) \<Rightarrow> 'o list \<Rightarrow> 's \<Rightarrow> ('a list \<times> 's) res" where
  "run_fallible f [] s = Inr ([], s)"
| "run_fallible f (x # xs) s = sum_bind (f x s) (\<lambda>(a, s1).
     sum_bind (run_fallible f xs s1) (\<lambda>(as, s2). Inr (a # as, s2)))"

fun all_ok :: "('o \<Rightarrow> 's \<Rightarrow> bool) \<Rightarrow> ('o \<Rightarrow> 's \<Rightarrow> 'a \<times> 's) \<Rightarrow> 'o list \<Rightarrow> 's \<Rightarrow> bool" where
  "all_ok ok f [] s = True"
| "all_ok ok f (x # xs) s = (ok x s \<and> all_ok ok f xs (snd (f x s)))"

locale simulation =
  fixes spec :: "'o \<Rightarrow> 's \<Rightarrow> 'a \<times> 's"
    and impl :: "'o \<Rightarrow> 'd \<Rightarrow> ('a \<times> 'd) res"
    and ok :: "'o \<Rightarrow> 's \<Rightarrow> bool"
    and rel :: "'s \<Rightarrow> 'd \<Rightarrow> bool"
    and agree :: "'a \<Rightarrow> 'a \<Rightarrow> bool"
  assumes step: "rel s d \<Longrightarrow> ok x s \<Longrightarrow>
    \<exists>a d'. impl x d = Inr (a, d') \<and> agree a (fst (spec x s)) \<and> rel (snd (spec x s)) d'"
begin

lemma simulates:
  "rel s d \<Longrightarrow> all_ok ok spec xs s \<Longrightarrow>
     \<exists>as d'. run_fallible impl xs d = Inr (as, d') \<and> list_all2 agree as (fst (run_ops spec xs s)) \<and>
       rel (snd (run_ops spec xs s)) d'"
proof (induction xs arbitrary: s d)
  case Nil
  then show ?case by simp
next
  case (Cons x xs)
  obtain a s1 where s1: "spec x s = (a, s1)" by fastforce
  obtain b d1 where d1: "impl x d = Inr (b, d1)" "agree b a" "rel s1 d1"
    using step [of s d x] Cons.prems s1 by auto
  obtain bs d2 where d2: "run_fallible impl xs d1 = Inr (bs, d2)"
    "list_all2 agree bs (fst (run_ops spec xs s1))" "rel (snd (run_ops spec xs s1)) d2"
    using Cons.IH [of s1 d1] Cons.prems d1(3) s1 by auto
  then show ?case using d1 s1 by (simp add: split_beta)
qed

end

section \<open>One step\<close>

definition matched :: "('d \<Rightarrow> string \<Rightarrow> row list) \<Rightarrow> (answer \<times> 'd) res \<Rightarrow> answer \<Rightarrow> time \<times> storage \<Rightarrow> bool" where
  "matched C r a ws \<longleftrightarrow> (\<exists>b d1. r = Inr (b, d1) \<and> agrees b a \<and> db_sim C ws d1)"

lemma matched_read: "db_sim C ws d \<Longrightarrow> r = Inr x \<Longrightarrow> matched C (read_in f r d) (f x) ws"
  by (simp add: matched_def read_in_def agree_same)

lemma matched_list:
  "db_sim C ws d \<Longrightarrow> \<exists>ys. r = Inr ys \<and> lists_agree k ys xs \<Longrightarrow>
    (\<And>ys. lists_agree k ys xs \<Longrightarrow> agrees (f ys) (f xs)) \<Longrightarrow> matched C (read_in f r d) (f xs) ws"
  by (auto simp: matched_def read_in_def)

lemma merge_matched:
  assumes "merge_ok render E C" "m \<in> set mapped_classes" "accepts render m r (C d (fst m))"
    and "\<And>d1. C d1 = (C d)(fst m := upsert r (C d (fst m))) \<Longrightarrow> db_sim C ws d1"
  shows "matched C (done_in (sql_merge E (fst m) r d)) A_done ws"
proof -
  obtain d1 where "sql_merge E (fst m) r d = Inr d1" "C d1 = (C d)(fst m := upsert r (C d (fst m)))"
    using assms(1-3) unfolding merge_ok_def by blast
  then show ?thesis using assms(4) by (simp add: matched_def done_in_def agree_same)
qed

lemma step_save_user:
  assumes "merge_ok render E C" "db_sim C (w, s) d" "op_ok render (Save_user u) (w, s)"
  shows "matched C (db_step E (Save_user u) d) A_done (w, save_user u s)"
proof -
  note sim = db_simD(1) [OF assms(2)]
  have D: "C d ''users'' = map user_to_row (dict_values (users s))" "keyed usr_id (users s)"
    "distinct (map usr_login (dict_values (users s)))" using sim by (simp_all add: same_users_def)
  have up: "upsert (user_to_row u) (C d ''users'') = map user_to_row (dict_values (dict_set (usr_id u) u (users s)))"
    unfolding D(1) by (rule upsert_keyed) (use D(2) in \<open>force simp: keyed_def\<close>)
  have logins: "distinct (map usr_login (dict_values (dict_set (usr_id u) u (users s))))"
    by (rule distinct_keyed_set [OF D(2,3)]) (use assms(3) in auto)
  show ?thesis
    unfolding db_step.simps db_save_user_def
  proof (rule merge_matched [OF assms(1)])
    show "accepts render user_row (user_to_row u) (C d (fst user_row))"
      using assms(3) by (force simp: accepts_def D(1))
    show "db_sim C (w, save_user u s) d1"
      if "C d1 = (C d)(fst user_row := upsert (user_to_row u) (C d (fst user_row)))" for d1
      using assms(2) that up logins keyed_set [OF D(2), of u]
      by (simp add: db_sim_def save_user_def same_users_def)
  qed simp
qed

lemma step_save_session:
  assumes "merge_ok render E C" "db_sim C (w, s) d" "op_ok render (Save_session x) (w, s)"
  shows "matched C (db_step E (Save_session x) d) A_done (w, save_session x s)"
proof -
  have D: "C d ''sessions'' = map session_to_row (dict_values (sessions s))"
    "keyed ses_token_hash (sessions s)" using db_simD(2) [OF assms(2)] by (simp_all add: same_sessions_def)
  have up: "upsert (session_to_row x) (C d ''sessions'')
      = map session_to_row (dict_values (dict_set (ses_token_hash x) x (sessions s)))"
    unfolding D(1) by (rule upsert_keyed) (use D(2) assms(3) in \<open>force simp: keyed_def\<close>)
  show ?thesis
    unfolding db_step.simps db_save_session_def
  proof (rule merge_matched [OF assms(1)])
    show "accepts render session_row (session_to_row x) (C d (fst session_row))"
      using assms(3) by (force simp: accepts_def D(1))
    show "db_sim C (w, save_session x s) d1"
      if "C d1 = (C d)(fst session_row := upsert (session_to_row x) (C d (fst session_row)))" for d1
      using assms(2) that up keyed_set [OF D(2), of x]
      by (simp add: db_sim_def save_session_def same_sessions_def)
  qed simp
qed

lemma step_save_node:
  assumes "merge_ok render E C" "db_sim C (w, s) d" "op_ok render (Save_node n) (w, s)"
  shows "matched C (db_step E (Save_node n) d) A_done (w, save_server_node n s)"
proof -
  have D: "C d ''server_nodes'' = map server_node_to_row (dict_values (server_nodes s))"
    "keyed node_id (server_nodes s)"
    "\<forall>n \<in> set (dict_values (server_nodes s)). node_last_status_payload n \<noteq> Some JNull"
    using db_simD(3) [OF assms(2)] by (simp_all add: same_nodes_def)
  have up: "upsert (server_node_to_row n) (C d ''server_nodes'')
      = map server_node_to_row (dict_values (dict_set (node_id n) n (server_nodes s)))"
    unfolding D(1) by (rule upsert_keyed) (use D(2) in \<open>force simp: keyed_def\<close>)
  have payloads: "\<forall>n' \<in> set (dict_values (dict_set (node_id n) n (server_nodes s))).
      node_last_status_payload n' \<noteq> Some JNull"
    using D(3) assms(3) by (auto dest!: in_dict_set)
  show ?thesis
    unfolding db_step.simps db_save_server_node_def
  proof (rule merge_matched [OF assms(1)])
    show "accepts render server_node_row (server_node_to_row n) (C d (fst server_node_row))"
      using assms(3) by (simp add: accepts_def)
    show "db_sim C (w, save_server_node n s) d1"
      if "C d1 = (C d)(fst server_node_row := upsert (server_node_to_row n) (C d (fst server_node_row)))" for d1
      using assms(2) that up payloads keyed_set [OF D(2), of n]
      by (simp add: db_sim_def save_server_node_def same_nodes_def)
  qed simp
qed

lemma step_save_device:
  assumes "merge_ok render E C" "db_sim C (w, s) d" "op_ok render (Save_device x) (w, s)"
  shows "matched C (db_step E (Save_device x) d) A_done (w, save_device x s)"
proof -
  have D: "C d ''devices'' = map device_to_row (dict_values (devices s))" "keyed dev_id (devices s)"
    using db_simD(4) [OF assms(2)] by (simp_all add: same_devices_def)
  have up: "upsert (device_to_row x) (C d ''devices'')
      = map device_to_row (dict_values (dict_set (dev_id x) x (devices s)))"
    unfolding D(1) by (rule upsert_keyed) (use D(2) in \<open>force simp: keyed_def\<close>)
  show ?thesis
    unfolding db_step.simps db_save_device_def
  proof (rule merge_matched [OF assms(1)])
    show "accepts render Schema.device_row (device_to_row x) (C d (fst Schema.device_row))"
      using assms(3) by (simp add: accepts_def)
    show "db_sim C (w, save_device x s) d1"
      if "C d1 = (C d)(fst Schema.device_row := upsert (device_to_row x) (C d (fst Schema.device_row)))" for d1
      using assms(2) that up keyed_set [OF D(2), of x]
      by (simp add: db_sim_def save_device_def same_devices_def)
  qed simp
qed

lemma step_save_job:
  assumes "merge_ok render E C" "db_sim C (w, s) d" "op_ok render (Save_job j) (w, s)"
  shows "matched C (db_step E (Save_job j) d) A_done (w, save_setup_job j s)"
proof -
  have D: "C d ''setup_jobs'' = map setup_job_to_row (dict_values (setup_jobs s))" "keyed job_id (setup_jobs s)"
    using db_simD(8) [OF assms(2)] by (simp_all add: same_jobs_def)
  have up: "upsert (setup_job_to_row j) (C d ''setup_jobs'')
      = map setup_job_to_row (dict_values (dict_set (job_id j) j (setup_jobs s)))"
    unfolding D(1) by (rule upsert_keyed) (use D(2) in \<open>force simp: keyed_def\<close>)
  show ?thesis
    unfolding db_step.simps db_save_setup_job_def
  proof (rule merge_matched [OF assms(1)])
    show "accepts render Schema.setup_job_row (setup_job_to_row j) (C d (fst Schema.setup_job_row))"
      using assms(3) by (simp add: accepts_def)
    show "db_sim C (w, save_setup_job j s) d1"
      if "C d1 = (C d)(fst Schema.setup_job_row := upsert (setup_job_to_row j) (C d (fst Schema.setup_job_row)))" for d1
      using assms(2) that up keyed_set [OF D(2), of j] same_events_default
      by (simp add: db_sim_def save_setup_job_def same_jobs_def)
  qed simp
qed

text \<open>
  The configuration of a device replaces the previous one, whose row is deleted first.
\<close>

lemma saved_issue:
  assumes "same_issues rows D" "\<forall>y \<in> set (dict_values D). iss_id y = iss_id i \<longrightarrow> iss_device_id y = iss_device_id i"
    and "mset rows' = mset (map issue_to_row (filter Q (dict_values D)))"
    and "\<forall>y \<in> set (dict_values D). Q y \<and> iss_id y \<noteq> iss_id i \<longleftrightarrow> iss_device_id y \<noteq> iss_device_id i"
  shows "same_issues (upsert (issue_to_row i) rows') (dict_set (iss_device_id i) i D)"
proof -
  have k: "keyed iss_device_id D" and ids: "distinct (map iss_id (dict_values D))"
    using assms(1) by (simp_all add: same_issues_def)
  let ?vs = "filter Q (dict_values D)"
  have "distinct (map (\<lambda>v. V_str (iss_id v)) ?vs)" using ids by (auto simp: distinct_map inj_on_def)
  moreover have "mset (map (\<lambda>x. col x ''id'') rows') = mset (map (\<lambda>v. V_str (iss_id v)) ?vs)"
    by (simp only: mset_map assms(3) image_mset.compositionality comp_def issue_cols)
  ultimately have "distinct (map (\<lambda>x. col x ''id'') rows')" using mset_eq_imp_distinct_iff by metis
  then have "mset (upsert (issue_to_row i) rows')
      = add_mset (issue_to_row i) (filter_mset (\<lambda>x. col x ''id'' \<noteq> V_str (iss_id i)) (mset rows'))"
    by (simp add: mset_upsert)
  also have "filter_mset (\<lambda>x. col x ''id'' \<noteq> V_str (iss_id i)) (mset rows')
      = mset (map issue_to_row (filter (\<lambda>y. iss_id y \<noteq> iss_id i) ?vs))"
    unfolding assms(3) by (simp only: mset_filter [symmetric] filter_map comp_def issue_cols dbval.inject)
  also have "filter (\<lambda>y. iss_id y \<noteq> iss_id i) ?vs = filter (\<lambda>y. iss_device_id y \<noteq> iss_device_id i) (dict_values D)"
    unfolding filter_filter by (rule filter_cong) (use assms(4) in auto)
  also have "add_mset (issue_to_row i) (mset (map issue_to_row \<dots>))
      = mset (map issue_to_row (dict_values (dict_set (iss_device_id i) i D)))"
    unfolding mset_map [of issue_to_row] mset_keyed_set [OF k, of i] image_mset_add_mset ..
  finally have "mset (upsert (issue_to_row i) rows')
      = mset (map issue_to_row (dict_values (dict_set (iss_device_id i) i D)))" .
  moreover have "distinct (map iss_id (dict_values (dict_set (iss_device_id i) i D)))"
    by (rule distinct_keyed_set [OF k ids]) (use assms(2) in auto)
  ultimately show ?thesis using keyed_set [OF k, of i] by (simp add: same_issues_def)
qed

text \<open>The rows between the deletion and the merge.\<close>

definition before_merge :: "'d engine \<Rightarrow> config_issue \<Rightarrow> 'd \<Rightarrow> 'd" where
  "before_merge E i d =
     (case sql_select E ''device_config_issues'' (has_str ''device_id'' (iss_device_id i)) Any d of
        [] \<Rightarrow> d
      | old # rs \<Rightarrow>
          if col old ''id'' \<noteq> V_str (iss_id i)
          then sql_delete E ''device_config_issues'' (\<lambda>x. col x ''id'' = col old ''id'') d else d)"

lemma before_merge_rows:
  assumes "select_ok E C" "delete_ok E C" "same_issues (C d ''device_config_issues'') D"
    and "\<forall>y \<in> set (dict_values D). iss_id y = iss_id i \<longrightarrow> iss_device_id y = iss_device_id i"
  obtains Q rows where "C (before_merge E i d) = (C d)(''device_config_issues'' := rows)"
    "mset rows = mset (map issue_to_row (filter Q (dict_values D)))"
    "\<forall>y \<in> set (dict_values D). Q y \<and> iss_id y \<noteq> iss_id i \<longleftrightarrow> iss_device_id y \<noteq> iss_device_id i"
proof -
  let ?t = "''device_config_issues''" and ?dev = "iss_device_id i"
  have rows: "mset (C d ?t) = mset (map issue_to_row (dict_values D))"
    and k: "keyed iss_device_id D" and ids: "distinct (map iss_id (dict_values D))"
    using assms(3) by (simp_all add: same_issues_def)
  have held: "delivers E ?t d issue_of_row issue_to_row (dict_values D)"
    by (rule held_issues [OF assms(1), OF assms(3)])
  have sel: "sql_select E ?t (has_str ''device_id'' ?dev) Any d
      = (case map_of D ?dev of None \<Rightarrow> [] | Some v \<Rightarrow> [issue_to_row v])"
    by (rule select_unique [OF held]) (simp add: has_str_def filter_keyed [OF k])
  have here: "iss_device_id y = ?dev \<longleftrightarrow> map_of D ?dev = Some y" if "y \<in> set (dict_values D)" for y
    using that keyed_in [OF k] keyed_lookup [OF k] by metis
  show thesis
  proof (cases "\<exists>v. map_of D ?dev = Some v \<and> iss_id v \<noteq> iss_id i")
    case False
    have "before_merge E i d = d"
    proof (cases "map_of D ?dev")
      case None
      show ?thesis unfolding before_merge_def sel None by simp
    next
      case (Some v)
      then have "iss_id v = iss_id i" using False by blast
      then show ?thesis unfolding before_merge_def sel Some by simp
    qed
    moreover have "\<forall>y \<in> set (dict_values D). iss_id y \<noteq> iss_id i \<longleftrightarrow> iss_device_id y \<noteq> ?dev"
      using False assms(4) here by blast
    ultimately show thesis using that [of "C d ?t" "\<lambda>y. True"] rows by simp
  next
    case True
    then obtain v where v: "map_of D ?dev = Some v" "iss_id v \<noteq> iss_id i" by blast
    have v_in: "v \<in> set (dict_values D)" using v(1) by (force dest: map_of_SomeD)
    let ?p = "\<lambda>x. col x ''id'' \<noteq> V_str (iss_id v)"
    have "C (before_merge E i d) = (C d)(?t := filter ?p (C d ?t))"
      using v assms(2) by (simp add: before_merge_def sel delete_ok_def)
    moreover have "mset (filter ?p (C d ?t)) = mset (filter ?p (map issue_to_row (dict_values D)))"
      by (simp only: mset_filter rows)
    moreover have "\<dots> = mset (map issue_to_row (filter (\<lambda>y. iss_id y \<noteq> iss_id v) (dict_values D)))"
      by (simp add: filter_map comp_def)
    moreover have "\<forall>y \<in> set (dict_values D). iss_id y \<noteq> iss_id v \<and> iss_id y \<noteq> iss_id i
        \<longleftrightarrow> iss_device_id y \<noteq> ?dev"
    proof
      fix y assume y: "y \<in> set (dict_values D)"
      have "iss_id y = iss_id v \<longleftrightarrow> y = v" using ids y v_in by (auto simp: distinct_map inj_on_def)
      moreover have "iss_id y = iss_id i \<longrightarrow> y = v" using assms(4) here [OF y] y v(1) by auto
      ultimately show "iss_id y \<noteq> iss_id v \<and> iss_id y \<noteq> iss_id i \<longleftrightarrow> iss_device_id y \<noteq> ?dev"
        using here [OF y] v(1) by auto
    qed
    ultimately show thesis using that [of "filter ?p (C d ?t)" "\<lambda>y. iss_id y \<noteq> iss_id v"] by simp
  qed
qed

lemma step_save_issue:
  assumes "engine_ok render E C" "db_sim C (w, s) d" "op_ok render (Save_issue i) (w, s)"
  shows "matched C (db_step E (Save_issue i) d) A_done (w, save_issue i s)"
proof -
  let ?t = "''device_config_issues''" and ?r = "issue_to_row i" and ?d1 = "before_merge E i d"
  note sim = db_simD(5) [OF assms(2)]
  have sel: "select_ok E C" and mrg: "merge_ok render E C" and del: "delete_ok E C"
    using assms(1) by (simp_all add: engine_ok_def)
  have ids: "\<forall>y \<in> set (dict_values (issues s)). iss_id y = iss_id i \<longrightarrow> iss_device_id y = iss_device_id i"
    using assms(3) by simp
  obtain Q rows where Q: "C ?d1 = (C d)(?t := rows)"
    "mset rows = mset (map issue_to_row (filter Q (dict_values (issues s))))"
    "\<forall>y \<in> set (dict_values (issues s)). Q y \<and> iss_id y \<noteq> iss_id i \<longleftrightarrow> iss_device_id y \<noteq> iss_device_id i"
    by (rule before_merge_rows [where C = C, OF sel, OF del, OF sim, OF ids])
  have "col x ''device_id'' \<noteq> V_str (iss_device_id i)" if x: "x \<in> set rows" "col x ''id'' \<noteq> V_str (iss_id i)" for x
    using mset_eq_setD [OF Q(2)] Q(3) x by auto
  then have acc: "accepts render device_config_issue_row ?r (C ?d1 (fst device_config_issue_row))"
    using assms(3) Q(1) by (auto simp: accepts_def)
  have "matched C (done_in (sql_merge E (fst device_config_issue_row) ?r ?d1)) A_done (w, save_issue i s)"
  proof (rule merge_matched [OF mrg _ acc])
    show "db_sim C (w, save_issue i s) d2"
      if "C d2 = (C ?d1)(fst device_config_issue_row := upsert ?r (C ?d1 (fst device_config_issue_row)))" for d2
      using assms(2) that Q(1) saved_issue [OF sim ids Q(2,3)] by (simp add: db_sim_def save_issue_def)
  qed simp
  then show ?thesis by (simp add: db_save_issue_def before_merge_def Let_def)
qed

lemma step_drop_issue:
  assumes "delete_ok E C" "db_sim C (w, s) d"
  shows "matched C (db_step E (Drop_issue i) d) A_done (w, drop_issue i s)"
proof -
  note sim = db_simD(5) [OF assms(2)]
  have rows: "mset (C d ''device_config_issues'') = mset (map issue_to_row (dict_values (issues s)))"
    and k: "keyed iss_device_id (issues s)" and ids: "distinct (map iss_id (dict_values (issues s)))"
    using sim by (simp_all add: same_issues_def)
  have "mset (filter (\<lambda>x. \<not> has_str ''device_id'' i x) (C d ''device_config_issues''))
      = mset (filter (\<lambda>x. \<not> has_str ''device_id'' i x) (map issue_to_row (dict_values (issues s))))"
    by (simp only: mset_filter rows)
  then have "same_issues (filter (\<lambda>x. \<not> has_str ''device_id'' i x) (C d ''device_config_issues''))
      (dict_pop i (issues s))"
    using keyed_pop [OF k, of i] ids
    by (simp add: same_issues_def has_str_def filter_map comp_def values_pop [OF k] distinct_map_filter)
  then show ?thesis
    using assms by (simp add: matched_def done_in_def db_drop_issue_def delete_ok_def agree_same db_sim_def
        drop_issue_def)
qed

lemma step_get_support:
  assumes "engine_ok render E C" "db_sim C (w, s) d" "op_ok render Get_support (w, s)"
  shows "matched C (db_step E Get_support d) (A_support (get_support_settings s)) (w, s)"
proof -
  let ?p = "\<lambda>r. col r ''id'' = V_int 1" and ?t = "fst support_settings_row"
  have sel: "select_ok E C" and mrg: "merge_ok render E C" using assms(1) by (simp_all add: engine_ok_def)
  have rows: "mset (sql_select E ?t ?p Any d) = mset (filter ?p (C d ''support_settings''))"
    using sel by (simp add: select_ok_def)
  show ?thesis
  proof (cases "C d ''support_settings'' = []")
    case True
    then have st: "support_settings_of s = default_support_settings"
      using db_simD(7) [OF assms(2)] by (simp add: same_support_def)
    let ?r = "support_settings_to_row default_support_settings"
    have "accepts render support_settings_row ?r (C d ?t)" using assms(3) by (simp add: accepts_def)
    then obtain d1 where d1: "sql_merge E ?t ?r d = Inr d1" "C d1 = (C d)(?t := upsert ?r (C d ?t))"
      using mrg classes_mapped(7) unfolding merge_ok_def by blast
    moreover have "db_sim C (w, s) d1" using assms(2) d1(2) True st by (simp add: db_sim_def same_support_def)
    ultimately show ?thesis using rows True st
      by (simp add: matched_def both_in_def db_get_support_settings_def ensure_support_settings_row_def
          get_support_settings_def)
  next
    case False
    then have "C d ''support_settings'' = [support_settings_to_row (support_settings_of s)]"
      using db_simD(7) [OF assms(2)] by (simp add: same_support_def)
    then have "sql_select E ?t ?p Any d = [support_settings_to_row (support_settings_of s)]" using rows by simp
    then show ?thesis using assms(2)
      by (simp add: matched_def both_in_def db_get_support_settings_def ensure_support_settings_row_def
          get_support_settings_def)
  qed
qed

lemma step_save_support:
  assumes "merge_ok render E C" "db_sim C (w, s) d" "op_ok render (Save_support x) (w, s)"
  shows "matched C (db_step E (Save_support x) d) A_done (w, save_support_settings x s)"
  unfolding db_step.simps db_save_support_settings_def
proof (rule merge_matched [OF assms(1)])
  show "accepts render support_settings_row (support_settings_to_row x) (C d (fst support_settings_row))"
    using assms(3) by (simp add: accepts_def)
  show "db_sim C (w, save_support_settings x s) d1"
    if "C d1 = (C d)(fst support_settings_row := upsert (support_settings_to_row x) (C d (fst support_settings_row)))" for d1
    using assms(2) that by (auto simp: db_sim_def save_support_settings_def same_support_def)
qed simp

lemma step_add_contribution:
  assumes "merge_ok render E C" "db_sim C (w, s) d" "op_ok render (Add_contribution c) (w, s)"
  shows "matched C (db_step E (Add_contribution c) d) A_done (w, add_contribution c s)"
proof -
  have D: "C d ''support_contributions'' = map contribution_to_row (contributions s)"
    using db_simD(6) [OF assms(2)] .
  have up: "upsert (contribution_to_row c) (C d ''support_contributions'')
      = C d ''support_contributions'' @ [contribution_to_row c]"
    by (rule upsert_new) (use assms(3) in \<open>auto simp: D\<close>)
  show ?thesis
    unfolding db_step.simps db_add_contribution_def
  proof (rule merge_matched [OF assms(1)])
    show "accepts render support_contribution_row (contribution_to_row c) (C d (fst support_contribution_row))"
      using assms(3) by (simp add: accepts_def)
    show "db_sim C (w, add_contribution c s) d1"
      if "C d1 = (C d)(fst support_contribution_row :=
        upsert (contribution_to_row c) (C d (fst support_contribution_row)))" for d1
      using assms(2) that up D by (simp add: db_sim_def add_contribution_def)
  qed simp
qed

lemma step_add_event:
  assumes "merge_ok render E C" "db_sim C (w, s) d" "op_ok render (Add_event e) (w, s)"
  shows "matched C (db_step E (Add_event e) d) A_done (w, add_setup_event e s)"
proof -
  let ?t = "''setup_job_events''" and ?i = "ev_setup_job_id e" and ?D = "setup_events s"
  have D: "filter (has_str ''setup_job_id'' i) (C d ?t) = map setup_event_to_row (dict_get [] ?D i)"
    "sorted (map ev_created_at (dict_get [] ?D i))" for i
    using db_simD(9) [OF assms(2)] by (simp_all add: same_events_def)
  have own: "\<exists>i. has_str ''setup_job_id'' i r" if "r \<in> set (C d ?t)" for r
    using db_simD(9) [OF assms(2)] that by (simp add: same_events_def)
  have fresh: "col r ''id'' \<noteq> V_str (ev_id e)" if r: "r \<in> set (C d ?t)" for r
  proof -
    obtain i where "has_str ''setup_job_id'' i r" using own [OF r] by blast
    then have "r \<in> set (filter (has_str ''setup_job_id'' i) (C d ?t))" using r by simp
    then have "r \<in> setup_event_to_row ` set (dict_get [] ?D i)" by (simp add: D(1))
    then obtain y where y: "r = setup_event_to_row y" "y \<in> set (dict_get [] ?D i)" by blast
    from in_dict_get [OF y(2)] show ?thesis using assms(3) unfolding y(1) by auto
  qed
  have up: "upsert (setup_event_to_row e) (C d ?t) = C d ?t @ [setup_event_to_row e]"
    by (rule upsert_new) (use fresh in simp)
  have "same_events (C d ?t @ [setup_event_to_row e]) (dict_set ?i (dict_get [] ?D ?i @ [e]) ?D)"
    using D own assms(3)
    by (auto simp: same_events_def has_str_def list_setup_events_def sorted_append)
  then show ?thesis
    unfolding db_step.simps db_add_setup_event_def
    using assms(2,3) up
    by (intro merge_matched [OF assms(1)]) (simp_all add: accepts_def db_sim_def add_setup_event_def)
qed

lemma step_add_audit:
  assumes "merge_ok render E C" "db_sim C (w, s) d" "op_ok render (Add_audit a) (w, s)"
  shows "matched C (db_step E (Add_audit a) d) A_done (w, add_audit_entry a s)"
proof -
  have D: "C d ''audit_log_entries'' = map audit_to_row (audit_log s)"
    "same_audit (C d ''audit_log_entries'') (audit_log s)"
    using db_simD(10) [OF assms(2)] by (simp_all add: same_audit_def)
  have up: "upsert (audit_to_row a) (C d ''audit_log_entries'') = C d ''audit_log_entries'' @ [audit_to_row a]"
    by (rule upsert_new) (use assms(3) in \<open>auto simp: D(1)\<close>)
  have "same_audit (C d ''audit_log_entries'' @ [audit_to_row a]) (audit_log s @ [a])"
    using D(2) assms(3) by (auto simp: same_audit_def sorted_wrt_append)
  then show ?thesis
    unfolding db_step.simps db_add_audit_entry_def
    using assms(2,3) up
    by (intro merge_matched [OF assms(1)]) (simp_all add: accepts_def db_sim_def add_audit_entry_def)
qed

text \<open>Login failures.\<close>

lemma step_record_failure:
  assumes "insert_ok render E C" "db_sim C (w, s) d" "op_ok render (Record_failure k tm) (w, s)"
  shows "matched C (db_step E (Record_failure k tm) d) A_done (w, record_login_failure k tm s)"
proof -
  let ?r = "[(''key'', V_str k), (''attempted_at'', V_time tm)]"
  have "row_fits render login_failure_row ((''id'', V_int 0) # ?r)"
    using assms(3) by (simp add: row_fits_def login_failure_row_def value_fits_def text_fits_def)
  then obtain d1 n where d1: "sql_insert E (fst login_failure_row) ?r d = Inr d1"
    "C d1 = (C d)(fst login_failure_row := C d (fst login_failure_row) @ [(''id'', V_int n) # ?r])"
    using assms(1) classes_mapped(11) unfolding insert_ok_def by blast
  have "db_sim C (w, record_login_failure k tm s) d1"
    using assms(2) d1(2)
    by (auto simp: db_sim_def record_login_failure_def same_failures_def has_str_def)
  then show ?thesis
    using d1(1) by (simp add: matched_def done_in_def db_record_login_failure_def agree_same)
qed

lemma filter_later: "w \<le> (tm :: int) \<Longrightarrow> filter (\<lambda>t. tm \<le> t) xs = filter (\<lambda>t. tm \<le> t) (filter (\<lambda>t. w \<le> t) xs)"
  by (induction xs) auto

lemma step_count_failures:
  assumes "select_ok E C" "delete_ok E C" "db_sim C (w, s) d" "w \<le> tm"
  shows "matched C (db_step E (Count_failures k tm) d) (A_count (fst (count_login_failures k tm s)))
    (tm, snd (count_login_failures k tm s))"
proof -
  let ?t = "''login_failures''" and ?at = "\<lambda>r. g_time r ''attempted_at''"
  let ?d1 = "sql_delete E ?t (\<lambda>r. ?at r < tm) d"
  let ?times = "\<lambda>k rows. map ?at (filter (has_str ''key'' k) rows)"
  have C1: "C ?d1 = (C d)(?t := filter (\<lambda>x. \<not> ?at x < tm) (C d ?t))" using assms(2) by (simp add: delete_ok_def)
  have same: "filter (\<lambda>t. w \<le> t) (?times k (C d ?t)) = filter (\<lambda>t. w \<le> t) (dict_get [] (login_failures s) k)" for k
    using db_simD(11) [OF assms(3)] by (simp add: same_failures_def)
  have times: "?times k (C ?d1 ?t) = filter (\<lambda>t. tm \<le> t) (?times k (C d ?t))" for k
    by (simp add: C1 filter_map comp_def conj_commute not_less)
  have eq: "?times k (C ?d1 ?t) = filter (\<lambda>t. tm \<le> t) (dict_get [] (login_failures s) k)" for k
    unfolding times filter_later [OF assms(4), of "?times k (C d ?t)"] same
    by (rule filter_later [OF assms(4), symmetric])
  have "mset (sql_select E ?t (has_str ''key'' k) Any ?d1) = mset (filter (has_str ''key'' k) (C ?d1 ?t))"
    using assms(1) by (simp add: select_ok_def)
  then have "length (sql_select E ?t (has_str ''key'' k) Any ?d1) = length (?times k (C ?d1 ?t))"
    using mset_eq_length by fastforce
  then have count: "length (sql_select E ?t (has_str ''key'' k) Any ?d1) = fst (count_login_failures k tm s)"
    by (simp add: eq count_login_failures_def Let_def)
  have "same_failures tm (C ?d1 ?t) (login_failures (snd (count_login_failures k tm s)))"
    unfolding same_failures_def eq by (simp add: count_login_failures_def Let_def)
  then have "db_sim C (tm, snd (count_login_failures k tm s)) ?d1"
    using assms(3) C1 by (simp add: db_sim_def count_login_failures_def Let_def)
  then show ?thesis
    using count by (simp add: matched_def both_in_def db_count_login_failures_def Let_def)
qed

lemma step_clear_failures:
  assumes "delete_ok E C" "db_sim C (w, s) d"
  shows "matched C (db_step E (Clear_failures k) d) A_done (w, clear_login_failures k s)"
proof -
  let ?t = "''login_failures''"
  have C1: "C (sql_delete E ?t (has_str ''key'' k) d) = (C d)(?t := filter (\<lambda>x. \<not> has_str ''key'' k x) (C d ?t))"
    using assms(1) by (simp add: delete_ok_def)
  have "filter (has_str ''key'' j) (filter (\<lambda>x. \<not> has_str ''key'' k x) (C d ?t))
      = (if j = k then [] else filter (has_str ''key'' j) (C d ?t))" for j
    by (auto simp: has_str_def filter_empty_conv intro: filter_cong)
  then have "same_failures w (filter (\<lambda>x. \<not> has_str ''key'' k x) (C d ?t)) (dict_pop k (login_failures s))"
    using db_simD(11) [OF assms(2)] by (simp add: same_failures_def)
  then show ?thesis
    using assms(2) C1
    by (simp add: matched_def db_clear_login_failures_def agree_same db_sim_def clear_login_failures_def)
qed

text \<open>Ordered lists.\<close>

lemma step_list_events:
  assumes "select_ok E C" "db_sim C (w, s) d"
  shows "matched C (db_step E (List_events i) d) (A_events (list_setup_events i s)) (w, s)"
proof -
  let ?t = "''setup_job_events''" and ?D = "setup_events s" and ?g = "\<lambda>r. projr (setup_event_of_row r)"
  have D: "filter (has_str ''setup_job_id'' j) (C d ?t) = map setup_event_to_row (dict_get [] ?D j)"
    "sorted (map ev_created_at (dict_get [] ?D j))" for j
    using db_simD(9) [OF assms(2)] by (simp_all add: same_events_def)
  have each: "setup_event_to_row (?g r) = r" if r: "r \<in> set (C d ?t)" for r
  proof -
    obtain j where "has_str ''setup_job_id'' j r"
      using db_simD(9) [OF assms(2)] r by (auto simp: same_events_def)
    then have "r \<in> set (filter (has_str ''setup_job_id'' j) (C d ?t))" using r by simp
    then have "r \<in> setup_event_to_row ` set (dict_get [] ?D j)" by (simp add: D(1))
    then show ?thesis by auto
  qed
  let ?vs = "map ?g (C d ?t)"
  have all: "C d ?t = map setup_event_to_row ?vs" using each by (simp add: map_idI)
  have "delivers E ?t d setup_event_of_row setup_event_to_row ?vs"
    by (rule delivers_objects [where C = C, OF assms(1)]) (use each in \<open>simp_all add: map_idI\<close>)
  from select_ascending [OF this, of "''created_at''" ev_created_at "has_str ''setup_job_id'' i"]
  obtain ys where ys: "db_list_setup_events E i d = Inr ys"
    "lists_agree ev_created_at ys
       (py_sorted ev_created_at (filter (\<lambda>v. has_str ''setup_job_id'' i (setup_event_to_row v)) ?vs))"
    by (auto simp: db_list_setup_events_def)
  have "map setup_event_to_row (filter (\<lambda>v. has_str ''setup_job_id'' i (setup_event_to_row v)) ?vs)
      = filter (has_str ''setup_job_id'' i) (map setup_event_to_row ?vs)"
    by (simp only: filter_map comp_def)
  also have "\<dots> = map setup_event_to_row (dict_get [] ?D i)" by (simp only: all [symmetric] D(1))
  finally have "filter (\<lambda>v. has_str ''setup_job_id'' i (setup_event_to_row v)) ?vs = dict_get [] ?D i"
    by (rule map_injective) (metis injI setup_event_row sum.inject(2))
  then have "lists_agree ev_created_at ys (list_setup_events i s)"
    using ys(2) D(2) [of i] by (simp add: py_sorted_id list_setup_events_def)
  then show ?thesis
    unfolding db_step.simps using ys(1)
    by (intro matched_list [OF assms(2)] agree_events) auto
qed

lemma step_list_audit:
  assumes "select_ok E C" "db_sim C (w, s) d" "0 < n"
  shows "matched C (db_step E (List_audit n) d) (A_audit (list_audit_entries n s)) (w, s)"
proof -
  let ?t = "''audit_log_entries''" and ?es = "audit_log s"
  note sim = db_simD(10) [OF assms(2)]
  have srt: "sorted_wrt (\<lambda>a b. aud_created_at a < aud_created_at b) ?es"
    and ok: "\<forall>a \<in> set ?es. audit_of_row (audit_to_row a) = Inr a"
    using sim by (simp_all add: same_audit_def)
  have held: "delivers E ?t d audit_of_row audit_to_row ?es" by (rule held_audit [OF assms(1), OF sim])
  obtain ys where ys: "sql_select E ?t (\<lambda>r. True) (Desc ''created_at'') d = map audit_to_row ys"
    "mset ys = mset (filter (\<lambda>v. True) ?es)"
    by (rule select_objects [where p = "\<lambda>r. True" and ord = "Desc ''created_at''", OF held])
  have eq: "mset (rev ys) = mset ?es" using ys(2) by simp
  have "in_order (Desc ''created_at'') (map audit_to_row ys)"
    using delivers_ordered [OF held, of "Desc ''created_at''" "\<lambda>r. True"] by (simp only: ys(1))
  then have "sorted (map aud_created_at (rev ys))" by (simp add: in_order_def comp_def rev_map [symmetric])
  moreover have strict: "sorted_wrt (<) (map aud_created_at ?es)" using srt by (simp add: sorted_wrt_map)
  moreover have "mset (map aud_created_at (rev ys)) = mset (map aud_created_at ?es)"
    by (simp only: mset_map eq)
  ultimately have "map aud_created_at (rev ys) = map aud_created_at ?es"
    using sorted_unique strict_sorted_imp_sorted by blast
  moreover have "inj_on aud_created_at (set (rev ys) \<union> set ?es)"
    using strict mset_eq_setD [OF eq] by (simp add: strict_sorted_iff distinct_map)
  ultimately have "rev ys = ?es" by (rule map_inj_on)
  then have "ys = rev ?es" using rev_swap by blast
  moreover have "all_rows audit_of_row (map audit_to_row (take n (rev ?es))) = Inr (take n (rev ?es))"
    by (rule all_rows_stored) (use ok in \<open>auto dest: in_set_takeD\<close>)
  ultimately have "db_list_audit_entries E n d = Inr (list_audit_entries n s)"
    using ys(1) assms(3) by (simp add: db_list_audit_entries_def list_audit_entries_def rev_py_last take_map)
  then show ?thesis unfolding db_step.simps by (rule matched_read [OF assms(2)])
qed

text \<open>Statements that update rows in place.\<close>

lemma step_revoke_sessions:
  assumes "update_ok render E C" "db_sim C (w, s) d" "op_ok render (Revoke_sessions uid tm) (w, s)"
  shows "matched C (db_step E (Revoke_sessions uid tm) d) A_done (w, revoke_sessions_for_user uid tm s)"
proof -
  let ?t = "fst session_row" and ?vals = "[(''revoked_at'', V_time tm)]"
  let ?p = "\<lambda>r. has_str ''user_id'' uid r \<and> col r ''revoked_at'' = V_null"
  have D: "C d ''sessions'' = map session_to_row (dict_values (sessions s))"
    "keyed ses_token_hash (sessions s)" using db_simD(2) [OF assms(2)] by (simp_all add: same_sessions_def)
  have p: "?p (session_to_row y) \<longleftrightarrow> ses_user_id y = uid \<and> ses_revoked_at y = None" for y
    by (auto simp: has_str_def v_opt_def split: option.split)
  have upd: "set_cols ?vals (session_to_row y) = session_to_row (revoke_session_of uid tm y)"
    if "?p (session_to_row y)" for y
    using that unfolding p by (simp add: set_cols_def session_to_row_def revoke_session_of_def v_opt_def)
  have fits: "\<forall>x \<in> set (C d ?t). ?p x \<longrightarrow> row_fits render session_row (set_cols ?vals x)"
    using assms(3) upd by (auto simp: D(1))
  obtain rows d1 where d1: "sql_update E ?t ?p ?vals d = Inr (rows, d1)"
    "mset rows = mset (map (set_cols ?vals) (filter ?p (C d ?t)))"
    "C d1 = (C d)(?t := map (\<lambda>x. if ?p x then set_cols ?vals x else x) (C d ?t))"
    by (rule update_okE [OF assms(1) classes_mapped(2) _ fits]) simp
  have "(if ?p (session_to_row y) then set_cols ?vals (session_to_row y) else session_to_row y)
      = session_to_row (revoke_session_of uid tm y)" for y
    using upd [of y] p [of y] by (auto simp: revoke_session_of_def)
  then have "map (\<lambda>x. if ?p x then set_cols ?vals x else x) (C d ?t)
      = map session_to_row (dict_values (map (\<lambda>(h, x). (h, revoke_session_of uid tm x)) (sessions s)))"
    by (simp add: D(1) comp_def split_beta)
  moreover have "keyed ses_token_hash (map (\<lambda>(h, x). (h, revoke_session_of uid tm x)) (sessions s))"
    using D(2) by (auto simp: keyed_def comp_def split_beta revoke_session_of_def)
  ultimately have "db_sim C (w, revoke_sessions_for_user uid tm s) d1"
    using assms(2) d1(3) by (simp add: db_sim_def revoke_sessions_for_user_def same_sessions_def)
  then show ?thesis
    using d1(1) by (simp add: matched_def done_in_def db_revoke_sessions_for_user_def agree_same)
qed

text \<open>An \<open>UPDATE\<close> that picks at most one job.\<close>

lemma update_no_job:
  assumes "update_ok render E C" "db_sim C (w, s) d" "\<forall>r \<in> set (C d ''setup_jobs''). \<not> p r"
    and "''id'' \<notin> fst ` set vals"
  shows "\<exists>d1. sql_update E ''setup_jobs'' p vals d = Inr ([], d1) \<and> db_sim C (w, s) d1"
proof -
  let ?m = Schema.setup_job_row
  have ids: "fst ` set vals \<inter> insert ''id'' (set (unique_cols ?m)) = {}" using assms(4) by auto
  have fits: "\<forall>x \<in> set (C d (fst ?m)). p x \<longrightarrow> row_fits render ?m (set_cols vals x)" using assms(3) by simp
  obtain rows d1 where d1: "sql_update E (fst ?m) p vals d = Inr (rows, d1)"
    "mset rows = mset (map (set_cols vals) (filter p (C d (fst ?m))))"
    "C d1 = (C d)(fst ?m := map (\<lambda>x. if p x then set_cols vals x else x) (C d (fst ?m)))"
    by (rule update_okE [OF assms(1) classes_mapped(8) ids fits])
  have "filter p (C d (fst ?m)) = []" using assms(3) by (simp add: filter_empty_conv)
  then have "rows = []" using d1(2) by simp
  moreover have "map (\<lambda>x. if p x then set_cols vals x else x) (C d (fst ?m)) = C d (fst ?m)"
    by (rule map_idI) (use assms(3) in simp)
  then have "C d1 = C d" using d1(3) by simp
  then have "db_sim C (w, s) d1" using assms(2) by (simp add: db_sim_def)
  ultimately show ?thesis using d1(1) by simp
qed

lemma update_one_job:
  assumes "update_ok render E C" "db_sim C (w, s) d" "get_setup_job (job_id j) s = Some j"
    and "\<And>v. v \<in> set (dict_values (setup_jobs s)) \<Longrightarrow> p (setup_job_to_row v) \<longleftrightarrow> v = j"
    and "''id'' \<notin> fst ` set vals" "set_cols vals (setup_job_to_row j) = setup_job_to_row j'"
    and "job_id j' = job_id j" "row_fits render Schema.setup_job_row (setup_job_to_row j')"
  shows "\<exists>d1. sql_update E ''setup_jobs'' p vals d = Inr ([setup_job_to_row j'], d1) \<and>
    db_sim C (w, save_setup_job j' s) d1"
proof -
  let ?m = Schema.setup_job_row and ?D = "setup_jobs s"
  have D: "C d ''setup_jobs'' = map setup_job_to_row (dict_values ?D)" and k: "keyed job_id ?D"
    using db_simD(8) [OF assms(2)] by (simp_all add: same_jobs_def)
  have j: "map_of ?D (job_id j) = Some j" using assms(3) by (simp add: get_setup_job_def)
  have same: "v = j \<longleftrightarrow> job_id v = job_id j" if "v \<in> set (dict_values ?D)" for v
    using keyed_eq [OF k that, of j] keyed_lookup [OF k j] by blast
  have ids: "fst ` set vals \<inter> insert ''id'' (set (unique_cols ?m)) = {}" using assms(5) by auto
  have fits: "\<forall>x \<in> set (C d (fst ?m)). p x \<longrightarrow> row_fits render ?m (set_cols vals x)"
    using assms(4,6,8) by (auto simp: D)
  obtain rows d1 where d1: "sql_update E (fst ?m) p vals d = Inr (rows, d1)"
    "mset rows = mset (map (set_cols vals) (filter p (C d (fst ?m))))"
    "C d1 = (C d)(fst ?m := map (\<lambda>x. if p x then set_cols vals x else x) (C d (fst ?m)))"
    by (rule update_okE [OF assms(1) classes_mapped(8) ids fits])
  have "filter (\<lambda>v. p (setup_job_to_row v)) (dict_values ?D)
      = filter (\<lambda>v. job_id v = job_id j) (dict_values ?D)"
    by (rule filter_cong) (use assms(4) same in auto)
  then have "filter p (C d (fst ?m)) = map setup_job_to_row (filter (\<lambda>v. job_id v = job_id j) (dict_values ?D))"
    unfolding table_names D by (simp only: filter_map [of p setup_job_to_row] comp_def)
  then have "rows = [setup_job_to_row j']" using d1(2) assms(6) by (simp add: filter_keyed [OF k] j)
  moreover have "map (\<lambda>x. if p x then set_cols vals x else x) (C d (fst ?m))
      = map setup_job_to_row (map (\<lambda>v. if job_id v = job_id j then j' else v) (dict_values ?D))"
    unfolding table_names D map_map by (rule map_cong) (use assms(4,6) same in auto)
  then have "map (\<lambda>x. if p x then set_cols vals x else x) (C d (fst ?m))
      = map setup_job_to_row (dict_values (dict_set (job_id j) j' ?D))"
    unfolding map_keyed_update [OF k j assms(7)] .
  then have "C d1 ''setup_jobs'' = map setup_job_to_row (dict_values (dict_set (job_id j) j' ?D))"
    using d1(3) by simp
  then have "db_sim C (w, save_setup_job j' s) d1"
    using assms(2,7) d1(3) keyed_set [OF k, of j']
    by (simp add: db_sim_def save_setup_job_def same_jobs_def)
  ultimately show ?thesis using d1(1) by simp
qed

lemma matched_job:
  assumes "sql_update E ''setup_jobs'' p vals d = Inr ([setup_job_to_row j], d1)" "db_sim C ws d1"
  shows "matched C (both_in A_job (sum_bind (sql_update E ''setup_jobs'' p vals d) (\<lambda>(rows, d1).
    sum_bind (first_row setup_job_of_row rows) (\<lambda>j. Inr (j, d1))))) (A_job (Some j)) ws"
  using assms by (simp add: matched_def both_in_def first_row_def)

lemma matched_no_job:
  assumes "sql_update E ''setup_jobs'' p vals d = Inr ([], d1)" "db_sim C ws d1"
  shows "matched C (both_in A_job (sum_bind (sql_update E ''setup_jobs'' p vals d) (\<lambda>(rows, d1).
    sum_bind (first_row setup_job_of_row rows) (\<lambda>j. Inr (j, d1))))) (A_job None) ws"
  using assms by (simp add: matched_def both_in_def first_row_def)

text \<open>The oldest queued job, when no two queued jobs are of the same time.\<close>

lemma oldest_agrees:
  assumes "lists_agree key ys xs" "inj_on key (set xs)"
  shows "ys = xs"
proof (rule map_inj_on)
  show "map key ys = map key xs" using assms(1) by (simp add: lists_agree_def)
  show "inj_on key (set ys \<union> set xs)"
    using assms by (metis Un_absorb lists_agree_def mset_eq_setD)
qed

lemma queued_jobs:
  assumes "select_ok E C" "db_sim C (w, s) d"
    and "distinct (map job_created_at (filter (\<lambda>j. job_status j = Queued) (dict_values (setup_jobs s))))"
  shows "sql_select E ''setup_jobs'' (has_str ''status'' (setup_status_value Queued)) (Asc ''created_at'') d
    = map setup_job_to_row
        (py_sorted job_created_at (filter (\<lambda>j. job_status j = Queued) (dict_values (setup_jobs s))))"
proof -
  let ?p = "has_str ''status'' (setup_status_value Queued)"
  let ?qs = "filter (\<lambda>j. job_status j = Queued) (dict_values (setup_jobs s))"
  have held: "delivers E ''setup_jobs'' d setup_job_of_row setup_job_to_row (dict_values (setup_jobs s))"
    by (rule held_jobs [OF assms(1), OF db_simD(8) [OF assms(2)]])
  have p: "filter (\<lambda>v. ?p (setup_job_to_row v)) (dict_values (setup_jobs s)) = ?qs"
    by (simp only: has_str_def job_cols dbval.inject setup_status_inj)
  obtain ys where ys: "sql_select E ''setup_jobs'' ?p (Asc ''created_at'') d = map setup_job_to_row ys"
    "mset ys = mset (filter (\<lambda>v. ?p (setup_job_to_row v)) (dict_values (setup_jobs s)))"
    by (rule select_objects [where p = ?p and ord = "Asc ''created_at''", OF held])
  have "in_order (Asc ''created_at'') (map setup_job_to_row ys)"
    using delivers_ordered [OF held, of "Asc ''created_at''" ?p] by (simp only: ys(1))
  then have "lists_agree job_created_at ys (py_sorted job_created_at ?qs)"
    using ascending_agree [where f = setup_job_to_row and key = job_created_at] ys(2) unfolding p by simp
  moreover have "inj_on job_created_at (set (py_sorted job_created_at ?qs))"
    using assms(3) by (auto simp: distinct_map)
  ultimately have "ys = py_sorted job_created_at ?qs" by (rule oldest_agrees)
  then show ?thesis using ys(1) by simp
qed

lemma step_claim:
  assumes "engine_ok render E C" "db_sim C (w, s) d" "op_ok render (Claim_job tm m) (w, s)"
  shows "matched C (db_step E (Claim_job tm m) d) (A_job (fst (claim_next_setup_job tm m s)))
    (w, snd (claim_next_setup_job tm m s))"
proof -
  let ?t = "''setup_jobs''" and ?queued = "has_str ''status'' (setup_status_value Queued)"
  let ?qs = "py_sorted job_created_at (filter (\<lambda>j. job_status j = Queued) (dict_values (setup_jobs s)))"
  let ?vals = "[(''status'', V_str (setup_status_value Checking_ssh)), (''current_step'', V_msg m),
     (''started_at'', V_time tm), (''updated_at'', V_time tm)]"
  have sel: "select_ok E C" and upd: "update_ok render E C" using assms(1) by (simp_all add: engine_ok_def)
  have times: "distinct (map job_created_at (filter (\<lambda>j. job_status j = Queued) (dict_values (setup_jobs s))))"
    using assms(3) by simp
  note queued = queued_jobs [OF sel assms(2) times]
  let ?p = "\<lambda>r. col r ''id'' \<in> set (map (\<lambda>c. col c ''id'') (take 1 (map setup_job_to_row ?qs))) \<and> ?queued r"
  have step: "db_step E (Claim_job tm m) d = both_in A_job
      (sum_bind (sql_update E ?t ?p ?vals d) (\<lambda>(rows, d1).
         sum_bind (first_row setup_job_of_row rows) (\<lambda>j. Inr (j, d1))))"
    by (simp only: db_step.simps db_claim_next_setup_job_def Let_def table_names queued)
  have k: "keyed job_id (setup_jobs s)" using db_simD(8) [OF assms(2)] by (simp add: same_jobs_def)
  show ?thesis
  proof (cases ?qs)
    case Nil
    then have "\<exists>d1. sql_update E ?t ?p ?vals d = Inr ([], d1) \<and> db_sim C (w, s) d1"
      by (intro update_no_job [OF upd assms(2)]) simp_all
    then show ?thesis
      unfolding step using Nil matched_no_job
      by (fastforce simp: claim_next_setup_job_def next_queued_setup_job_def)
  next
    case (Cons j js)
    then have "j \<in> set ?qs" by simp
    then have j: "j \<in> set (dict_values (setup_jobs s))" "job_status j = Queued" by simp_all
    let ?j = "j\<lparr>job_status := Checking_ssh, job_current_step := m, job_started_at := Some tm,
              job_updated_at := tm\<rparr>"
    have "\<exists>d1. sql_update E ?t ?p ?vals d = Inr ([setup_job_to_row ?j], d1) \<and> db_sim C (w, save_setup_job ?j s) d1"
    proof (rule update_one_job [OF upd assms(2)])
      show "get_setup_job (job_id j) s = Some j" using j(1) keyed_in [OF k] by (simp add: get_setup_job_def)
      show "?p (setup_job_to_row v) \<longleftrightarrow> v = j" if "v \<in> set (dict_values (setup_jobs s))" for v
      proof -
        have "?p (setup_job_to_row v) \<longleftrightarrow> job_id v = job_id j \<and> job_status v = Queued"
          unfolding Cons by (simp del: setup_status_value.simps add: has_str_def)
        then show ?thesis using keyed_eq [OF k that j(1)] j(2) by blast
      qed
      show "set_cols ?vals (setup_job_to_row j) = setup_job_to_row ?j"
        by (simp add: set_cols_def setup_job_to_row_def v_opt_def)
      show "row_fits render Schema.setup_job_row (setup_job_to_row ?j)" using assms(3) j(1) by auto
    qed simp_all
    then show ?thesis
      unfolding step using Cons matched_job
      by (fastforce simp: claim_next_setup_job_def next_queued_setup_job_def Let_def)
  qed
qed

text \<open>The values of a transition, written to the row and to the object.\<close>

definition stored_value :: "dbval \<Rightarrow> dbval" where
  "stored_value v = (case v of V_status st \<Rightarrow> V_str (setup_status_value st) | _ \<Rightarrow> v)"

lemma stored_values_each:
  "list_all value_ok vals \<Longrightarrow> distinct (map fst vals) \<Longrightarrow>
    stored_values vals = map (\<lambda>(f, v). (f, stored_value v)) vals"
proof (induction vals)
  case Nil
  show ?case by (simp add: stored_values_def col_def dict_get_def)
next
  case (Cons p vals)
  obtain f v where p: "p = (f, v)" by fastforce
  show ?case
  proof (cases "f = ''status''")
    case True
    then obtain x where x: "v = V_status x" using Cons.prems(1) by (auto simp: p elim: value_ok_cases)
    have "(case q of (g, u) \<Rightarrow> (g, stored_value u)) = q" if q: "q \<in> set vals" for q
    proof -
      obtain g u where gu: "q = (g, u)" by fastforce
      have "value_ok (g, u)" using Cons.prems(1) q by (simp add: list_all_iff gu)
      moreover have "g \<noteq> ''status''" using Cons.prems(2) q True by (force simp: p gu)
      ultimately show ?thesis by (auto simp: gu stored_value_def v_jdict_def elim: value_ok_cases)
    qed
    then have "map (\<lambda>(g, u). (g, stored_value u)) vals = vals" by (rule map_idI)
    then show ?thesis using True x by (simp add: p stored_values_def stored_value_def)
  next
    case False
    then have "stored_value v = v"
      using Cons.prems(1) by (auto simp: p stored_value_def v_jdict_def elim: value_ok_cases)
    moreover have "stored_values (p # vals) = p # stored_values vals"
      using False by (simp add: p stored_values_def split: dbval.split)
    ultimately show ?thesis using Cons by (simp add: p)
  qed
qed

lemma setattr_row:
  assumes "value_ok (f, v)"
  shows "dict_set f (stored_value v) (setup_job_to_row j) = setup_job_to_row (job_setattr f v j)"
  using assms
  by (cases rule: value_ok_cases)
    (simp_all add: stored_value_def job_setattr_def setup_job_to_row_def v_opt_def v_jdict_def)

lemma setattrs_row:
  "list_all value_ok vals \<Longrightarrow>
    set_cols (map (\<lambda>(f, v). (f, stored_value v)) vals) (setup_job_to_row j) = setup_job_to_row (job_setattrs vals j)"
proof (induction vals arbitrary: j)
  case Nil
  show ?case by (simp add: set_cols_def job_setattrs_def)
next
  case (Cons p vals)
  obtain f v where p: "p = (f, v)" by fastforce
  show ?case
    using Cons.IH [of "job_setattr f v j"] setattr_row [of f v j] Cons.prems
    by (simp add: p set_cols_def job_setattrs_def)
qed

lemma job_setattr_id [simp]: "job_id (job_setattr f v j) = job_id j"
  by (simp add: job_setattr_def split: dbval.split json.split)

lemma job_setattrs_id [simp]: "job_id (job_setattrs vals j) = job_id j"
  by (induction vals arbitrary: j) (auto simp: job_setattrs_def)

lemma step_transition:
  assumes "engine_ok render E C" "db_sim C (w, s) d" "op_ok render (Transition_job i ex vals) (w, s)"
  shows "matched C (db_step E (Transition_job i ex vals) d)
    (A_job (fst (transition_setup_job i ex (job_setattrs vals) s)))
    (w, snd (transition_setup_job i ex (job_setattrs vals) s))"
proof -
  let ?p = "\<lambda>r. by_id i r \<and> str_in ''status'' (map setup_status_value ex) r"
  let ?vals = "map (\<lambda>(f, v). (f, stored_value v)) vals"
  have upd: "update_ok render E C" using assms(1) by (simp add: engine_ok_def)
  have vals: "list_all value_ok vals" "distinct (map fst vals)" using assms(3) by simp_all
  have D: "C d ''setup_jobs'' = map setup_job_to_row (dict_values (setup_jobs s))" and k: "keyed job_id (setup_jobs s)"
    using db_simD(8) [OF assms(2)] by (simp_all add: same_jobs_def)
  have ids: "''id'' \<notin> fst ` set ?vals"
    using vals(1) by (auto simp: list_all_iff elim: value_ok_cases dest!: bspec)
  have step: "db_step E (Transition_job i ex vals) d = both_in A_job
      (sum_bind (sql_update E ''setup_jobs'' ?p ?vals d) (\<lambda>(rows, d1).
         sum_bind (first_row setup_job_of_row rows) (\<lambda>j. Inr (j, d1))))"
    by (simp only: db_step.simps db_transition_setup_job_def stored_values_each [OF vals] table_names)
  have p: "?p (setup_job_to_row v) \<longleftrightarrow> job_id v = i \<and> job_status v \<in> set ex" for v
    by (auto simp: by_id_def str_in_def)
  show ?thesis
  proof (cases "\<exists>j. map_of (setup_jobs s) i = Some j \<and> job_status j \<in> set ex")
    case True
    then obtain j where j: "map_of (setup_jobs s) i = Some j" "job_status j \<in> set ex" by blast
    note at = keyed_lookup [OF k j(1)]
    have "\<exists>d1. sql_update E ''setup_jobs'' ?p ?vals d = Inr ([setup_job_to_row (job_setattrs vals j)], d1) \<and>
        db_sim C (w, save_setup_job (job_setattrs vals j) s) d1"
    proof (rule update_one_job [OF upd assms(2)])
      show "get_setup_job (job_id j) s = Some j" using j(1) at by (simp add: get_setup_job_def)
      show "?p (setup_job_to_row v) \<longleftrightarrow> v = j" if "v \<in> set (dict_values (setup_jobs s))" for v
        unfolding p using keyed_eq [OF k that, of j] at j(2) by auto
      show "row_fits render Schema.setup_job_row (setup_job_to_row (job_setattrs vals j))"
        using assms(3) j(1) by (simp add: get_setup_job_def)
    qed (use ids setattrs_row [OF vals(1)] in simp_all)
    then obtain d1 where "sql_update E ''setup_jobs'' ?p ?vals d = Inr ([setup_job_to_row (job_setattrs vals j)], d1)"
      "db_sim C (w, save_setup_job (job_setattrs vals j) s) d1" by blast
    from matched_job [OF this] show ?thesis
      unfolding step using j by (simp add: transition_setup_job_def)
  next
    case False
    have none: "\<forall>r \<in> set (C d ''setup_jobs''). \<not> ?p r"
    proof
      fix r assume "r \<in> set (C d ''setup_jobs'')"
      then obtain v where v: "r = setup_job_to_row v" "v \<in> set (dict_values (setup_jobs s))" by (auto simp: D)
      show "\<not> ?p r" using keyed_in [OF k, of v] v(2) False unfolding v(1) p by blast
    qed
    have "\<exists>d1. sql_update E ''setup_jobs'' ?p ?vals d = Inr ([], d1) \<and> db_sim C (w, s) d1"
      by (rule update_no_job [OF upd assms(2)]) (use none ids in simp_all)
    then obtain d1 where "sql_update E ''setup_jobs'' ?p ?vals d = Inr ([], d1)" "db_sim C (w, s) d1" by blast
    from matched_no_job [OF this] show ?thesis
      unfolding step using False by (auto simp: transition_setup_job_def split: option.split)
  qed
qed

text \<open>The values that the services hand to a transition are of this kind.\<close>

lemma cancel_values:
  "(\<lambda>j. j\<lparr>job_status := Cancelled, job_current_step := m, job_finished_at := Some tm,
      job_updated_at := tm, job_secret_encrypted := None\<rparr>)
   = job_setattrs [(''status'', V_status Cancelled), (''current_step'', V_msg m),
       (''finished_at'', V_time tm), (''updated_at'', V_time tm), (''secret_encrypted'', V_null)]"
  by (simp add: fun_eq_iff job_setattrs_def job_setattr_def)

lemma step_values:
  "(\<lambda>j. j\<lparr>job_status := st, job_current_step := m, job_updated_at := tm\<rparr>)
   = job_setattrs [(''status'', V_status st), (''current_step'', V_msg m), (''updated_at'', V_time tm)]"
  by (simp add: fun_eq_iff job_setattrs_def job_setattr_def)

lemma success_values:
  "(\<lambda>j. j\<lparr>job_status := Success, job_current_step := m, job_server_node_id := Some node,
      job_finished_at := Some tm, job_updated_at := tm, job_secret_encrypted := None,
      job_result_payload := Some kvs\<rparr>)
   = job_setattrs [(''status'', V_status Success), (''current_step'', V_msg m),
       (''server_node_id'', V_str node), (''finished_at'', V_time tm), (''updated_at'', V_time tm),
       (''secret_encrypted'', V_null), (''result_payload'', v_jdict kvs)]"
  by (simp add: fun_eq_iff job_setattrs_def job_setattr_def v_jdict_def)

lemma failed_values:
  "(\<lambda>j. j\<lparr>job_status := Failed, job_current_step := m, job_error_message := Some e,
      job_finished_at := Some tm, job_updated_at := tm, job_secret_encrypted := None\<rparr>)
   = job_setattrs [(''status'', V_status Failed), (''current_step'', V_msg m),
       (''error_message'', V_msg e), (''finished_at'', V_time tm), (''updated_at'', V_time tm),
       (''secret_encrypted'', V_null)]"
  by (simp add: fun_eq_iff job_setattrs_def job_setattr_def)

section \<open>Every operation\<close>

lemma step_matched:
  assumes "engine_ok render E C" "db_sim C (w, s) d" "op_ok render op (w, s)"
  shows "matched C (db_step E op d) (fst (mem_step_at op (w, s))) (snd (mem_step_at op (w, s)))"
proof -
  have sel: "select_ok E C" and mrg: "merge_ok render E C" and ins: "insert_ok render E C"
    and upd: "update_ok render E C" and del: "delete_ok E C"
    using assms(1) by (simp_all add: engine_ok_def)
  note sim = db_simD [OF assms(2)]
  note read = matched_read [OF assms(2)] and lists = matched_list [OF assms(2)]
  show ?thesis
  proof (cases op)
    case (Save_user u) then show ?thesis using step_save_user [OF mrg assms(2)] assms(3) by (simp add: mem_step_at_def)
  next
    case (Get_user i) then show ?thesis using read [OF read_user(1) [OF sel, OF sim(1)]] by (simp add: mem_step_at_def)
  next
    case (Get_user_by_login l)
    then show ?thesis using read [OF read_user(2) [OF sel, OF sim(1)]] by (simp add: mem_step_at_def)
  next
    case List_users
    then show ?thesis using lists [OF read_user(4) [OF sel, OF sim(1)] agree_users] by (simp add: mem_step_at_def)
  next
    case Has_admin
    then show ?thesis
      using assms(2) read_user(3) [OF sel, OF sim(1)] by (simp add: mem_step_at_def matched_def agree_same)
  next
    case (Save_session x)
    then show ?thesis using step_save_session [OF mrg assms(2)] assms(3) by (simp add: mem_step_at_def)
  next
    case (Get_session h)
    then show ?thesis using read [OF read_session [OF sel, OF sim(2)]] by (simp add: mem_step_at_def)
  next
    case (Revoke_sessions uid tm)
    then show ?thesis using step_revoke_sessions [OF upd assms(2)] assms(3) by (simp add: mem_step_at_def)
  next
    case (Save_node n) then show ?thesis using step_save_node [OF mrg assms(2)] assms(3) by (simp add: mem_step_at_def)
  next
    case (Get_node i) then show ?thesis using read [OF read_node(1) [OF sel, OF sim(3)]] by (simp add: mem_step_at_def)
  next
    case List_nodes
    then show ?thesis using lists [OF read_node(2) [OF sel, OF sim(3)] agree_nodes] by (simp add: mem_step_at_def)
  next
    case (Save_device x)
    then show ?thesis using step_save_device [OF mrg assms(2)] assms(3) by (simp add: mem_step_at_def)
  next
    case (Get_device i)
    then show ?thesis using read [OF read_device(1) [OF sel, OF sim(4)]] by (simp add: mem_step_at_def)
  next
    case (List_devices uid)
    then show ?thesis using lists [OF read_device(2) [OF sel, OF sim(4)] agree_devices] by (simp add: mem_step_at_def)
  next
    case (Count_limit uid)
    then show ?thesis
      using assms(2) read_device(3) [OF sel, OF sim(4)] by (simp add: mem_step_at_def matched_def)
  next
    case (Count_node nid)
    then show ?thesis
      using assms(2) read_device(4) [OF sel, OF sim(4)] by (simp add: mem_step_at_def matched_def)
  next
    case (Save_issue i)
    then show ?thesis using step_save_issue [OF assms(1,2)] assms(3) by (simp add: mem_step_at_def)
  next
    case (Get_issue i) then show ?thesis using read [OF read_issue [OF sel, OF sim(5)]] by (simp add: mem_step_at_def)
  next
    case (Drop_issue i) then show ?thesis using step_drop_issue [OF del assms(2)] by (simp add: mem_step_at_def)
  next
    case Get_support
    then show ?thesis using step_get_support [OF assms(1,2)] assms(3) by (simp add: mem_step_at_def)
  next
    case (Save_support x)
    then show ?thesis using step_save_support [OF mrg assms(2)] assms(3) by (simp add: mem_step_at_def)
  next
    case (Add_contribution c)
    then show ?thesis using step_add_contribution [OF mrg assms(2)] assms(3) by (simp add: mem_step_at_def)
  next
    case (List_contributions uid)
    then show ?thesis
      using lists [OF read_contributions [OF sel, OF sim(6)] agree_contributions] by (simp add: mem_step_at_def)
  next
    case (Save_job j) then show ?thesis using step_save_job [OF mrg assms(2)] assms(3) by (simp add: mem_step_at_def)
  next
    case (Get_job i) then show ?thesis using read [OF read_job(1) [OF sel, OF sim(8)]] by (simp add: mem_step_at_def)
  next
    case List_jobs
    then show ?thesis using lists [OF read_job(2) [OF sel, OF sim(8)] agree_jobs] by (simp add: mem_step_at_def)
  next
    case (Claim_job tm m)
    then show ?thesis using step_claim [OF assms(1,2)] assms(3) by (simp add: mem_step_at_def split_beta)
  next
    case (Transition_job i ex vals)
    then show ?thesis using step_transition [OF assms(1,2)] assms(3) by (simp add: mem_step_at_def split_beta)
  next
    case (Add_event e) then show ?thesis using step_add_event [OF mrg assms(2)] assms(3) by (simp add: mem_step_at_def)
  next
    case (List_events i) then show ?thesis using step_list_events [OF sel assms(2)] by (simp add: mem_step_at_def)
  next
    case (Add_audit a) then show ?thesis using step_add_audit [OF mrg assms(2)] assms(3) by (simp add: mem_step_at_def)
  next
    case (List_audit n)
    then show ?thesis using step_list_audit [OF sel assms(2)] assms(3) by (simp add: mem_step_at_def)
  next
    case (Record_failure k tm)
    then show ?thesis using step_record_failure [OF ins assms(2)] assms(3) by (simp add: mem_step_at_def)
  next
    case (Count_failures k tm)
    then show ?thesis using step_count_failures [OF sel del assms(2)] assms(3) by (simp add: mem_step_at_def split_beta)
  next
    case (Clear_failures k) then show ?thesis using step_clear_failures [OF del assms(2)] by (simp add: mem_step_at_def)
  qed
qed

interpretation db: simulation mem_step_at "db_step E" "op_ok render"
    "\<lambda>ws d. engine_ok render E C \<and> db_sim C ws d" agrees
  for E :: "'d engine" and render :: "message \<Rightarrow> string" and C :: "'d \<Rightarrow> string \<Rightarrow> row list"
proof
  fix ws d op
  assume "engine_ok render E C \<and> db_sim C ws d" "op_ok render op ws"
  then show "\<exists>a d'. db_step E op d = Inr (a, d') \<and> agrees a (fst (mem_step_at op ws)) \<and>
      (engine_ok render E C \<and> db_sim C (snd (mem_step_at op ws)) d')"
    using step_matched [of render E C "fst ws" "snd ws" d op] by (auto simp: matched_def)
qed

text \<open>C9: DATABASE REFINES MEMORY. From related states every sequence of storage operations that meets
  the expectations of \<open>op_ok\<close> (rows fit their columns, identifiers are fresh where an object is added,
  the clock moves on) succeeds on the database, gives answers that agree with those of the in-memory
  storage, and ends in related states: the services cannot tell \<open>DatabaseStorage\<close> from
  \<open>InMemoryStorage\<close>.\<close>

theorem database_refines_memory:
  assumes "engine_ok render E C" "db_sim C (w, s) d" "all_ok (op_ok render) mem_step_at ops (w, s)"
  shows "\<exists>as d'. run_fallible (db_step E) ops d = Inr (as, d') \<and>
    list_all2 agrees as (fst (run_ops mem_step_at ops (w, s))) \<and>
    db_sim C (snd (run_ops mem_step_at ops (w, s))) d'"
  using db.simulates [of render E C "(w, s)" d ops] assms by blast

definition demo_stored_job :: setup_job where
  "demo_stored_job =
     \<lparr>job_id = ''j1'', job_created_by_user_id = ''a'', job_server_name = ''n3'', job_host = ''h3'',
      job_ssh_port = 22, job_ssh_username = ''root'', job_auth_method = Password, job_created_at = 1,
      job_updated_at = 1, job_status = Queued, job_secret_encrypted = None, job_region_note = None,
      job_install_awg = True, job_available_for_new_devices = True, job_verify_before_install = True,
      job_current_step = M_text ''queued'', job_error_message = None, job_result_payload = None,
      job_server_node_id = None, job_started_at = None, job_finished_at = None\<rparr>"

definition demo_ops :: "store_op list" where
  "demo_ops =
     [Save_user the_admin, Save_node (demo_node ''n1'' Online), Save_job demo_stored_job,
      Claim_job 5 (M_text ''ssh''),
      Transition_job ''j1'' [Checking_ssh] [(''status'', V_status Cancelled), (''updated_at'', V_time 6)],
      Record_failure ''k'' 7, Count_failures ''k'' 3, Get_user_by_login '' ROOT '', Get_support, List_jobs]"

lemma demo_ops_ok:
  "all_ok (op_ok (\<lambda>m. [])) mem_step_at demo_ops (0, empty_storage demo_clock demo_uuid demo_random)"
  by code_simp

theorem database_refines_memory_witness:
  "\<exists>as d'. run_fallible (db_step (list_engine (\<lambda>m. []))) demo_ops (\<lambda>t. []) = Inr (as, d') \<and>
    list_all2 agrees as
      (fst (run_ops mem_step_at demo_ops (0, empty_storage demo_clock demo_uuid demo_random))) \<and>
    db_sim (\<lambda>d. d) (snd (run_ops mem_step_at demo_ops (0, empty_storage demo_clock demo_uuid demo_random))) d'"
proof (rule database_refines_memory [OF list_engine_ok _ demo_ops_ok])
  show "db_sim (\<lambda>d. d) (0, empty_storage demo_clock demo_uuid demo_random) (\<lambda>t. [])"
    by (simp add: db_sim_def empty_storage_def same_users_def same_sessions_def same_nodes_def
        same_devices_def same_issues_def same_support_def same_jobs_def same_events_def same_audit_def
        same_failures_def dict_get_def)
qed

end
