(* ===== verification/DbSession.thy ===== *)
theory DbSession
  imports DbEngine
begin

text \<open>
  \<open>Database.session\<close> of \<open>app/db/session.py\<close>, the context manager every method of \<open>DatabaseStorage\<close> runs in,
  and \<open>_database_url\<close> of the migrations. SQLAlchemy's \<open>Session\<close> is the parameter \<open>A\<close>, known by
  \<open>session_ok\<close>: what is stored changes with a commit only. So a method that is written as a function of
  the contents of the database, as those of \<open>Database\<close> are, is one transaction.
\<close>

section \<open>The context manager\<close>

record 'x session_api =
  sa_open :: "'x \<Rightarrow> 'x"
  sa_commit :: "'x \<Rightarrow> unit res \<times> 'x"
  sa_rollback :: "'x \<Rightarrow> 'x"
  sa_close :: "'x \<Rightarrow> 'x"

text \<open>\<open>except Exception\<close> lets the cancellation of a task pass.\<close>

definition is_exception :: "exn \<Rightarrow> bool" where
  "is_exception e \<longleftrightarrow> e \<noteq> Task_cancelled"

definition database_session :: "'x session_api \<Rightarrow> ('x \<Rightarrow> 'a res \<times> 'x) \<Rightarrow> 'x \<Rightarrow> 'a res \<times> 'x" where
  "database_session A body x =
     (let failed = (\<lambda>e y. (Inl e, if is_exception e then sa_rollback A y else y));
          (r, y) = (case body (sa_open A x) of
                      (Inl e, y) \<Rightarrow> failed e y
                    | (Inr a, y) \<Rightarrow> (case sa_commit A y of (Inl e, z) \<Rightarrow> failed e z | (Inr _, z) \<Rightarrow> (Inr a, z)))
      in (r, sa_close A y))"

section \<open>What is relied on of a session\<close>

text \<open>
  \<open>stored\<close> is what any new session finds, \<open>seen\<close> what the open one does, \<open>in_use\<close> whether it holds a
  connection.
\<close>

definition session_ok :: "'x session_api \<Rightarrow> ('x \<Rightarrow> 'd) \<Rightarrow> ('x \<Rightarrow> 'd) \<Rightarrow> ('x \<Rightarrow> bool) \<Rightarrow> bool" where
  "session_ok A stored seen in_use \<longleftrightarrow>
     (\<forall>x. \<not> in_use x \<longrightarrow> in_use (sa_open A x) \<and> stored (sa_open A x) = stored x \<and> seen (sa_open A x) = stored x) \<and>
     (\<forall>x y r. in_use x \<longrightarrow> sa_commit A x = (r, y) \<longrightarrow> in_use y \<and> stored y = (case r of Inl e \<Rightarrow> stored x | Inr u \<Rightarrow> seen x)) \<and>
     (\<forall>x. in_use x \<longrightarrow> in_use (sa_rollback A x) \<and> stored (sa_rollback A x) = stored x) \<and>
     (\<forall>x. in_use x \<longrightarrow> \<not> in_use (sa_close A x) \<and> stored (sa_close A x) = stored x)"

text \<open>The body of a \<open>with\<close> does to what the session sees what the method \<open>m\<close> does to a database.\<close>

definition carries_out ::
  "('x \<Rightarrow> 'a res \<times> 'x) \<Rightarrow> ('d \<Rightarrow> ('a \<times> 'd) res) \<Rightarrow> ('x \<Rightarrow> 'd) \<Rightarrow> ('x \<Rightarrow> 'd) \<Rightarrow> ('x \<Rightarrow> bool) \<Rightarrow> bool" where
  "carries_out body m stored seen in_use \<longleftrightarrow> (\<forall>x. in_use x \<longrightarrow>
     in_use (snd (body x)) \<and> stored (snd (body x)) = stored x \<and>
     (case m (seen x) of
        Inl e \<Rightarrow> fst (body x) = Inl e
      | Inr (a, d) \<Rightarrow> fst (body x) = Inr a \<and> seen (snd (body x)) = d))"

text \<open>A session whose commit fails when the database does, over one whole contents.\<close>

record 'd plain_session =
  ps_stored :: 'd
  ps_work :: "'d option"
  ps_down :: bool

definition plain_api :: "'d plain_session session_api" where
  "plain_api =
     \<lparr>sa_open = (\<lambda>x. x\<lparr>ps_work := Some (ps_stored x)\<rparr>),
      sa_commit = (\<lambda>x. if ps_down x then (Inl (Py ValueError), x)
         else (Inr (), x\<lparr>ps_stored := (case ps_work x of None \<Rightarrow> ps_stored x | Some d \<Rightarrow> d)\<rparr>)),
      sa_rollback = (\<lambda>x. x\<lparr>ps_work := Some (ps_stored x)\<rparr>),
      sa_close = (\<lambda>x. x\<lparr>ps_work := None\<rparr>)\<rparr>"

definition plain_seen :: "'d plain_session \<Rightarrow> 'd" where
  "plain_seen x = (case ps_work x of None \<Rightarrow> ps_stored x | Some d \<Rightarrow> d)"

definition plain_open :: "'d plain_session \<Rightarrow> bool" where
  "plain_open x \<longleftrightarrow> ps_work x \<noteq> None"

lemma plain_api_ok: "session_ok plain_api ps_stored plain_seen plain_open"
  by (auto simp: session_ok_def plain_api_def plain_seen_def plain_open_def split: if_splits)

definition plain_body :: "('d \<Rightarrow> ('a \<times> 'd) res) \<Rightarrow> 'd plain_session \<Rightarrow> 'a res \<times> 'd plain_session" where
  "plain_body m x =
     (case m (plain_seen x) of Inl e \<Rightarrow> (Inl e, x) | Inr (a, d) \<Rightarrow> (Inr a, x\<lparr>ps_work := Some d\<rparr>))"

lemma plain_body_ok: "carries_out (plain_body m) m ps_stored plain_seen plain_open"
  by (auto simp: carries_out_def plain_body_def plain_seen_def plain_open_def split: sum.split)

text \<open>
  C20: TRANSACTIONS. A method of the storage run in \<open>Database.session\<close> either delivers its result and has
  changed what is stored exactly as the method says, or raises and has left everything stored as it was,
  whether a statement failed, what was read could not be converted, or the commit did; the connection
  is given back in each case.
\<close>

theorem session_is_transaction:
  assumes "session_ok A stored seen in_use" "carries_out body m stored seen in_use" "\<not> in_use x"
    and "database_session A body x = (r, x')"
  shows "\<not> in_use x' \<and>
    (case r of
       Inr a \<Rightarrow> m (stored x) = Inr (a, stored x')
     | Inl e \<Rightarrow> stored x' = stored x \<and>
         (m (stored x) = Inl e \<or> (\<exists>y. fst (sa_commit A y) = Inl e)))"
proof -
  let ?x1 = "sa_open A x"
  have x1: "in_use ?x1" "stored ?x1 = stored x" "seen ?x1 = stored x"
    using assms(1,3) by (auto simp: session_ok_def)
  obtain q y where q: "body ?x1 = (q, y)" by fastforce
  have y: "in_use y" "stored y = stored x"
    and m: "case m (stored x) of Inl e \<Rightarrow> q = Inl e | Inr (a, d) \<Rightarrow> q = Inr a \<and> seen y = d"
    using assms(2) [unfolded carries_out_def, rule_format, OF x1(1)] x1(2,3) q by (auto split: sum.splits)
  have rolled: "in_use (sa_rollback A z) \<and> stored (sa_rollback A z) = stored z" if "in_use z" for z
    using assms(1) that by (auto simp: session_ok_def)
  have closed: "\<not> in_use (sa_close A z) \<and> stored (sa_close A z) = stored z" if "in_use z" for z
    using assms(1) that by (auto simp: session_ok_def)
  show ?thesis
  proof (cases q)
    case (Inl e)
    then have "m (stored x) = Inl e" using m by (auto split: sum.splits)
    then show ?thesis
      using assms(4) q Inl y rolled [OF y(1)] closed [OF y(1)] closed [of "sa_rollback A y"]
      by (auto simp: database_session_def Let_def split: if_splits)
  next
    case (Inr a)
    then have ma: "m (stored x) = Inr (a, seen y)" using m by (auto split: sum.splits)
    obtain c z where c: "sa_commit A y = (c, z)" by fastforce
    have z: "in_use z" "stored z = (case c of Inl e \<Rightarrow> stored y | Inr u \<Rightarrow> seen y)"
      using assms(1) y(1) c by (auto simp: session_ok_def)
    show ?thesis
    proof (cases c)
      case (Inl e)
      then have "\<exists>y. fst (sa_commit A y) = Inl e" using c by (metis fst_conv)
      then show ?thesis
        using assms(4) q Inr Inl c y z ma rolled [OF z(1)] closed [OF z(1)] closed [of "sa_rollback A z"]
        by (auto simp: database_session_def Let_def split: if_splits)
    next
      case (Inr u)
      then show ?thesis
        using assms(4) q \<open>q = Inr a\<close> c z ma closed [OF z(1)] by (auto simp: database_session_def)
    qed
  qed
qed

text \<open>
  The new issue of a device replaces the old one in two statements; when the second fails, the first is
  undone.
\<close>

definition as_method :: "('d \<Rightarrow> 'd res) \<Rightarrow> 'd \<Rightarrow> (unit \<times> 'd) res" where
  "as_method f d = sum_bind (f d) (\<lambda>d1. Inr ((), d1))"

definition old_issue :: config_issue where
  "old_issue = \<lparr>iss_id = ''i1'', iss_device_id = ''d1'', iss_issued_to_user_id = ''m'', iss_created_at = 0,
     iss_expires_at = 9, iss_config_encrypted = None, iss_vpn_url_encrypted = None, iss_consumed_at = None\<rparr>"

definition long_issue :: config_issue where
  "long_issue = old_issue\<lparr>iss_id := replicate 37 (CHR ''x'')\<rparr>"

definition one_issue :: "(string \<Rightarrow> row list) plain_session" where
  "one_issue = \<lparr>ps_stored = (\<lambda>t. if t = fst device_config_issue_row then [issue_to_row old_issue] else []),
     ps_work = None, ps_down = False\<rparr>"

theorem session_is_transaction_witness:
  "let m = as_method (db_save_issue (list_engine (\<lambda>m. [])) long_issue);
       (r, x') = database_session plain_api (plain_body m) one_issue in
   isl r \<and> db_get_issue (list_engine (\<lambda>m. [])) ''d1'' (ps_stored x') = Inr (Some old_issue)"
proof -
  let ?m = "as_method (db_save_issue (list_engine (\<lambda>m. [])) long_issue)"
  obtain r x' where r: "database_session plain_api (plain_body ?m) one_issue = (r, x')" by fastforce
  have "isl (fst (database_session plain_api (plain_body ?m) one_issue))" by code_simp
  then obtain e where "r = Inl e" using r by (cases r) simp_all
  then have "ps_stored x' = ps_stored one_issue"
    using session_is_transaction [OF plain_api_ok plain_body_ok _ r] by (simp add: plain_open_def one_issue_def)
  moreover have "db_get_issue (list_engine (\<lambda>m. [])) ''d1'' (ps_stored one_issue) = Inr (Some old_issue)"
    by code_simp
  ultimately show ?thesis using r \<open>r = Inl e\<close> by simp
qed

end
