(* ===== verification/Bodies.thy ===== *)
theory Bodies
  imports DbEngine
begin

text \<open>
  \<open>app/schemas\<close>: the bodies the API accepts, as the list of their fields with the declared
  constraints, and the bodies it answers with, as what \<open>from_domain\<close> fills in. Pydantic, which checks
  a body against its declaration, is a parameter (\<open>validate\<close>); \<open>validator_ok\<close> names what is relied on:
  what it lets through meets the declaration. \<open>stamp\<close> is the text of a point in time.
\<close>

section \<open>Declared fields\<close>

datatype pattern = P_login | P_host | P_ssh_username

datatype field_type =
  T_str nat "nat option" "pattern option"
| T_int "int option" "int option"
| T_float bool
| T_bool
| T_enum "string list"
| T_texts
| T_obj

text \<open>
  \<open>T_float True\<close> is \<open>gt=0\<close>, \<open>T_float False\<close> is \<open>ge=0\<close>; \<open>T_texts\<close> is \<open>list[str]\<close>, \<open>T_obj\<close> is
  \<open>dict[str, Any]\<close>. A field without a default is required.
\<close>

record field =
  fld_name :: string
  fld_type :: field_type
  fld_null :: bool
  fld_default :: "json option"

definition alnum :: "char \<Rightarrow> bool" where
  "alnum c \<longleftrightarrow> (let n = of_char c :: nat in
     48 \<le> n \<and> n \<le> 57 \<or> 65 \<le> n \<and> n \<le> 90 \<or> 97 \<le> n \<and> n \<le> 122)"

text \<open>
  The three patterns, \<open>^[a-zA-Z0-9_.-]+$\<close>, \<open>^[A-Za-z0-9][A-Za-z0-9._:-]*$\<close> and
  \<open>^[A-Za-z_][A-Za-z0-9_.-]{0,63}$\<close>; the \<open>$\<close> of pydantic's engine is the end of the text.
\<close>

fun matches :: "pattern \<Rightarrow> string \<Rightarrow> bool" where
  "matches P_login s \<longleftrightarrow> s \<noteq> [] \<and> list_all (\<lambda>c. alnum c \<or> c \<in> set ''_.-'') s"
| "matches P_host s \<longleftrightarrow>
     (case s of [] \<Rightarrow> False | c # cs \<Rightarrow> alnum c \<and> list_all (\<lambda>c. alnum c \<or> c \<in> set ''._:-'') cs)"
| "matches P_ssh_username s \<longleftrightarrow>
     (case s of
        [] \<Rightarrow> False
      | c # cs \<Rightarrow>
          (alnum c \<and> \<not> is_digit c \<or> c = CHR ''_'') \<and> length cs \<le> 63 \<and>
          list_all (\<lambda>c. alnum c \<or> c \<in> set ''_.-'') cs)"

definition value_in :: "field_type \<Rightarrow> json \<Rightarrow> bool" where
  "value_in ty v =
     (case v of
        JStr s \<Rightarrow>
          (case ty of
             T_str lo hi p \<Rightarrow>
               lo \<le> text_length s \<and> (case hi of None \<Rightarrow> True | Some n \<Rightarrow> text_length s \<le> n) \<and>
               (case p of None \<Rightarrow> True | Some q \<Rightarrow> matches q s)
           | T_enum ss \<Rightarrow> s \<in> set ss
           | _ \<Rightarrow> False)
      | JInt i \<Rightarrow>
          (case ty of
             T_int lo hi \<Rightarrow>
               (case lo of None \<Rightarrow> True | Some a \<Rightarrow> a \<le> i) \<and> (case hi of None \<Rightarrow> True | Some b \<Rightarrow> i \<le> b)
           | _ \<Rightarrow> False)
      | JFloat x \<Rightarrow> (case ty of T_float strict \<Rightarrow> 0 < x \<or> \<not> strict \<and> x = 0 | _ \<Rightarrow> False)
      | JBool b \<Rightarrow> ty = T_bool
      | JList xs \<Rightarrow> ty = T_texts \<and> list_all (\<lambda>x. case x of JStr _ \<Rightarrow> True | _ \<Rightarrow> False) xs
      | JObj kvs \<Rightarrow> ty = T_obj
      | _ \<Rightarrow> False)"

definition field_accepts :: "field \<Rightarrow> json \<Rightarrow> bool" where
  "field_accepts f v \<longleftrightarrow> (v = JNull \<and> fld_null f) \<or> value_in (fld_type f) v"

text \<open>Abbreviations for the ways in which the source declares a field.\<close>

definition req_field :: "string \<Rightarrow> field_type \<Rightarrow> field" where
  "req_field n ty = \<lparr>fld_name = n, fld_type = ty, fld_null = False, fld_default = None\<rparr>"

definition opt_field :: "string \<Rightarrow> field_type \<Rightarrow> field" where
  "opt_field n ty = \<lparr>fld_name = n, fld_type = ty, fld_null = True, fld_default = Some JNull\<rparr>"

definition def_field :: "string \<Rightarrow> field_type \<Rightarrow> json \<Rightarrow> field" where
  "def_field n ty d = \<lparr>fld_name = n, fld_type = ty, fld_null = False, fld_default = Some d\<rparr>"

abbreviation text_upto :: "nat \<Rightarrow> nat \<Rightarrow> field_type" where
  "text_upto lo hi \<equiv> T_str lo (Some hi) None"

section \<open>Accepted bodies\<close>

definition login_in :: "field list" where
  "login_in = [req_field ''login'' (text_upto 1 64), req_field ''password'' (text_upto 1 256)]"

definition roles :: "string list" where
  "roles = map role_value all_user_role"

definition user_create_in :: "field list" where
  "user_create_in =
     [req_field ''login'' (T_str 2 (Some 64) (Some P_login)),
      req_field ''display_name'' (text_upto 1 100), req_field ''password'' (text_upto 6 256),
      def_field ''role'' (T_enum roles) (JStr (role_value Plain_user)),
      opt_field ''telegram_username'' (text_upto 0 64),
      \<lparr>fld_name = ''device_limit'', fld_type = T_int (Some 0) None, fld_null = True,
       fld_default = Some (JInt 3)\<rparr>,
      def_field ''device_limit_unlimited'' T_bool (JBool False),
      def_field ''show_server_support'' T_bool (JBool True),
      def_field ''free_access'' T_bool (JBool False), opt_field ''note'' (text_upto 0 500)]"

definition user_update_in :: "field list" where
  "user_update_in =
     [opt_field ''display_name'' (text_upto 1 100), opt_field ''role'' (T_enum roles),
      opt_field ''telegram_username'' (text_upto 0 64),
      opt_field ''device_limit'' (T_int (Some 0) None),
      opt_field ''device_limit_unlimited'' T_bool, opt_field ''show_server_support'' T_bool,
      opt_field ''free_access'' T_bool, opt_field ''note'' (text_upto 0 500)]"

definition reset_password_in :: "field list" where
  "reset_password_in = [req_field ''password'' (text_upto 6 256)]"

definition server_create_in :: "field list" where
  "server_create_in =
     [req_field ''name'' (text_upto 1 100), req_field ''public_host'' (text_upto 1 255),
      req_field ''agent_base_url'' (text_upto 1 255),
      opt_field ''public_port'' (T_int (Some 1) (Some 65535)),
      opt_field ''region_note'' (text_upto 0 200), opt_field ''provider'' (text_upto 0 100),
      opt_field ''agent_key_id'' (text_upto 0 100), opt_field ''agent_secret'' (text_upto 0 500),
      opt_field ''agent_allowed_ip_note'' (text_upto 0 200),
      def_field ''is_available_for_new_devices'' T_bool (JBool True)]"

definition server_update_in :: "field list" where
  "server_update_in =
     [opt_field ''name'' (text_upto 1 100), opt_field ''public_host'' (text_upto 1 255),
      opt_field ''agent_base_url'' (text_upto 1 255),
      opt_field ''public_port'' (T_int (Some 1) (Some 65535)),
      opt_field ''region_note'' (text_upto 0 200), opt_field ''provider'' (text_upto 0 100),
      opt_field ''agent_key_id'' (text_upto 0 100), opt_field ''agent_secret'' (text_upto 0 500),
      opt_field ''agent_allowed_ip_note'' (text_upto 0 200),
      opt_field ''is_available_for_new_devices'' T_bool,
      opt_field ''awg_container_name'' (text_upto 0 100), opt_field ''awg_interface'' (text_upto 0 50),
      opt_field ''awg_config_path'' (text_upto 0 255), opt_field ''clients_table_path'' (text_upto 0 255)]"

definition device_create_in :: "field list" where
  "device_create_in =
     [req_field ''name'' (text_upto 1 64), opt_field ''server_node_id'' (T_str 0 None None)]"

definition setup_job_create_in :: "field list" where
  "setup_job_create_in =
     [req_field ''server_name'' (text_upto 1 100),
      req_field ''host'' (T_str 1 (Some 255) (Some P_host)),
      def_field ''ssh_port'' (T_int (Some 1) (Some 65535)) (JInt 22),
      def_field ''ssh_username'' (T_str 1 (Some 64) (Some P_ssh_username)) (JStr ''root''),
      req_field ''auth_method'' (T_enum (map auth_method_value all_auth_method)),
      req_field ''secret'' (text_upto 1 10000), opt_field ''region_note'' (text_upto 0 200),
      def_field ''install_awg'' T_bool (JBool True),
      def_field ''available_for_new_devices'' T_bool (JBool True),
      def_field ''verify_before_install'' T_bool (JBool True)]"

definition contribution_create_in :: "field list" where
  "contribution_create_in =
     [req_field ''amount'' (T_float True), def_field ''currency'' (text_upto 3 3) (JStr ''RUB''),
      opt_field ''period_label'' (text_upto 0 64), opt_field ''comment'' (text_upto 0 500)]"

definition support_settings_update_in :: "field list" where
  "support_settings_update_in =
     [opt_field ''title'' (text_upto 1 100), opt_field ''description'' (text_upto 0 1000),
      opt_field ''sbp_phone'' (T_str 0 None None), opt_field ''bank_name'' (T_str 0 None None),
      opt_field ''extra_contact'' (T_str 0 None None),
      opt_field ''monthly_cost_amount'' (T_float False), opt_field ''reserve_amount'' (T_float False),
      opt_field ''is_enabled'' T_bool]"

text \<open>The query of the audit log, declared at its route.\<close>

definition audit_query :: "field list" where
  "audit_query = [def_field ''limit'' (T_int (Some 1) (Some 500)) (JInt 100)]"

section \<open>Validation\<close>

text \<open>What pydantic makes of a body: the errors it reports, or the values of the fields that were set.\<close>

type_synonym validator = "field list \<Rightarrow> json \<Rightarrow> json list + jdict"

definition validator_ok :: "validator \<Rightarrow> bool" where
  "validator_ok validate \<longleftrightarrow> (\<forall>fs v kvs. validate fs v = Inr kvs \<longrightarrow>
     distinct (map fst kvs) \<and>
     (\<forall>(k, x) \<in> set kvs. \<exists>f \<in> set fs. fld_name f = k \<and> field_accepts f x) \<and>
     (\<forall>f \<in> set fs. fld_default f = None \<longrightarrow> fld_name f \<in> fst ` set kvs))"

text \<open>\<open>body.k\<close>: the value given or the default.\<close>

definition attr :: "field list \<Rightarrow> jdict \<Rightarrow> string \<Rightarrow> json" where
  "attr fs kvs k =
     (case map_of kvs k of
        Some v \<Rightarrow> v
      | None \<Rightarrow>
          (case find (\<lambda>f. fld_name f = k) fs of
             None \<Rightarrow> JNull
           | Some f \<Rightarrow> (case fld_default f of None \<Rightarrow> JNull | Some d \<Rightarrow> d)))"

text \<open>A validator without coercions, which shows that the hypothesis can be met.\<close>

definition strict_validate :: validator where
  "strict_validate fs v =
     (case v of
        JObj kvs \<Rightarrow>
          let given = List.map_filter (\<lambda>f. map_option (Pair (fld_name f)) (map_of kvs (fld_name f))) fs in
          if distinct (map fst given)
             \<and> list_all (\<lambda>(k, x). list_ex (\<lambda>f. fld_name f = k \<and> field_accepts f x) fs) given
             \<and> list_all (\<lambda>f. fld_default f = None \<longrightarrow> fld_name f \<in> set (map fst given)) fs
          then Inr given else Inl []
      | _ \<Rightarrow> Inl [])"

lemma strict_validate_ok: "validator_ok strict_validate"
  unfolding validator_ok_def
proof (intro allI impI)
  fix fs v kvs assume "strict_validate fs v = Inr kvs"
  then show "distinct (map fst kvs) \<and>
      (\<forall>(k, x) \<in> set kvs. \<exists>f \<in> set fs. fld_name f = k \<and> field_accepts f x) \<and>
      (\<forall>f \<in> set fs. fld_default f = None \<longrightarrow> fld_name f \<in> fst ` set kvs)"
    by (simp add: strict_validate_def Let_def list_all_iff list_ex_iff split: json.splits if_splits)
qed

section \<open>Bodies of answers\<close>

definition json_time :: "(time \<Rightarrow> string) \<Rightarrow> time \<Rightarrow> json" where
  "json_time stamp t = JStr (stamp t)"

definition json_opt :: "('a \<Rightarrow> json) \<Rightarrow> 'a option \<Rightarrow> json" where
  "json_opt f x = (case x of None \<Rightarrow> JNull | Some y \<Rightarrow> f y)"

definition user_out :: "user \<Rightarrow> json" where
  "user_out u =
     JObj [(''id'', JStr (usr_id u)), (''login'', JStr (usr_login u)),
       (''display_name'', JStr (usr_display_name u)), (''role'', JStr (role_value (usr_role u))),
       (''telegram_username'', json_opt JStr (usr_telegram_username u))]"

definition session_out :: "user \<Rightarrow> json" where
  "session_out u = JObj [(''user'', user_out u)]"

definition admin_user_out :: "(time \<Rightarrow> string) \<Rightarrow> user \<Rightarrow> nat \<Rightarrow> json" where
  "admin_user_out stamp u n =
     JObj [(''id'', JStr (usr_id u)), (''login'', JStr (usr_login u)),
       (''display_name'', JStr (usr_display_name u)), (''role'', JStr (role_value (usr_role u))),
       (''telegram_username'', json_opt JStr (usr_telegram_username u)),
       (''is_active'', JBool (usr_is_active u)), (''device_limit'', json_opt JInt (usr_device_limit u)),
       (''device_limit_unlimited'', JBool (usr_device_limit_unlimited u)),
       (''show_server_support'', JBool (usr_show_server_support u)),
       (''free_access'', JBool (usr_free_access u)), (''note'', json_opt JStr (usr_note u)),
       (''active_device_count'', JInt (int n)), (''created_at'', json_time stamp (usr_created_at u))]"

text \<open>A stored status that is no dictionary does not fit the declared type.\<close>

definition status_payload_out :: "json option \<Rightarrow> json res" where
  "status_payload_out p =
     (case p of
        None \<Rightarrow> Inr JNull
      | Some JNull \<Rightarrow> Inr JNull
      | Some (JObj kvs) \<Rightarrow> Inr (JObj kvs)
      | Some _ \<Rightarrow> Inl (Py ValueError))"

definition admin_server_out :: "(time \<Rightarrow> string) \<Rightarrow> server_node \<Rightarrow> nat \<Rightarrow> json res" where
  "admin_server_out stamp nd n = sum_bind (status_payload_out (node_last_status_payload nd)) (\<lambda>payload. Inr
     (JObj [(''id'', JStr (node_id nd)), (''name'', JStr (node_name nd)),
       (''public_host'', JStr (node_public_host nd)), (''public_port'', json_opt JInt (node_public_port nd)),
       (''region_note'', json_opt JStr (node_region_note nd)),
       (''provider'', json_opt JStr (node_provider nd)),
       (''agent_base_url'', JStr (node_agent_base_url nd)),
       (''agent_key_id'', json_opt JStr (node_agent_key_id nd)),
       (''has_agent_secret'', JBool (node_agent_secret_encrypted nd \<noteq> None)),
       (''agent_allowed_ip_note'', json_opt JStr (node_agent_allowed_ip_note nd)),
       (''status'', JStr (server_status_value (node_status nd))),
       (''last_seen_at'', json_opt (json_time stamp) (node_last_seen_at nd)),
       (''last_error'', json_opt json_message (node_last_error nd)),
       (''last_status_payload'', payload),
       (''awg_container_name'', JStr (node_awg_container_name nd)),
       (''awg_interface'', JStr (node_awg_interface nd)),
       (''awg_config_path'', JStr (node_awg_config_path nd)),
       (''clients_table_path'', JStr (node_clients_table_path nd)),
       (''is_available_for_new_devices'', JBool (node_is_available_for_new_devices nd)),
       (''active_device_count'', JInt (int n)), (''created_at'', json_time stamp (node_created_at nd))]))"

definition agent_peer_fields :: "field list" where
  "agent_peer_fields =
     [req_field ''public_key'' (T_str 0 None None), opt_field ''name'' (T_str 0 None None),
      opt_field ''allowed_ips_config'' T_texts, opt_field ''allowed_ips_runtime'' T_texts,
      def_field ''in_config'' T_bool (JBool False), def_field ''in_runtime'' T_bool (JBool False),
      def_field ''in_clients_table'' T_bool (JBool False), opt_field ''endpoint'' (T_str 0 None None),
      opt_field ''latest_handshake'' (T_str 0 None None),
      opt_field ''transfer_received'' (T_str 0 None None),
      opt_field ''transfer_sent'' (T_str 0 None None), opt_field ''user_data'' T_obj]"

definition agent_peer_out :: "validator \<Rightarrow> json \<Rightarrow> json res" where
  "agent_peer_out validate peer =
     (case peer of
        JObj kvs \<Rightarrow>
          (case validate agent_peer_fields (JObj kvs) of
             Inl errors \<Rightarrow> Inl (Py ValueError)
           | Inr vs \<Rightarrow>
               Inr (JObj (map (\<lambda>f. (fld_name f, attr agent_peer_fields vs (fld_name f))) agent_peer_fields)))
      | _ \<Rightarrow> Inl (Py TypeError))"

definition audit_log_out :: "(time \<Rightarrow> string) \<Rightarrow> audit_entry \<Rightarrow> json" where
  "audit_log_out stamp e =
     JObj [(''id'', JStr (aud_id e)), (''action'', JStr (aud_action e)),
       (''actor_user_id'', json_opt JStr (aud_actor_user_id e)),
       (''target_type'', json_opt JStr (aud_target_type e)),
       (''target_id'', json_opt JStr (aud_target_id e)), (''metadata'', aud_metadata e),
       (''ip_address'', json_opt JStr (aud_ip_address e)),
       (''user_agent'', json_opt JStr (aud_user_agent e)), (''created_at'', json_time stamp (aud_created_at e))]"

definition device_out :: "(time \<Rightarrow> string) \<Rightarrow> device \<Rightarrow> string option \<Rightarrow> json" where
  "device_out stamp d server_name =
     JObj [(''id'', JStr (dev_id d)), (''name'', JStr (dev_name d)),
       (''status'', JStr (device_status_value (dev_status d))),
       (''server_node_id'', JStr (dev_server_node_id d)), (''server_name'', json_opt JStr server_name),
       (''client_ip'', json_opt JStr (dev_client_ip d)), (''public_key'', json_opt JStr (dev_public_key d)),
       (''created_at'', json_time stamp (dev_created_at d)),
       (''last_config_issued_at'', json_opt (json_time stamp) (dev_last_config_issued_at d)),
       (''last_handshake_at'', json_opt (json_time stamp) (dev_last_handshake_at d)),
       (''transfer_received_label'', json_opt JStr (dev_transfer_received_label d)),
       (''transfer_sent_label'', json_opt JStr (dev_transfer_sent_label d)),
       (''revoked_at'', json_opt (json_time stamp) (dev_revoked_at d)),
       (''failure_message'', json_opt json_message (dev_failure_message d))]"

definition access_out :: "bool \<Rightarrow> message \<Rightarrow> json" where
  "access_out active m = JObj [(''is_active'', JBool active), (''message'', json_message m)]"

definition device_limit_out :: "nat \<Rightarrow> int option \<Rightarrow> bool \<Rightarrow> json" where
  "device_limit_out used limit unlimited =
     JObj [(''used'', JInt (int used)), (''limit'', json_opt JInt limit), (''unlimited'', JBool unlimited)]"

definition support_hint_out :: "bool \<Rightarrow> message option \<Rightarrow> json" where
  "support_hint_out visible hint =
     JObj [(''visible'', JBool visible), (''hint'', json_opt json_message hint)]"

definition dashboard_out :: "json \<Rightarrow> json \<Rightarrow> json \<Rightarrow> json \<Rightarrow> json list \<Rightarrow> json" where
  "dashboard_out user access limit support recent =
     JObj [(''user'', user), (''access'', access), (''device_limit'', limit), (''support'', support),
       (''recent_devices'', JList recent)]"

definition server_out :: "server_node \<Rightarrow> json" where
  "server_out n =
     JObj [(''id'', JStr (node_id n)), (''name'', JStr (node_name n)),
       (''region_note'', json_opt JStr (node_region_note n)),
       (''status'', JStr (server_status_value (node_status n)))]"

definition setup_job_out :: "(time \<Rightarrow> string) \<Rightarrow> setup_job \<Rightarrow> string option \<Rightarrow> string list \<Rightarrow> json" where
  "setup_job_out stamp j url ips =
     JObj [(''id'', JStr (job_id j)), (''status'', JStr (setup_status_value (job_status j))),
       (''current_step'', json_message (job_current_step j)), (''server_name'', JStr (job_server_name j)),
       (''host'', JStr (job_host j)), (''ssh_port'', JInt (job_ssh_port j)),
       (''ssh_username'', JStr (job_ssh_username j)),
       (''auth_method'', JStr (auth_method_value (job_auth_method j))),
       (''region_note'', json_opt JStr (job_region_note j)), (''install_awg'', JBool (job_install_awg j)),
       (''available_for_new_devices'', JBool (job_available_for_new_devices j)),
       (''verify_before_install'', JBool (job_verify_before_install j)),
       (''error_message'', json_opt json_message (job_error_message j)),
       (''server_node_id'', json_opt JStr (job_server_node_id j)),
       (''created_at'', json_time stamp (job_created_at j)),
       (''started_at'', json_opt (json_time stamp) (job_started_at j)),
       (''finished_at'', json_opt (json_time stamp) (job_finished_at j)),
       (''agent_base_url'', json_opt JStr url), (''agent_allow_ips'', JList (map JStr ips))]"

definition setup_job_event_out :: "(time \<Rightarrow> string) \<Rightarrow> setup_event \<Rightarrow> json" where
  "setup_job_event_out stamp e =
     JObj [(''level'', JStr (event_level_value (ev_level e))), (''step'', JStr (ev_step e)),
       (''message'', json_message (ev_message e)), (''metadata'', JObj (ev_metadata e)),
       (''created_at'', json_time stamp (ev_created_at e))]"

text \<open>\<open>SupportViewOut(**view)\<close>: the keys of the view over the declared ones, absent ones being null.\<close>

definition support_view_keys :: "string list" where
  "support_view_keys =
     [''visible'', ''title'', ''description'', ''sbp_phone'', ''bank_name'', ''extra_contact'',
      ''monthly_cost_amount'', ''reserve_amount'']"

definition support_view_out :: "jdict \<Rightarrow> json" where
  "support_view_out view = JObj (map (\<lambda>k. (k, dict_get JNull view k)) support_view_keys)"

definition contribution_out :: "(time \<Rightarrow> string) \<Rightarrow> contribution \<Rightarrow> json" where
  "contribution_out stamp c =
     JObj [(''id'', JStr (con_id c)), (''amount'', JFloat (con_amount c)),
       (''currency'', JStr (con_currency c)), (''period_label'', json_opt JStr (con_period_label c)),
       (''comment'', json_opt JStr (con_comment c)),
       (''recorded_at'', json_time stamp (con_recorded_at c))]"

definition support_history_out :: "bool \<Rightarrow> json list \<Rightarrow> json" where
  "support_history_out visible items = JObj [(''visible'', JBool visible), (''items'', JList items)]"

definition support_settings_out :: "(time \<Rightarrow> string) \<Rightarrow> support_settings \<Rightarrow> json" where
  "support_settings_out stamp st =
     JObj [(''title'', json_message (sup_title st)), (''description'', json_message (sup_description st)),
       (''sbp_phone'', json_opt JStr (sup_sbp_phone st)), (''bank_name'', json_opt JStr (sup_bank_name st)),
       (''extra_contact'', json_opt JStr (sup_extra_contact st)),
       (''monthly_cost_amount'', json_opt JFloat (sup_monthly_cost_amount st)),
       (''reserve_amount'', json_opt JFloat (sup_reserve_amount st)),
       (''is_enabled'', JBool (sup_is_enabled st)),
       (''updated_at'', json_opt (json_time stamp) (sup_updated_at st))]"

definition issue_result_out :: "(time \<Rightarrow> string) \<Rightarrow> ident \<Rightarrow> string \<Rightarrow> string option \<Rightarrow> time \<Rightarrow> json" where
  "issue_result_out stamp i cfg url expires =
     JObj [(''device_id'', JStr i), (''config'', JStr cfg), (''vpn_url'', json_opt JStr url),
       (''expires_at'', json_time stamp expires)]"

definition device_create_out :: "json \<Rightarrow> json \<Rightarrow> json" where
  "device_create_out dev iss = JObj [(''device'', dev), (''issue_result'', iss)]"

end
