(* ===== verification/Api.thy ===== *)
theory Api
  imports Bodies Devices Support Worker
begin

text \<open>
  The HTTP interface: the middleware and the assembly of \<open>app/main.py\<close>, the dependencies of
  \<open>app/api/deps.py\<close>, the error handlers of \<open>app/core/errors.py\<close> and the routes of \<open>app/api/routes\<close>, one
  function per route. \<open>serve\<close> is one request from the middleware to the answer. FastAPI's documented
  order is kept: a body that is no JSON is refused first, then the dependencies run, then the body is
  validated. Redirects of a trailing slash, preflight requests and the generated documentation are
  left out.
\<close>

section \<open>Requests and answers\<close>

datatype body = No_body | Bad_json | Json_body json

record request =
  hr_method :: string
  hr_path :: "string list"
  hr_cookies :: "(string, string) dict"
  hr_headers :: "(string, string) dict"
  hr_client :: "string option"
  hr_query :: "(string, string) dict"
  hr_body :: body

datatype cookie_change = Keep_cookie | Set_cookie string string int bool | Delete_cookie string

record reply =
  rp_status :: int
  rp_body :: json
  rp_cookie :: cookie_change

definition reply_with :: "int \<Rightarrow> json \<Rightarrow> reply" where
  "reply_with st v = \<lparr>rp_status = st, rp_body = v, rp_cookie = Keep_cookie\<rparr>"

text \<open>The container, with what is made of the state while a handler awaits the agent.\<close>

record 't env =
  cx_settings :: settings
  cx_crypto :: crypto
  cx_box :: secret_box
  cx_agent :: "'t agent_client"
  cx_validate :: validator
  cx_stamp :: "time \<Rightarrow> string"
  cx_meanwhile :: "'t app \<Rightarrow> 't app"

section \<open>Errors\<close>

text \<open>An exception of a handler, or FastAPI's \<open>RequestValidationError\<close>.\<close>

datatype raised = Raised exn | Invalid "json list"

definition error_item :: "json \<Rightarrow> json" where
  "error_item v =
     (let kvs = (case v of JObj kvs \<Rightarrow> kvs | _ \<Rightarrow> []) in
      JObj [(''loc'', dict_get (JList []) kvs ''loc''), (''msg'', dict_get JNull kvs ''msg''),
            (''type'', dict_get JNull kvs ''type'')])"

definition handle_app_error :: "app_error \<Rightarrow> reply" where
  "handle_app_error e = reply_with (err_status e) (error_body (err_code e) (err_message e) (err_details e))"

definition handle_validation_error :: "json list \<Rightarrow> reply" where
  "handle_validation_error es =
     reply_with 422 (error_body Validation_error M_invalid_request [(''errors'', JList (map error_item es))])"

definition internal_error :: reply where
  "internal_error = reply_with 500 (JStr ''Internal Server Error'')"

definition respond :: "raised + reply \<Rightarrow> reply" where
  "respond r =
     (case r of
        Inr x \<Rightarrow> x
      | Inl (Invalid es) \<Rightarrow> handle_validation_error es
      | Inl (Raised (App e)) \<Rightarrow> handle_app_error e
      | Inl (Raised _) \<Rightarrow> internal_error)"

section \<open>Dependencies\<close>

definition get_client_meta :: "request \<Rightarrow> string option \<times> string option" where
  "get_client_meta rq = (hr_client rq, map_of (hr_headers rq) ''user-agent'')"

definition session_token :: "'t env \<Rightarrow> request \<Rightarrow> string option" where
  "session_token cx rq = or_none (map_of (hr_cookies rq) (session_cookie_name (cx_settings cx)))"

definition get_current_user :: "'t env \<Rightarrow> request \<Rightarrow> 't app \<Rightarrow> user res \<times> 't app" where
  "get_current_user cx rq s =
     (case session_token cx rq of
        None \<Rightarrow> (Inl (unauthorized M_need_login), s)
      | Some token \<Rightarrow>
          (case resolve_session (cx_crypto cx) token s of
             (Inl e, s1) \<Rightarrow> (Inl e, s1)
           | (Inr None, s1) \<Rightarrow> (Inl (unauthorized M_session_expired), s1)
           | (Inr (Some u), s1) \<Rightarrow> (Inr u, s1)))"

definition get_current_admin :: "'t env \<Rightarrow> request \<Rightarrow> 't app \<Rightarrow> user res \<times> 't app" where
  "get_current_admin cx rq s =
     (case get_current_user cx rq s of
        (Inl e, s1) \<Rightarrow> (Inl e, s1)
      | (Inr u, s1) \<Rightarrow> (if usr_role u \<noteq> Admin then Inl (forbidden M_forbidden) else Inr u, s1))"

section \<open>Parts of handlers\<close>

type_synonym 't outcome = "(raised + reply) \<times> 't app"

text \<open>The answer made of a result, or the exception of the service.\<close>

definition answer :: "int \<Rightarrow> ('a \<Rightarrow> 't app \<Rightarrow> json res) \<Rightarrow> 'a res \<times> 't app \<Rightarrow> 't outcome" where
  "answer st f rs =
     (case sum_bind (fst rs) (\<lambda>x. f x (snd rs)) of
        Inl e \<Rightarrow> (Inl (Raised e), snd rs)
      | Inr v \<Rightarrow> (Inr (reply_with st v), snd rs))"

definition missing_body :: json where
  "missing_body =
     JObj [(''loc'', JList [JStr ''body'']), (''msg'', JStr ''Field required''), (''type'', JStr ''missing'')]"

definition bad_json :: json where
  "bad_json =
     JObj [(''loc'', JList [JStr ''body'']), (''msg'', JStr ''JSON decode error''),
           (''type'', JStr ''json_invalid'')]"

definition parse_body :: "'t env \<Rightarrow> field list \<Rightarrow> request \<Rightarrow> json list + jdict" where
  "parse_body cx fs rq =
     (case hr_body rq of
        Json_body v \<Rightarrow> cx_validate cx fs v
      | _ \<Rightarrow> Inl [missing_body])"

definition with_body ::
  "'t env \<Rightarrow> field list \<Rightarrow> request \<Rightarrow> 't app \<Rightarrow> (jdict \<Rightarrow> 't app \<Rightarrow> 't outcome) \<Rightarrow> 't outcome" where
  "with_body cx fs rq s k =
     (case parse_body cx fs rq of Inl es \<Rightarrow> (Inl (Invalid es), s) | Inr kvs \<Rightarrow> k kvs s)"

text \<open>The attributes of a body at the types the services expect.\<close>

definition typed :: "'a option \<Rightarrow> 't app \<Rightarrow> ('a \<Rightarrow> 't app \<Rightarrow> 't outcome) \<Rightarrow> 't outcome" where
  "typed x s k = (case x of None \<Rightarrow> (Inl (Raised (Py (Ill_typed ''body''))), s) | Some a \<Rightarrow> k a s)"

fun as_int :: "json \<Rightarrow> int option" where
  "as_int (JInt i) = Some i"
| "as_int _ = None"

fun as_float :: "json \<Rightarrow> rat option" where
  "as_float (JFloat x) = Some x"
| "as_float _ = None"

fun as_auth_method :: "json \<Rightarrow> auth_method option" where
  "as_auth_method (JStr t) = find (\<lambda>m. auth_method_value m = t) all_auth_method"
| "as_auth_method _ = None"

definition login_args :: "jdict \<Rightarrow> (string \<times> string) option" where
  "login_args b =
     Option.bind (as_str (attr login_in b ''login'')) (\<lambda>l.
     Option.bind (as_str (attr login_in b ''password'')) (\<lambda>p. Some (l, p)))"

definition user_args_of :: "jdict \<Rightarrow> user_args option" where
  "user_args_of b = (let a = attr user_create_in b in
     Option.bind (as_str (a ''login'')) (\<lambda>l.
     Option.bind (as_str (a ''display_name'')) (\<lambda>n.
     Option.bind (as_str (a ''password'')) (\<lambda>p.
     Option.bind (as_role (a ''role'')) (\<lambda>r.
     Option.bind (as_opt_str (a ''telegram_username'')) (\<lambda>t.
     Option.bind (as_opt_int (a ''device_limit'')) (\<lambda>dl.
     Option.bind (as_bool (a ''device_limit_unlimited'')) (\<lambda>du.
     Option.bind (as_bool (a ''show_server_support'')) (\<lambda>ss.
     Option.bind (as_bool (a ''free_access'')) (\<lambda>fa.
     Option.bind (as_opt_str (a ''note'')) (\<lambda>nt.
       Some \<lparr>ua_login = l, ua_display_name = n, ua_password = p, ua_role = r, ua_telegram_username = t,
             ua_device_limit = dl, ua_device_limit_unlimited = du, ua_show_server_support = ss,
             ua_free_access = fa, ua_note = nt\<rparr>)))))))))))"

definition node_args_of :: "jdict \<Rightarrow> node_args option" where
  "node_args_of b = (let a = attr server_create_in b in
     Option.bind (as_str (a ''name'')) (\<lambda>n.
     Option.bind (as_str (a ''public_host'')) (\<lambda>h.
     Option.bind (as_str (a ''agent_base_url'')) (\<lambda>u.
     Option.bind (as_opt_int (a ''public_port'')) (\<lambda>p.
     Option.bind (as_opt_str (a ''region_note'')) (\<lambda>r.
     Option.bind (as_opt_str (a ''provider'')) (\<lambda>pr.
     Option.bind (as_opt_str (a ''agent_key_id'')) (\<lambda>k.
     Option.bind (as_opt_str (a ''agent_secret'')) (\<lambda>sc.
     Option.bind (as_opt_str (a ''agent_allowed_ip_note'')) (\<lambda>ai.
     Option.bind (as_bool (a ''is_available_for_new_devices'')) (\<lambda>av.
       Some \<lparr>na_name = n, na_public_host = h, na_agent_base_url = u, na_public_port = p,
             na_region_note = r, na_provider = pr, na_agent_key_id = k, na_agent_secret = sc,
             na_agent_allowed_ip_note = ai, na_is_available_for_new_devices = av\<rparr>)))))))))))"

definition job_args_of :: "jdict \<Rightarrow> (job_args \<times> string) option" where
  "job_args_of b = (let a = attr setup_job_create_in b in
     Option.bind (as_str (a ''server_name'')) (\<lambda>n.
     Option.bind (as_str (a ''host'')) (\<lambda>h.
     Option.bind (as_int (a ''ssh_port'')) (\<lambda>p.
     Option.bind (as_str (a ''ssh_username'')) (\<lambda>u.
     Option.bind (as_auth_method (a ''auth_method'')) (\<lambda>m.
     Option.bind (as_str (a ''secret'')) (\<lambda>sc.
     Option.bind (as_opt_str (a ''region_note'')) (\<lambda>r.
     Option.bind (as_bool (a ''install_awg'')) (\<lambda>ia.
     Option.bind (as_bool (a ''available_for_new_devices'')) (\<lambda>av.
     Option.bind (as_bool (a ''verify_before_install'')) (\<lambda>vb.
       Some (\<lparr>ja_server_name = n, ja_host = h, ja_ssh_port = p, ja_ssh_username = u, ja_auth_method = m,
              ja_region_note = r, ja_install_awg = ia, ja_available_for_new_devices = av,
              ja_verify_before_install = vb\<rparr>, sc))))))))))))"

definition device_args_of :: "jdict \<Rightarrow> (string \<times> ident option) option" where
  "device_args_of b =
     Option.bind (as_str (attr device_create_in b ''name'')) (\<lambda>n.
     Option.bind (as_opt_str (attr device_create_in b ''server_node_id'')) (\<lambda>i. Some (n, i)))"

definition contribution_args_of :: "jdict \<Rightarrow> (rat \<times> string \<times> string option \<times> string option) option" where
  "contribution_args_of b = (let a = attr contribution_create_in b in
     Option.bind (as_float (a ''amount'')) (\<lambda>x.
     Option.bind (as_str (a ''currency'')) (\<lambda>c.
     Option.bind (as_opt_str (a ''period_label'')) (\<lambda>p.
     Option.bind (as_opt_str (a ''comment'')) (\<lambda>m. Some (x, c, p, m))))))"

fun map_res :: "('a \<Rightarrow> 'b res) \<Rightarrow> 'a list \<Rightarrow> 'b list res" where
  "map_res f [] = Inr []"
| "map_res f (x # xs) = sum_bind (f x) (\<lambda>y. sum_bind (map_res f xs) (\<lambda>ys. Inr (y # ys)))"

end
