(* ===== verification/Routes.thy ===== *)
theory Routes
  imports Api
begin

text \<open>
  The handlers of \<open>app/api/routes\<close>, one function each, named after the router and the function, the
  table of the routes, and \<open>serve\<close>: the CSRF middleware of \<open>create_app\<close>, the choice of the route, its
  dependencies, the handler and the error handlers.
\<close>

section \<open>Authentication\<close>

definition auth_login :: "'t env \<Rightarrow> request \<Rightarrow> 't app \<Rightarrow> 't outcome" where
  "auth_login cx rq s =
     with_body cx login_in rq s (\<lambda>b s. typed (login_args b) s (\<lambda>(l, p) s.
       let (ip, ua) = get_client_meta rq; st = cx_settings cx in
       case login (cx_crypto cx) st l p ip ua s of
         (Inl e, s1) \<Rightarrow> (Inl (Raised e), s1)
       | (Inr (u, token), s1) \<Rightarrow>
           (Inr \<lparr>rp_status = 200, rp_body = session_out u,
                 rp_cookie = Set_cookie (session_cookie_name st) token (session_ttl_days st * 86400)
                   (cookie_secure st)\<rparr>, s1)))"

definition auth_logout :: "'t env \<Rightarrow> request \<Rightarrow> 't app \<Rightarrow> 't outcome" where
  "auth_logout cx rq s =
     (let (ip, ua) = get_client_meta rq;
          (r, s1) = (case session_token cx rq of
                       None \<Rightarrow> (Inr (), s) | Some token \<Rightarrow> logout (cx_crypto cx) token ip ua s) in
      case r of
        Inl e \<Rightarrow> (Inl (Raised e), s1)
      | Inr _ \<Rightarrow>
          (Inr \<lparr>rp_status = 200, rp_body = JObj [(''ok'', JBool True)],
                rp_cookie = Delete_cookie (session_cookie_name (cx_settings cx))\<rparr>, s1))"

definition auth_session :: "user \<Rightarrow> 't app \<Rightarrow> 't outcome" where
  "auth_session u s = (Inr (reply_with 200 (session_out u)), s)"

definition health :: "'t app \<Rightarrow> 't outcome" where
  "health s = (Inr (reply_with 200 (JObj [(''status'', JStr ''ok''), (''version'', JStr ''0.1.0'')])), s)"

section \<open>For members\<close>

definition shown :: "'t env \<Rightarrow> device \<Rightarrow> 't app \<Rightarrow> json" where
  "shown cx d s = device_out (cx_stamp cx) d (device_server_name d s)"

definition me :: "user \<Rightarrow> 't app \<Rightarrow> 't outcome" where
  "me u s = (Inr (reply_with 200 (user_out u)), s)"

definition dashboard :: "'t env \<Rightarrow> user \<Rightarrow> 't app \<Rightarrow> 't outcome" where
  "dashboard cx u s =
     (let used = count_devices_toward_limit (usr_id u) s;
          unlimited = usr_device_limit_unlimited u \<or> usr_device_limit u = None;
          visible = visible_for u s;
          recent = take 3 (filter (\<lambda>d. dev_status d \<noteq> Revoked) (list_for_user (usr_id u) s)) in
      (Inr (reply_with 200
         (dashboard_out (user_out u) (access_out (usr_is_active u) M_access_active)
            (device_limit_out used (if unlimited then None else usr_device_limit u) unlimited)
            (support_hint_out visible (if visible then Some M_support_hint else None))
            (map (\<lambda>d. shown cx d s) recent))), s))"

definition list_devices :: "'t env \<Rightarrow> user \<Rightarrow> 't app \<Rightarrow> 't outcome" where
  "list_devices cx u s =
     (Inr (reply_with 200 (JList (map (\<lambda>d. shown cx d s) (list_for_user (usr_id u) s)))), s)"

definition issue_view_out :: "'t env \<Rightarrow> issue_view \<Rightarrow> json" where
  "issue_view_out cx v =
     issue_result_out (cx_stamp cx) (iv_device_id v) (iv_config v) (iv_vpn_url v) (iv_expires_at v)"

definition create_device :: "'t env \<Rightarrow> request \<Rightarrow> user \<Rightarrow> 't app \<Rightarrow> 't outcome" where
  "create_device cx rq u s =
     with_body cx device_create_in rq s (\<lambda>b s. typed (device_args_of b) s (\<lambda>(nm, sid) s.
       let (ip, ua) = get_client_meta rq in
       answer 201 (\<lambda>(d, v) s. Inr (device_create_out (shown cx d s) (issue_view_out cx v)))
         (device_create (cx_agent cx) (cx_box cx) (cx_settings cx) u nm sid ip ua (cx_meanwhile cx) s)))"

definition show_device :: "'t env \<Rightarrow> user \<Rightarrow> ident \<Rightarrow> 't app \<Rightarrow> 't outcome" where
  "show_device cx u i s = answer 200 (\<lambda>d s. Inr (shown cx d s)) (get_for_actor u i s, s)"

definition revoke_device :: "'t env \<Rightarrow> request \<Rightarrow> user \<Rightarrow> ident \<Rightarrow> 't app \<Rightarrow> 't outcome" where
  "revoke_device cx rq u i s =
     (let (ip, ua) = get_client_meta rq in
      answer 200 (\<lambda>d s. Inr (shown cx d s)) (device_revoke (cx_agent cx) u i ip ua (cx_meanwhile cx) s))"

definition show_issue :: "'t env \<Rightarrow> user \<Rightarrow> ident \<Rightarrow> 't app \<Rightarrow> 't outcome" where
  "show_issue cx u i s = answer 200 (\<lambda>v s. Inr (issue_view_out cx v)) (issue_result (cx_box cx) u i s)"

definition list_servers :: "'t app \<Rightarrow> 't outcome" where
  "list_servers s = (Inr (reply_with 200 (JList (map server_out (list_available s)))), s)"

definition show_server :: "ident \<Rightarrow> 't app \<Rightarrow> 't outcome" where
  "show_server i s =
     (case find (\<lambda>n. node_id n = i) (list_available s) of
        Some n \<Rightarrow> (Inr (reply_with 200 (server_out n)), s)
      | None \<Rightarrow> (Inl (Raised (not_found M_server_not_found)), s))"

definition support_view :: "user \<Rightarrow> 't app \<Rightarrow> 't outcome" where
  "support_view u s = (Inr (reply_with 200 (support_view_out (view_for u s))), s)"

definition support_history :: "'t env \<Rightarrow> user \<Rightarrow> 't app \<Rightarrow> 't outcome" where
  "support_history cx u s =
     (let (visible, items) = history_for u s in
      (Inr (reply_with 200 (support_history_out visible (map (contribution_out (cx_stamp cx)) items))), s))"

section \<open>Members, for administrators\<close>

definition list_users_admin :: "'t env \<Rightarrow> 't app \<Rightarrow> 't outcome" where
  "list_users_admin cx s =
     (Inr (reply_with 200 (JList (map (\<lambda>(u, n). admin_user_out (cx_stamp cx) u n) (list_with_device_counts s)))), s)"

definition user_counted :: "'t env \<Rightarrow> user \<Rightarrow> 't app \<Rightarrow> json res" where
  "user_counted cx u s =
     Inr (admin_user_out (cx_stamp cx) u (count_devices_toward_limit (usr_id u) s))"

definition user_uncounted :: "'t env \<Rightarrow> user \<Rightarrow> 't app \<Rightarrow> json res" where
  "user_uncounted cx u s = Inr (admin_user_out (cx_stamp cx) u 0)"

definition create_user :: "'t env \<Rightarrow> request \<Rightarrow> user \<Rightarrow> 't app \<Rightarrow> 't outcome" where
  "create_user cx rq admin s =
     with_body cx user_create_in rq s (\<lambda>b s. typed (user_args_of b) s (\<lambda>a s.
       answer 201 (user_uncounted cx) (user_create (cx_crypto cx) admin a s)))"

definition show_user :: "'t env \<Rightarrow> ident \<Rightarrow> 't app \<Rightarrow> 't outcome" where
  "show_user cx i s = answer 200 (user_counted cx) (user_get i s, s)"

definition update_user :: "'t env \<Rightarrow> request \<Rightarrow> user \<Rightarrow> ident \<Rightarrow> 't app \<Rightarrow> 't outcome" where
  "update_user cx rq admin i s =
     with_body cx user_update_in rq s (\<lambda>b s. answer 200 (user_counted cx) (user_update admin i b s))"

definition ok_out :: json where
  "ok_out = JObj [(''ok'', JBool True)]"

definition reset_user_password :: "'t env \<Rightarrow> request \<Rightarrow> user \<Rightarrow> ident \<Rightarrow> 't app \<Rightarrow> 't outcome" where
  "reset_user_password cx rq admin i s =
     with_body cx reset_password_in rq s (\<lambda>b s.
       typed (as_str (attr reset_password_in b ''password'')) s (\<lambda>p s.
         answer 200 (\<lambda>_ s. Inr ok_out) (reset_password (cx_crypto cx) admin i p s)))"

definition disable_user :: "'t env \<Rightarrow> user \<Rightarrow> ident \<Rightarrow> 't app \<Rightarrow> 't outcome" where
  "disable_user cx admin i s = answer 200 (user_uncounted cx) (set_active admin i False s)"

definition enable_user :: "'t env \<Rightarrow> user \<Rightarrow> ident \<Rightarrow> 't app \<Rightarrow> 't outcome" where
  "enable_user cx admin i s = answer 200 (user_uncounted cx) (set_active admin i True s)"

definition user_devices :: "'t env \<Rightarrow> ident \<Rightarrow> 't app \<Rightarrow> 't outcome" where
  "user_devices cx i s =
     answer 200 (\<lambda>_ s. Inr (JList (map (\<lambda>d. shown cx d s) (list_for_user i s)))) (user_get i s, s)"

definition user_contributions :: "'t env \<Rightarrow> ident \<Rightarrow> 't app \<Rightarrow> 't outcome" where
  "user_contributions cx i s =
     answer 200 (\<lambda>cs s. Inr (JList (map (contribution_out (cx_stamp cx)) cs))) (list_for_user_admin i s, s)"

definition record_user_contribution :: "'t env \<Rightarrow> request \<Rightarrow> user \<Rightarrow> ident \<Rightarrow> 't app \<Rightarrow> 't outcome" where
  "record_user_contribution cx rq admin i s =
     with_body cx contribution_create_in rq s (\<lambda>b s. typed (contribution_args_of b) s (\<lambda>(x, c, p, m) s.
       answer 201 (\<lambda>c s. Inr (contribution_out (cx_stamp cx) c)) (record_contribution admin i x c p m s)))"

section \<open>Nodes, for administrators\<close>

definition node_shown :: "'t env \<Rightarrow> server_node \<Rightarrow> 't app \<Rightarrow> json res" where
  "node_shown cx n s =
     admin_server_out (cx_stamp cx) n (count_active_devices_for_server (node_id n) s)"

definition list_nodes_admin :: "'t env \<Rightarrow> 't app \<Rightarrow> 't outcome" where
  "list_nodes_admin cx s =
     answer 200 (\<lambda>ns s. sum_bind (map_res (\<lambda>n. node_shown cx n s) ns) (\<lambda>vs. Inr (JList vs)))
       (Inr (list_server_nodes s), s)"

definition create_node :: "'t env \<Rightarrow> request \<Rightarrow> user \<Rightarrow> 't app \<Rightarrow> 't outcome" where
  "create_node cx rq admin s =
     with_body cx server_create_in rq s (\<lambda>b s. typed (node_args_of b) s (\<lambda>a s.
       let (n, s1) = server_create_manual (cx_box cx) admin a s in answer 201 (node_shown cx) (Inr n, s1)))"

definition show_node :: "'t env \<Rightarrow> ident \<Rightarrow> 't app \<Rightarrow> 't outcome" where
  "show_node cx i s = answer 200 (node_shown cx) (server_get i s, s)"

definition update_node :: "'t env \<Rightarrow> request \<Rightarrow> user \<Rightarrow> ident \<Rightarrow> 't app \<Rightarrow> 't outcome" where
  "update_node cx rq admin i s =
     with_body cx server_update_in rq s (\<lambda>b s.
       answer 200 (node_shown cx) (server_update (cx_box cx) admin i b s))"

definition check_node :: "'t env \<Rightarrow> user \<Rightarrow> ident \<Rightarrow> 't app \<Rightarrow> 't outcome" where
  "check_node cx admin i s =
     answer 200 (node_shown cx)
       (health_check (cx_agent cx) (Some (usr_id admin)) i (cx_meanwhile cx) (cx_meanwhile cx) s)"

text \<open>\<open>for peer in peers\<close>: a dictionary yields its keys, a text its characters.\<close>

definition iterated :: "json \<Rightarrow> json list res" where
  "iterated v =
     (case v of
        JList xs \<Rightarrow> Inr xs
      | JObj kvs \<Rightarrow> Inr (map (\<lambda>(k, x). JStr k) kvs)
      | JStr t \<Rightarrow> Inr (map (\<lambda>c. JStr [c]) t)
      | _ \<Rightarrow> Inl (Py TypeError))"

definition node_peers :: "'t env \<Rightarrow> ident \<Rightarrow> 't app \<Rightarrow> 't outcome" where
  "node_peers cx i s =
     answer 200 (\<lambda>v s. sum_bind (iterated v) (\<lambda>xs.
         sum_bind (map_res (agent_peer_out (cx_validate cx)) xs) (\<lambda>vs. Inr (JList vs))))
       (server_agent_peers (cx_agent cx) i s)"

definition disable_node :: "'t env \<Rightarrow> user \<Rightarrow> ident \<Rightarrow> 't app \<Rightarrow> 't outcome" where
  "disable_node cx admin i s = answer 200 (node_shown cx) (server_set_disabled admin i True s)"

definition enable_node :: "'t env \<Rightarrow> user \<Rightarrow> ident \<Rightarrow> 't app \<Rightarrow> 't outcome" where
  "enable_node cx admin i s = answer 200 (node_shown cx) (server_set_disabled admin i False s)"

section \<open>Installations, the support page and the audit log\<close>

definition job_shown :: "'t env \<Rightarrow> setup_job \<Rightarrow> 't app \<Rightarrow> json res" where
  "job_shown cx j s =
     sum_bind (format_host (job_host j) (setup_agent_base_url_template (cx_settings cx))) (\<lambda>url.
       Inr (setup_job_out (cx_stamp cx) j (Some url) (setup_agent_allow_ips (cx_settings cx))))"

definition create_job :: "'t env \<Rightarrow> request \<Rightarrow> user \<Rightarrow> 't app \<Rightarrow> 't outcome" where
  "create_job cx rq admin s =
     with_body cx setup_job_create_in rq s (\<lambda>b s. typed (job_args_of b) s (\<lambda>(a, secret) s.
       answer 201 (job_shown cx) (job_create (setup_worker_enabled (cx_settings cx)) admin a secret s)))"

definition list_jobs :: "'t env \<Rightarrow> 't app \<Rightarrow> 't outcome" where
  "list_jobs cx s =
     answer 200 (\<lambda>js s. sum_bind (map_res (\<lambda>j. job_shown cx j s) js) (\<lambda>vs. Inr (JList vs)))
       (Inr (list_setup_jobs s), s)"

definition show_job :: "'t env \<Rightarrow> ident \<Rightarrow> 't app \<Rightarrow> 't outcome" where
  "show_job cx i s = answer 200 (job_shown cx) (job_get i s, s)"

definition start_job :: "'t env \<Rightarrow> ident \<Rightarrow> 't app \<Rightarrow> 't outcome" where
  "start_job cx i s =
     answer 200 (job_shown cx) (job_start (setup_worker_enabled (cx_settings cx)) i s, s)"

definition cancel_job :: "'t env \<Rightarrow> user \<Rightarrow> ident \<Rightarrow> 't app \<Rightarrow> 't outcome" where
  "cancel_job cx admin i s = answer 200 (job_shown cx) (job_cancel admin i s)"

definition show_job_events :: "'t env \<Rightarrow> ident \<Rightarrow> 't app \<Rightarrow> 't outcome" where
  "show_job_events cx i s =
     answer 200 (\<lambda>es s. Inr (JList (map (setup_job_event_out (cx_stamp cx)) es))) (job_events i s, s)"

definition show_support_settings :: "'t env \<Rightarrow> 't app \<Rightarrow> 't outcome" where
  "show_support_settings cx s =
     (Inr (reply_with 200 (support_settings_out (cx_stamp cx) (get_support_settings s))), s)"

definition update_support_settings :: "'t env \<Rightarrow> request \<Rightarrow> user \<Rightarrow> 't app \<Rightarrow> 't outcome" where
  "update_support_settings cx rq admin s =
     with_body cx support_settings_update_in rq s (\<lambda>b s.
       answer 200 (\<lambda>st s. Inr (support_settings_out (cx_stamp cx) st)) (update_settings admin b s))"

definition list_audit_logs :: "'t env \<Rightarrow> request \<Rightarrow> 't app \<Rightarrow> 't outcome" where
  "list_audit_logs cx rq s =
     (case cx_validate cx audit_query (JObj (map (\<lambda>(k, v). (k, JStr v)) (hr_query rq))) of
        Inl es \<Rightarrow> (Inl (Invalid es), s)
      | Inr q \<Rightarrow>
          typed (as_int (attr audit_query q ''limit'')) s (\<lambda>n s.
            (Inr (reply_with 200 (JList (map (audit_log_out (cx_stamp cx)) (audit_list (nat n) s)))), s)))"

section \<open>Routes\<close>

datatype open_route = Health | Login | Logout

datatype member_route =
  Session | Me | Dashboard | Devices_list | Device_create | Device_show | Device_revoke | Device_issue
| Servers_list | Server_show | Support_view | Support_history

datatype admin_route =
  Users_list | User_create | User_show | User_update | User_reset | User_disable | User_enable
| User_devices | User_contributions | User_contribute
| Nodes_list | Node_create | Node_show | Node_update | Node_check | Node_peers | Node_disable | Node_enable
| Jobs_list | Job_create | Job_show | Job_start | Job_cancel | Job_events
| Support_show | Support_update | Audit_list

datatype route = Open_route open_route | Member_route member_route | Admin_route admin_route

text \<open>The routes with their methods and paths, in the order in which the routers are included.\<close>

datatype segment = Seg string | Param

type_synonym route_entry = "string \<times> segment list \<times> route"

definition auth_routes :: "route_entry list" where
  "auth_routes =
     [(''POST'', [Seg ''auth'', Seg ''login''], Open_route Login),
      (''POST'', [Seg ''auth'', Seg ''logout''], Open_route Logout),
      (''GET'', [Seg ''auth'', Seg ''session''], Member_route Session)]"

definition member_routes :: "route_entry list" where
  "member_routes =
     [(''GET'', [Seg ''me''], Member_route Me),
      (''GET'', [Seg ''me'', Seg ''dashboard''], Member_route Dashboard),
      (''GET'', [Seg ''devices''], Member_route Devices_list),
      (''POST'', [Seg ''devices''], Member_route Device_create),
      (''GET'', [Seg ''devices'', Param], Member_route Device_show),
      (''DELETE'', [Seg ''devices'', Param], Member_route Device_revoke),
      (''GET'', [Seg ''devices'', Param, Seg ''issue-result''], Member_route Device_issue),
      (''GET'', [Seg ''servers''], Member_route Servers_list),
      (''GET'', [Seg ''servers'', Param], Member_route Server_show),
      (''GET'', [Seg ''support''], Member_route Support_view),
      (''GET'', [Seg ''support'', Seg ''history''], Member_route Support_history)]"

abbreviation admin_at :: "segment list \<Rightarrow> segment list" where
  "admin_at p \<equiv> Seg ''admin'' # p"

definition admin_user_routes :: "route_entry list" where
  "admin_user_routes =
     [(''GET'', admin_at [Seg ''users''], Admin_route Users_list),
      (''POST'', admin_at [Seg ''users''], Admin_route User_create),
      (''GET'', admin_at [Seg ''users'', Param], Admin_route User_show),
      (''PATCH'', admin_at [Seg ''users'', Param], Admin_route User_update),
      (''POST'', admin_at [Seg ''users'', Param, Seg ''reset-password''], Admin_route User_reset),
      (''POST'', admin_at [Seg ''users'', Param, Seg ''disable''], Admin_route User_disable),
      (''POST'', admin_at [Seg ''users'', Param, Seg ''enable''], Admin_route User_enable),
      (''GET'', admin_at [Seg ''users'', Param, Seg ''devices''], Admin_route User_devices),
      (''GET'', admin_at [Seg ''users'', Param, Seg ''support-contributions''], Admin_route User_contributions),
      (''POST'', admin_at [Seg ''users'', Param, Seg ''support-contributions''], Admin_route User_contribute)]"

definition admin_node_routes :: "route_entry list" where
  "admin_node_routes =
     [(''GET'', admin_at [Seg ''servers''], Admin_route Nodes_list),
      (''POST'', admin_at [Seg ''servers''], Admin_route Node_create),
      (''GET'', admin_at [Seg ''servers'', Param], Admin_route Node_show),
      (''PATCH'', admin_at [Seg ''servers'', Param], Admin_route Node_update),
      (''POST'', admin_at [Seg ''servers'', Param, Seg ''health-check''], Admin_route Node_check),
      (''GET'', admin_at [Seg ''servers'', Param, Seg ''peers''], Admin_route Node_peers),
      (''POST'', admin_at [Seg ''servers'', Param, Seg ''disable''], Admin_route Node_disable),
      (''POST'', admin_at [Seg ''servers'', Param, Seg ''enable''], Admin_route Node_enable)]"

definition admin_job_routes :: "route_entry list" where
  "admin_job_routes =
     [(''POST'', admin_at [Seg ''setup-jobs''], Admin_route Job_create),
      (''GET'', admin_at [Seg ''setup-jobs''], Admin_route Jobs_list),
      (''GET'', admin_at [Seg ''setup-jobs'', Param], Admin_route Job_show),
      (''POST'', admin_at [Seg ''setup-jobs'', Param, Seg ''start''], Admin_route Job_start),
      (''POST'', admin_at [Seg ''setup-jobs'', Param, Seg ''cancel''], Admin_route Job_cancel),
      (''GET'', admin_at [Seg ''setup-jobs'', Param, Seg ''events''], Admin_route Job_events)]"

definition admin_other_routes :: "route_entry list" where
  "admin_other_routes =
     [(''GET'', admin_at [Seg ''support-settings''], Admin_route Support_show),
      (''PATCH'', admin_at [Seg ''support-settings''], Admin_route Support_update),
      (''GET'', admin_at [Seg ''audit-logs''], Admin_route Audit_list)]"

definition all_routes :: "route_entry list" where
  "all_routes =
     map (\<lambda>(m, p, r). (m, [Seg ''api'', Seg ''v1''] @ p, r))
       ((''GET'', [Seg ''health''], Open_route Health) # auth_routes @ member_routes @ admin_user_routes @
        admin_node_routes @ admin_job_routes @ admin_other_routes)"

text \<open>The parameters of a path that fits; no segment of a path is empty.\<close>

fun match_path :: "segment list \<Rightarrow> string list \<Rightarrow> string list option" where
  "match_path [] [] = Some []"
| "match_path (Seg t # ps) (x # xs) = (if x = t then match_path ps xs else None)"
| "match_path (Param # ps) (x # xs) =
     (if x = [] then None else map_option (Cons x) (match_path ps xs))"
| "match_path _ _ = None"

datatype routed = No_path | No_method | Routed route "string list"

definition route_request :: "request \<Rightarrow> routed" where
  "route_request rq =
     (let fit = filter (\<lambda>(m, p, r). match_path p (hr_path rq) \<noteq> None) all_routes in
      case find (\<lambda>(m, p, r). m = hr_method rq) fit of
        Some (m, p, r) \<Rightarrow> Routed r (the (match_path p (hr_path rq)))
      | None \<Rightarrow> if fit = [] then No_path else No_method)"

section \<open>Dispatch\<close>

fun run_open :: "'t env \<Rightarrow> open_route \<Rightarrow> request \<Rightarrow> 't app \<Rightarrow> 't outcome" where
  "run_open cx Health rq s = health s"
| "run_open cx Login rq s = auth_login cx rq s"
| "run_open cx Logout rq s = auth_logout cx rq s"

text \<open>\<open>i\<close> is the parameter of the path, where it has one.\<close>

fun run_member :: "'t env \<Rightarrow> member_route \<Rightarrow> request \<Rightarrow> user \<Rightarrow> ident \<Rightarrow> 't app \<Rightarrow> 't outcome" where
  "run_member cx Session rq u i s = auth_session u s"
| "run_member cx Me rq u i s = me u s"
| "run_member cx Dashboard rq u i s = dashboard cx u s"
| "run_member cx Devices_list rq u i s = list_devices cx u s"
| "run_member cx Device_create rq u i s = create_device cx rq u s"
| "run_member cx Device_show rq u i s = show_device cx u i s"
| "run_member cx Device_revoke rq u i s = revoke_device cx rq u i s"
| "run_member cx Device_issue rq u i s = show_issue cx u i s"
| "run_member cx Servers_list rq u i s = list_servers s"
| "run_member cx Server_show rq u i s = show_server i s"
| "run_member cx Support_view rq u i s = support_view u s"
| "run_member cx Support_history rq u i s = support_history cx u s"

fun run_admin :: "'t env \<Rightarrow> admin_route \<Rightarrow> request \<Rightarrow> user \<Rightarrow> ident \<Rightarrow> 't app \<Rightarrow> 't outcome" where
  "run_admin cx Users_list rq a i s = list_users_admin cx s"
| "run_admin cx User_create rq a i s = create_user cx rq a s"
| "run_admin cx User_show rq a i s = show_user cx i s"
| "run_admin cx User_update rq a i s = update_user cx rq a i s"
| "run_admin cx User_reset rq a i s = reset_user_password cx rq a i s"
| "run_admin cx User_disable rq a i s = disable_user cx a i s"
| "run_admin cx User_enable rq a i s = enable_user cx a i s"
| "run_admin cx User_devices rq a i s = user_devices cx i s"
| "run_admin cx User_contributions rq a i s = user_contributions cx i s"
| "run_admin cx User_contribute rq a i s = record_user_contribution cx rq a i s"
| "run_admin cx Nodes_list rq a i s = list_nodes_admin cx s"
| "run_admin cx Node_create rq a i s = create_node cx rq a s"
| "run_admin cx Node_show rq a i s = show_node cx i s"
| "run_admin cx Node_update rq a i s = update_node cx rq a i s"
| "run_admin cx Node_check rq a i s = check_node cx a i s"
| "run_admin cx Node_peers rq a i s = node_peers cx i s"
| "run_admin cx Node_disable rq a i s = disable_node cx a i s"
| "run_admin cx Node_enable rq a i s = enable_node cx a i s"
| "run_admin cx Jobs_list rq a i s = list_jobs cx s"
| "run_admin cx Job_create rq a i s = create_job cx rq a s"
| "run_admin cx Job_show rq a i s = show_job cx i s"
| "run_admin cx Job_start rq a i s = start_job cx i s"
| "run_admin cx Job_cancel rq a i s = cancel_job cx a i s"
| "run_admin cx Job_events rq a i s = show_job_events cx i s"
| "run_admin cx Support_show rq a i s = show_support_settings cx s"
| "run_admin cx Support_update rq a i s = update_support_settings cx rq a s"
| "run_admin cx Audit_list rq a i s = list_audit_logs cx rq s"

definition reads_body :: "route \<Rightarrow> bool" where
  "reads_body r \<longleftrightarrow> r \<in> {Open_route Login, Member_route Device_create, Admin_route User_create,
     Admin_route User_update, Admin_route User_reset, Admin_route User_contribute, Admin_route Node_create,
     Admin_route Node_update, Admin_route Job_create, Admin_route Support_update}"

definition run_route :: "'t env \<Rightarrow> route \<Rightarrow> string list \<Rightarrow> request \<Rightarrow> 't app \<Rightarrow> 't outcome" where
  "run_route cx r ps rq s =
     (let i = (case ps of [] \<Rightarrow> [] | p # qs \<Rightarrow> p) in
      if reads_body r \<and> hr_body rq = Bad_json then (Inl (Invalid [bad_json]), s)
      else
        (case r of
           Open_route x \<Rightarrow> run_open cx x rq s
         | Member_route x \<Rightarrow>
             (case get_current_user cx rq s of
                (Inl e, s1) \<Rightarrow> (Inl (Raised e), s1)
              | (Inr u, s1) \<Rightarrow> run_member cx x rq u i s1)
         | Admin_route x \<Rightarrow>
             (case get_current_admin cx rq s of
                (Inl e, s1) \<Rightarrow> (Inl (Raised e), s1)
              | (Inr u, s1) \<Rightarrow> run_admin cx x rq u i s1)))"

section \<open>The application\<close>

definition unsafe_methods :: "string list" where
  "unsafe_methods = [''POST'', ''PUT'', ''PATCH'', ''DELETE'']"

text \<open>The middleware: the answer with which a request is refused.\<close>

definition csrf_protect :: "settings \<Rightarrow> request \<Rightarrow> reply option" where
  "csrf_protect st rq =
     (if csrf_enabled st \<and> hr_method rq \<in> set unsafe_methods then
        (let origin = map_of (hr_headers rq) ''origin'' in
         if origin \<noteq> None \<and> the origin \<notin> set (cors_origins st)
         then Some (reply_with 403 (error_body Csrf_failed M_csrf_rejected []))
         else if py_lower (dict_get [] (hr_headers rq) ''x-requested-with'') \<noteq> ''xmlhttprequest''
         then Some (reply_with 403 (error_body Csrf_failed M_no_requested_with []))
         else None)
      else None)"

definition serve :: "'t env \<Rightarrow> request \<Rightarrow> 't app \<Rightarrow> reply \<times> 't app" where
  "serve cx rq s =
     (case csrf_protect (cx_settings cx) rq of
        Some r \<Rightarrow> (r, s)
      | None \<Rightarrow>
          (case route_request rq of
             No_path \<Rightarrow> (reply_with 404 (JObj [(''detail'', JStr ''Not Found'')]), s)
           | No_method \<Rightarrow> (reply_with 405 (JObj [(''detail'', JStr ''Method Not Allowed'')]), s)
           | Routed r ps \<Rightarrow> (let (x, s1) = run_route cx r ps rq s in (respond x, s1))))"

end
