(* ===== verification/ApiGuards.thy ===== *)
theory ApiGuards
  imports Routes
begin

text \<open>
  Who may call what: a request without the session it needs gets one of nine fixed answers and
  leaves everything but the clock as it was; and whatever changes the program's data came with the
  header that a foreign page cannot send.
\<close>

section \<open>What a refused request leaves alone\<close>

text \<open>Everything but the clock, the sessions' last use and the issued configurations.\<close>

definition kept :: "'t app \<Rightarrow> 't app \<Rightarrow> bool" where
  "kept s s' \<longleftrightarrow> users s' = users s \<and> server_nodes s' = server_nodes s \<and> devices s' = devices s \<and>
     contributions s' = contributions s \<and> support_settings_of s' = support_settings_of s \<and>
     setup_jobs s' = setup_jobs s \<and> setup_events s' = setup_events s \<and> audit_log s' = audit_log s \<and>
     login_failures s' = login_failures s \<and> ssh_secrets s' = ssh_secrets s"

lemma kept_refl [simp]: "kept s s"
  by (simp add: kept_def)

lemma kept_trans: "kept s s1 \<Longrightarrow> kept s1 s2 \<Longrightarrow> kept s s2"
  by (simp add: kept_def)

lemma kept_simps [simp]:
  "kept s (tick s1) = kept s s1" "kept s (save_session x s1) = kept s s1"
  "kept s (s1\<lparr>agent_st := t\<rparr>) = kept s s1" "kept s (drop_issue i s1) = kept s s1"
  "kept s (save_issue iss s1) = kept s s1"
  by (simp_all add: kept_def save_session_def drop_issue_def save_issue_def)

text \<open>Who asks: the user of the session whose token the request carries.\<close>

definition asker :: "'t env \<Rightarrow> request \<Rightarrow> 't app \<Rightarrow> user option" where
  "asker cx rq s =
     (case session_token cx rq of
        None \<Rightarrow> None
      | Some token \<Rightarrow>
          (case hash_session_token (cx_crypto cx) token of
             Inl e \<Rightarrow> None | Inr h \<Rightarrow> session_user (now s) h s))"

definition refusals :: "reply list" where
  "refusals =
     [reply_with 404 (JObj [(''detail'', JStr ''Not Found'')]),
      reply_with 405 (JObj [(''detail'', JStr ''Method Not Allowed'')]),
      reply_with 403 (error_body Csrf_failed M_csrf_rejected []),
      reply_with 403 (error_body Csrf_failed M_no_requested_with []),
      reply_with 401 (error_body Unauthorized M_need_login []),
      reply_with 401 (error_body Unauthorized M_session_expired []),
      reply_with 403 (error_body Forbidden M_forbidden []),
      handle_validation_error [bad_json], internal_error]"

lemma respond_simps [simp]:
  "respond (Inr x) = x" "respond (Inl (Invalid es)) = handle_validation_error es"
  "respond (Inl (Raised (App e))) = handle_app_error e" "respond (Inl (Raised (Py p))) = internal_error"
  by (simp_all add: respond_def)

lemma current_user_asker:
  "get_current_user cx rq s =
     (case asker cx rq s of
        Some u \<Rightarrow> (Inr u, snd (get_current_user cx rq s))
      | None \<Rightarrow> (Inl (projl (fst (get_current_user cx rq s))), snd (get_current_user cx rq s)))"
  "kept s (snd (get_current_user cx rq s))"
  "asker cx rq s = None \<Longrightarrow> respond (Inl (Raised (projl (fst (get_current_user cx rq s))))) \<in> set refusals"
  by (auto simp: get_current_user_def asker_def resolve_session_eq refusals_def unauthorized_def
      handle_app_error_def hash_session_token_def split: option.split sum.split if_splits)

section \<open>The table of the routes\<close>

definition open_paths :: "string list list" where
  "open_paths =
     map (\<lambda>p. [''api'', ''v1''] @ p) [[''health''], [''auth'', ''login''], [''auth'', ''logout'']]"

definition read_routes :: "route list" where
  "read_routes =
     Open_route Health # map Member_route [Session, Me, Dashboard, Devices_list, Device_show, Device_issue,
       Servers_list, Server_show, Support_view, Support_history] @
     map Admin_route [Users_list, User_show, User_devices, User_contributions, Nodes_list, Node_show,
       Node_peers, Jobs_list, Job_show, Job_events, Support_show, Audit_list]"

text \<open>What holds of every entry of the table.\<close>

definition entry_ok :: "route_entry \<Rightarrow> bool" where
  "entry_ok e \<longleftrightarrow> (case e of (m, p, r) \<Rightarrow>
     (case p of a # b # Seg t # q \<Rightarrow> t = ''admin'' \<longrightarrow> (case r of Admin_route _ \<Rightarrow> True | _ \<Rightarrow> False) | _ \<Rightarrow> False) \<and>
     (case r of Open_route _ \<Rightarrow> p \<in> set (map (map Seg) open_paths) | _ \<Rightarrow> True) \<and>
     (m \<in> set unsafe_methods \<or> m = ''GET'' \<and> r \<in> set read_routes))"

lemma entries_ok: "list_all entry_ok all_routes"
  by code_simp

lemma find_in: "find P xs = Some x \<Longrightarrow> x \<in> set xs \<and> P x"
  by (induction xs) (auto split: if_splits)

lemma route_entryD:
  assumes "route_request rq = Routed r ps"
  obtains p where "entry_ok (hr_method rq, p, r)" "match_path p (hr_path rq) \<noteq> None"
proof -
  obtain m p where e: "find (\<lambda>(m, p, r). m = hr_method rq)
      (filter (\<lambda>(m, p, r). match_path p (hr_path rq) \<noteq> None) all_routes) = Some (m, p, r)"
    using assms by (auto simp: route_request_def Let_def split: option.splits if_splits)
  from find_in [OF this] have "m = hr_method rq" "(m, p, r) \<in> set all_routes" "match_path p (hr_path rq) \<noteq> None"
    by auto
  then show thesis using that entries_ok by (auto simp: list_all_iff)
qed

lemma match_literals: "match_path (map Seg ts) xs \<noteq> None \<Longrightarrow> xs = ts"
proof (induction ts arbitrary: xs)
  case Nil
  then show ?case by (cases xs) simp_all
next
  case (Cons t ts)
  then show ?case by (cases xs) (auto split: if_splits)
qed

lemma match_third: "match_path (a # b # Seg t # q) (x # y # z # zs) \<noteq> None \<Longrightarrow> t = z"
  by (cases a; cases b) (auto split: if_splits)

lemma admin_pathD:
  assumes "route_request rq = Routed r ps" "take 3 (hr_path rq) = [''api'', ''v1'', ''admin'']"
  shows "\<exists>x. r = Admin_route x"
proof -
  obtain p where p: "entry_ok (hr_method rq, p, r)" "match_path p (hr_path rq) \<noteq> None"
    by (rule route_entryD [OF assms(1)])
  obtain zs where zs: "hr_path rq = ''api'' # ''v1'' # ''admin'' # zs"
    using assms(2) by (cases "hr_path rq"; cases "tl (hr_path rq)"; cases "tl (tl (hr_path rq))") auto
  obtain a b t q where q: "p = a # b # Seg t # q" "t = ''admin'' \<longrightarrow> (case r of Admin_route _ \<Rightarrow> True | _ \<Rightarrow> False)"
    using p(1) by (auto simp: entry_ok_def split: list.splits segment.splits)
  have "t = ''admin''" using p(2) unfolding q(1) zs by (rule match_third)
  then show ?thesis using q(2) by (cases r) simp_all
qed

lemma open_pathD:
  assumes "route_request rq = Routed (Open_route x) ps"
  shows "hr_path rq \<in> set open_paths"
proof -
  obtain p where p: "entry_ok (hr_method rq, p, Open_route x)" "match_path p (hr_path rq) \<noteq> None"
    by (rule route_entryD [OF assms(1)])
  then obtain ts where ts: "p = map Seg ts" "ts \<in> set open_paths" by (auto simp: entry_ok_def)
  then have "hr_path rq = ts" using p(2) match_literals by blast
  then show ?thesis using ts(2) by simp
qed

section \<open>Guards\<close>

lemma current_admin_asker:
  "kept s (snd (get_current_admin cx rq s))"
  "(\<And>u. asker cx rq s = Some u \<Longrightarrow> usr_role u \<noteq> Admin) \<Longrightarrow>
     \<exists>e. fst (get_current_admin cx rq s) = Inl e \<and> respond (Inl (Raised e)) \<in> set refusals"
proof -
  let ?g = "get_current_user cx rq s"
  show "kept s (snd (get_current_admin cx rq s))"
    using current_user_asker(2) [of s cx rq] by (auto simp: get_current_admin_def split: prod.splits sum.splits)
  assume no: "\<And>u. asker cx rq s = Some u \<Longrightarrow> usr_role u \<noteq> Admin"
  show "\<exists>e. fst (get_current_admin cx rq s) = Inl e \<and> respond (Inl (Raised e)) \<in> set refusals"
  proof (cases "asker cx rq s")
    case None
    then obtain e where "fst ?g = Inl e" "respond (Inl (Raised e)) \<in> set refusals"
      using current_user_asker(1,3) [of cx rq s] by (metis fst_conv option.simps(4) sum.sel(1))
    then show ?thesis by (auto simp: get_current_admin_def split: prod.splits)
  next
    case (Some u)
    then have "fst ?g = Inr u" using current_user_asker(1) [of cx rq s] by (metis fst_conv option.simps(5))
    then show ?thesis using no [OF Some]
      by (auto simp: get_current_admin_def refusals_def forbidden_def handle_app_error_def split: prod.splits)
  qed
qed

text \<open>An outcome that refuses the request.\<close>

definition refused_by :: "'t outcome \<Rightarrow> 't app \<Rightarrow> bool" where
  "refused_by x s \<longleftrightarrow> respond (fst x) \<in> set refusals \<and> kept s (snd x)"

lemma refused_bad_json: "refused_by (Inl (Invalid [bad_json]), s) s"
  by (simp add: refused_by_def refusals_def)

lemma member_refused:
  assumes "asker cx rq s = None"
  shows "refused_by (run_route cx (Member_route x) ps rq s) s"
proof -
  obtain e where "fst (get_current_user cx rq s) = Inl e" "respond (Inl (Raised e)) \<in> set refusals"
    using assms current_user_asker(1,3) [of cx rq s] by (metis fst_conv option.simps(4) sum.sel(1))
  then show ?thesis
    using refused_bad_json current_user_asker(2) [of s cx rq]
    by (auto simp: run_route_def refused_by_def Let_def split: prod.split)
qed

lemma admin_refused:
  assumes "\<And>u. asker cx rq s = Some u \<Longrightarrow> usr_role u \<noteq> Admin"
  shows "refused_by (run_route cx (Admin_route x) ps rq s) s"
proof -
  obtain e where "fst (get_current_admin cx rq s) = Inl e" "respond (Inl (Raised e)) \<in> set refusals"
    using current_admin_asker(2) [of cx rq s] assms by blast
  then show ?thesis
    using refused_bad_json current_admin_asker(1) [of s cx rq]
    by (auto simp: run_route_def refused_by_def Let_def split: prod.split)
qed

text \<open>Who may not ask is refused.\<close>

lemma request_refused:
  assumes "take 3 (hr_path rq) = [''api'', ''v1'', ''admin''] \<and> (\<forall>u. asker cx rq s = Some u \<longrightarrow> usr_role u \<noteq> Admin)
    \<or> hr_path rq \<notin> set open_paths \<and> asker cx rq s = None"
  shows "fst (serve cx rq s) \<in> set refusals \<and> kept s (snd (serve cx rq s))"
proof (cases "csrf_protect (cx_settings cx) rq")
  case (Some r)
  then have "r \<in> set refusals" by (auto simp: csrf_protect_def refusals_def Let_def split: if_splits)
  then show ?thesis using Some by (simp add: serve_def)
next
  case None
  note serve = serve_def [of cx rq s, unfolded None option.case]
  show ?thesis
  proof (cases "route_request rq")
    case (Routed r ps)
    have "refused_by (run_route cx r ps rq s) s"
    proof (cases r)
      case (Open_route x)
      then have "hr_path rq \<in> set open_paths" using open_pathD Routed by blast
      moreover have "take 3 (hr_path rq) \<noteq> [''api'', ''v1'', ''admin'']"
        using admin_pathD [OF Routed] Open_route by blast
      ultimately show ?thesis using assms by blast
    next
      case (Member_route x)
      then have "take 3 (hr_path rq) \<noteq> [''api'', ''v1'', ''admin'']" using admin_pathD [OF Routed] by blast
      then show ?thesis using assms member_refused Member_route by blast
    next
      case (Admin_route x)
      have "asker cx rq s = Some u \<Longrightarrow> usr_role u \<noteq> Admin" for u using assms by auto
      then show ?thesis using admin_refused Admin_route by blast
    qed
    then show ?thesis by (simp add: serve Routed refused_by_def split_beta)
  qed (simp_all add: serve refusals_def)
qed


text \<open>A deployment and requests to it on which the examples are evaluated.\<close>

definition demo_env :: "unit env" where
  "demo_env =
     \<lparr>cx_settings = default_settings\<lparr>csrf_enabled := True\<rparr>, cx_crypto = demo_crypto, cx_box = plaintext_box,
      cx_agent = \<lparr>ac_crypto = demo_crypto, ac_box = plaintext_box, ac_transport = one_key_agent\<rparr>,
      cx_validate = strict_validate, cx_stamp = (\<lambda>t. []), cx_meanwhile = (\<lambda>s. s)\<rparr>"

definition demo_request :: "string \<Rightarrow> string list \<Rightarrow> (string, string) dict \<Rightarrow> body \<Rightarrow> request" where
  "demo_request m p cookies b =
     \<lparr>hr_method = m, hr_path = [''api'', ''v1''] @ p, hr_cookies = cookies,
      hr_headers = [(''x-requested-with'', ''XMLHttpRequest'')], hr_client = Some ''10.0.0.7'', hr_query = [],
      hr_body = b\<rparr>"


section \<open>Changes\<close>

lemma snd_answer [simp]: "snd (answer st f rs) = snd rs"
  by (simp add: answer_def split: sum.split)

lemma agent_call_kept: "kept s (snd (agent_call ac nd meth path b sg n s))"
proof -
  obtain r s' where r: "agent_call ac nd meth path b sg n s = (r, s')" by fastforce
  show ?thesis using agent_call_state [OF r] r by auto
qed

lemma member_reads_keep:
  "Member_route x \<in> set read_routes \<Longrightarrow> kept s (snd (run_member cx x rq u i s))"
  by (cases x)
    (auto simp: read_routes_def auth_session_def me_def dashboard_def list_devices_def show_device_def
      show_issue_def list_servers_def show_server_def support_view_def support_history_def Let_def
      issue_result_def split_beta split: option.split sum.split)

lemma admin_reads_keep:
  "Admin_route x \<in> set read_routes \<Longrightarrow> kept s (snd (run_admin cx x rq u i s))"
  by (cases x)
    (auto simp: read_routes_def list_users_admin_def show_user_def user_devices_def user_contributions_def
      list_nodes_admin_def show_node_def node_peers_def server_agent_peers_def agent_peers_def
      agent_call_kept list_jobs_def show_job_def show_job_events_def show_support_settings_def
      list_audit_logs_def typed_def split: option.split sum.split)

lemma reads_keep:
  assumes "r \<in> set read_routes"
  shows "kept s (snd (run_route cx r ps rq s))"
proof (cases r)
  case (Open_route x)
  then show ?thesis using assms by (auto simp: read_routes_def run_route_def health_def Let_def)
next
  case (Member_route x)
  then show ?thesis
    using assms current_user_asker(2) [of s cx rq]
    by (auto simp: run_route_def Let_def split: prod.splits sum.splits intro: kept_trans [OF _ member_reads_keep])
next
  case (Admin_route x)
  then show ?thesis
    using assms current_admin_asker(1) [of s cx rq]
    by (auto simp: run_route_def Let_def split: prod.splits sum.splits intro: kept_trans [OF _ admin_reads_keep])
qed

text \<open>C11: CHANGES PASS CSRF. With CSRF protection on, a request that changes any user, node, device,
  contribution, setting, installation, log entry, failure count or secret is of an unsafe method,
  carries \<open>X-Requested-With: XMLHttpRequest\<close> (in any case) and no \<open>Origin\<close> but an allowed one: neither
  a form nor a link of a foreign page has an effect.\<close>

theorem changes_pass_csrf:
  assumes "csrf_enabled (cx_settings cx)" "\<not> kept s (snd (serve cx rq s))"
  shows "hr_method rq \<in> set unsafe_methods \<and>
    py_lower (dict_get [] (hr_headers rq) ''x-requested-with'') = ''xmlhttprequest'' \<and>
    (\<forall>x. map_of (hr_headers rq) ''origin'' = Some x \<longrightarrow> x \<in> set (cors_origins (cx_settings cx)))"
proof -
  have none: "csrf_protect (cx_settings cx) rq = None"
    using assms(2) by (cases "csrf_protect (cx_settings cx) rq") (simp_all add: serve_def)
  obtain r ps where r: "route_request rq = Routed r ps"
    using assms(2) none by (cases "route_request rq") (simp_all add: serve_def)
  obtain p where p: "entry_ok (hr_method rq, p, r)" by (rule route_entryD [OF r])
  have "r \<notin> set read_routes"
    using assms(2) none r reads_keep [of r s cx ps rq] by (auto simp: serve_def split_beta)
  then have "hr_method rq \<in> set unsafe_methods" using p by (auto simp: entry_ok_def)
  then show ?thesis using none assms(1) by (auto simp: csrf_protect_def Let_def split: if_splits)
qed

definition wrong_login :: request where
  "wrong_login = demo_request ''POST'' [''auth'', ''login''] []
     (Json_body (JObj [(''login'', JStr ''root''), (''password'', JStr ''x'')]))"

lemma wrong_login_recorded: "login_failures (snd (serve demo_env wrong_login (demo_app ()))) \<noteq> []"
  by code_simp

lemma wrong_login_facts:
  "csrf_enabled (cx_settings demo_env)" "\<not> kept (demo_app ()) (snd (serve demo_env wrong_login (demo_app ())))"
proof -
  show "csrf_enabled (cx_settings demo_env)" by code_simp
  have "login_failures (demo_app ()) = []" by code_simp
  then show "\<not> kept (demo_app ()) (snd (serve demo_env wrong_login (demo_app ())))"
    using wrong_login_recorded by (simp add: kept_def)
qed

theorem changes_pass_csrf_witness:
  "\<exists>cx rq. hr_method rq \<in> set unsafe_methods \<and> rq = wrong_login \<and> cx = demo_env \<and>
    py_lower (dict_get [] (hr_headers rq) ''x-requested-with'') = ''xmlhttprequest'' \<and>
    \<not> kept (demo_app ()) (snd (serve cx rq (demo_app ())))"
  using changes_pass_csrf [OF wrong_login_facts] wrong_login_facts(2) by blast

end
