(* ===== verification/ApiBodies.thy ===== *)
theory ApiBodies
  imports ApiGuards
begin

text \<open>
  What the declared constraints of the bodies are good for: the attributes handed to the services
  have the types the services expect, and the values fit the columns of the database, but for the
  fields named; and a session opened by the login route serves the requests that carry its cookie.
\<close>

section \<open>Accepted values\<close>

lemma value_in_simps [simp]:
  "value_in (T_str lo hi p) v \<longleftrightarrow> (\<exists>s. v = JStr s \<and> lo \<le> text_length s \<and>
     (\<forall>n. hi = Some n \<longrightarrow> text_length s \<le> n) \<and> (\<forall>q. p = Some q \<longrightarrow> matches q s))"
  "value_in (T_enum ss) v \<longleftrightarrow> (\<exists>s. v = JStr s \<and> s \<in> set ss)"
  "value_in (T_int a b) v \<longleftrightarrow> (\<exists>i. v = JInt i \<and> (\<forall>n. a = Some n \<longrightarrow> n \<le> i) \<and> (\<forall>n. b = Some n \<longrightarrow> i \<le> n))"
  "value_in (T_float strict) v \<longleftrightarrow> (\<exists>x. v = JFloat x \<and> (0 < x \<or> \<not> strict \<and> x = 0))"
  "value_in T_bool v \<longleftrightarrow> (\<exists>b. v = JBool b)"
  by (cases v; auto simp: value_in_def split: option.split)+

text \<open>What an accepted body has under each declared name: an accepted value, or the default.\<close>

definition field_ok :: "field \<Rightarrow> json \<Rightarrow> bool" where
  "field_ok f v \<longleftrightarrow> field_accepts f v \<or> fld_default f = Some v"

definition attrs_ok :: "field list \<Rightarrow> (string \<Rightarrow> json) \<Rightarrow> bool" where
  "attrs_ok fs a \<longleftrightarrow> list_all (\<lambda>f. field_ok f (a (fld_name f))) fs"

lemma find_name: "distinct (map fld_name fs) \<Longrightarrow> f \<in> set fs \<Longrightarrow> find (\<lambda>g. fld_name g = fld_name f) fs = Some f"
  by (induction fs) (auto simp: image_iff dest: sym)

lemma accepted_attrs:
  assumes "validator_ok vd" "vd fs v = Inr kvs" "distinct (map fld_name fs)"
  shows "attrs_ok fs (attr fs kvs)"
  unfolding attrs_ok_def list_all_iff field_ok_def
proof
  fix f assume f: "f \<in> set fs"
  have ok: "\<forall>(k, x) \<in> set kvs. \<exists>g \<in> set fs. fld_name g = k \<and> field_accepts g x"
    "fld_default f = None \<longrightarrow> fld_name f \<in> fst ` set kvs"
    using assms(1,2) f by (auto simp: validator_ok_def)
  show "field_accepts f (attr fs kvs (fld_name f)) \<or> fld_default f = Some (attr fs kvs (fld_name f))"
  proof (cases "map_of kvs (fld_name f)")
    case (Some x)
    then have "(fld_name f, x) \<in> set kvs" by (rule map_of_SomeD)
    then obtain g where g: "g \<in> set fs" "fld_name g = fld_name f" "field_accepts g x" using ok(1) by blast
    then have "g = f" using f assms(3) by (auto simp: distinct_map inj_on_def)
    then show ?thesis using Some g by (simp add: attr_def)
  next
    case None
    then have "fld_default f \<noteq> None" using ok(2) by (auto simp: map_of_eq_None_iff)
    then show ?thesis using None find_name [OF assms(3) f] by (auto simp: attr_def)
  qed
qed

lemma parse_body_accepted:
  "parse_body cx fs rq = Inr b \<Longrightarrow> \<exists>v. cx_validate cx fs v = Inr b"
  by (cases "hr_body rq") (auto simp: parse_body_def)

lemma parsed_attrs:
  assumes "validator_ok (cx_validate cx)" "parse_body cx fs rq = Inr b" "distinct (map fld_name fs)"
  shows "attrs_ok fs (attr fs b)"
  using parse_body_accepted [OF assms(2)] accepted_attrs [OF assms(1) _ assms(3)] by blast

lemma field_names_distinct:
  "distinct (map fld_name login_in)" "distinct (map fld_name user_create_in)"
  "distinct (map fld_name server_create_in)" "distinct (map fld_name device_create_in)"
  "distinct (map fld_name setup_job_create_in)" "distinct (map fld_name contribution_create_in)"
  "distinct (map fld_name reset_password_in)"
  by code_simp+

lemmas field_defs = req_field_def opt_field_def def_field_def field_accepts_def

lemmas enum_defs = roles_def all_user_role_def all_auth_method_def

lemma fld_names [simp]:
  "fld_name (req_field n ty) = n" "fld_name (opt_field n ty) = n" "fld_name (def_field n ty d) = n"
  by (simp_all add: field_defs)

lemma opt_values [simp]:
  "as_opt_str (json_opt_str x) = Some x" "as_opt_int (json_opt_int i) = Some i"
  by simp_all

lemma as_role_value: "t \<in> set roles \<Longrightarrow> \<exists>r. as_role (JStr t) = Some r"
  by (auto simp: enum_defs)

lemma as_auth_method_value:
  "t \<in> set (map auth_method_value all_auth_method) \<Longrightarrow> \<exists>m. as_auth_method (JStr t) = Some m"
  by (auto simp: enum_defs)

lemma typed_fields:
  "field_ok (req_field n (T_str lo hi p)) v \<Longrightarrow> \<exists>s. as_str v = Some s"
  "field_ok (def_field n (T_str lo hi p) (JStr d)) v \<Longrightarrow> \<exists>s. as_str v = Some s"
  "field_ok (opt_field n (T_str lo hi p)) v \<Longrightarrow> \<exists>s. as_opt_str v = Some s"
  "field_ok (opt_field n (T_int a b)) v \<Longrightarrow> \<exists>i. as_opt_int v = Some i"
  "field_ok (def_field n (T_int a b) (JInt k)) v \<Longrightarrow> \<exists>i. as_int v = Some i"
  "field_ok (def_field n T_bool (JBool c)) v \<Longrightarrow> \<exists>x. as_bool v = Some x"
  "field_ok (req_field n (T_float strict)) v \<Longrightarrow> \<exists>x. as_float v = Some x"
  "field_ok \<lparr>fld_name = n, fld_type = T_int a b, fld_null = True, fld_default = Some (JInt k)\<rparr> v
     \<Longrightarrow> \<exists>i. as_opt_int v = Some i"
  by (cases v; simp add: field_ok_def field_defs del: as_opt_str_Some as_opt_int_Some)+

lemma typed_enums:
  "field_ok (def_field n (T_enum roles) (JStr ''user'')) v \<Longrightarrow> \<exists>x. as_role v = Some x"
  "field_ok (req_field n (T_enum (map auth_method_value all_auth_method))) v \<Longrightarrow> \<exists>x. as_auth_method v = Some x"
proof -
  assume "field_ok (def_field n (T_enum roles) (JStr ''user'')) v"
  then have "\<exists>t. v = JStr t \<and> t \<in> set roles"
    by (auto simp: field_ok_def field_defs enum_defs)
  then show "\<exists>x. as_role v = Some x" using as_role_value by blast
next
  assume "field_ok (req_field n (T_enum (map auth_method_value all_auth_method))) v"
  then have "\<exists>t. v = JStr t \<and> t \<in> set (map auth_method_value all_auth_method)"
    by (auto simp: field_ok_def field_defs)
  then show "\<exists>x. as_auth_method v = Some x" using as_auth_method_value by blast
qed

lemma login_typed:
  assumes "attrs_ok login_in (attr login_in b)"
  shows "login_args b \<noteq> None"
proof -
  define a where "a = attr login_in b"
  have "attrs_ok login_in a" using assms by (simp only: a_def)
  then show ?thesis
    unfolding login_args_def a_def [symmetric] Let_def by (auto simp: attrs_ok_def login_in_def dest!: typed_fields typed_enums)
qed

lemma user_typed:
  assumes "attrs_ok user_create_in (attr user_create_in b)"
  shows "user_args_of b \<noteq> None"
proof -
  define a where "a = attr user_create_in b"
  have "attrs_ok user_create_in a" using assms by (simp only: a_def)
  then show ?thesis
    unfolding user_args_of_def a_def [symmetric] Let_def
    by (auto simp: attrs_ok_def user_create_in_def dest!: typed_fields typed_enums) (metis role_value.simps user_role.exhaust)
qed

lemma node_typed:
  assumes "attrs_ok server_create_in (attr server_create_in b)"
  shows "node_args_of b \<noteq> None"
proof -
  define a where "a = attr server_create_in b"
  have "attrs_ok server_create_in a" using assms by (simp only: a_def)
  then show ?thesis
    unfolding node_args_of_def a_def [symmetric] Let_def by (auto simp: attrs_ok_def server_create_in_def dest!: typed_fields typed_enums)
qed

lemma job_typed:
  assumes "attrs_ok setup_job_create_in (attr setup_job_create_in b)"
  shows "job_args_of b \<noteq> None"
proof -
  define a where "a = attr setup_job_create_in b"
  have "attrs_ok setup_job_create_in a" using assms by (simp only: a_def)
  then show ?thesis
    unfolding job_args_of_def a_def [symmetric] Let_def by (auto simp: attrs_ok_def setup_job_create_in_def dest!: typed_fields typed_enums)
qed

lemma device_typed:
  assumes "attrs_ok device_create_in (attr device_create_in b)"
  shows "device_args_of b \<noteq> None"
proof -
  define a where "a = attr device_create_in b"
  have "attrs_ok device_create_in a" using assms by (simp only: a_def)
  then show ?thesis
    unfolding device_args_of_def a_def [symmetric] Let_def by (auto simp: attrs_ok_def device_create_in_def dest!: typed_fields typed_enums)
qed

lemma contribution_typed:
  assumes "attrs_ok contribution_create_in (attr contribution_create_in b)"
  shows "contribution_args_of b \<noteq> None"
proof -
  define a where "a = attr contribution_create_in b"
  have "attrs_ok contribution_create_in a" using assms by (simp only: a_def)
  then show ?thesis
    unfolding contribution_args_of_def a_def [symmetric] Let_def by (auto simp: attrs_ok_def contribution_create_in_def dest!: typed_fields typed_enums)
qed

text \<open>C31: ACCEPTED BODIES TYPED. Whatever pydantic lets through for login and for the creation of a
  member, a node, an installation, a device or a contribution has attributes of the types the services
  take: no accepted body of these ends in a type error.\<close>

theorem accepted_bodies_typed:
  assumes "validator_ok (cx_validate cx)"
  shows "(parse_body cx login_in rq = Inr b \<longrightarrow> login_args b \<noteq> None) \<and>
    (parse_body cx user_create_in rq = Inr b \<longrightarrow> user_args_of b \<noteq> None) \<and>
    (parse_body cx server_create_in rq = Inr b \<longrightarrow> node_args_of b \<noteq> None) \<and>
    (parse_body cx setup_job_create_in rq = Inr b \<longrightarrow> job_args_of b \<noteq> None) \<and>
    (parse_body cx device_create_in rq = Inr b \<longrightarrow> device_args_of b \<noteq> None) \<and>
    (parse_body cx contribution_create_in rq = Inr b \<longrightarrow> contribution_args_of b \<noteq> None)"
  using parsed_attrs [OF assms] field_names_distinct login_typed user_typed node_typed job_typed
    device_typed contribution_typed by blast

theorem accepted_bodies_typed_witness:
  "\<exists>b. parse_body demo_env login_in wrong_login = Inr b \<and> login_args b \<noteq> None"
proof -
  have ok: "validator_ok (cx_validate demo_env)" by (simp add: demo_env_def strict_validate_ok)
  have "parse_body demo_env login_in wrong_login = Inr [(''login'', JStr ''root''), (''password'', JStr ''x'')]"
    by code_simp
  then show ?thesis using accepted_bodies_typed [OF ok, of wrong_login] by blast
qed

section \<open>Values and columns\<close>

definition stored_json :: "json \<Rightarrow> dbval" where
  "stored_json v =
     (case v of
        JNull \<Rightarrow> V_null | JBool b \<Rightarrow> V_bool b | JInt i \<Rightarrow> V_int i | JFloat x \<Rightarrow> V_float x
      | JStr s \<Rightarrow> V_str s | JMsg m \<Rightarrow> V_msg m | _ \<Rightarrow> V_json v)"

definition holds_nul :: "json \<Rightarrow> bool" where
  "holds_nul v = (case v of JStr s \<Rightarrow> \<not> nul_free s | _ \<Rightarrow> False)"

text \<open>
  The declared names under which an accepted value, without the character 0 or with it, need not fit the
  column of the same name.
\<close>

definition escaping :: "bool \<Rightarrow> field list \<Rightarrow> model \<Rightarrow> string set" where
  "escaping nul fs m = {n. \<exists>f ty fl v. f \<in> set fs \<and> fld_name f = n \<and> (n, ty, fl) \<in> set (snd m) \<and>
     field_accepts f v \<and> holds_nul v = nul \<and> \<not> value_fits (\<lambda>x. []) ty fl (stored_json v)}"

text \<open>A declaration that keeps to the column.\<close>

definition keeps_to :: "field \<Rightarrow> col_type \<Rightarrow> col_flag list \<Rightarrow> bool" where
  "keeps_to f ty fl \<longleftrightarrow> (fld_null f \<longrightarrow> Nullable \<in> set fl) \<and>
     (case fld_type f of
        T_str lo hi p \<Rightarrow>
          (case ty of
             Text \<Rightarrow> True
           | Varchar m \<Rightarrow> (case hi of None \<Rightarrow> False | Some n \<Rightarrow> n \<le> m)
           | _ \<Rightarrow> False)
      | T_int lo hi \<Rightarrow>
          ty = Integer \<and> (case lo of None \<Rightarrow> False | Some a \<Rightarrow> - (2 ^ 31) \<le> a) \<and>
          (case hi of None \<Rightarrow> False | Some b \<Rightarrow> b < 2 ^ 31)
      | T_float strict \<Rightarrow> ty = Float
      | T_bool \<Rightarrow> ty = Boolean
      | T_enum ss \<Rightarrow> (case ty of Varchar m \<Rightarrow> list_all (\<lambda>s. text_length s \<le> m) ss | Text \<Rightarrow> True | _ \<Rightarrow> False)
      | _ \<Rightarrow> False)"

lemma keeps_to_fits:
  assumes "keeps_to f ty fl" "field_accepts f v" "\<not> holds_nul v"
  shows "value_fits render ty fl (stored_json v)"
  using assms
  by (cases "fld_type f"; cases ty)
    (auto simp: keeps_to_def field_accepts_def stored_json_def value_fits_def text_fits_def holds_nul_def
      list_all_iff split: option.splits)

text \<open>A declaration under which a text can hold the character 0.\<close>

definition nul_type :: "field_type \<Rightarrow> bool" where
  "nul_type ty =
     (case ty of T_str lo hi p \<Rightarrow> p = None | T_enum ss \<Rightarrow> list_ex (\<lambda>s. \<not> nul_free s) ss | _ \<Rightarrow> False)"

lemma pattern_nul_free: "matches q s \<Longrightarrow> nul_free s"
  by (cases q; cases s) (auto simp: nul_free_def alnum_def list_all_iff)

lemma nul_typed:
  assumes "field_accepts f v" "holds_nul v"
  shows "nul_type (fld_type f)"
  using assms pattern_nul_free
  by (cases "fld_type f")
    (auto simp: field_accepts_def holds_nul_def nul_type_def list_ex_iff value_in_def
      split: json.splits option.splits)

definition loose :: "bool \<Rightarrow> field list \<Rightarrow> model \<Rightarrow> string list" where
  "loose nul fs m = map fld_name (filter (\<lambda>f. list_ex (\<lambda>(c, ty, fl). c = fld_name f \<and>
     (if nul then nul_type (fld_type f) else \<not> keeps_to f ty fl)) (snd m)) fs)"

lemma escaping_loose: "escaping nul fs m \<subseteq> set (loose nul fs m)"
  using keeps_to_fits nul_typed by (cases nul) (fastforce simp: escaping_def loose_def list_ex_iff)+

text \<open>Values a body can carry that the column refuses.\<close>

definition misfits :: "bool \<Rightarrow> field list \<Rightarrow> model \<Rightarrow> jdict \<Rightarrow> bool" where
  "misfits nul fs m kvs \<longleftrightarrow> list_all (\<lambda>(n, v). holds_nul v = nul \<and>
     list_ex (\<lambda>f. fld_name f = n \<and> field_accepts f v \<and>
       list_ex (\<lambda>(c, ty, fl). c = n \<and> \<not> value_fits (\<lambda>x. []) ty fl (stored_json v)) (snd m)) fs) kvs"

lemma misfits_escape: "misfits nul fs m kvs \<Longrightarrow> fst ` set kvs \<subseteq> escaping nul fs m"
  by (fastforce simp: misfits_def escaping_def list_all_iff list_ex_iff)

lemma escaping_exact:
  assumes "misfits nul fs m kvs" "loose nul fs m = map fst kvs"
  shows "escaping nul fs m = fst ` set kvs"
  using misfits_escape [OF assms(1)] escaping_loose [of nul fs m] assms(2) by auto

text \<open>The character 0 is let through in every text without a pattern.\<close>

lemma escaping_nul:
  assumes "misfits True fs m (map (\<lambda>n. (n, JStr (replicate 3 CHR 0x00))) (loose True fs m))"
  shows "escaping True fs m = set (loose True fs m)"
  using escaping_exact [OF assms] by (auto simp: comp_def image_iff)

lemma bodies_with_nul:
  "misfits True server_create_in server_node_row
     (map (\<lambda>n. (n, JStr (replicate 3 CHR 0x00))) (loose True server_create_in server_node_row))"
  "misfits True setup_job_create_in setup_job_row
     (map (\<lambda>n. (n, JStr (replicate 3 CHR 0x00))) (loose True setup_job_create_in setup_job_row))"
  "misfits True contribution_create_in support_contribution_row
     (map (\<lambda>n. (n, JStr (replicate 3 CHR 0x00))) (loose True contribution_create_in support_contribution_row))"
  "misfits True device_create_in device_row
     (map (\<lambda>n. (n, JStr (replicate 3 CHR 0x00))) (loose True device_create_in device_row))"
  "misfits True user_create_in user_row
     (map (\<lambda>n. (n, JStr (replicate 3 CHR 0x00))) (loose True user_create_in user_row))"
  "misfits True user_update_in user_row
     (map (\<lambda>n. (n, JStr (replicate 3 CHR 0x00))) (loose True user_update_in user_row))"
  "misfits True server_update_in server_node_row
     (map (\<lambda>n. (n, JStr (replicate 3 CHR 0x00))) (loose True server_update_in server_node_row))"
  "misfits True support_settings_update_in support_settings_row
     (map (\<lambda>n. (n, JStr (replicate 3 CHR 0x00))) (loose True support_settings_update_in support_settings_row))"
  by code_simp+

lemma names_with_nul:
  "loose True server_create_in server_node_row =
     [''name'', ''public_host'', ''agent_base_url'', ''region_note'', ''provider'', ''agent_key_id'',
      ''agent_allowed_ip_note'']"
  "loose True setup_job_create_in setup_job_row = [''server_name'', ''region_note'']"
  "loose True contribution_create_in support_contribution_row = [''currency'', ''period_label'', ''comment'']"
  "loose True device_create_in device_row = [''name'', ''server_node_id'']"
  "loose True user_create_in user_row = [''display_name'', ''telegram_username'', ''note'']"
  "loose True user_update_in user_row = [''display_name'', ''telegram_username'', ''note'']"
  "loose True server_update_in server_node_row =
     [''name'', ''public_host'', ''agent_base_url'', ''region_note'', ''provider'', ''agent_key_id'',
      ''agent_allowed_ip_note'', ''awg_container_name'', ''awg_interface'', ''awg_config_path'',
      ''clients_table_path'']"
  "loose True support_settings_update_in support_settings_row =
     [''title'', ''description'', ''sbp_phone'', ''bank_name'', ''extra_contact'']"
  by code_simp+

text \<open>C30: BODIES FIT COLUMNS. Without the character 0, the declared constraints keep what a body can
  carry within the column of the same name when a node, an installation or a contribution is created,
  whatever the value. They do not for the device limit of a member, which has no upper bound over a 32-bit
  column, for the telephone and the bank of the support page, which have no length over columns of 100
  characters, for the node asked for a device, nor for the fields of a PATCH that are nullable in the body
  only. With that character, which PostgreSQL refuses, exactly the texts without a pattern get through to
  a column that cannot keep them.\<close>


section \<open>Sessions\<close>

lemma route_login:
  "hr_method rq = ''POST'' \<Longrightarrow> hr_path rq = [''api'', ''v1'', ''auth'', ''login''] \<Longrightarrow>
     route_request rq = Routed (Open_route Login) []"
  by (simp add: route_request_def all_routes_def auth_routes_def member_routes_def admin_user_routes_def
      admin_node_routes_def admin_job_routes_def admin_other_routes_def)

lemma route_me:
  "hr_method rq = ''GET'' \<Longrightarrow> hr_path rq = [''api'', ''v1'', ''me''] \<Longrightarrow>
     route_request rq = Routed (Member_route Me) []"
  by (simp add: route_request_def all_routes_def auth_routes_def member_routes_def admin_user_routes_def
      admin_node_routes_def admin_job_routes_def admin_other_routes_def)

lemma serve_me:
  assumes "hr_method rq = ''GET''" "hr_path rq = [''api'', ''v1'', ''me'']"
  shows "fst (serve cx rq s) =
    (case get_current_user cx rq s of
       (Inl e, s1) \<Rightarrow> respond (Inl (Raised e)) | (Inr u, s1) \<Rightarrow> reply_with 200 (user_out u))"
  by (auto simp: serve_def csrf_protect_def assms unsafe_methods_def route_me [OF assms] run_route_def
      reads_body_def me_def Let_def split: prod.splits sum.splits)


lemma keep_cookie [simp]:
  "rp_cookie (reply_with st v) = Keep_cookie" "rp_cookie (handle_app_error e) = Keep_cookie"
  "rp_cookie (handle_validation_error es) = Keep_cookie" "rp_cookie internal_error = Keep_cookie"
  by (simp_all add: reply_with_def handle_app_error_def handle_validation_error_def internal_error_def)

lemma keep_cookie_error [simp]: "rp_cookie (respond (Inl x)) = Keep_cookie"
  by (cases x) (auto simp: respond_def split: exn.split)

lemma csrf_keeps_cookie: "csrf_protect st rq = Some r \<Longrightarrow> rp_cookie r = Keep_cookie"
  by (auto simp: csrf_protect_def Let_def split: if_splits)

lemma auth_login_cookie:
  assumes "auth_login cx rq s = (x, s1)" "rp_cookie (respond x) = Set_cookie n token age sec"
  shows "n = session_cookie_name (cx_settings cx) \<and> age = session_ttl_days (cx_settings cx) * 86400 \<and>
    (\<exists>l p u ip ua. login (cx_crypto cx) (cx_settings cx) l p ip ua s = (Inr (u, token), s1) \<and>
       respond x = \<lparr>rp_status = 200, rp_body = session_out u, rp_cookie = Set_cookie n token age sec\<rparr>)"
  using assms
  by (auto simp: auth_login_def with_body_def typed_def Let_def get_client_meta_def
      split: sum.splits option.splits prod.splits) blast+

lemma serve_login:
  assumes "hr_method rq = ''POST''" "hr_path rq = [''api'', ''v1'', ''auth'', ''login'']"
    "serve cx rq s = (r, s1)" "rp_cookie r = Set_cookie n token age sec"
  shows "n = session_cookie_name (cx_settings cx) \<and> age = session_ttl_days (cx_settings cx) * 86400 \<and>
    (\<exists>l p u ip ua. login (cx_crypto cx) (cx_settings cx) l p ip ua s = (Inr (u, token), s1) \<and>
       r = \<lparr>rp_status = 200, rp_body = session_out u, rp_cookie = Set_cookie n token age sec\<rparr>)"
proof -
  have none: "csrf_protect (cx_settings cx) rq = None"
    using assms(3,4) csrf_keeps_cookie by (cases "csrf_protect (cx_settings cx) rq") (auto simp: serve_def)
  obtain x where x: "run_route cx (Open_route Login) [] rq s = (x, s1)" "r = respond x"
    using assms(3) by (auto simp: serve_def none route_login [OF assms(1,2)] split: prod.splits)
  have "\<not> (reads_body (Open_route Login) \<and> hr_body rq = Bad_json)"
    using x assms(4) by (auto simp: run_route_def)
  then have "auth_login cx rq s = (x, s1)" using x(1) by (auto simp: run_route_def Let_def split: if_splits)
  then show ?thesis using auth_login_cookie assms(4) x(2) by blast
qed

text \<open>C12: LOGIN COOKIE SERVES. The cookie that a login sets is, sent back with later requests, the
  session of the user the login answered with: while users and sessions are as the login left them,
  \<open>GET /api/v1/me\<close> with it answers that user until exactly the lifetime of the cookie, \<open>max_age\<close> seconds
  after the login, and 401 from then on.\<close>

theorem login_cookie_serves:
  assumes "hr_method rq = ''POST''" "hr_path rq = [''api'', ''v1'', ''auth'', ''login'']"
    "serve cx rq s = (r, s1)" "rp_cookie r = Set_cookie n token age sec" "token \<noteq> []"
    "\<And>u. u \<in> set (dict_values (users s)) \<Longrightarrow> get_user (usr_id u) s = Some u"
    "users s2 = users s1" "sessions s2 = sessions s1"
    "hr_method rq2 = ''GET''" "hr_path rq2 = [''api'', ''v1'', ''me'']" "map_of (hr_cookies rq2) n = Some token"
  shows "\<exists>u. rp_status r = 200 \<and> rp_body r = session_out u \<and> usr_is_active u \<and> users s1 = users s \<and>
    fst (serve cx rq2 s2) =
      (if now s2 < now s + age * 1000000 then reply_with 200 (user_out u)
       else reply_with 401 (error_body Unauthorized M_session_expired []))"
proof -
  let ?st = "cx_settings cx"
  obtain l p u ip ua where l: "login (cx_crypto cx) ?st l p ip ua s = (Inr (u, token), s1)"
    "r = \<lparr>rp_status = 200, rp_body = session_out u, rp_cookie = Set_cookie n token age sec\<rparr>"
    "n = session_cookie_name ?st" "age = session_ttl_days ?st * 86400"
    using serve_login [OF assms(1-4)] by blast
  obtain h d x where k: "check_credentials (cx_crypto cx) (normalize_login l) p s = Some u"
    "hash_session_token (cx_crypto cx) token = Inr h" "x = new_session ?st u h ip ua (now s) (new_uuid s)"
    "s1 = audit ''login_success''
       (no_args\<lparr>arg_actor := Some (usr_id u), arg_ip := ip, arg_user_agent := ua\<rparr>)
       (add_session x (use_uuid (use_random (clear_login_failures (login_key (normalize_login l))
          (tick s\<lparr>login_failures := d\<rparr>)))))"
    using l(1) by (rule login_Inr)
  have u: "usr_is_active u" "get_user (usr_id u) s = Some u"
    using k(1) assms(6) by (auto simp: check_credentials_Some get_user_by_login_def dest!: find_in)
  have "users s1 = users s" using k(4) by simp
  moreover have "session_user tm h s1 = (if tm < now s + age * 1000000 then Some u else None)" for tm
    using k u l(4) by (simp add: session_user_def new_session_def days_def algebra_simps)
  then have "session_user (now s2) h s2 = (if now s2 < now s + age * 1000000 then Some u else None)"
    using session_user_cong [OF assms(8)] assms(7) by (simp add: get_user_def)
  moreover have "session_token cx rq2 = Some token"
    using assms(5,11) l(3) by (simp add: session_token_def or_none_def)
  ultimately show ?thesis
    using l(2) u(1) k(2) serve_me [OF assms(9,10), of cx s2]
    by (auto simp: get_current_user_def resolve_session_eq unauthorized_def handle_app_error_def)
qed

definition bob_login :: request where
  "bob_login = demo_request ''POST'' [''auth'', ''login''] []
     (Json_body (JObj [(''login'', JStr ''bob''), (''password'', JStr ''pw'')]))"

lemma bob_logged_in:
  "rp_cookie (fst (serve demo_env bob_login (demo_app ()))) = Set_cookie ''vca_session'' ''r0'' 2592000 False"
  "now (snd (serve demo_env bob_login (demo_app ()))) < now (demo_app ()) + 2592000 * 1000000"
  "list_all (\<lambda>u. get_user (usr_id u) (demo_app ()) = Some u) (dict_values (users (demo_app ())))"
  by code_simp+

theorem login_cookie_serves_witness:
  "\<exists>u. fst (serve demo_env (demo_request ''GET'' [''me''] [(''vca_session'', ''r0'')] No_body)
       (snd (serve demo_env bob_login (demo_app ())))) = reply_with 200 (user_out u) \<and> usr_is_active u"
proof -
  let ?s = "demo_app ()"
  let ?x = "serve demo_env bob_login ?s"
  let ?rq = "demo_request ''GET'' [''me''] [(''vca_session'', ''r0'')] No_body"
  have b: "hr_method bob_login = ''POST''" "hr_path bob_login = [''api'', ''v1'', ''auth'', ''login'']"
    "hr_method ?rq = ''GET''" "hr_path ?rq = [''api'', ''v1'', ''me'']"
    "map_of (hr_cookies ?rq) ''vca_session'' = Some ''r0''" "(''r0'' :: string) \<noteq> []"
    by (simp_all add: bob_login_def demo_request_def)
  have k: "get_user (usr_id u) ?s = Some u" if "u \<in> set (dict_values (users ?s))" for u
    using that bob_logged_in(3) by (auto simp: list_all_iff)
  show ?thesis
    using login_cookie_serves [OF b(1,2) surjective_pairing bob_logged_in(1) b(6) k refl refl b(3-5)]
      bob_logged_in(2) by auto
qed
end
