(* ===== verification/Disabled.thy ===== *)
theory Disabled
  imports ApiGuards
begin

text \<open>
  Disabling a member through the API: from the administrator's request to the refusal of whatever the
  member asks next.
\<close>

lemma route_disable:
  assumes "hr_method rq = ''POST''" "hr_path rq = [''api'', ''v1'', ''admin'', ''users'', i, ''disable'']"
  shows "route_request rq = (if i = [] then No_path else Routed (Admin_route User_disable) [i])"
  using assms
  by (simp add: route_request_def all_routes_def auth_routes_def member_routes_def admin_user_routes_def
      admin_node_routes_def admin_job_routes_def admin_other_routes_def)

lemma refusals_status: "r \<in> set refusals \<Longrightarrow> rp_status r \<noteq> 200"
  by (auto simp: refusals_def reply_with_def handle_validation_error_def internal_error_def)

lemma current_admin_Inr:
  assumes "get_current_admin cx rq s = (Inr a, s1)"
  shows "asker cx rq s = Some a" "usr_role a = Admin" "users s1 = users s"
proof -
  have u: "get_current_user cx rq s = (Inr a, s1)" and "usr_role a = Admin"
    using assms by (auto simp: get_current_admin_def split: prod.splits sum.splits if_splits)
  show "usr_role a = Admin" by fact
  show "asker cx rq s = Some a"
    using u current_user_asker(1) [of cx rq s] by (cases "asker cx rq s") simp_all
  show "users s1 = users s"
    using u current_user_asker(2) [of s cx rq] by (simp add: kept_def)
qed

lemma current_admin_Inl:
  assumes "get_current_admin cx rq s = (Inl e, s1)"
  shows "respond (Inl (Raised e)) \<in> set refusals"
proof (cases "\<exists>u. asker cx rq s = Some u \<and> usr_role u = Admin")
  case True
  then obtain u where u: "asker cx rq s = Some u" "usr_role u = Admin" by blast
  then obtain s2 where "get_current_user cx rq s = (Inr u, s2)"
    using current_user_asker(1) [of cx rq s] by simp
  then show ?thesis using assms u(2) by (simp add: get_current_admin_def)
next
  case False
  then show ?thesis using current_admin_asker(2) [of cx rq s] assms by auto
qed

lemma set_active_disables:
  assumes "set_active a i False s = (Inr u, t)" "users_ok s"
  shows "usr_id a \<noteq> i" "map_option usr_is_active (get_user i t) = Some False"
  using assms
  by (auto simp: set_active_def user_get_def Let_def dest: users_ok_get split: option.splits if_splits)

lemma set_active_error: "set_active a i b s = (Inl e, t) \<Longrightarrow> rp_status (respond (Inl (Raised e))) \<noteq> 200"
  by (auto simp: set_active_def user_get_def not_found_def handle_app_error_def reply_with_def Let_def
      split: option.splits if_splits)

lemma inactive_not_asker:
  assumes "map_option usr_is_active (get_user i t) = Some False" "session_token cx rq = Some token"
    "hash_session_token (cx_crypto cx) token = Inr h"
    "get_session_by_token_hash h t = Some x" "ses_user_id x = i"
  shows "asker cx rq t = None"
  using assms by (auto simp: asker_def session_user_def)

lemma serve_disable:
  assumes "hr_method rq = ''POST''" "hr_path rq = [''api'', ''v1'', ''admin'', ''users'', i, ''disable'']"
    "serve cx rq s = (r, t)" "rp_status r = 200"
  shows "\<exists>a u s1. get_current_admin cx rq s = (Inr a, s1) \<and> set_active a i False s1 = (Inr u, t)"
proof -
  have none: "csrf_protect (cx_settings cx) rq = None"
    using assms(3,4) by (auto simp: serve_def csrf_protect_def reply_with_def Let_def split: if_splits)
  have i: "i \<noteq> []"
    using assms(3,4) none route_disable [OF assms(1,2)] by (auto simp: serve_def reply_with_def)
  obtain q s1 where q: "get_current_admin cx rq s = (q, s1)" by fastforce
  have run: "run_route cx (Admin_route User_disable) [i] rq s =
      (case q of Inl e \<Rightarrow> (Inl (Raised e), s1) | Inr a \<Rightarrow> disable_user cx a i s1)"
    by (cases q) (simp_all add: run_route_def reads_body_def q)
  have r: "r = respond (fst (run_route cx (Admin_route User_disable) [i] rq s))"
    "t = snd (run_route cx (Admin_route User_disable) [i] rq s)"
    using assms(3) none route_disable [OF assms(1,2)] i by (auto simp: serve_def split_beta)
  show ?thesis
  proof (cases q)
    case (Inl e)
    then have "r \<in> set refusals" using r(1) run q current_admin_Inl by simp
    then show ?thesis using refusals_status assms(4) by blast
  next
    case (Inr a)
    obtain y where y: "set_active a i False s1 = (y, t)"
      using r(2) run Inr by (cases "set_active a i False s1") (simp add: disable_user_def)
    have "\<exists>u. y = Inr u"
      using r(1) run Inr y assms(4) set_active_error [of a i False s1]
      by (cases y) (simp_all add: disable_user_def answer_def)
    then show ?thesis using q Inr y by blast
  qed
qed

text \<open>C15: DISABLED MEMBER OUT. When the API answers 200 to the request to disable a member, it came from an
  active administrator with a running session, who is another user, and the member is inactive. As
  long as a member is, whatever a session of that member asks for, but the health check, login and
  logout, is refused and changes no stored data.\<close>

theorem disabled_member_out:
  assumes "users_ok s" "hr_method rq = ''POST''"
    "hr_path rq = [''api'', ''v1'', ''admin'', ''users'', i, ''disable'']"
    "serve cx rq s = (r, t)" "rp_status r = 200"
  shows "(\<exists>a. asker cx rq s = Some a \<and> usr_role a = Admin \<and> usr_is_active a \<and> usr_id a \<noteq> i) \<and>
    map_option usr_is_active (get_user i t) = Some False \<and>
    (\<forall>t2 rq2 token h x. map_option usr_is_active (get_user i t2) = Some False \<and>
       session_token cx rq2 = Some token \<and> hash_session_token (cx_crypto cx) token = Inr h \<and>
       get_session_by_token_hash h t2 = Some x \<and> ses_user_id x = i \<and> hr_path rq2 \<notin> set open_paths \<longrightarrow>
       fst (serve cx rq2 t2) \<in> set refusals \<and> kept t2 (snd (serve cx rq2 t2)))"
proof -
  obtain a u s1 where a: "get_current_admin cx rq s = (Inr a, s1)" "set_active a i False s1 = (Inr u, t)"
    using serve_disable [OF assms(2-5)] by blast
  note admin = current_admin_Inr [OF a(1)]
  have "users_ok s1" using assms(1) admin(3) by (simp add: users_ok_def)
  note off = set_active_disables [OF a(2) this]
  have "usr_is_active a"
    using admin(1) by (auto simp: asker_def session_user_def split: option.splits sum.splits if_splits)
  moreover have "fst (serve cx rq2 t2) \<in> set refusals \<and> kept t2 (snd (serve cx rq2 t2))"
    if "map_option usr_is_active (get_user i t2) = Some False" "session_token cx rq2 = Some token" "hash_session_token (cx_crypto cx) token = Inr h"
      "get_session_by_token_hash h t2 = Some x" "ses_user_id x = i" "hr_path rq2 \<notin> set open_paths"
    for t2 rq2 token h x
    using inactive_not_asker [OF that(1-5)] that(6) by (intro request_refused) blast
  ultimately show ?thesis using admin off by blast
qed

text \<open>The administrator and \<open>bob\<close> have logged in; the administrator disables \<open>bob\<close>, whose cookie is \<open>r1\<close>.\<close>

definition both_in :: "unit app" where
  "both_in =
     (let login_of = (\<lambda>l s. snd (serve demo_env (demo_request ''POST'' [''auth'', ''login''] []
            (Json_body (JObj [(''login'', JStr l), (''password'', JStr ''pw'')]))) s)) in
      login_of ''bob'' (login_of ''root'' (demo_app ())))"

definition disable_bob :: request where
  "disable_bob =
     demo_request ''POST'' [''admin'', ''users'', ''m'', ''disable''] [(''vca_session'', ''r0'')] No_body"

lemma disable_bob_served:
  "rp_status (fst (serve demo_env disable_bob both_in)) = 200"
  "map_option ses_user_id (get_session_by_token_hash ''hr1'' (snd (serve demo_env disable_bob both_in)))
     = Some ''m''"
  "users both_in = users demo_storage"
  by code_simp+

theorem disabled_member_out_witness:
  "fst (serve demo_env (demo_request ''GET'' [''devices''] [(''vca_session'', ''r1'')] No_body)
     (snd (serve demo_env disable_bob both_in))) \<in> set refusals"
proof -
  have ok: "users_ok both_in" using demo_users_ok(1) disable_bob_served(3) by (simp add: users_ok_def)
  have rq: "hr_method disable_bob = ''POST''"
    "hr_path disable_bob = [''api'', ''v1'', ''admin'', ''users'', ''m'', ''disable'']"
    by (simp_all add: disable_bob_def demo_request_def)
  let ?rq = "demo_request ''GET'' [''devices''] [(''vca_session'', ''r1'')] No_body"
  have me: "session_token demo_env ?rq = Some ''r1''" "hash_session_token (cx_crypto demo_env) ''r1'' = Inr ''hr1''"
    "hr_path ?rq \<notin> set open_paths"
    by code_simp+
  obtain x where x: "get_session_by_token_hash ''hr1'' (snd (serve demo_env disable_bob both_in)) = Some x"
    "ses_user_id x = ''m''"
    using disable_bob_served(2) by auto
  show ?thesis
    using disabled_member_out [OF ok rq surjective_pairing disable_bob_served(1)] me x by blast
qed

end
