(* ===== verification/Startup.thy ===== *)
theory Startup
  imports Api FakeAgent
begin

text \<open>
  The assembly of the program in \<open>app/main.py\<close>: \<open>build_container\<close>, which chooses the storage, the box of
  the secrets, the transport to the agents and the runner of the installations by the settings, and the
  start of \<open>lifespan\<close>. What the objects are made from outside the program (the Fernet library, the HTTP
  client, the processes) is the record \<open>outside\<close>; the state of the agents is a pair of that of the fake
  transport, which the process keeps itself, and that of the world.
\<close>

section \<open>The container\<close>

record 'w outside =
  out_crypto :: crypto
  out_fernet :: "string \<Rightarrow> (string \<Rightarrow> string) \<times> (string \<Rightarrow> string option)"
  out_send :: "int \<Rightarrow> wire_request \<Rightarrow> 'w \<Rightarrow> (string + http_answer) \<times> 'w"
  out_script :: string
  out_process :: "'w \<Rightarrow> script_world \<times> 'w"

type_synonym 'w agents = "fake_state \<times> 'w"

text \<open>\<open>ct_database\<close> is the address of the database, \<open>None\<close> standing for \<open>InMemoryStorage\<close>.\<close>

record 'w container =
  ct_settings :: settings
  ct_database :: "string option"
  ct_box :: secret_box
  ct_agent :: "'w agents agent_client"
  ct_worker :: "'w agents worker"

definition choose_box :: "config_env \<Rightarrow> 'w outside \<Rightarrow> settings \<Rightarrow> config_error + secret_box" where
  "choose_box ce w st =
     (case or_none (encryption_key st) of
        None \<Rightarrow> Inr plaintext_box
      | Some key \<Rightarrow>
          if fernet_key_ok ce key then Inr (case out_fernet w key of (enc, dec) \<Rightarrow> fernet_box enc dec)
          else Inl Bad_encryption_key)"

text \<open>Each transport acts on its own part of the state.\<close>

definition on_fake :: "(fake_state \<Rightarrow> 'a \<times> fake_state) \<Rightarrow> 'w agents \<Rightarrow> 'a \<times> 'w agents" where
  "on_fake f x = (let (r, fs) = f (fst x) in (r, (fs, snd x)))"

definition on_world :: "('w \<Rightarrow> 'a \<times> 'w) \<Rightarrow> 'w agents \<Rightarrow> 'a \<times> 'w agents" where
  "on_world f x = (let (r, w) = f (snd x) in (r, (fst x, w)))"

definition choose_transport :: "'w outside \<Rightarrow> settings \<Rightarrow> 'w agents transport" where
  "choose_transport w st =
     (if agent_mode st = ''http'' then (\<lambda>rq. on_world (httpx_transport (out_send w) rq))
      else (\<lambda>rq. on_fake (fake_transport rq)))"

definition choose_runner :: "'w outside \<Rightarrow> settings \<Rightarrow> 'w agents runner" where
  "choose_runner w st =
     (if setup_runner st = ''deploy_script'' then deploy_runner st (out_script w) (on_world (out_process w))
      else stub_runner)"

definition build_container :: "config_env \<Rightarrow> 'w outside \<Rightarrow> settings \<Rightarrow> config_error + 'w container" where
  "build_container ce w st0 =
     sum_bind (validate ce st0) (\<lambda>st.
     sum_bind (choose_box ce w st) (\<lambda>sb.
       let ac = \<lparr>ac_crypto = out_crypto w, ac_box = sb, ac_transport = choose_transport w st\<rparr> in
       Inr \<lparr>ct_settings = st, ct_database = or_none (database_url st), ct_box = sb, ct_agent = ac,
            ct_worker = \<lparr>wk_settings = st, wk_agent = ac, wk_box = sb, wk_runner = choose_runner w st\<rparr>\<rparr>))"

text \<open>\<open>lifespan\<close> up to its \<open>yield\<close>: the storage, and whether the worker has been started.\<close>

definition lifespan_start :: "'w outside \<Rightarrow> 'w container \<Rightarrow> 'w agents app \<Rightarrow> 'w agents app \<times> bool" where
  "lifespan_start w c s =
     (bootstrap_first_admin (out_crypto w) (ct_settings c) s, setup_worker_enabled (ct_settings c))"

text \<open>
  \<open>_database_url\<close> of the migrations: \<open>Inl (Some e)\<close> is the error of \<open>from_env\<close>, \<open>Inl None\<close> the
  \<open>RuntimeError\<close>.
\<close>

definition migration_url :: "config_env \<Rightarrow> (string, string) dict \<Rightarrow> config_error option + string" where
  "migration_url ce env =
     (case from_env ce env of
        Inl e \<Rightarrow> Inl (Some e)
      | Inr st \<Rightarrow> (case or_none (database_url st) of None \<Rightarrow> Inl None | Some url \<Rightarrow> Inr url))"

text \<open>What the routes get to see of the container.\<close>

definition container_env ::
  "'w outside \<Rightarrow> validator \<Rightarrow> (time \<Rightarrow> string) \<Rightarrow> ('w agents app \<Rightarrow> 'w agents app) \<Rightarrow> 'w container
    \<Rightarrow> 'w agents env" where
  "container_env w vd stamp meanwhile c =
     \<lparr>cx_settings = ct_settings c, cx_crypto = out_crypto w, cx_box = ct_box c, cx_agent = ct_agent c,
      cx_validate = vd, cx_stamp = stamp, cx_meanwhile = meanwhile\<rparr>"

section \<open>Production\<close>

text \<open>The migrations run on the database the program then uses.\<close>

lemma migrations_same_database:
  assumes "from_env ce env = Inr st" "build_container ce w st = Inr c"
    "\<forall>v p net. ip_network ce v = Some (p, net) \<longrightarrow> ip_network ce net = Some (p, net)"
  shows "migration_url ce env = (case ct_database c of None \<Rightarrow> Inl None | Some url \<Rightarrow> Inr url)"
proof -
  obtain st0 where "validate ce st0 = Inr st" using from_env_Inr [OF assms(1)] by blast
  then have "validate ce st = Inr st" by (rule validate_idem) (use assms(3) in blast)
  then show ?thesis
    using assms(1,2)
    by (cases "choose_box ce w st")
      (auto simp: migration_url_def build_container_def Let_def split: option.split)
qed

lemma fernet_writes: "starts_with fernet_prefix (encrypt (fernet_box enc dec) v)"
  by (simp add: fernet_box_def starts_with_append)

lemma choose_box_fernet:
  assumes "encryption_key st = Some key" "key \<noteq> []" "fernet_key_ok ce key"
  shows "choose_box ce w st = Inr (fernet_box (fst (out_fernet w key)) (snd (out_fernet w key)))"
  using assms by (simp add: choose_box_def or_none_def py_bool_str_def split_beta)

lemma http_leaves_fake:
  "agent_mode st = ''http'' \<Longrightarrow>
     choose_transport w st rq (fs, x) =
       (let (r, x1) = httpx_transport (out_send w) rq x in (r, (fs, x1)))"
  by (simp add: choose_transport_def on_world_def)

text \<open>The script of the installation in one phase, in the world; the fake agents are left alone.\<close>

definition script_phase ::
  "'w outside \<Rightarrow> settings \<Rightarrow> string \<Rightarrow> setup_job \<Rightarrow> agent_credentials \<Rightarrow> string \<Rightarrow> 'w agents
    \<Rightarrow> unit res \<times> 'w agents" where
  "script_phase w st phase j k p a =
     (let (sw, x1) = out_process w (snd a)
      in (fst (run_script st (out_script w) sw j k p phase), (fst a, x1)))"

lemma deploy_runs_scripts:
  assumes "setup_runner st = ''deploy_script''"
  shows "rn_check_ssh (choose_runner w st) = script_phase w st ''preflight''"
    and "rn_install_agent (choose_runner w st) = script_phase w st ''install''"
    and "rn_install_vpn (choose_runner w st) = script_phase w st ''inspect''"
  using assms
  by (auto simp: choose_runner_def deploy_runner_def on_world_def script_phase_def split_beta intro!: ext)

lemma bootstrap_has_admin: "has_admin (bootstrap_first_admin cr st s)"
proof (cases "has_admin s")
  case True
  then show ?thesis by (simp add: bootstrap_first_admin_def)
next
  case False
  then obtain u where "users (bootstrap_first_admin cr st s) = dict_set (usr_id u) u (users s)" and u: "usr_role u = Admin"
    by (rule bootstrap_new_admin)
  from this(1) have "map_of (users (bootstrap_first_admin cr st s)) (usr_id u) = Some u" by simp
  then have "(usr_id u, u) \<in> set (users (bootstrap_first_admin cr st s))" by (rule map_of_SomeD)
  then show ?thesis using u unfolding has_admin_users by force
qed


definition demo_outside :: "unit outside" where
  "demo_outside =
     \<lparr>out_crypto = demo_crypto, out_fernet = (\<lambda>k. (\<lambda>v. v, Some)), out_send = (\<lambda>n rq x. (Inl [], x)),
      out_script = ''x'',
      out_process = (\<lambda>x. (\<lparr>sw_environ = [], sw_files = [], sw_mkstemp = Inr [], sw_write_error = None,
        sw_is_file = False, sw_spawn_error = None, sw_process = (\<lambda>l. Exited 0), sw_left = ln_files,
        sw_ends_on_term = (\<lambda>l. True), sw_remove_error = None\<rparr>, x))\<rparr>"


end
