(* ===== verification/Sound.thy ===== *)
theory Sound
  imports ApiGuards WorkerRuns
begin

text \<open>
  The invariant of the whole program: the well-formedness of every collection, and that whatever names a
  member or a node names one that is there. Every operation of the services keeps it and takes no
  member, node or identifier away.
\<close>

section \<open>The invariant\<close>

definition devices_refer :: "'t app \<Rightarrow> bool" where
  "devices_refer s \<longleftrightarrow> (\<forall>i d. get_device i s = Some d \<longrightarrow>
     get_user (dev_user_id d) s \<noteq> None \<and> get_server_node (dev_server_node_id d) s \<noteq> None)"

definition sessions_refer :: "'t app \<Rightarrow> bool" where
  "sessions_refer s \<longleftrightarrow> (\<forall>h x. get_session_by_token_hash h s = Some x \<longrightarrow> get_user (ses_user_id x) s \<noteq> None)"

definition job_refers :: "'t app \<Rightarrow> setup_job \<Rightarrow> bool" where
  "job_refers s j \<longleftrightarrow> get_user (job_created_by_user_id j) s \<noteq> None \<and>
     (\<forall>n. job_server_node_id j = Some n \<longrightarrow> get_server_node n s \<noteq> None)"

definition jobs_refer :: "'t app \<Rightarrow> bool" where
  "jobs_refer s \<longleftrightarrow> (\<forall>i j. get_setup_job i s = Some j \<longrightarrow> job_refers s j)"

definition contributions_refer :: "'t app \<Rightarrow> bool" where
  "contributions_refer s \<longleftrightarrow> (\<forall>c \<in> set (contributions s).
     get_user (con_user_id c) s \<noteq> None \<and> get_user (con_recorded_by_user_id c) s \<noteq> None)"

definition nodes_filed :: "'t app \<Rightarrow> bool" where
  "nodes_filed s \<longleftrightarrow> (\<forall>(k, n) \<in> set (server_nodes s). node_id n = k)"

definition sound :: "'t app \<Rightarrow> bool" where
  "sound s \<longleftrightarrow> users_ok s \<and> user_ids_ok s \<and> devices_ok s \<and> jobs_ok s \<and> nodes_filed s \<and> audit_clean s \<and>
     devices_refer s \<and> sessions_refer s \<and> jobs_refer s \<and> contributions_refer s"

text \<open>Nothing that is named is taken away.\<close>

definition grows :: "'t app \<Rightarrow> 't app \<Rightarrow> bool" where
  "grows s s' \<longleftrightarrow> uuid_at s' = uuid_at s \<and> uuid_n s \<le> uuid_n s' \<and>
     (\<forall>i. get_user i s \<noteq> None \<longrightarrow> get_user i s' \<noteq> None) \<and>
     (\<forall>i. get_server_node i s \<noteq> None \<longrightarrow> get_server_node i s' \<noteq> None) \<and>
     (\<forall>i. get_device i s \<noteq> None \<longrightarrow> get_device i s' \<noteq> None)"

definition good :: "'t app \<Rightarrow> 't app \<Rightarrow> bool" where
  "good s s' \<longleftrightarrow> sound s' \<and> grows s s'"

lemma grows_refl [simp]: "grows s s"
  by (simp add: grows_def)

lemma good_refl: "sound s \<Longrightarrow> good s s"
  by (simp add: good_def)

lemma good_trans: "good s s1 \<Longrightarrow> good s1 s2 \<Longrightarrow> good s s2"
  by (auto simp: good_def grows_def)

lemma good_sound: "good s s' \<Longrightarrow> sound s'"
  by (simp add: good_def)

lemma audit_clean_simps [simp]:
  "audit_clean (tick s) = audit_clean s" "audit_clean (use_uuid s) = audit_clean s"
  "audit_clean (use_random s) = audit_clean s" "audit_clean (save_user u s) = audit_clean s"
  "audit_clean (save_session x s) = audit_clean s" "audit_clean (add_session x s) = audit_clean s"
  "audit_clean (revoke_sessions_for_user i t s) = audit_clean s"
  "audit_clean (save_server_node n s) = audit_clean s" "audit_clean (add_server_node n s) = audit_clean s"
  "audit_clean (save_device d s) = audit_clean s" "audit_clean (add_device d s) = audit_clean s"
  "audit_clean (save_issue iss s) = audit_clean s" "audit_clean (set_issue iss s) = audit_clean s"
  "audit_clean (drop_issue i s) = audit_clean s" "audit_clean (add_contribution c s) = audit_clean s"
  "audit_clean (save_support_settings z s) = audit_clean s" "audit_clean (add_user u s) = audit_clean s"
  "audit_clean (save_setup_job j s) = audit_clean s" "audit_clean (add_setup_job j s) = audit_clean s"
  "audit_clean (add_setup_event e s) = audit_clean s"
  "audit_clean (record_login_failure k t s) = audit_clean s"
  "audit_clean (clear_login_failures k s) = audit_clean s"
  "audit_clean (s\<lparr>login_failures := fl\<rparr>) = audit_clean s"
  by (simp_all add: audit_clean_def)

lemma audit_clean_app [simp]:
  "audit_clean (s\<lparr>agent_st := t\<rparr>) = audit_clean s" "audit_clean (s\<lparr>ssh_secrets := z\<rparr>) = audit_clean s"
  by (simp_all add: audit_clean_def)

text \<open>What is left alone needs no look.\<close>

lemma goodI:
  assumes s: "sound s" and g: "grows s s'" and audit: "audit_clean s'"
    and users: "users s' = users s \<or> users_ok s' \<and> user_ids_ok s'"
    and nodes: "server_nodes s' = server_nodes s \<or> nodes_filed s'"
    and devices: "devices s' = devices s \<or> devices_ok s' \<and> devices_refer s'"
    and jobs: "jobs_same s s' \<or> jobs_ok s' \<and> jobs_refer s'"
    and sessions: "sessions s' = sessions s \<or> sessions_refer s'"
    and contributions: "contributions s' = contributions s \<or> contributions_refer s'"
  shows "good s s'"
proof -
  have "users_ok s'" using users users_ok_frame [of s' s] s by (auto simp: sound_def)
  moreover have "user_ids_ok s'" using users s g by (auto simp: sound_def user_ids_ok_def grows_def)
  moreover have "devices_ok s'" using devices s g devices_ok_mono by (auto simp: sound_def grows_def)
  moreover have "devices_refer s'"
    using devices s g by (fastforce simp: sound_def devices_refer_def grows_def get_device_def)
  moreover have "jobs_ok s'" using jobs s jobs_ok_step [OF _ js_else] by (auto simp: sound_def)
  moreover have "jobs_refer s'"
    using jobs s g by (fastforce simp: sound_def jobs_refer_def job_refers_def grows_def get_setup_job_def jobs_same_def)
  moreover have "nodes_filed s'" using nodes s by (auto simp: sound_def nodes_filed_def)
  moreover have "sessions_refer s'"
    using sessions s g by (fastforce simp: sound_def sessions_refer_def grows_def get_session_by_token_hash_def)
  moreover have "contributions_refer s'"
    using contributions s g by (fastforce simp: sound_def contributions_refer_def grows_def)
  ultimately show ?thesis using audit g by (simp add: good_def sound_def)
qed

section \<open>Parts of operations\<close>

text \<open>What keeps the invariant after whatever has kept it so far.\<close>

lemma jobs_sameI:
  "setup_jobs s' = setup_jobs s \<Longrightarrow> setup_events s' = setup_events s \<Longrightarrow> ssh_secrets s' = ssh_secrets s \<Longrightarrow>
     uuid_at s' = uuid_at s \<Longrightarrow> uuid_n s \<le> uuid_n s' \<Longrightarrow> jobs_same s s'"
  by (simp add: jobs_same_def)

lemma good_then: "good s t \<Longrightarrow> (sound t \<Longrightarrow> good t u) \<Longrightarrow> good s u"
  by (rule good_trans, assumption) (simp add: good_sound)

lemma good_aside:
  assumes "good s t" "users u = users t" "server_nodes u = server_nodes t" "devices u = devices t"
    "jobs_same t u" "sessions u = sessions t" "contributions u = contributions t"
    "audit_clean u = audit_clean t" "uuid_at u = uuid_at t" "uuid_n t \<le> uuid_n u"
  shows "good s u"
proof (rule good_then [OF assms(1)])
  assume t: "sound t"
  show "good t u"
    by (rule goodI [OF t])
      (use t assms in \<open>simp_all add: sound_def grows_def get_user_def get_server_node_def get_device_def\<close>)
qed

lemma good_simps [simp]:
  assumes "good s t"
  shows "good s (tick t)" "good s (use_uuid t)" "good s (use_random t)" "good s (audit a x t)"
    "good s (save_issue iss t)" "good s (set_issue iss t)" "good s (drop_issue i t)"
    "good s (record_login_failure k tm t)" "good s (clear_login_failures k t)"
    "good s (t\<lparr>login_failures := fl\<rparr>)" "good s (save_support_settings z t)" "good s (t\<lparr>agent_st := y\<rparr>)"
  by (rule good_aside [OF assms]; simp add: jobs_same_def; fail)+

lemma good_session:
  assumes "good s t" "get_user (ses_user_id x) t \<noteq> None"
  shows "good s (save_session x t)"
proof (rule good_then [OF assms(1)])
  assume t: "sound t"
  have "sessions_refer (save_session x t)"
    using t assms(2) by (auto simp: sessions_refer_def sound_def)
  then show "good t (save_session x t)"
    using t by (intro goodI) (auto simp: sound_def grows_def intro!: jobs_sameI)
qed

lemma good_revoke:
  assumes "good s t"
  shows "good s (revoke_sessions_for_user i tm t)"
proof (rule good_then [OF assms])
  assume t: "sound t"
  then have "sessions_refer (revoke_sessions_for_user i tm t)"
    by (auto simp: sessions_refer_def sound_def revoked_sessions revoke_session_of_def)
  then show "good t (revoke_sessions_for_user i tm t)"
    using t by (intro goodI) (auto simp: sound_def grows_def intro!: jobs_sameI)
qed

lemma nodes_filed_save: "nodes_filed s \<Longrightarrow> nodes_filed (save_server_node n s)"
  by (auto simp: nodes_filed_def save_server_node_def dest!: in_dict_set)

lemma nodes_filed_get: "nodes_filed s \<Longrightarrow> get_server_node i s = Some n \<Longrightarrow> node_id n = i"
  by (auto simp: nodes_filed_def get_server_node_def dest: map_of_SomeD)

lemma good_node: "good s t \<Longrightarrow> good s (save_server_node n t)"
proof (erule good_then)
  assume t: "sound t"
  then show "good t (save_server_node n t)"
    by (intro goodI) (auto simp: sound_def grows_def nodes_filed_save)
qed

lemma good_contribution:
  assumes "good s t" "get_user (con_user_id c) t \<noteq> None" "get_user (con_recorded_by_user_id c) t \<noteq> None"
  shows "good s (add_contribution c t)"
proof (rule good_then [OF assms(1)])
  assume t: "sound t"
  then have "contributions_refer (add_contribution c t)"
    using assms(2,3) by (auto simp: contributions_refer_def sound_def add_contribution_def get_user_def)
  then show "good t (add_contribution c t)"
    using t by (intro goodI) (auto simp: sound_def grows_def intro!: jobs_sameI)
qed

lemma good_device:
  assumes "good s t" "get_device (dev_id d) t \<noteq> None"
    "get_user (dev_user_id d) t \<noteq> None" "get_server_node (dev_server_node_id d) t \<noteq> None"
  shows "good s (save_device d t)"
proof (rule good_then [OF assms(1)])
  assume t: "sound t"
  obtain e where "get_device (dev_id d) t = Some e" using assms(2) by blast
  then have "devices_ok (save_device d t)"
    by (rule devices_ok_change [of t d e, rotated]) (use t in \<open>simp_all add: sound_def\<close>)
  moreover have "devices_refer (save_device d t)"
    using t assms by (auto simp: devices_refer_def sound_def)
  ultimately show "good t (save_device d t)"
    using t by (intro goodI) (auto simp: sound_def grows_def intro!: jobs_sameI)
qed

lemma good_user:
  assumes "good s t" "get_user (usr_id u) t = Some v" "usr_login u = usr_login v"
  shows "good s (save_user u t)"
proof (rule good_then [OF assms(1)])
  assume t: "sound t"
  have "users_ok (save_user u t)"
    by (rule users_ok_change [OF _ assms(2,3)]) (use t in \<open>simp add: sound_def\<close>)
  moreover have "user_ids_ok (save_user u t)"
    using t assms(2) users_keys_change [of t u] by (auto simp: user_ids_ok_def sound_def get_user_def)
  ultimately show "good t (save_user u t)"
    using t by (intro goodI) (auto simp: sound_def grows_def intro!: jobs_sameI)
qed

section \<open>The services\<close>

lemma resolve_good:
  assumes "sound s" "resolve_session cr token s = (r, s')"
  shows "good s s'" "r = Inr (Some u) \<Longrightarrow> get_user (usr_id u) s' = Some u"
proof -
  have "good s s' \<and> (r = Inr (Some u) \<longrightarrow> get_user (usr_id u) s' = Some u)"
  proof (cases "hash_session_token cr token")
    case (Inl e)
    then show ?thesis using assms good_refl by (auto simp: resolve_session_eq)
  next
    case (Inr h)
    show ?thesis
    proof (cases "session_user (now s) h s")
      case None
      then show ?thesis using Inr assms(2) good_refl [OF assms(1)] by (auto simp: resolve_session_eq)
    next
      case (Some v)
      then obtain x where x: "get_session_by_token_hash h s = Some x" "get_user (ses_user_id x) s = Some v"
        by (auto simp: session_user_def split: option.splits if_splits)
      then have "usr_id v = ses_user_id x" using assms(1) users_ok_get by (auto simp: sound_def)
      moreover have "good s (save_session (x\<lparr>ses_last_seen_at := now s\<rparr>) (tick s))"
        by (rule good_session) (use x assms(1) in \<open>simp_all add: good_refl\<close>)
      ultimately show ?thesis using Inr Some x assms(2) by (auto simp: resolve_session_eq)
    qed
  qed
  then show "good s s'" "r = Inr (Some u) \<Longrightarrow> get_user (usr_id u) s' = Some u" by auto
qed

lemma login_failed_good: "good s t \<Longrightarrow> good s (login_failed l ip ua tm t)"
  by (simp add: login_failed_def Let_def split: option.split)

lemma login_good:
  assumes "sound s" "login cr st lg pw ip ua s = (r, s')"
  shows "good s s'"
proof (cases r)
  case (Inr ut)
  obtain u token where ut: "ut = (u, token)" by fastforce
  obtain h d x where *: "check_credentials cr (normalize_login lg) pw s = Some u"
    "x = new_session st u h ip ua (now s) (new_uuid s)"
    "s' = audit ''login_success''
       (no_args\<lparr>arg_actor := Some (usr_id u), arg_ip := ip, arg_user_agent := ua\<rparr>)
       (add_session x (use_uuid (use_random (clear_login_failures (login_key (normalize_login lg))
          (tick s\<lparr>login_failures := d\<rparr>)))))"
    using assms(2) unfolding Inr ut by (rule login_Inr)
  have "get_user (usr_id u) s = Some u"
    using *(1) assms(1) get_user_by_login_Some [of s "normalize_login lg" u]
    by (auto simp: check_credentials_Some sound_def)
  then have "good s (save_session x (use_uuid (use_random (clear_login_failures (login_key (normalize_login lg))
          (tick s\<lparr>login_failures := d\<rparr>)))))"
    using * good_refl [OF assms(1)] by (intro good_session) (simp_all add: new_session_def)
  then show ?thesis unfolding *(3) add_is_save by simp
next
  case (Inl e)
  let ?l = "normalize_login lg"
  obtain q s1 where q: "enforce_rate_limit st ?l ip (now s) (tick s) = (q, s1)" by fastforce
  then obtain d where d: "s1 = tick s\<lparr>login_failures := d\<rparr>" using enforce_rate_limit_frame by blast
  have "good s s1" using good_refl [OF assms(1)] by (simp add: d)
  then show ?thesis
    using assms(2) q Inl login_failed_good
    by (auto simp: login_def Let_def generate_session_token_def split: sum.splits option.splits)
qed

lemma logout_good:
  assumes "sound s" "logout cr token ip ua s = (r, s')"
  shows "good s s'"
proof (cases "s' = s")
  case True
  then show ?thesis using assms(1) good_refl by simp
next
  case False
  then obtain h x where x: "get_session_by_token_hash h s = Some x"
    "s' = audit ''logout'' (no_args\<lparr>arg_actor := Some (ses_user_id x), arg_ip := ip, arg_user_agent := ua\<rparr>)
       (save_session (x\<lparr>ses_revoked_at := Some (now s)\<rparr>) (tick s))"
    using assms(2) by (auto simp: logout_def split: sum.splits option.splits if_splits)
  have "get_user (ses_user_id x) s \<noteq> None" using assms(1) x(1) by (auto simp: sound_def sessions_refer_def)
  then have "good s (save_session (x\<lparr>ses_revoked_at := Some (now s)\<rparr>) (tick s))"
    using good_refl [OF assms(1)] by (intro good_session) simp_all
  then show ?thesis using x(2) by simp
qed

lemma user_create_good:
  assumes "sound s"
  shows "good s (snd (user_create cr a x s))"
proof -
  let ?s' = "snd (user_create cr a x s)"
  have "users_ok ?s' \<and> user_ids_ok ?s'"
    using user_call_ok [of s cr "Call_create a x"] assms by (simp add: sound_def)
  moreover have "server_nodes ?s' = server_nodes s \<and> devices ?s' = devices s \<and> jobs_same s ?s' \<and>
      contributions ?s' = contributions s \<and> audit_clean ?s' = audit_clean s \<and> sessions ?s' = sessions s \<and>
      grows s ?s'"
    by (auto simp: user_create_def Let_def split_beta jobs_same_def grows_def add_is_save get_server_node_def
        get_device_def)
  ultimately show ?thesis using assms by (intro goodI) (auto simp: sound_def)
qed

lemma user_update_good:
  assumes "sound s"
  shows "good s (snd (user_update a i p s))"
proof (cases "user_update a i p s")
  case (Pair r s')
  show ?thesis
  proof (cases r)
    case (Inl e)
    then show ?thesis using Pair assms good_refl by (auto simp: user_update_def Let_def split: sum.splits if_splits)
  next
    case (Inr u')
    obtain u u1 ch where *: "get_user i s = Some u" "user_attrs.loop p u [] = Inr (u1, ch)"
      "u' = (if ch = [] then u1 else u1\<lparr>usr_updated_at := now s\<rparr>)"
      "s' = (if ch = [] then s else
         audit ''user_updated''
           (no_args\<lparr>arg_actor := Some (usr_id a), arg_target_type := Some ''user'',
              arg_target_id := Some (usr_id u'),
              arg_metadata := [(''changed'', JList (map JStr ch))]\<rparr>) (save_user u' (tick s)))"
      by (rule user_update_Inr [OF Pair [unfolded Inr]])
    from user_attrs.loop_core [OF *(2)] * have "usr_id u' = usr_id u" "usr_login u' = usr_login u"
      by (auto simp: user_core_def)
    moreover have "usr_id u = i" using users_ok_get *(1) assms by (auto simp: sound_def)
    ultimately have "good s (save_user u' (tick s))"
      using good_refl [OF assms] *(1) by (intro good_user [where v = u]) simp_all
    then show ?thesis using Pair *(4) good_refl [OF assms] by simp
  qed
qed

lemma reset_password_good:
  assumes "sound s"
  shows "good s (snd (reset_password cr a i pw s))"
proof (cases "get_user i s")
  case (Some u)
  then have u: "get_user (usr_id u) s = Some u" using users_ok_get assms by (auto simp: sound_def)
  let ?u = "u\<lparr>usr_password_hash := fst (hash_password cr pw s), usr_updated_at := now s\<rparr>"
  have "good s (save_user ?u (tick (use_random s)))"
    using good_refl [OF assms] u by (intro good_user [where v = u]) simp_all
  then have "good s (revoke_sessions_for_user (usr_id u) t (tick (save_user ?u (tick (use_random s)))))" for t
    by (intro good_revoke) simp
  then show ?thesis using Some by (simp add: reset_password_def user_get_def Let_def split_beta)
qed (simp add: reset_password_def user_get_def good_refl assms)

lemma set_active_good:
  assumes "sound s"
  shows "good s (snd (set_active a i b s))"
proof (cases "get_user i s")
  case (Some u)
  then have u: "get_user (usr_id u) s = Some u" using users_ok_get assms by (auto simp: sound_def)
  let ?s1 = "save_user (u\<lparr>usr_is_active := b, usr_updated_at := now s\<rparr>) (tick s)"
  have "good s ?s1" using good_refl [OF assms] u by (intro good_user [where v = u]) simp_all
  moreover from this have "good s (revoke_sessions_for_user (usr_id u) t (tick ?s1))" for t
    by (intro good_revoke) simp
  ultimately show ?thesis
    using Some good_refl [OF assms] by (cases b) (simp_all add: set_active_def user_get_def Let_def)
qed (simp add: set_active_def user_get_def good_refl assms)

lemma record_contribution_good:
  assumes "sound s" "get_user (usr_id a) s \<noteq> None"
  shows "good s (snd (record_contribution a i x c p m s))"
proof (cases "get_user i s")
  case (Some u)
  then have "get_user (usr_id u) s = Some u" using users_ok_get assms(1) by (auto simp: sound_def)
  then show ?thesis
    using Some assms good_refl [OF assms(1)]
    by (auto simp: record_contribution_def user_get_def Let_def intro!: good_simps(4) good_contribution)
qed (simp add: record_contribution_def user_get_def good_refl assms)

lemma update_settings_good: "sound s \<Longrightarrow> good s (snd (update_settings a p s))"
  using good_refl [of s] by (auto simp: update_settings_def Let_def split: sum.split)

subsection \<open>Nodes\<close>

lemma server_create_good: "sound s \<Longrightarrow> good s (snd (server_create_manual bx a x s))"
  using good_refl [of s] by (auto simp: server_create_manual_def Let_def add_is_save intro!: good_simps(4) good_node)

lemma from_setup_good:
  assumes "sound s" "server_create_from_setup bx j url k sec s = (n, s')"
  shows "good s s'" "get_server_node (node_id n) s' = Some n"
  using assms good_refl [of s]
  by (auto simp: server_create_from_setup_def Let_def add_is_save intro!: good_simps(4) good_node)

lemma server_update_good: "sound s \<Longrightarrow> good s (snd (server_update bx a i p s))"
  using good_refl [of s]
  by (auto simp: server_update_def Let_def intro!: good_simps(4) good_node split: sum.split)

lemma set_disabled_good: "sound s \<Longrightarrow> good s (snd (server_set_disabled a i b s))"
  using good_refl [of s]
  by (auto simp: server_set_disabled_def Let_def intro!: good_simps(4) good_node split: sum.split)

lemma activate_good: "sound s \<Longrightarrow> good s (snd (activate_after_setup i b s))"
  using good_refl [of s]
  by (auto simp: activate_after_setup_def Let_def intro!: good_simps(4) good_node split: sum.split)

lemma agent_call_good: "good s t \<Longrightarrow> good s (snd (agent_call ac n meth path b sg ex t))"
  using agent_call_state [of ac n meth path b sg ex t] by (cases "agent_call ac n meth path b sg ex t") auto

lemma health_finish_good: "good s t \<Longrightarrow> good s (snd (health_finish sh act prev tm r n t))"
  by (auto simp: health_finish_def health_failed_def Let_def good_node
      split: sum.split exn.split app_error.split json.split)

text \<open>What the rest of the program may do while an operation waits.\<close>

definition steady :: "('t app \<Rightarrow> 't app) \<Rightarrow> bool" where
  "steady f \<longleftrightarrow> (\<forall>s. sound s \<longrightarrow> good s (f s))"

lemma steady_good: "steady f \<Longrightarrow> good s t \<Longrightarrow> good s (f t)"
  by (rule good_trans, assumption) (simp add: steady_def good_sound)

lemma health_probe_good:
  assumes "steady f" "steady g" "good s t"
  shows "good s (snd (health_probe ac live f g t))"
proof -
  obtain q t1 where q: "agent_health ac (live t) t = (q, t1)" by fastforce
  then have 1: "good s (f t1)"
    using agent_call_good [OF assms(3)] by (metis agent_health_def assms(1) snd_conv steady_good)
  then have "good s (g (snd (agent_status ac (live (f t1)) (f t1))))"
    unfolding agent_status_def by (intro steady_good [OF assms(2)] agent_call_good)
  then show ?thesis using 1 q by (auto simp: health_probe_def Let_def split_beta split: sum.split)
qed

lemma health_check_good:
  assumes "sound s" "steady f" "steady g"
  shows "good s (snd (health_check ac act i f g s))"
proof (cases "get_server_node i s")
  case (Some n)
  have "good s (snd (health_probe ac (stored_node i n) f g (tick s)))"
    using good_refl [OF assms(1)] by (intro health_probe_good [OF assms(2,3)]) simp
  then show ?thesis using Some by (simp add: health_check_def server_get_def split_beta Let_def health_finish_good)
qed (simp add: health_check_def server_get_def good_refl assms)

lemma agent_peers_good: "sound s \<Longrightarrow> good s (snd (server_agent_peers ac i s))"
  using good_refl [of s]
  by (auto simp: server_agent_peers_def agent_peers_def agent_call_good split: sum.split)

subsection \<open>Installations\<close>

definition jobs_aside :: "'t app \<Rightarrow> 't app \<Rightarrow> bool" where
  "jobs_aside s s' \<longleftrightarrow> users s' = users s \<and> server_nodes s' = server_nodes s \<and> devices s' = devices s \<and>
     sessions s' = sessions s \<and> contributions s' = contributions s \<and> audit_clean s' = audit_clean s \<and>
     uuid_at s' = uuid_at s \<and> uuid_n s \<le> uuid_n s'"

lemma add_event_aside [simp]:
  "users (add_event j l st m s) = users s" "devices (add_event j l st m s) = devices s"
  "sessions (add_event j l st m s) = sessions s" "contributions (add_event j l st m s) = contributions s"
  "audit_clean (add_event j l st m s) = audit_clean s"
  by (simp_all add: add_event_def)

lemma forget_aside [simp]:
  "users (forget_ephemeral_ssh_secret i s) = users s" "devices (forget_ephemeral_ssh_secret i s) = devices s"
  "sessions (forget_ephemeral_ssh_secret i s) = sessions s"
  "contributions (forget_ephemeral_ssh_secret i s) = contributions s"
  "audit_clean (forget_ephemeral_ssh_secret i s) = audit_clean s"
  by (simp_all add: forget_ephemeral_ssh_secret_def)

text \<open>A step of the jobs keeps the invariant if the job it writes refers to what is there.\<close>

definition jobs_written :: "'t app \<Rightarrow> 't app \<Rightarrow> bool" where
  "jobs_written s s' \<longleftrightarrow> setup_jobs s' = setup_jobs s \<or>
     (\<exists>j. setup_jobs s' = setup_jobs (save_setup_job j s) \<and> job_refers s j)"

lemma job_step_good:
  assumes "sound s" "job_step l s s'" "jobs_aside s s'" "jobs_written s s'"
  shows "good s s'"
proof (rule goodI [OF assms(1)])
  show "grows s s'" using assms(3) by (simp add: grows_def jobs_aside_def get_user_def get_server_node_def get_device_def)
  have refers: "job_refers s' j = job_refers s j" for j
    using assms(3) by (simp add: job_refers_def jobs_aside_def get_user_def get_server_node_def)
  have old: "get_setup_job i s = Some j \<Longrightarrow> job_refers s j" for i j
    using assms(1) by (auto simp: sound_def jobs_refer_def)
  have "get_setup_job i s' = Some j \<Longrightarrow> job_refers s j" for i j
    using assms(4)
  proof (unfold jobs_written_def, elim disjE exE conjE)
    fix k assume i: "get_setup_job i s' = Some j" and k: "setup_jobs s' = setup_jobs (save_setup_job k s)" "job_refers s k"
    then show "job_refers s j" using old get_job_cong [OF k(1), of i] by (auto split: if_splits)
  qed (use old get_job_cong [of s' s i] in auto)
  then show "jobs_same s s' \<or> jobs_ok s' \<and> jobs_refer s'"
    using assms(1) jobs_ok_step [OF _ assms(2)] by (auto simp: jobs_refer_def refers sound_def)
qed (use assms(1,3) in \<open>simp_all add: jobs_aside_def sound_def\<close>)

text \<open>Transitions that keep the author, and the node or name one that is there.\<close>

lemma transition_written:
  assumes "sound s" "transition_setup_job i ex vals (tick s) = (r, s1)"
    "\<And>j. job_refers s j \<Longrightarrow> job_refers s (vals j)"
  shows "jobs_written s s1" "jobs_aside s s1" "ssh_secrets s1 = ssh_secrets s"
proof -
  have "jobs_written s s1 \<and> jobs_aside s s1 \<and> ssh_secrets s1 = ssh_secrets s"
  proof (cases r)
    case None
    then have "s1 = tick s" using assms(2) transition_None by blast
    then show ?thesis by (simp add: jobs_written_def jobs_aside_def)
  next
    case (Some j)
    obtain j0 where j0: "get_setup_job i (tick s) = Some j0" "j = vals j0" "s1 = save_setup_job j (tick s)"
      using assms(2) unfolding Some by (rule transition_Some)
    then have "job_refers s j" using assms(1,3) by (auto simp: sound_def jobs_refer_def)
    moreover have "setup_jobs (save_setup_job j (tick s)) = setup_jobs (save_setup_job j s)"
      by (simp add: save_setup_job_def)
    ultimately show ?thesis using j0(3) by (auto simp: jobs_written_def jobs_aside_def)
  qed
  then show "jobs_written s s1" "jobs_aside s s1" "ssh_secrets s1 = ssh_secrets s" by blast+
qed

lemma written_after:
  "setup_jobs u = setup_jobs t \<Longrightarrow> jobs_written s t \<Longrightarrow> jobs_written s u"
  by (simp add: jobs_written_def)

lemma aside_after:
  assumes "jobs_aside s t"
  shows "jobs_aside s (add_event j l st m t)" "jobs_aside s (forget_ephemeral_ssh_secret i t)"
    "jobs_aside s (audit a x t)" "jobs_aside s (tick t)"
  using assms by (simp_all add: jobs_aside_def)

lemma job_create_good:
  assumes "sound s" "get_user (usr_id a) s \<noteq> None"
  shows "good s (snd (job_create w a x secret s))"
proof (rule job_step_good [OF assms(1) js_create])
  show "jobs_aside s (snd (job_create w a x secret s))"
    by (simp add: job_create_def Let_def jobs_aside_def add_is_save remember_secret_def)
  have "job_refers s (new_job a x (new_uuid s) (now s))"
    using assms(2) by (simp add: job_refers_def new_job_def)
  then show "jobs_written s (snd (job_create w a x secret s))"
    by (auto simp: job_create_def Let_def jobs_written_def add_is_save remember_secret_def save_setup_job_def
        new_job_def intro!: exI [of _ "new_job a x (new_uuid s) (now s)"])
qed

lemma job_cancel_good:
  assumes "sound s"
  shows "good s (snd (job_cancel a i s))"
proof (rule job_step_good [OF assms js_cancel])
  let ?f = "\<lambda>j. j\<lparr>job_status := Cancelled, job_current_step := step_label Cancelled,
      job_finished_at := Some (now s), job_updated_at := now s, job_secret_encrypted := None\<rparr>"
  obtain r s1 where t: "transition_setup_job i non_terminal_statuses ?f (tick s) = (r, s1)" by fastforce
  note w = transition_written [OF assms t]
  have "jobs_written s s1" "jobs_aside s s1" using w by (simp_all add: job_refers_def)
  then show "jobs_aside s (snd (job_cancel a i s))" "jobs_written s (snd (job_cancel a i s))"
    using t by (auto simp: job_cancel_def Let_def aside_after jobs_written_def jobs_aside_def
        split: sum.split option.split)
qed

lemma job_claim_good:
  assumes "sound s"
  shows "good s (snd (job_claim_next s))"
proof (rule job_step_good [OF assms js_claim])
  have q: "next_queued_setup_job (tick s) = next_queued_setup_job s" by simp
  show "jobs_aside s (snd (job_claim_next s))"
    by (auto simp: job_claim_next_def claim_next_setup_job_def Let_def jobs_aside_def split: option.split)
  show "jobs_written s (snd (job_claim_next s))"
  proof (cases "next_queued_setup_job s")
    case None
    then show ?thesis by (simp add: job_claim_next_def claim_next_setup_job_def jobs_written_def)
  next
    case (Some j)
    then obtain i where "get_setup_job i s = Some j" using assms next_queued_get by (auto simp: sound_def jobs_ok_def)
    then have "job_refers s j" using assms by (auto simp: sound_def jobs_refer_def)
    then have "job_refers s (j\<lparr>job_status := Checking_ssh, job_current_step := step_label Checking_ssh,
        job_started_at := Some (now s), job_updated_at := now s\<rparr>)"
      by (simp add: job_refers_def)
    then show ?thesis
      using Some by (auto simp: job_claim_next_def claim_next_setup_job_def Let_def jobs_written_def save_setup_job_def)
  qed
qed

lemma job_set_step_good:
  assumes "sound s" "worker_edge a b"
  shows "good s (snd (job_set_step i [a] b m s))"
proof (rule job_step_good [OF assms(1) js_step [OF assms(2)]])
  let ?f = "\<lambda>j. j\<lparr>job_status := b, job_current_step := step_label b, job_updated_at := now s\<rparr>"
  obtain r s1 where t: "transition_setup_job i [a] ?f (tick s) = (r, s1)" by fastforce
  have "jobs_written s s1" "jobs_aside s s1"
    using transition_written [OF assms(1) t] by (simp_all add: job_refers_def)
  then show "jobs_aside s (snd (job_set_step i [a] b m s))" "jobs_written s (snd (job_set_step i [a] b m s))"
    using t by (auto simp: job_set_step_def Let_def aside_after jobs_written_def split: option.split)
qed

lemma job_success_good:
  assumes "sound s" "get_server_node n s \<noteq> None"
  shows "good s (snd (job_finish_success i n s))"
proof (rule job_step_good [OF assms(1) js_success])
  let ?f = "\<lambda>j. j\<lparr>job_status := Success, job_current_step := step_label Success,
      job_server_node_id := Some n, job_finished_at := Some (now s), job_updated_at := now s,
      job_secret_encrypted := None, job_result_payload := Some [(''server_node_id'', JStr n)]\<rparr>"
  obtain r s1 where t: "transition_setup_job i [Verifying] ?f (tick s) = (r, s1)" by fastforce
  have "jobs_written s s1" "jobs_aside s s1"
    using transition_written [OF assms(1) t] assms(2) by (simp_all add: job_refers_def)
  then show "jobs_aside s (snd (job_finish_success i n s))" "jobs_written s (snd (job_finish_success i n s))"
    using t by (auto simp: job_finish_success_def Let_def aside_after jobs_written_def split: option.split)
qed

lemma job_failed_good:
  assumes "sound s"
  shows "good s (snd (job_finish_failed i m s))"
proof (rule job_step_good [OF assms js_fail])
  let ?f = "\<lambda>j. j\<lparr>job_status := Failed, job_current_step := step_label Failed,
      job_error_message := Some m, job_finished_at := Some (now s), job_updated_at := now s,
      job_secret_encrypted := None\<rparr>"
  obtain r s1 where t: "transition_setup_job i non_terminal_statuses ?f (tick s) = (r, s1)" by fastforce
  have "jobs_written s s1" "jobs_aside s s1"
    using transition_written [OF assms t] by (simp_all add: job_refers_def)
  then show "jobs_aside s (snd (job_finish_failed i m s))" "jobs_written s (snd (job_finish_failed i m s))"
    using t by (auto simp: job_finish_failed_def Let_def aside_after jobs_written_def split: option.split)
qed

lemma job_forget_good: "sound s \<Longrightarrow> good s (forget_ephemeral_ssh_secret i s)"
  by (rule job_step_good [OF _ js_forget]) (simp_all add: jobs_aside_def jobs_written_def)

lemma job_event_good: "sound s \<Longrightarrow> good s (add_event j l st m s)"
  by (rule job_step_good [OF _ js_event]) (simp_all add: jobs_aside_def jobs_written_def)

subsection \<open>Devices\<close>

lemma good_new_device:
  assumes "sound s" "dev_id d = new_uuid s"
    "get_user (dev_user_id d) s \<noteq> None" "get_server_node (dev_server_node_id d) s \<noteq> None"
  shows "good s (save_device d (use_uuid (tick s)))"
proof (rule goodI [OF assms(1)])
  let ?t = "save_device d (use_uuid (tick s))"
  have d: "devices ?t = devices (save_device d s)" by (simp add: save_device_def)
  have "devices_ok ?t"
    by (rule devices_ok_new [OF _ assms(2) d]) (use assms(1) in \<open>simp_all add: sound_def\<close>)
  moreover have "devices_refer ?t" using assms by (auto simp: devices_refer_def sound_def)
  ultimately show "devices ?t = devices s \<or> devices_ok ?t \<and> devices_refer ?t" by blast
qed (use assms(1) in \<open>simp_all add: grows_def sound_def jobs_same_def\<close>)

lemma choose_node_known:
  assumes "sound s" "choose_node sid s = Inr n"
  shows "get_server_node (node_id n) s \<noteq> None"
proof -
  show ?thesis
  proof (cases sid)
    case None
    then have "n \<in> set (dict_values (server_nodes s))"
      using assms(2) pick_Some(1) by (auto simp: choose_node_def list_available_in split: option.splits)
    then have "(node_id n, n) \<in> set (server_nodes s)"
      using assms(1) by (auto simp: sound_def nodes_filed_def)
    then show ?thesis by (auto simp: get_server_node_def dest: weak_map_of_SomeI)
  next
    case (Some i)
    then have "get_server_node i s = Some n"
      using assms(2) by (auto simp: choose_node_def server_get_def sum_bind_def split: sum.splits option.splits)
    then show ?thesis using assms(1) nodes_filed_get [of s i n] by (simp add: sound_def)
  qed
qed

lemma issue_peer_good: "good s t \<Longrightarrow> good s (snd (issue_peer ac n nm dns h md t))"
  by (auto simp: issue_peer_def Let_def split_beta agent_call_good)

lemma revoke_peer_good: "good s t \<Longrightarrow> good s (snd (revoke_peer ac n k t))"
  by (simp add: revoke_peer_def agent_call_good)

text \<open>A device that is written back over a wait: it, its member and its node are still there.\<close>

definition placed :: "device \<Rightarrow> 't app \<Rightarrow> bool" where
  "placed d s \<longleftrightarrow> get_device (dev_id d) s \<noteq> None \<and> get_user (dev_user_id d) s \<noteq> None \<and>
     get_server_node (dev_server_node_id d) s \<noteq> None"

lemma placed_good: "placed d s \<Longrightarrow> good s t \<Longrightarrow> placed d t"
  by (simp add: placed_def good_def grows_def)

lemma placed_get: "sound s \<Longrightarrow> get_device (dev_id d) s = Some d \<Longrightarrow> placed d s"
  by (auto simp: sound_def devices_refer_def placed_def)

lemma device_finish_good:
  assumes "good s t" "placed d t"
  shows "good s (snd (device_finish bx st u n r ip ua d t))"
proof -
  have "good s (save_device d' (tick t))"
    if "dev_id d' = dev_id d" "dev_user_id d' = dev_user_id d" "dev_server_node_id d' = dev_server_node_id d" for d'
    using assms that by (intro good_device) (simp_all add: placed_def)
  then show ?thesis
    using assms(1) by (auto simp: device_finish_def device_failed_def device_issued_def Let_def
        split: sum.split exn.split app_error.split)
qed

lemma device_create_good:
  assumes "sound s" "get_user (usr_id u) s \<noteq> None" "steady f"
  shows "good s (snd (device_create ac bx st u nm sid ip ua f s))"
proof -
  obtain b s1 where b: "device_begin u nm sid s = (b, s1)" by fastforce
  then show ?thesis
  proof (cases rule: device_begin_cases)
    case (refused e)
    then show ?thesis using b assms(1) good_refl by (simp add: device_create_def)
  next
    case (new d n)
    have s1: "good s s1"
      using assms(1,2) new choose_node_known unfolding new(8) by (intro good_new_device) auto
    obtain q s2 where q: "issue_peer ac n (peer_name u d) [] (Some (node_public_host n))
        [(''backend_device_id'', JStr (dev_id d))] s1 = (q, s2)" by fastforce
    have s2: "good s1 (f s2)"
      using issue_peer_good [OF good_refl [OF good_sound [OF s1]]] q steady_good [OF assms(3)] by (metis snd_conv)
    have "get_device (dev_id d) s1 = Some d" using new(8) by simp
    from placed_good [OF placed_get [OF good_sound [OF s1] this] s2]
    show ?thesis
      using b new(1) q device_finish_good [OF good_trans [OF s1 s2]] by (simp add: device_create_def)
  qed
qed

lemma device_revoked_good:
  assumes "good s t" "placed d t"
  shows "good s (snd (device_revoked a ip ua d t))"
proof -
  have "good s (save_device d' (tick t))"
    if "dev_id d' = dev_id d" "dev_user_id d' = dev_user_id d" "dev_server_node_id d' = dev_server_node_id d" for d'
    using assms that by (intro good_device) (simp_all add: placed_def)
  then show ?thesis by (simp add: device_revoked_def Let_def)
qed

lemma device_revoke_good:
  assumes "sound s" "steady f"
  shows "good s (snd (device_revoke ac a i ip ua f s))"
proof (cases "get_for_actor a i s")
  case (Inl e)
  then show ?thesis using good_refl [OF assms(1)] by (simp add: device_revoke_def)
next
  case (Inr d)
  then have d: "placed d s"
    using assms(1) by (intro placed_get) (auto simp: get_for_actor_Inr sound_def devices_ok_def)
  have here: "good s (snd (device_revoked a ip ua d s))"
    using good_refl [OF assms(1)] d by (rule device_revoked_good)
  have "good s (f s1) \<and> good s (snd (device_revoked a ip ua d (f s1)))"
    if q: "revoke_peer ac n pk s = (r, s1)" for r s1 n pk
  proof -
    have "good s s1" using revoke_peer_good [OF good_refl [OF assms(1)]] q by (metis snd_conv)
    then have f: "good s (f s1)" by (rule steady_good [OF assms(2)])
    show ?thesis by (rule conjI [OF f device_revoked_good [OF f placed_good [OF d f]]])
  qed
  note there = this
  show ?thesis
  proof (cases "dev_status d = Revoked")
    case True
    then show ?thesis using Inr good_refl [OF assms(1)] by (simp add: device_revoke_def)
  next
    case False
    show ?thesis
    proof (cases "\<exists>pk n. or_none (dev_public_key d) = Some pk \<and> get_server_node (dev_server_node_id d) s = Some n")
      case True
      then obtain pk n where pk: "or_none (dev_public_key d) = Some pk" "get_server_node (dev_server_node_id d) s = Some n"
        by blast
      obtain r s1 where q: "revoke_peer ac n pk s = (r, s1)" by fastforce
      obtain d1 s3 where r: "device_revoked a ip ua d (f s1) = (d1, s3)" by fastforce
      have "snd (device_revoke ac a i ip ua f s) = (if revoke_stops r = None then s3 else f s1)"
        using Inr False pk q r by (cases "revoke_stops r") (simp_all add: device_revoke_def)
      then show ?thesis using there [OF q] r by simp
    next
      case none: False
      obtain d1 s3 where r: "device_revoked a ip ua d s = (d1, s3)" by fastforce
      then have "snd (device_revoke ac a i ip ua f s) = s3"
        using Inr False none by (auto simp: device_revoke_def split: option.splits)
      then show ?thesis using here r by simp
    qed
  qed
qed

lemma issue_result_good: "sound s \<Longrightarrow> good s (snd (issue_result bx a i s))"
  using good_refl [of s] by (auto simp: issue_result_def Let_def split: sum.split option.split)

end
