(* ===== verification/WorkerLoop.thy ===== *)
theory WorkerLoop
  imports WorkerRuns
begin

text \<open>
  \<open>SetupWorker._loop\<close>: round after round the worker waits for the lock of the storage, claims a job
  and takes it through its turn, or sleeps when the queue is empty; \<open>stop\<close> cancels it at whatever it
  awaits. A round is given what happens at each of its waits.
\<close>

section \<open>The loop\<close>

record 't round =
  rd_lock :: "'t turn"
  rd_turn :: "'t schedule"
  rd_sleep :: "'t turn"

text \<open>Whether the loop goes on after these rounds, and the state.\<close>

fun worker_loop :: "'t worker \<Rightarrow> 't round list \<Rightarrow> 't app \<Rightarrow> bool \<times> 't app" where
  "worker_loop wk [] s = (True, s)"
| "worker_loop wk (r # rs) s =
     (case rd_lock r of
        Stop \<Rightarrow> (False, s)
      | Others f \<Rightarrow>
          (case job_claim_next (f s) of
             (None, s1) \<Rightarrow>
               (case rd_sleep r of Stop \<Rightarrow> (False, s1) | Others g \<Rightarrow> worker_loop wk rs (g s1))
           | (Some j, s1) \<Rightarrow>
               (case worker_turn wk (rd_turn r) (f s) of
                  (None, s2) \<Rightarrow> worker_loop wk rs s2
                | (Some e, s2) \<Rightarrow> (False, s2))))"

text \<open>What happens at the waits is up to the administrators.\<close>

fun admin_wait :: "'t turn \<Rightarrow> bool" where
  "admin_wait Stop = True"
| "admin_wait (Others f) = admin_turn f"

definition admin_round :: "'t round \<Rightarrow> bool" where
  "admin_round r \<longleftrightarrow> admin_wait (rd_lock r) \<and> admin_schedule (rd_turn r) \<and> admin_wait (rd_sleep r)"

section \<open>Counting the queue\<close>

definition queued_jobs :: "'z storage_scheme \<Rightarrow> nat" where
  "queued_jobs s = count_values (\<lambda>j. job_status j = Queued) (setup_jobs s)"

definition all_jobs :: "'z storage_scheme \<Rightarrow> nat" where
  "all_jobs s = length (setup_jobs s)"

lemma length_dict_set: "length (dict_set k v d) = (if map_of d k = None then Suc (length d) else length d)"
  by (induction d) auto

text \<open>The queue grows by the jobs created, at most.\<close>

definition queue_bounded :: "'z storage_scheme \<Rightarrow> 'z storage_scheme \<Rightarrow> bool" where
  "queue_bounded s s' \<longleftrightarrow> queued_jobs s' + all_jobs s \<le> queued_jobs s + all_jobs s' \<and> all_jobs s \<le> all_jobs s'"

lemma queue_refl [simp]: "queue_bounded s s"
  by (simp add: queue_bounded_def)

lemma queue_trans: "queue_bounded s t \<Longrightarrow> queue_bounded t u \<Longrightarrow> queue_bounded s u"
  by (simp add: queue_bounded_def)

lemma queue_cong: "setup_jobs s' = setup_jobs s \<Longrightarrow> queued_jobs s' = queued_jobs s \<and> all_jobs s' = all_jobs s"
  by (simp add: queued_jobs_def all_jobs_def)

lemma save_job_counts:
  "queued_jobs (save_setup_job j s) + counts1 (\<lambda>j. job_status j = Queued) (get_setup_job (job_id j) s)
     = queued_jobs s + (if job_status j = Queued then 1 else 0)"
  "all_jobs (save_setup_job j s) = (if get_setup_job (job_id j) s = None then Suc (all_jobs s) else all_jobs s)"
  using count_values_dict_set [of "\<lambda>j. job_status j = Queued" "job_id j" j "setup_jobs s"]
  by (simp_all add: queued_jobs_def all_jobs_def save_setup_job_def get_setup_job_def length_dict_set)

lemma step_queue:
  assumes "job_step l s s'" "jobs_ok s"
  shows "queue_bounded s s'"
proof -
  have "jobs_keyed s" using assms(2) by (simp add: jobs_ok_def)
  from job_step_effect [OF assms(1) this] show ?thesis
  proof (elim disjE exE)
    assume "stays s s'"
    then show ?thesis using queue_cong [of s' s] by (simp add: stays_def queue_bounded_def)
  next
    fix j0 j assume m: "moves j0 j s s'"
    then have "job_status j \<noteq> Queued"
      by (auto simp: moves_def job_edge_def status_edge.simps)
    then show ?thesis
      using m queue_cong [of s' "save_setup_job j s"] save_job_counts [of j s]
      by (auto simp: moves_def queue_bounded_def)
  next
    fix j assume c: "creates j s s'"
    then have "get_setup_job (job_id j) s = None" using assms(2) by (simp add: creates_def jobs_ok_def new_uuid_def)
    then show ?thesis
      using c queue_cong [of s' "save_setup_job j s"] save_job_counts [of j s]
      by (auto simp: creates_def queue_bounded_def)
  qed
qed

lemma run_queue: "run job_step s ls s' \<Longrightarrow> jobs_ok s \<Longrightarrow> queue_bounded s s'"
proof (induction rule: run.induct)
  case (run_cons l s s1 ls s')
  then show ?case using step_queue jobs_ok_step queue_trans by blast
qed simp

lemma claim_queue:
  assumes "job_claim_next s = (Some j, s1)" "jobs_ok s"
  shows "Suc (queued_jobs s1) = queued_jobs s" "all_jobs s1 = all_jobs s"
proof -
  have keyed: "jobs_keyed s" using assms(2) by (simp add: jobs_ok_def)
  obtain j0 where j0: "get_setup_job (job_id j) s = Some j0" "job_status j0 = Queued" "job_status j = Checking_ssh"
    by (rule job_claim_Some [OF assms(1) keyed])
  have "setup_jobs s1 = setup_jobs (save_setup_job j s)"
    using assms(1) by (auto simp: job_claim_next_def claim_next_setup_job_def Let_def save_setup_job_def
        split: option.splits)
  then show "Suc (queued_jobs s1) = queued_jobs s" "all_jobs s1 = all_jobs s"
    using queue_cong [of s1 "save_setup_job j s"] save_job_counts [of j s] j0 by auto
qed

lemma claim_None:
  assumes "job_claim_next s = (None, s1)"
  shows "queued_jobs s = 0" "setup_jobs s1 = setup_jobs s" "jobs_same s s1"
proof -
  have "next_queued_setup_job s = None" "s1 = tick s"
    using assms by (auto simp: job_claim_next_def claim_next_setup_job_def Let_def split: option.splits)
  then show "queued_jobs s = 0" "setup_jobs s1 = setup_jobs s" "jobs_same s s1"
    by (auto simp: next_queued_None queued_jobs_def count_values_def filter_empty_conv jobs_same_def)
qed

section \<open>Between the rounds\<close>

text \<open>
  A job the worker does not have in hand waits in the queue or is over. From one state to a later one
  a job comes to rest, one in the middle stays as it is or is cancelled, one that is over stays so.
\<close>

definition at_rest :: "setup_job \<Rightarrow> bool" where
  "at_rest j \<longleftrightarrow> job_status j = Queued \<or> is_terminal (job_status j)"

definition carried :: "ident \<Rightarrow> 't app \<Rightarrow> 't app \<Rightarrow> bool" where
  "carried k s s' \<longleftrightarrow>
     (\<forall>j. get_setup_job k s' = Some j \<longrightarrow> at_rest j \<or> get_setup_job k s = Some j) \<and>
     (\<forall>j. get_setup_job k s = Some j \<and> \<not> at_rest j \<longrightarrow>
        (\<exists>j'. get_setup_job k s' = Some j' \<and> (j' = j \<or> job_status j' = Cancelled))) \<and>
     (\<forall>j. get_setup_job k s = Some j \<and> is_terminal (job_status j) \<longrightarrow> get_setup_job k s' = Some j)"

lemma carried_same: "get_setup_job k s' = get_setup_job k s \<Longrightarrow> carried k s s'"
  by (simp add: carried_def)

lemma carried_trans:
  assumes "carried k s t" "carried k t u"
  shows "carried k s u"
  unfolding carried_def
proof (intro conjI allI impI)
  fix j assume "get_setup_job k u = Some j"
  then show "at_rest j \<or> get_setup_job k s = Some j" using assms by (auto simp: carried_def)
next
  fix j assume "get_setup_job k s = Some j \<and> \<not> at_rest j"
  moreover from this obtain j' where "get_setup_job k t = Some j'" "j' = j \<or> job_status j' = Cancelled"
    using assms(1) by (auto simp: carried_def)
  ultimately show "\<exists>j'. get_setup_job k u = Some j' \<and> (j' = j \<or> job_status j' = Cancelled)"
    using assms(2) by (auto simp: carried_def)
next
  fix j assume "get_setup_job k s = Some j \<and> is_terminal (job_status j)"
  then show "get_setup_job k u = Some j" using assms by (auto simp: carried_def)
qed

lemma transition_others:
  assumes "transition_setup_job i ex f s = (r, t)" "\<And>j. job_id (f j) = job_id j" "jobs_keyed s" "k \<noteq> i"
  shows "get_setup_job k t = get_setup_job k s"
proof (cases r)
  case None
  then show ?thesis using assms(1) transition_None by blast
next
  case (Some j)
  obtain j0 where j0: "get_setup_job i s = Some j0" "j = f j0" "t = save_setup_job j s"
    using assms(1) unfolding Some by (rule transition_Some)
  then have "job_id j = i" using assms(2,3) jobs_keyed_get by metis
  then show ?thesis using j0(3) assms(4) by (simp add: save_setup_job_def get_setup_job_def)
qed

lemma step_others:
  assumes "jobs_ok s" "k \<noteq> i"
  shows "get_setup_job k (snd (job_set_step i ex b m s)) = get_setup_job k s"
    "get_setup_job k (snd (job_finish_success i n s)) = get_setup_job k s"
    "get_setup_job k (snd (job_finish_failed i m s)) = get_setup_job k s"
proof -
  have keyed: "jobs_keyed (tick s)" using assms(1) by (simp add: jobs_ok_def jobs_keyed_def)
  note others = transition_others [OF _ _ keyed assms(2)]
  have same: "setup_jobs t = setup_jobs u \<Longrightarrow> get_setup_job k t = get_setup_job k u" for t u :: "'a app"
    by (simp add: get_setup_job_def)
  show "get_setup_job k (snd (job_set_step i ex b m s)) = get_setup_job k s"
    "get_setup_job k (snd (job_finish_success i n s)) = get_setup_job k s"
    "get_setup_job k (snd (job_finish_failed i m s)) = get_setup_job k s"
    unfolding job_set_step_def job_finish_success_def job_finish_failed_def Let_def
    by (auto dest!: others simp: get_setup_job_def split: prod.splits option.splits)
qed

lemma cancel_carried:
  assumes "jobs_ok s"
  shows "carried k s (snd (job_cancel actor n s))"
proof -
  let ?s = "snd (job_cancel actor n s)"
  have "jobs_keyed s" using assms by (simp add: jobs_ok_def)
  from job_cancel_effect [OF this, of actor n] show ?thesis
  proof (elim disjE exE)
    assume "stays s ?s"
    then show ?thesis by (intro carried_same) (simp add: stays_def get_setup_job_def)
  next
    fix j0 j assume m: "moves j0 j s ?s"
    then have live: "get_setup_job (job_id j) s = Some j0" "\<not> is_terminal (job_status j0)"
      using status_edge_live by (auto simp: moves_def job_edge_def)
    have g: "get_setup_job i ?s = (if i = job_id j then Some j else get_setup_job i s)" for i
      using m by (simp add: moves_def get_setup_job_def save_setup_job_def)
    have "j = j0 \<or> job_status j = Cancelled"
      using cancel_status [OF assms live(1), of actor n] g by (auto split: if_splits)
    moreover have "status_edge (job_status j0) (job_status j)" using m by (simp add: moves_def job_edge_def)
    ultimately have "job_status j = Cancelled" using status_edge_less [of "job_status j0"] by auto
    then show ?thesis using live g by (auto simp: carried_def at_rest_def)
  qed
qed

lemma step_carried:
  assumes "job_step l s s'" "for_job i l" "jobs_ok s" "k \<noteq> i"
  shows "carried k s s'"
  using assms
proof (induction rule: job_step.induct)
  case (js_create a secret s w actor)
  from job_create_effect [of s w actor a secret] show ?case
  proof (elim disjE exE)
    fix j assume c: "creates j s (snd (job_create w actor a secret s))"
    then have "get_setup_job (job_id j) s = None" "at_rest j"
      using js_create by (simp_all add: creates_def jobs_ok_def new_uuid_def at_rest_def)
    then show ?thesis
      using c by (auto simp: carried_def creates_def get_setup_job_def save_setup_job_def)
  qed (simp add: carried_same stays_def get_setup_job_def)
next
  case (js_cancel n s actor)
  then show ?case by (intro cancel_carried)
qed (auto intro!: carried_same simp: jobs_same_def get_setup_job_def step_others [unfolded get_setup_job_def])

lemma run_carried:
  "run job_step s ls s' \<Longrightarrow> \<forall>l \<in> set ls. for_job i l \<Longrightarrow> jobs_ok s \<Longrightarrow> k \<noteq> i \<Longrightarrow> carried k s s'"
proof (induction rule: run.induct)
  case (run_cons l s s1 ls s')
  have "carried k s s1" by (rule step_carried [OF run_cons.hyps(1)]) (use run_cons.prems in auto)
  moreover have "carried k s1 s'"
    by (rule run_cons.IH) (use run_cons.prems jobs_ok_step [OF _ run_cons.hyps(1)] in auto)
  ultimately show ?case by (rule carried_trans)
qed (simp add: carried_same)

section \<open>Rounds\<close>

text \<open>What the jobs are after a while, when the queue has got shorter by \<open>n\<close> claims.\<close>

definition moved_on :: "nat \<Rightarrow> 't app \<Rightarrow> 't app \<Rightarrow> bool" where
  "moved_on n s s' \<longleftrightarrow> jobs_ok s' \<and> (\<forall>k. carried k s s') \<and> all_jobs s \<le> all_jobs s' \<and>
     queued_jobs s' + all_jobs s \<le> (queued_jobs s - n) + all_jobs s'"

lemma moved_admin:
  assumes "admin_turn f" "jobs_ok s"
  shows "moved_on 0 s (f s)"
proof -
  obtain ls where ls: "run job_step s ls (f s)" "\<forall>l \<in> set ls. by_admin l"
    using assms(1) by (auto simp: admin_turn_def)
  have "carried k s (f s)" for k
    using run_carried [OF ls(1) _ assms(2), where i = "CHR ''x'' # k" and k = k] ls(2) by_admin_for by auto
  then show ?thesis
    using run_queue [OF ls(1) assms(2)] jobs.run_keep [OF ls(1) assms(2)]
    by (simp add: moved_on_def queue_bounded_def)
qed

lemma claim_carried:
  assumes "job_claim_next s = (Some j, s1)" "k \<noteq> job_id j"
  shows "carried k s s1"
  using assms by (intro carried_same)
    (auto simp: job_claim_next_def claim_next_setup_job_def Let_def get_setup_job_def save_setup_job_def
      split: option.splits)

lemma moved_turn:
  assumes "jobs_ok s" "admin_schedule sc" "job_claim_next s = (Some j, s1)" "worker_turn wk sc s = (r, s')"
  shows "moved_on 1 s s'"
proof -
  have w: "on_way s1 j {Success, Failed} s'" by (rule turn_on_way [OF assms])
  then obtain ls j' where ls: "run job_step s1 ls s'" "\<forall>l \<in> set ls. for_job (job_id j) l"
    and j': "get_setup_job (job_id j) s' = Some j'" "is_terminal (job_status j')"
    by (auto simp: on_way_def)
  have keyed: "jobs_keyed s" using assms(1) by (simp add: jobs_ok_def)
  have ok1: "jobs_ok s1" using jobs_ok_step [OF assms(1) js_claim] assms(3) by simp
  obtain j0 where j0: "get_setup_job (job_id j) s = Some j0" "job_status j0 = Queued"
    by (rule job_claim_Some [OF assms(3) keyed])
  have "carried k s s'" for k
  proof (cases "k = job_id j")
    case True
    then show ?thesis using j0 j' by (auto simp: carried_def at_rest_def)
  next
    case False
    then show ?thesis using carried_trans [OF claim_carried [OF assms(3)] run_carried [OF ls ok1]] by blast
  qed
  moreover have "queued_jobs s = Suc (queued_jobs s1)" "all_jobs s = all_jobs s1"
    using claim_queue [OF assms(3,1)] by simp_all
  ultimately show ?thesis
    using run_queue [OF ls(1) ok1] w by (simp add: moved_on_def queue_bounded_def on_way_def)
qed

lemma moved_idle:
  assumes "job_claim_next s = (None, s1)" "jobs_ok s"
  shows "moved_on n s s1"
proof -
  have "jobs_ok s1" using jobs_ok_step [OF assms(2) js_claim] assms(1) by simp
  then show ?thesis
    using claim_None [OF assms(1)] queue_cong [of s1 s]
    by (simp add: moved_on_def carried_same get_setup_job_def)
qed

lemma moved_ok: "moved_on n s s' \<Longrightarrow> jobs_ok s'"
  by (simp add: moved_on_def)

lemma moved_trans:
  assumes "moved_on n s t" "moved_on m t u"
  shows "moved_on (n + m) s u"
proof -
  have "carried k s u" for k
    using assms carried_trans [of k s t u] by (simp add: moved_on_def)
  then show ?thesis using assms by (auto simp: moved_on_def)
qed

lemma loop_moved:
  assumes "worker_loop wk rs s = (b, s')" "jobs_ok s" "\<forall>r \<in> set rs. admin_round r"
  shows "moved_on (if b then length rs else 0) s s'"
  using assms
proof (induction wk rs s rule: worker_loop.induct)
  case (1 wk s)
  then show ?case by (simp add: moved_on_def carried_same)
next
  case (2 wk r rs s)
  show ?case
  proof (cases "rd_lock r")
    case Stop
    then show ?thesis using 2(3,4) by (simp add: moved_on_def carried_same)
  next
    case (Others f)
    then have f: "moved_on 0 s (f s)"
      using 2(4,5) by (intro moved_admin) (auto simp: admin_round_def)
    obtain q s1 where q: "job_claim_next (f s) = (q, s1)" by fastforce
    show ?thesis
    proof (cases q)
      case None
      have s1: "moved_on n s s1" for n
        using moved_trans [OF f moved_idle [OF q [unfolded None] moved_ok [OF f], of n]] by simp
      show ?thesis
      proof (cases "rd_sleep r")
        case Stop
        then show ?thesis using 2(3) Others q None s1 [of 0] by auto
      next
        case g: (Others g)
        have "moved_on 0 s1 (g s1)"
          using 2(5) g moved_ok [OF s1] by (intro moved_admin) (auto simp: admin_round_def)
        from moved_trans [OF s1 [of 1] this] have gs: "moved_on 1 s (g s1)" by simp
        have "moved_on (if b then length rs else 0) (g s1) s'"
          using 2(1) [OF Others q [symmetric] None g] 2(3,5) Others q None g moved_ok [OF gs] by simp
        from moved_trans [OF gs this] show ?thesis by (auto simp: moved_on_def split: if_splits)
      qed
    next
      case (Some j)
      obtain x s2 where x: "worker_turn wk (rd_turn r) (f s) = (x, s2)" by fastforce
      have "moved_on 1 (f s) s2"
        using 2(5) by (intro moved_turn [OF moved_ok [OF f] _ q [unfolded Some] x]) (simp add: admin_round_def)
      from moved_trans [OF f this] have t: "moved_on 1 s s2" by simp
      show ?thesis
      proof (cases x)
        case None
        have "moved_on (if b then length rs else 0) s2 s'"
          using 2(2) [OF Others q [symmetric] Some x [symmetric] None] 2(3,5) Others q Some x None moved_ok [OF t]
          by simp
        from moved_trans [OF t this] show ?thesis by (auto simp: moved_on_def split: if_splits)
      next
        case (Some e)
        then show ?thesis using 2(3) Others q \<open>q = Some j\<close> x t by (auto simp: moved_on_def)
      qed
    qed
  qed
qed

text \<open>
  C7: THE QUEUE IS DRAINED. However the administrators' requests fall between and into its rounds, the
  worker gets through the queue: after as many rounds as jobs were queued, no more are queued than were
  created meanwhile; if none was, every job is over, but for those a process that died left in the
  middle. Those no later worker takes up: they stay as they are until somebody cancels them. Whether the
  loop goes on or has been stopped, it leaves no job of its own in the middle, and no job that is over
  is touched again.
\<close>

theorem worker_drains_queue:
  assumes "jobs_ok s" "\<forall>r \<in> set rs. admin_round r" "worker_loop wk rs s = (goes_on, s')"
  shows "(\<forall>k. carried k s s') \<and>
    (goes_on \<and> queued_jobs s \<le> length rs \<longrightarrow>
       queued_jobs s' \<le> all_jobs s' - all_jobs s \<and>
       (all_jobs s' = all_jobs s \<and> (\<forall>k j. get_setup_job k s = Some j \<longrightarrow> at_rest j) \<longrightarrow>
          (\<forall>k j. get_setup_job k s' = Some j \<longrightarrow> is_terminal (job_status j))))"
proof -
  have m: "moved_on (if goes_on then length rs else 0) s s'" by (rule loop_moved [OF assms(3,1,2)])
  then have carried: "\<forall>k. carried k s s'" by (simp add: moved_on_def)
  have few: "queued_jobs s' \<le> all_jobs s' - all_jobs s" if "goes_on" "queued_jobs s \<le> length rs"
    using m that by (auto simp: moved_on_def)
  have "is_terminal (job_status j)"
    if "queued_jobs s' = 0" "\<forall>k j. get_setup_job k s = Some j \<longrightarrow> at_rest j" "get_setup_job k s' = Some j" for k j
  proof -
    have "job_status j \<noteq> Queued"
      using that by (force simp: queued_jobs_def count_values_def filter_empty_conv get_setup_job_def dest: map_of_SomeD)
    moreover have "at_rest j" using carried that(2,3) unfolding carried_def by blast
    ultimately show ?thesis by (simp add: at_rest_def)
  qed
  then show ?thesis using carried few by fastforce
qed

text \<open>Two jobs after a restart: the passwords are gone, and two rounds end both.\<close>

definition idle_round :: "'t round" where
  "idle_round = \<lparr>rd_lock = Others id, rd_turn = idle_schedule, rd_sleep = Others id\<rparr>"

definition two_rounds :: "'t round list" where
  "two_rounds = [idle_round\<lparr>rd_turn := cancel_schedule\<rparr>, idle_round]"

lemma admin_rounds: "\<forall>r \<in> set two_rounds. admin_round r"
  by (simp add: two_rounds_def idle_round_def admin_round_def demo_schedules admin_turn_id)

definition restarted :: "fake_state app" where
  "restarted = snd (job_create True the_admin demo_job_args ''pw2'' (queued_app demo_fake))\<lparr>ssh_secrets := []\<rparr>"

lemma restarted_ok: "jobs_ok restarted"
proof -
  have "jobs_ok (snd (job_create True the_admin demo_job_args ''pw2'' (queued_app demo_fake)))"
    by (rule jobs_ok_step [OF queued_app_ok js_create])
  then show ?thesis
    by (simp add: restarted_def jobs_ok_def jobs_keyed_def get_setup_job_def get_ephemeral_ssh_secret_def)
qed

lemma restarted_jobs:
  "all_jobs restarted = 2" "queued_jobs restarted = 2" "get_setup_job k restarted = Some j \<Longrightarrow> at_rest j"
proof -
  show "all_jobs restarted = 2" "queued_jobs restarted = 2" by code_simp+
  have "list_all (\<lambda>(k, j). job_status j = Queued) (setup_jobs restarted)" by code_simp
  then show "get_setup_job k restarted = Some j \<Longrightarrow> at_rest j"
    by (auto simp: get_setup_job_def at_rest_def list_all_iff dest!: map_of_SomeD)
qed

theorem worker_drains_queue_witness:
  "all_jobs restarted = 2 \<and> queued_jobs restarted = 2 \<and>
   list_all (\<lambda>(k, j). is_terminal (job_status j)) (setup_jobs (snd (worker_loop demo_worker two_rounds restarted)))"
proof -
  have "case worker_loop demo_worker two_rounds restarted of (b, s') \<Rightarrow> b \<and> all_jobs s' = 2" by code_simp
  then obtain s' where l: "worker_loop demo_worker two_rounds restarted = (True, s')" and "all_jobs s' = 2"
    by (auto split: prod.splits)
  then have over: "\<forall>k j. get_setup_job k s' = Some j \<longrightarrow> is_terminal (job_status j)"
    using worker_drains_queue [OF restarted_ok admin_rounds l] restarted_jobs
    by (fastforce simp: two_rounds_def)
  have "jobs_keyed s'" using moved_ok [OF loop_moved [OF l restarted_ok admin_rounds]] by (simp add: jobs_ok_def)
  then have "get_setup_job k s' = Some j" if "(k, j) \<in> set (setup_jobs s')" for k j
    using that by (simp add: jobs_keyed_def get_setup_job_def)
  then show ?thesis using over restarted_jobs l by (auto simp: list_all_iff)
qed

end
