(* ===== verification/Reachable.thy ===== *)
theory Reachable
  imports Sound WorkerLoop Startup
begin

text \<open>
  The whole program in motion: from its start, any requests, with whatever the rest of the program does
  while a handler waits, and any turns of the worker. The invariant of \<open>Sound\<close> holds in every state that
  is reached.
\<close>

section \<open>Requests\<close>

lemma with_body_good:
  "sound s \<Longrightarrow> (\<And>b. good s (snd (k b s))) \<Longrightarrow> good s (snd (with_body cx fs rq s k))"
  by (simp add: with_body_def good_refl split: sum.split)

lemma typed_good: "sound s \<Longrightarrow> (\<And>a. good s (snd (k a s))) \<Longrightarrow> good s (snd (typed x s k))"
  by (simp add: typed_def good_refl split: option.split)

lemma current_user_good:
  assumes "sound s" "get_current_user cx rq s = (r, s')"
  shows "good s s'" "r = Inr u \<Longrightarrow> get_user (usr_id u) s' \<noteq> None"
proof -
  have "good s s' \<and> (r = Inr u \<longrightarrow> get_user (usr_id u) s' \<noteq> None)"
  proof (cases "session_token cx rq")
    case None
    then show ?thesis using assms good_refl by (auto simp: get_current_user_def unauthorized_def)
  next
    case (Some token)
    obtain q t where q: "resolve_session (cx_crypto cx) token s = (q, t)" by fastforce
    note res = resolve_good [OF assms(1) q]
    show ?thesis
      using Some q assms(2) res(1) res(2) [of u]
      by (auto simp: get_current_user_def unauthorized_def split: sum.splits option.splits)
  qed
  then show "good s s'" "r = Inr u \<Longrightarrow> get_user (usr_id u) s' \<noteq> None" by auto
qed

lemma current_admin_good:
  assumes "sound s" "get_current_admin cx rq s = (r, s')"
  shows "good s s'" "r = Inr u \<Longrightarrow> get_user (usr_id u) s' \<noteq> None"
proof -
  obtain q t where q: "get_current_user cx rq s = (q, t)" by fastforce
  note res = current_user_good [OF assms(1) q]
  show "good s s'" "r = Inr u \<Longrightarrow> get_user (usr_id u) s' \<noteq> None"
    using q assms(2) res(1) res(2) [of u] by (auto simp: get_current_admin_def split: sum.splits if_splits)
qed

lemma run_open_good: "sound s \<Longrightarrow> good s (snd (run_open cx x rq s))"
proof (cases x)
  case Login
  assume s: "sound s"
  show ?thesis
    unfolding Login run_open.simps auth_login_def
    by (intro with_body_good typed_good s)
      (simp add: Let_def split_beta login_good [OF s surjective_pairing] split: sum.split)
next
  case Logout
  assume s: "sound s"
  then show ?thesis
    using Logout logout_good [OF s] good_refl [OF s]
    by (auto simp: auth_logout_def Let_def split: prod.splits sum.splits option.splits)
qed (simp add: health_def good_refl)

lemma run_member_good:
  assumes "sound s" "steady (cx_meanwhile cx)" "get_user (usr_id u) s \<noteq> None"
  shows "good s (snd (run_member cx x rq u i s))"
proof (cases x)
  case Device_create
  show ?thesis
    unfolding Device_create run_member.simps create_device_def
    by (intro with_body_good typed_good assms(1))
      (simp add: split_beta Let_def device_create_good [OF assms(1,3,2)])
qed (auto simp: auth_session_def me_def dashboard_def list_devices_def show_device_def revoke_device_def
    show_issue_def list_servers_def show_server_def support_view_def support_history_def Let_def split_beta
    good_refl [OF assms(1)] device_revoke_good [OF assms(1,2)] issue_result_good [OF assms(1)]
    split: option.split)

lemma run_admin_good:
  assumes "sound s" "steady (cx_meanwhile cx)" "get_user (usr_id a) s \<noteq> None"
  shows "good s (snd (run_admin cx x rq a i s))"
proof -
  note known = good_refl [OF assms(1)] user_create_good [OF assms(1)] user_update_good [OF assms(1)]
    reset_password_good [OF assms(1)] set_active_good [OF assms(1)] server_create_good [OF assms(1)]
    server_update_good [OF assms(1)] set_disabled_good [OF assms(1)] health_check_good [OF assms(1,2,2)]
    agent_peers_good [OF assms(1)] record_contribution_good [OF assms(1,3)] update_settings_good [OF assms(1)]
    job_create_good [OF assms(1,3)] job_cancel_good [OF assms(1)]
  show ?thesis
    by (cases x)
      (auto simp: list_users_admin_def create_user_def show_user_def update_user_def reset_user_password_def
        disable_user_def enable_user_def user_devices_def user_contributions_def record_user_contribution_def
        list_nodes_admin_def create_node_def show_node_def update_node_def check_node_def node_peers_def
        disable_node_def enable_node_def list_jobs_def create_job_def show_job_def start_job_def cancel_job_def
        show_job_events_def show_support_settings_def update_support_settings_def list_audit_logs_def
        known Let_def split_beta split: sum.split intro!: with_body_good typed_good assms(1))
qed

lemma run_route_good:
  assumes "sound s" "steady (cx_meanwhile cx)"
  shows "good s (snd (run_route cx r ps rq s))"
proof (cases "reads_body r \<and> hr_body rq = Bad_json")
  case True
  then show ?thesis by (simp add: run_route_def good_refl [OF assms(1)])
next
  case False
  show ?thesis
  proof (cases r)
    case (Open_route x)
    then show ?thesis using False run_open_good [OF assms(1)] good_refl [OF assms(1)] by (simp add: run_route_def Let_def)
  next
    case (Member_route x)
    obtain q t where q: "get_current_user cx rq s = (q, t)" by fastforce
    note g = current_user_good [OF assms(1) q]
    have "good s (snd (run_member cx x rq u i t))" if "q = Inr u" for u i
      using run_member_good [OF good_sound [OF g(1)] assms(2) g(2) [OF that]] by (rule good_trans [OF g(1)])
    then show ?thesis using False Member_route q g(1) by (auto simp: run_route_def Let_def split: sum.split)
  next
    case (Admin_route x)
    obtain q t where q: "get_current_admin cx rq s = (q, t)" by fastforce
    note g = current_admin_good [OF assms(1) q]
    have "good s (snd (run_admin cx x rq u i t))" if "q = Inr u" for u i
      using run_admin_good [OF good_sound [OF g(1)] assms(2) g(2) [OF that]] by (rule good_trans [OF g(1)])
    then show ?thesis using False Admin_route q g(1) by (auto simp: run_route_def Let_def split: sum.split)
  qed
qed

lemma serve_good:
  assumes "sound s" "steady (cx_meanwhile cx)"
  shows "good s (snd (serve cx rq s))"
  using good_refl [OF assms(1)] run_route_good [OF assms]
  by (simp add: serve_def split_beta split: option.split routed.split)

section \<open>Turns of the worker\<close>

text \<open>A flow that keeps the invariant however it ends.\<close>

definition keeps :: "('t app \<Rightarrow> 'a \<times> 't app) \<Rightarrow> bool" where
  "keeps m \<longleftrightarrow> (\<forall>s. sound s \<longrightarrow> good s (snd (m s)))"

lemma keeps_good: "keeps m \<Longrightarrow> good s t \<Longrightarrow> good s (snd (m t))"
  by (rule good_trans, assumption) (simp add: keeps_def good_sound)

lemma keeps_bind:
  assumes "keeps m" "\<And>a. keeps (k a)"
  shows "keeps (flow_bind m k)"
  unfolding keeps_def
proof (intro allI impI)
  fix s :: "'a app" assume "sound s"
  then have "good s (snd (m s))" using assms(1) by (simp add: keeps_def)
  moreover from this have "good s (snd (k a (snd (m s))))" for a by (rule keeps_good [OF assms(2)])
  ultimately show "good s (snd (flow_bind m k s))"
    by (auto simp: flow_bind_def split_beta split: flow.split)
qed

lemma keeps_simps [simp]:
  "keeps (flow_return a)" "keeps (flow_raise e)" "keeps (flow_event j l st m)"
  by (simp_all add: keeps_def flow_return_def flow_raise_def flow_event_def good_refl job_event_good)

lemma keeps_advance: "worker_edge a b \<Longrightarrow> keeps (advance gone i a b m)"
  by (auto simp: keeps_def advance_def split_beta job_set_step_good split: option.split)

text \<open>A wait in every turn of which the rest of the program keeps the invariant.\<close>

definition steady_turns :: "'t wait \<Rightarrow> bool" where
  "steady_turns w \<longleftrightarrow> steady (wt_last w) \<and> (\<forall>f. Others f \<in> set (wt_turns w) \<longrightarrow> steady f)"

lemma watch_good:
  assumes "\<And>f. Others f \<in> set ts \<Longrightarrow> steady f" "good s t"
  shows "good s (snd (watch i ts t))"
  using assms
proof (induction i ts t rule: watch.induct)
  case (3 i f ts t)
  have f: "good s (f t)" by (rule steady_good [OF _ 3(3)]) (simp add: 3(2))
  show ?case
  proof (cases "job_get i (f t)")
    case (Inr j)
    then show ?thesis using f 3(1) [OF refl Inr] 3(2) by (simp add: Let_def)
  qed (use f in \<open>simp add: Let_def\<close>)
qed simp_all

lemma others_good:
  "(\<And>f. Others f \<in> set ts \<Longrightarrow> steady f) \<Longrightarrow> good s t \<Longrightarrow> good s (others ts t)"
  by (induction ts t rule: others.induct) (simp_all add: steady_good)

lemma keeps_cancellable:
  assumes "steady_turns w" "keeps (\<lambda>s. ((), start s))" "\<And>f g. steady f \<Longrightarrow> steady g \<Longrightarrow> keeps (oper f g)"
  shows "keeps (run_cancellable i w start oper)"
  unfolding keeps_def
proof (intro allI impI)
  fix s :: "'a app" assume s: "sound s"
  then have st: "good s (start s)" using assms(2) by (simp add: keeps_def)
  have w: "good s (snd (watch i (wt_turns w) (start s)))"
    by (rule watch_good [OF _ st]) (use assms(1) in \<open>simp add: steady_turns_def\<close>)
  have l: "good s (wt_last w (snd (watch i (wt_turns w) (start s))))"
    by (rule steady_good [OF _ w]) (use assms(1) in \<open>simp add: steady_turns_def\<close>)
  have turns: "good x (others ts x)" if "sound x" "set ts \<subseteq> set (wt_turns w)" for x ts
    using assms(1) that by (intro others_good good_refl) (auto simp: steady_turns_def)
  have last: "good x (wt_last w (others ts x))" if "sound x" "set ts \<subseteq> set (wt_turns w)" for x ts
    using assms(1) turns [OF that] by (simp add: steady_turns_def steady_good)
  have "steady (first_wait w)" "steady (second_wait w)"
    using turns [OF _ set_take_subset] last [OF _ set_drop_subset] last [OF _ subset_refl]
    by (simp_all add: steady_def first_wait_def second_wait_def good_refl split: option.split)
  then have "good s (snd (oper (first_wait w) (second_wait w) s))"
    using assms(3) s by (simp add: keeps_def)
  then show "good s (snd (run_cancellable i w start oper s))"
    using w l by (auto simp: run_cancellable_def flow_res_def unwound_def split: prod.splits flow.split sum.split exn.split)
qed

lemma outside_good: "good s t \<Longrightarrow> good s (outside g t)"
  by (simp add: outside_def)

lemma runner_step_outside: "snd (runner_step h f g s) = outside (\<lambda>x. snd (h x)) (g (f s))"
  by (simp add: runner_step_def outside_def Let_def split_beta)

lemma keeps_runner_step: "steady f \<Longrightarrow> steady g \<Longrightarrow> keeps (runner_step h f g)"
  by (simp add: keeps_def runner_step_outside outside_good steady_good good_refl)

lemma keeps_runner: "steady_turns w \<Longrightarrow> keeps (wait_runner i w g)"
  unfolding wait_runner_def
  by (rule keeps_cancellable) (simp_all add: keeps_def outside_good good_refl keeps_runner_step [unfolded keeps_def])

definition steady_schedule :: "'t schedule \<Rightarrow> bool" where
  "steady_schedule sc \<longleftrightarrow> steady_turns (sc_check sc) \<and> steady_turns (sc_install sc) \<and>
     steady_turns (sc_vpn sc) \<and> steady_turns (sc_health sc)"

lemma edges [simp]:
  "worker_edge Checking_ssh Installing_agent" "worker_edge Installing_agent Installing_vpn"
  "worker_edge Installing_vpn Verifying" "worker_edge Installing_agent Verifying"
  by (simp_all add: worker_edge_def)

lemma keeps_preflight: "steady_schedule sc \<Longrightarrow> keeps (worker_preflight wk sc j c p)"
  by (simp add: worker_preflight_def keeps_bind keeps_runner keeps_advance steady_schedule_def)

lemma keeps_vpn: "steady_schedule sc \<Longrightarrow> keeps (worker_vpn wk sc j c p)"
  by (simp add: worker_vpn_def keeps_bind keeps_runner keeps_advance steady_schedule_def)

text \<open>The node of the installation is there when the job is finished with it.\<close>

lemma worker_finish_good:
  assumes "good s t" "get_server_node (node_id n) t \<noteq> None"
  shows "good s (snd (worker_finish j n t))"
proof -
  obtain q t1 where q: "job_finish_success (job_id j) (node_id n) t = (q, t1)" by fastforce
  have t1: "good s t1"
    using good_trans [OF assms(1) job_success_good [OF good_sound [OF assms(1)] assms(2), of "job_id j"]] q
    by simp
  have "good s (snd (activate_after_setup (node_id n) b t1))" for b
    by (rule good_trans [OF t1 activate_good [OF good_sound [OF t1]]])
  then show ?thesis
    using t1 q by (simp add: worker_finish_def split_beta split: option.split sum.split)
qed

lemma keeps_verify:
  assumes "steady_schedule sc"
  shows "keeps (worker_verify wk sc j c)"
  unfolding keeps_def
proof (intro allI impI)
  fix s :: "'a app" assume s: "sound s"
  let ?wait = "\<lambda>n. run_cancellable (job_id j) (sc_health sc) (\<lambda>s. outside (wt_outside (sc_health sc)) (tick s))
      (health_check (wk_agent wk) None (node_id n))"
  obtain n s1 where n: "server_create_from_setup (wk_box wk) j (cred_base_url c) (cred_key_id c) (cred_secret c) s
      = (n, s1)" by fastforce
  note made = from_setup_good [OF s n]
  obtain q s2 where q: "?wait n s1 = (q, s2)" by fastforce
  have "keeps (?wait n)"
    using assms
    by (intro keeps_cancellable)
      (simp_all add: steady_schedule_def keeps_def outside_good good_refl health_check_good)
  then have g: "good s1 s2" using q good_sound [OF made(1)] by (metis keeps_def snd_conv)
  then have s2: "good s s2" by (rule good_trans [OF made(1)])
  have "get_server_node (node_id n) s2 \<noteq> None" using g made(2) by (simp add: good_def grows_def)
  then show "good s (snd (worker_verify wk sc j c s))"
    using n q s2 worker_finish_good [OF s2]
    by (auto simp: worker_verify_def flow_bind_def flow_state_def flow_raise_def split: flow.split)
qed

lemma keeps_body: "steady_schedule sc \<Longrightarrow> keeps (worker_body wk sc j c p)"
  by (simp add: worker_body_def keeps_bind keeps_preflight keeps_vpn keeps_verify keeps_runner
      steady_schedule_def)

lemma then_failed_good:
  assumes "good s t"
  shows "good s (snd (job_finish_failed i m t))"
  by (rule good_trans [OF assms job_failed_good [OF good_sound [OF assms]]])

lemma then_forget_good:
  assumes "good s t"
  shows "good s (forget_ephemeral_ssh_secret i t)"
  by (rule good_trans [OF assms job_forget_good [OF good_sound [OF assms]]])

lemma run_job_good:
  assumes "steady_schedule sc" "good s t"
  shows "good s (snd (worker_run_job wk sc j t))"
proof -
  obtain q t1 where q: "make_credentials (wk_settings wk) j t = (q, t1)" by fastforce
  have t1: "good s t1"
    using q assms(2)
    by (auto simp: make_credentials_def generate_agent_key_id_def generate_agent_secret_def Let_def)
  have "good s (snd (worker_body wk sc j c p t1))" for c p
    by (rule keeps_good [OF keeps_body [OF assms(1)] t1])
  then show ?thesis
    using q t1 assms(2)
    by (auto simp: worker_run_job_def split_beta then_failed_good then_forget_good
        split: option.split sum.split flow.split exn.split)
qed

lemma worker_turn_good:
  assumes "steady_schedule sc" "sound s"
  shows "good s (snd (worker_turn wk sc s))"
proof -
  obtain q s1 where q: "job_claim_next s = (q, s1)" by fastforce
  then have "good s s1" using job_claim_good [OF assms(2)] by (metis snd_conv)
  then show ?thesis
    using q
    by (auto simp: worker_turn_def split_beta run_job_good [OF assms(1)] then_failed_good
        split: option.split exn.split)
qed

section \<open>The whole program\<close>

definition round_does :: "'t round \<Rightarrow> ('t app \<Rightarrow> 't app) \<Rightarrow> bool" where
  "round_does r f \<longleftrightarrow> rd_lock r = Others f \<or> rd_sleep r = Others f \<or>
     (\<exists>w \<in> {sc_check (rd_turn r), sc_install (rd_turn r), sc_vpn (rd_turn r), sc_health (rd_turn r)}.
        f = wt_last w \<or> Others f \<in> set (wt_turns w))"

text \<open>
  What the running program makes of its state: nothing, one thing after another, a change of the agents
  and nodes outside, a request, and rounds of the worker; whatever awaits lets any of this happen
  meanwhile.
\<close>

inductive activity :: "('t app \<Rightarrow> 't app) \<Rightarrow> bool" where
  act_none: "activity (\<lambda>s. s)"
| act_then: "activity f \<Longrightarrow> activity g \<Longrightarrow> activity (\<lambda>s. g (f s))"
| act_outside: "activity (outside g)"
| act_request: "activity (cx_meanwhile cx) \<Longrightarrow> activity (\<lambda>s. snd (serve cx rq s))"
| act_worker: "(\<And>r f. r \<in> set rs \<Longrightarrow> round_does r f \<Longrightarrow> activity f) \<Longrightarrow>
    activity (\<lambda>s. snd (worker_loop wk rs s))"

lemma loop_good:
  assumes "\<forall>r f. r \<in> set rs \<and> round_does r f \<longrightarrow> steady f" "good s t"
  shows "good s (snd (worker_loop wk rs t))"
  using assms
proof (induction wk rs t rule: worker_loop.induct)
  case (2 wk r rs t)
  have now: "steady f" if "round_does r f" for f by (rule 2(3) [rule_format, of r]) (simp add: that)
  have rest: "\<forall>r f. r \<in> set rs \<and> round_does r f \<longrightarrow> steady f"
    using 2(3) unfolding list.set by blast
  show ?case
  proof (cases "rd_lock r")
    case (Others f)
    then have f: "good s (f t)" by (intro steady_good [OF now 2(4)]) (simp add: round_does_def)
    have sc: "steady_schedule (rd_turn r)"
      using now by (simp add: steady_schedule_def steady_turns_def round_does_def)
    obtain q s1 where q: "job_claim_next (f t) = (q, s1)" by fastforce
    have s1: "good s s1" using good_trans [OF f job_claim_good [OF good_sound [OF f]]] q by simp
    show ?thesis
    proof (cases q)
      case None
      show ?thesis
      proof (cases "rd_sleep r")
        case g: (Others g)
        then have "good s (g s1)" by (intro steady_good [OF now s1]) (simp add: round_does_def)
        from 2(1) [OF Others q [symmetric] None g rest this] show ?thesis using Others q None g by simp
      qed (use Others q None s1 in simp)
    next
      case (Some j)
      obtain x s2 where x: "worker_turn wk (rd_turn r) (f t) = (x, s2)" by fastforce
      have "good s s2" using good_trans [OF f worker_turn_good [OF sc good_sound [OF f], of wk]] x by simp
      then show ?thesis
        using 2(2) [OF Others q [symmetric] Some x [symmetric] _ rest] Others q Some x by (cases x) simp_all
    qed
  qed (use 2(4) in simp)
qed simp

lemma activity_steady: "activity f \<Longrightarrow> steady f"
proof (induction rule: activity.induct)
  case (act_then f g)
  then show ?case using steady_good [of g] by (simp add: steady_def)
next
  case (act_request cx rq)
  then show ?case by (simp add: steady_def serve_good)
next
  case (act_worker rs wk)
  then show ?case unfolding steady_def [of "\<lambda>s. snd (worker_loop wk rs s)"]
    by (blast intro: loop_good good_refl)
qed (simp_all add: steady_def good_refl outside_good)

text \<open>The first start, with nothing stored.\<close>

definition fresh_app :: "(nat \<Rightarrow> time) \<Rightarrow> (nat \<Rightarrow> ident) \<Rightarrow> (nat \<Rightarrow> string) \<Rightarrow> 't \<Rightarrow> 't app" where
  "fresh_app clk ids rnd x = storage.extend (empty_storage clk ids rnd) \<lparr>ssh_secrets = [], agent_st = x\<rparr>"

lemma fresh_sound: "inj ids \<Longrightarrow> sound (fresh_app clk ids rnd x)"
  by (simp add: sound_def fresh_app_def empty_storage_def storage.extend_def users_ok_def user_ids_ok_def devices_ok_def
      jobs_ok_def jobs_keyed_def nodes_filed_def audit_clean_def devices_refer_def sessions_refer_def
      jobs_refer_def contributions_refer_def get_device_def get_setup_job_def get_ephemeral_ssh_secret_def
      get_session_by_token_hash_def)

lemma bootstrap_good:
  assumes "sound s" "users s = []"
  shows "good s (bootstrap_first_admin cr st s)"
proof -
  let ?s = "bootstrap_first_admin cr st s"
  have none: "\<not> has_admin s" using assms(2) by (simp add: has_admin_users)
  obtain u where u: "users ?s = dict_set (usr_id u) u (users s)" "usr_id u = new_uuid s"
    "usr_login u = normalize_login (first_admin_login st)"
    by (rule bootstrap_new_admin [OF none])
  have frame: "server_nodes ?s = server_nodes s \<and> devices ?s = devices s \<and> setup_jobs ?s = setup_jobs s \<and>
      setup_events ?s = setup_events s \<and> ssh_secrets ?s = ssh_secrets s \<and> contributions ?s = contributions s \<and>
      audit_clean ?s = audit_clean s \<and> sessions ?s = sessions s \<and> uuid_at ?s = uuid_at s \<and>
      uuid_n ?s = Suc (Suc (uuid_n s))"
    using none by (auto simp: bootstrap_first_admin_def Let_def split_beta add_is_save generate_password_def
        split: option.split)
  have "users_ok ?s" using u assms(2) by (simp add: users_ok_def)
  moreover have "user_ids_ok ?s"
    using u assms frame by (auto simp: user_ids_ok_def sound_def new_uuid_def dest: injD)
  ultimately show ?thesis
    using assms frame
    by (intro goodI) (auto simp: sound_def grows_def get_user_def get_server_node_def get_device_def intro!: jobs_sameI)
qed

text \<open>
  C1: THE STATE STAYS SOUND. Started with nothing stored, and from then on through any requests, valid or
  not, that fall into one another wherever a handler waits, and any rounds of the worker, stopped or not,
  the program only reaches sound states: members have distinct logins in normal form, everything is filed
  under its own identifier and the identifiers still to be drawn are free, every device, session,
  installation and contribution names members and nodes that are there, a job's fields agree with its
  status and only unfinished jobs have a secret in memory, and no audit entry shows a secret. From any
  sound state (the contents of a database) it does too, and takes no member, node or device away.
\<close>

theorem program_stays_sound:
  assumes "activity f" "inj ids"
  shows "sound (f (fst (lifespan_start w c (fresh_app clk ids rnd x)))) \<and> (\<forall>s. sound s \<longrightarrow> good s (f s))"
proof -
  have f: "sound s \<Longrightarrow> good s (f s)" for s
    using activity_steady [OF assms(1)] by (simp add: steady_def)
  have "sound (fst (lifespan_start w c (fresh_app clk ids rnd x)))"
    unfolding lifespan_start_def fst_conv
    by (rule good_sound [OF bootstrap_good [OF fresh_sound [OF assms(2)]]])
      (simp add: fresh_app_def empty_storage_def storage.extend_def)
  then show ?thesis using f good_sound by blast
qed

text \<open>The container of a demonstration; a wrong password, then a round of the worker during which it comes again.\<close>

definition demo_container :: "unit container" where
  "demo_container =
     (let ac = \<lparr>ac_crypto = demo_crypto, ac_box = plaintext_box,
                ac_transport = choose_transport demo_outside default_settings\<rparr> in
      \<lparr>ct_settings = default_settings, ct_database = None, ct_box = plaintext_box, ct_agent = ac,
       ct_worker = \<lparr>wk_settings = default_settings, wk_agent = ac, wk_box = plaintext_box,
         wk_runner = choose_runner demo_outside default_settings\<rparr>\<rparr>)"

definition wrong_logins :: "unit agents app \<Rightarrow> unit agents app" where
  "wrong_logins s =
     (let again = (\<lambda>s. snd (serve (container_env demo_outside strict_validate (\<lambda>t. []) (\<lambda>s. s) demo_container)
                          wrong_login s)) in
      snd (worker_loop (ct_worker demo_container) [idle_round\<lparr>rd_lock := Others again\<rparr>] (again s)))"

lemma wrong_logins_activity: "activity wrong_logins"
proof -
  let ?cx = "container_env demo_outside strict_validate (\<lambda>t. []) (\<lambda>s. s) demo_container"
  let ?again = "\<lambda>s. snd (serve ?cx wrong_login s)"
  have again: "activity ?again"
    by (rule act_request) (simp add: container_env_def act_none)
  have "activity (\<lambda>s. snd (worker_loop (ct_worker demo_container) [idle_round\<lparr>rd_lock := Others ?again\<rparr>] s))"
    by (rule act_worker)
      (use again act_none in \<open>auto simp: round_does_def idle_round_def idle_schedule_def idle_def id_def\<close>)
  from act_then [OF again this] show ?thesis
    unfolding wrong_logins_def Let_def .
qed

theorem program_stays_sound_witness:
  "sound (wrong_logins (fst (lifespan_start demo_outside demo_container
     (fresh_app demo_clock demo_uuid demo_random (demo_fake, ())))))"
  by (rule program_stays_sound [OF wrong_logins_activity inj_demo_uuid, THEN conjunct1])

end
