(* ===== verification/Spec2Isabelle.thy ===== *)
theory Spec2Isabelle
  imports Devices Support WorkerNode DbRefines DbSession ApiBodies Disabled Startup Reachable
begin

text \<open>
  A verification development for the backend of the VPN control application, the Python package
  \<open>src/backend/app\<close>: a web service with which the members of a small VPN issue and revoke their
  configurations and its administrators manage members, nodes and installations.

  \<^bold>\<open>The program.\<close> A request enters the FastAPI application of \<open>main.py\<close>, passes the CSRF middleware, is
  routed to a handler of \<open>api/routes\<close>, whose dependencies (\<open>api/deps.py\<close>) find the caller by the session
  cookie, and its body is checked against a class of \<open>schemas\<close>. The handler calls a service of
  \<open>services\<close>; the services keep everything in a storage, in memory (\<open>storage/memory.py\<close>) or in PostgreSQL
  (\<open>storage/db.py\<close> over \<open>db/models.py\<close> and the migration), and ask the agents on the nodes through
  \<open>services/agent_client.py\<close>. Beside the requests, \<open>workers/setup_worker.py\<close> takes the installations from
  the queue of \<open>services/setup_job_service.py\<close> one by one. \<open>core\<close> holds configuration, security and
  errors, \<open>domain\<close> the data classes.

  \<^bold>\<open>The theories\<close>, in the order of their imports:

  \<^item> \<open>Prelude\<close>, \<open>Codec\<close>, \<open>Json\<close>, \<open>Machine\<close>, \<open>Demo\<close>: the Python operations on strings and dictionaries, base64 and
    percent-encoding, \<open>json.dumps\<close> and \<open>loads\<close>, runs of step relations with their invariants, and the
    concrete deployment of the examples.
  \<^item> \<open>Domain\<close> (\<open>domain/models.py\<close>, \<open>core/errors.py\<close>), \<open>Storage\<close> and \<open>Frames\<close> (\<open>storage/memory.py\<close>): a
    dataclass is a record, an enumeration a datatype, an exception a value of \<open>exn\<close>, the storage a record
    with a function for each method; \<open>Frames\<close> says what each method leaves alone.
  \<^item> \<open>Url\<close> and \<open>Settings\<close> (\<open>core/config.py\<close>), \<open>Security\<close> (\<open>core/security.py\<close>), \<open>AuditLog\<close> (\<open>audit_service.py\<close>).
  \<^item> \<open>Auth\<close> (\<open>auth_service.py\<close>), \<open>Patch\<close> and \<open>Users\<close> (\<open>user_service.py\<close>, \<open>bootstrap_first_admin\<close>), \<open>Support\<close>
    (\<open>support_service.py\<close>), \<open>Servers\<close> (\<open>server_service.py\<close>), \<open>Devices\<close> (\<open>device_service.py\<close>).
  \<^item> \<open>Agent\<close> and \<open>FakeAgent\<close> (\<open>agent_client.py\<close>), with the agent's own check of a signature
    (\<open>src/agent/internal/httpapi/auth.go\<close>).
  \<^item> \<open>SetupJobs\<close> (\<open>setup_job_service.py\<close>), \<open>Deploy\<close>, \<open>Worker\<close>, \<open>WorkerRuns\<close>, \<open>WorkerNode\<close>, \<open>WorkerLoop\<close>
    (\<open>setup_worker.py\<close>): the queue, the runners, a turn of the worker and what is true of it, the loop of
    its turns.
  \<^item> \<open>Schema\<close> (\<open>db/models.py\<close>, the migration), \<open>Rows\<close>, \<open>Database\<close> (\<open>storage/db.py\<close>), \<open>DbEngine\<close>, \<open>DbStore\<close>,
    \<open>DbReads\<close>, \<open>DbRefines\<close>: the tables, what is written to them, the methods over the statements they
    issue, and the refinement of the in-memory storage. \<open>DbSession\<close> (\<open>db/session.py\<close>): the transaction a
    method runs in.
  \<^item> \<open>Bodies\<close> (\<open>schemas\<close>), \<open>Api\<close> (\<open>api/deps.py\<close>, the error handlers), \<open>Routes\<close> (\<open>api/routes\<close>, \<open>create_app\<close>),
    \<open>ApiGuards\<close>, \<open>Disabled\<close>, \<open>ApiBodies\<close>: one request from the middleware to the answer, and what is true of it.
  \<^item> \<open>Startup\<close> (\<open>build_container\<close>, \<open>lifespan\<close>, \<open>_database_url\<close> of \<open>db/migrations/env.py\<close>): which parts the
    program is put together from.
  \<^item> \<open>Sound\<close>, \<open>Reachable\<close>: the invariant of the whole state, that every service keeps it, and what the
    program does from its start on (\<open>activity\<close>): requests, rounds of the worker, and these within the
    waits of others.

  \<^bold>\<open>State and effects.\<close> An operation takes the state last and returns the result beside the new state. The
  record \<open>world\<close> below the storage holds the readings of the clock, the identifiers and the random texts
  still to be drawn. An operation that awaits the agent or the installer is given what the rest of the
  program makes of the state meanwhile (a function, for the worker a list of turns); the theorems hold for
  whatever that is, within what the locks of the program exclude. The in-memory storage hands out the
  stored objects themselves; where an operation changes one over an \<open>await\<close>, the two storages differ, and
  both behaviours are modelled (\<open>health_check\<close>, \<open>health_check_stale\<close>).

  \<^bold>\<open>Interfaces.\<close> The locales \<open>table\<close> (a collection of the storage), \<open>box\<close> (a box for secrets), \<open>attributes\<close> (the
  objects a PATCH changes), \<open>preserved\<close>, \<open>tracked\<close> and \<open>ranked\<close> (invariants and life cycles of a step
  relation), \<open>node_view\<close> (what a turn of the worker keeps of the nodes) and \<open>simulation\<close> (two machines
  with the same operations) are interpreted on the model where it provides them.

  \<^bold>\<open>What the theorems show.\<close> The whole: from the first start on every state is sound (\<open>sound\<close>: unique logins,
  fresh identifiers, nothing that refers to what is not there, fields of jobs that agree with their
  status, no secret in the log), whatever requests come and however they fall into one another.
  Sessions: login, its rate limit, and that the cookie of a login is good for exactly its lifetime.
  Access: an administrator's path answers nobody else, a disabled member is out, and nothing changes
  without the header that a foreign page cannot send. Devices: the limit, the life of a device, that a configuration issued can be
  read back by its owner only, what is left when the agent fails. Nodes: their life and the choice of one. Installations: a job is claimed once, goes through its steps and ends, its
  secrets are not stored and not shown, the node it makes is open only if it succeeded, and the worker
  gets through its queue. Storage: the migration creates the declared tables, no sequence of operations
  tells the database from the memory, and a method that fails has changed nothing.
  Bodies: what is accepted has the types the services take, and which values do not fit their columns.
  Configuration: a start outside of local uses none of the stand-ins of the demonstration, and the address
  of the database states a mode of TLS. The signature the client makes is the one the agent accepts.

  \<^bold>\<open>Bounds and fuel.\<close> No definition runs on fuel: loops of the source are recursion over lists, and the
  worker's wait is a list of turns and its loop a list of rounds, of any length; as many rounds as jobs are
  queued are enough to empty the queue. Integers of the source are unbounded; the 32 bits of an integer
  column are part of \<open>value_fits\<close>. Times are microseconds, amounts are rationals.

  \<^bold>\<open>Parameters.\<close> The digests and HMAC (\<open>crypto\<close>), Fernet, \<open>ip_network\<close> and the check of a network location
  (\<open>config_env\<close>), the HTTP client, the process that runs \<open>deploy-agent.sh\<close> and its file system
  (\<open>script_world\<close>), the database (\<open>engine\<close>, with \<open>engine_ok\<close>), SQLAlchemy's sessions
  (\<open>session_api\<close>, with \<open>session_ok\<close>) and pydantic (\<open>validator\<close>, with \<open>validator_ok\<close>). Each hypothesis about one is met by a concrete instance.

  \<^bold>\<open>Not modelled.\<close> FastAPI and uvicorn beyond the order of body, dependencies and validation; preflight
  requests, redirects of a trailing slash and the generated documentation; pydantic's messages and
  coercions; SQLAlchemy's engine, the calls of Alembic and server defaults; the start of the worker as a
  task of the event loop; requests that overlap without one falling into a wait of the other; what a
  process that is killed leaves behind, but for the job it was at (\<open>WorkerLoop\<close>); the log lines; the tests;
  the agent (but for the check of the signature), its scripts and the frontend, which are separate programs. Concurrent transactions on the database are outside the
  refinement, which is about sequences of operations.
\<close>

end
